(* ===== verification/Prelude.thy ===== *)
theory Prelude
  imports Main "HOL-Library.Word"
begin

text \<open>
  Shared vocabulary of the development: the machine integers of the Rust sources, the
  saturating and checked operations on them, results and the state-and-error passing that
  stands for \<open>&mut self\<close> methods returning \<open>Result\<close>, and big-endian byte strings.

  Integers keep their width (\<open>'n word\<close>): \<open>u64\<close>, \<open>u128\<close> and the 256-bit \<open>U256\<close>.
  An \<open>i64\<close> is an \<open>int\<close> with its saturation written out. A length (\<open>usize\<close>) is a \<open>nat\<close>.
\<close>

section \<open>Types\<close>

type_synonym u8 = "8 word"
type_synonym u32 = "32 word"
type_synonym u64 = "64 word"
type_synonym u128 = "128 word"
type_synonym u256 = "256 word"
type_synonym i64 = int
type_synonym address = "160 word"
type_synonym b256 = "256 word"
type_synonym bytes = "8 word list"

abbreviation ADDRESS_ZERO :: address where
  "ADDRESS_ZERO \<equiv> 0"

named_theorems sat_simps \<open>saturating and checked arithmetic, read through \<open>unat\<close>\<close>
named_theorems st_simps \<open>the state-and-error passing combinators\<close>
named_theorems err_iff \<open>when an operation returns \<open>Err\<close>, and with what\<close>
named_theorems ok_iff \<open>when an operation returns \<open>Ok\<close>, and with what\<close>

section \<open>Words\<close>

lemma unat_max_word [simp]: "unat (- 1 :: 'a::len word) = 2 ^ LENGTH('a) - 1"
  by (simp add: unsigned_minus_1_eq_mask mask_eq_exp_minus_1)

lemma unat_eq_iff_eq: "unat (a :: 'a::len word) = unat b \<longleftrightarrow> a = b"
  by (fact word_unat_eq_iff [symmetric])

lemma unat_bound: "unat (a :: 'a::len word) < 2 ^ LENGTH('a)"
  by (rule unsigned_less)

lemma unat_ucast_up:
  "LENGTH('a) \<le> LENGTH('b) \<Longrightarrow> unat (ucast (w :: 'a::len word) :: 'b::len word) = unat w"
  using order_less_le_trans [OF unat_bound [of w] power_increasing [of "LENGTH('a)" "LENGTH('b)" 2]]
  by (simp add: unsigned_ucast_eq take_bit_nat_eq_self_iff)

lemma unat_ucast_widen [simp]:
  "unat (ucast (b :: u64) :: u128) = unat b"
  "unat (ucast (b :: u64) :: u256) = unat b"
  "unat (ucast (c :: u128) :: u256) = unat c"
  by (rule unat_ucast_up, simp)+

definition saturating_add :: "'a::len word \<Rightarrow> 'a word \<Rightarrow> 'a word" where
  "saturating_add a b = (if unat a + unat b < 2 ^ LENGTH('a) then a + b else - 1)"

definition saturating_sub :: "'a::len word \<Rightarrow> 'a word \<Rightarrow> 'a word" where
  "saturating_sub a b = (if b \<le> a then a - b else 0)"

definition saturating_mul :: "'a::len word \<Rightarrow> 'a word \<Rightarrow> 'a word" where
  "saturating_mul a b = (if unat a * unat b < 2 ^ LENGTH('a) then a * b else - 1)"

definition checked_add :: "'a::len word \<Rightarrow> 'a word \<Rightarrow> 'a word option" where
  "checked_add a b = (if unat a + unat b < 2 ^ LENGTH('a) then Some (a + b) else None)"

definition checked_sub :: "'a::len word \<Rightarrow> 'a word \<Rightarrow> 'a word option" where
  "checked_sub a b = (if b \<le> a then Some (a - b) else None)"

definition checked_mul :: "'a::len word \<Rightarrow> 'a word \<Rightarrow> 'a word option" where
  "checked_mul a b = (if unat a * unat b < 2 ^ LENGTH('a) then Some (a * b) else None)"

text \<open>Signed 64-bit saturating addition, on the mathematical value.\<close>

definition i64_saturating_add :: "i64 \<Rightarrow> i64 \<Rightarrow> i64" where
  "i64_saturating_add a b = max (- (2 ^ 63)) (min (2 ^ 63 - 1) (a + b))"

lemma unat_add_exact:
  "unat (a :: 'a::len word) + unat b < 2 ^ LENGTH('a) \<Longrightarrow> unat (a + b) = unat a + unat b"
  by (simp add: unat_add_lem)

lemma unat_mul_exact:
  "unat (a :: 'a::len word) * unat b < 2 ^ LENGTH('a) \<Longrightarrow> unat (a * b) = unat a * unat b"
  by (simp add: unat_mult_lem)

lemma unat_sub_exact: "b \<le> (a :: 'a::len word) \<Longrightarrow> unat (a - b) = unat a - unat b"
  by (simp add: unat_sub)

lemma unat_saturating_add [sat_simps]:
  "unat (saturating_add a (b :: 'a::len word)) = min (unat a + unat b) (2 ^ LENGTH('a) - 1)"
  by (auto simp: saturating_add_def unat_add_exact)

lemma unat_saturating_sub [sat_simps]:
  "unat (saturating_sub a (b :: 'a::len word)) = unat a - unat b"
  by (auto simp: saturating_sub_def unat_sub_exact word_le_nat_alt)

lemma unat_saturating_mul [sat_simps]:
  "unat (saturating_mul a (b :: 'a::len word)) = min (unat a * unat b) (2 ^ LENGTH('a) - 1)"
  by (auto simp: saturating_mul_def unat_mul_exact)

lemma checked_add_Some_iff [sat_simps]:
  "checked_add a (b :: 'a::len word) = Some c \<longleftrightarrow>
     c = a + b \<and> unat a + unat b < 2 ^ LENGTH('a)"
  by (auto simp: checked_add_def)

lemma checked_sub_Some_iff [sat_simps]:
  "checked_sub a (b :: 'a::len word) = Some c \<longleftrightarrow> c = a - b \<and> b \<le> a"
  by (auto simp: checked_sub_def)

lemma saturating_add_0 [simp]:
  "saturating_add 0 b = b" "saturating_add b 0 = b"
  by (simp_all add: saturating_add_def unat_bound)

lemma i64_saturating_add_bounds:
  "- (2 ^ 63) \<le> i64_saturating_add a b \<and> i64_saturating_add a b \<le> 2 ^ 63 - 1"
  by (simp add: i64_saturating_add_def)

lemma i64_saturating_add_exact:
  "- (2 ^ 63) \<le> a + b \<Longrightarrow> a + b < 2 ^ 63 \<Longrightarrow> i64_saturating_add a b = a + b"
  by (simp add: i64_saturating_add_def)

text \<open>A left fold of \<open>saturating_add\<close> is the capped sum: no order of the additions matters.\<close>

lemma foldl_saturating_add [sat_simps]:
  "unat (foldl (\<lambda>acc x. saturating_add acc (f x)) (a :: 'a::len word) xs) =
     min (unat a + (\<Sum>x\<leftarrow>xs. unat (f x))) (2 ^ LENGTH('a) - 1)"
proof (induction xs arbitrary: a)
  case Nil
  have "unat a \<le> 2 ^ LENGTH('a) - 1" using unat_bound [of a] by linarith
  then show ?case by simp
next
  case (Cons x xs)
  then show ?case by (simp add: unat_saturating_add)
qed

section \<open>Results\<close>

text \<open>\<open>Result<T, E>\<close> is \<open>'e + 'a\<close>; the \<open>?\<close> operator is \<open>and_then\<close>.\<close>

fun and_then :: "'e + 'a \<Rightarrow> ('a \<Rightarrow> 'e + 'b) \<Rightarrow> 'e + 'b" where
  "and_then (Inl e) f = Inl e"
| "and_then (Inr a) f = f a"

fun map_err :: "('e \<Rightarrow> 'f) \<Rightarrow> 'e + 'a \<Rightarrow> 'f + 'a" where
  "map_err h (Inl e) = Inl (h e)"
| "map_err h (Inr a) = Inr a"

fun map_ok :: "('a \<Rightarrow> 'b) \<Rightarrow> 'e + 'a \<Rightarrow> 'e + 'b" where
  "map_ok h (Inl e) = Inl e"
| "map_ok h (Inr a) = Inr (h a)"

fun ok_or :: "'e \<Rightarrow> 'a option \<Rightarrow> 'e + 'a" where
  "ok_or e None = Inl e"
| "ok_or e (Some a) = Inr a"

fun ok_option :: "'e + 'a \<Rightarrow> 'a option" where
  "ok_option (Inl e) = None"
| "ok_option (Inr a) = Some a"

fun is_ok :: "'e + 'a \<Rightarrow> bool" where
  "is_ok (Inl e) = False"
| "is_ok (Inr a) = True"

definition ensure :: "bool \<Rightarrow> 'e \<Rightarrow> 'e + unit" where
  "ensure c e = (if c then Inr () else Inl e)"

lemma and_then_Inr_iff [ok_iff]:
  "and_then r f = Inr b \<longleftrightarrow> (\<exists>a. r = Inr a \<and> f a = Inr b)"
  by (cases r) auto

lemma map_err_Inr_iff [ok_iff]: "map_err h r = Inr a \<longleftrightarrow> r = Inr a"
  by (cases r) auto

lemma map_ok_Inr_iff [ok_iff]: "map_ok h r = Inr b \<longleftrightarrow> (\<exists>a. r = Inr a \<and> b = h a)"
  by (cases r) auto

lemma ok_or_Inr_iff [ok_iff]: "ok_or e x = Inr a \<longleftrightarrow> x = Some a"
  by (cases x) auto

lemma ensure_Inr_iff [ok_iff]: "ensure c e = Inr u \<longleftrightarrow> c"
  by (simp add: ensure_def)

lemma is_ok_iff [ok_iff]: "is_ok r \<longleftrightarrow> (\<exists>a. r = Inr a)"
  by (cases r) auto

lemma ok_option_Some_iff [ok_iff]: "ok_option r = Some a \<longleftrightarrow> r = Inr a"
  by (cases r) auto

section \<open>State and errors\<close>

text \<open>
  A method on \<open>&mut S\<close> that returns \<open>Result<A, E>\<close> is a function
  \<open>'s \<Rightarrow> ('e + 'a) \<times> 's\<close>: an early return keeps the writes made before it, as the
  source does.
\<close>

type_synonym ('s, 'e, 'a) st = "'s \<Rightarrow> ('e + 'a) \<times> 's"

definition st_return :: "'a \<Rightarrow> ('s, 'e, 'a) st" where
  "st_return a = (\<lambda>s. (Inr a, s))"

definition st_fail :: "'e \<Rightarrow> ('s, 'e, 'a) st" where
  "st_fail e = (\<lambda>s. (Inl e, s))"

definition st_lift :: "'e + 'a \<Rightarrow> ('s, 'e, 'a) st" where
  "st_lift r = (\<lambda>s. (r, s))"

definition st_get :: "('s \<Rightarrow> 'a) \<Rightarrow> ('s, 'e, 'a) st" where
  "st_get f = (\<lambda>s. (Inr (f s), s))"

definition st_modify :: "('s \<Rightarrow> 's) \<Rightarrow> ('s, 'e, unit) st" where
  "st_modify f = (\<lambda>s. (Inr (), f s))"

definition st_bind :: "('s, 'e, 'a) st \<Rightarrow> ('a \<Rightarrow> ('s, 'e, 'b) st) \<Rightarrow> ('s, 'e, 'b) st" where
  "st_bind m f = (\<lambda>s. case m s of (Inl e, s') \<Rightarrow> (Inl e, s') | (Inr a, s') \<Rightarrow> f a s')"

definition st_then :: "('s, 'e, 'a) st \<Rightarrow> ('s, 'e, 'b) st \<Rightarrow> ('s, 'e, 'b) st" where
  "st_then m k = st_bind m (\<lambda>_. k)"

definition st_map_err :: "('e \<Rightarrow> 'f) \<Rightarrow> ('s, 'e, 'a) st \<Rightarrow> ('s, 'f, 'a) st" where
  "st_map_err h m = (\<lambda>s. case m s of (r, s') \<Rightarrow> (map_err h r, s'))"

text \<open>A mutating method that answers whether it took place, with the error of a refusal.\<close>

definition st_checked :: "('s \<Rightarrow> bool \<times> 's) \<Rightarrow> 'e \<Rightarrow> ('s, 'e, unit) st" where
  "st_checked m e = (\<lambda>s. case m s of (b, s') \<Rightarrow> (if b then Inr () else Inl e, s'))"

lemmas st_defs = st_return_def st_fail_def st_lift_def st_get_def st_modify_def
  st_then_def st_map_err_def

lemma st_run_simps [st_simps]:
  "st_return a s = (Inr a, s)"
  "st_fail e s = (Inl e, s)"
  "st_lift r s = (r, s)"
  "st_get g s = (Inr (g s), s)"
  "st_modify h s = (Inr (), h s)"
  by (simp_all add: st_defs)

lemma st_bind_run [st_simps]:
  "m s = (Inr a, s') \<Longrightarrow> st_bind m f s = f a s'"
  "m s = (Inl e, s') \<Longrightarrow> st_bind m f s = (Inl e, s')"
  by (simp_all add: st_bind_def)

lemma st_then_run [st_simps]:
  "m s = (Inr a, s') \<Longrightarrow> st_then m k s = k s'"
  "m s = (Inl e, s') \<Longrightarrow> st_then m k s = (Inl e, s')"
  by (simp_all add: st_then_def st_simps)

lemma st_map_err_run [st_simps]: "m s = (r, s') \<Longrightarrow> st_map_err h m s = (map_err h r, s')"
  by (simp add: st_map_err_def)

lemma st_bind_Inr_iff [ok_iff]:
  "st_bind m f s = (Inr b, s'') \<longleftrightarrow> (\<exists>a s'. m s = (Inr a, s') \<and> f a s' = (Inr b, s''))"
  by (auto simp: st_bind_def split: prod.splits sum.splits)

lemma st_then_Inr_iff [ok_iff]:
  "st_then m k s = (Inr b, s'') \<longleftrightarrow> (\<exists>a s'. m s = (Inr a, s') \<and> k s' = (Inr b, s''))"
  by (simp add: st_then_def ok_iff)

lemma st_map_err_Inr_iff [ok_iff]:
  "st_map_err h m s = (Inr a, s') \<longleftrightarrow> m s = (Inr a, s')"
  by (auto simp: st_map_err_def ok_iff split: prod.splits)

lemma st_basic_Inr_iff [ok_iff]:
  "st_return a s = (Inr b, s') \<longleftrightarrow> b = a \<and> s' = s"
  "st_fail e s = (Inr b, s') \<longleftrightarrow> False"
  "st_lift r s = (Inr b, s') \<longleftrightarrow> r = Inr b \<and> s' = s"
  "st_get g s = (Inr b, s') \<longleftrightarrow> b = g s \<and> s' = s"
  "st_modify h s = (Inr u, s') \<longleftrightarrow> s' = h s"
  by (auto simp: st_defs)

lemma and_then_Inl_iff [err_iff]:
  "and_then r f = Inl e \<longleftrightarrow> r = Inl e \<or> (\<exists>a. r = Inr a \<and> f a = Inl e)"
  by (cases r) auto

lemma map_err_Inl_iff [err_iff]: "map_err h r = Inl e \<longleftrightarrow> (\<exists>x. r = Inl x \<and> e = h x)"
  by (cases r) auto

lemma ensure_Inl_iff [err_iff]: "ensure c x = Inl e \<longleftrightarrow> \<not> c \<and> e = x"
  by (auto simp: ensure_def)

lemma st_bind_Inl_iff [err_iff]:
  "st_bind m f s = (Inl e, s'') \<longleftrightarrow>
     m s = (Inl e, s'') \<or> (\<exists>a s'. m s = (Inr a, s') \<and> f a s' = (Inl e, s''))"
  by (auto simp: st_bind_def split: prod.splits sum.splits)

lemma st_then_Inl_iff [err_iff]:
  "st_then m k s = (Inl e, s'') \<longleftrightarrow>
     m s = (Inl e, s'') \<or> (\<exists>a s'. m s = (Inr a, s') \<and> k s' = (Inl e, s''))"
  by (simp add: st_then_def err_iff)

lemma st_map_err_Inl_iff [err_iff]:
  "st_map_err h m s = (Inl e, s') \<longleftrightarrow> (\<exists>x. m s = (Inl x, s') \<and> e = h x)"
  by (auto simp: st_map_err_def err_iff split: prod.splits)

lemma st_checked_iff [ok_iff, err_iff]:
  "st_checked m e s = (Inr u, s') \<longleftrightarrow> m s = (True, s')"
  "st_checked m e s = (Inl x, s') \<longleftrightarrow> m s = (False, s') \<and> x = e"
  by (auto simp: st_checked_def split: prod.splits)

lemma st_basic_Inl_iff [err_iff]:
  "st_return a s = (Inl x, s') \<longleftrightarrow> False"
  "st_fail e s = (Inl x, s') \<longleftrightarrow> x = e \<and> s' = s"
  "st_lift r s = (Inl x, s') \<longleftrightarrow> r = Inl x \<and> s' = s"
  "st_get g s = (Inl x, s') \<longleftrightarrow> False"
  "st_modify h s = (Inl x, s') \<longleftrightarrow> False"
  by (auto simp: st_defs)

lemma st_bindE [consumes 1, case_names err ok]:
  assumes "st_bind m f s = (r, s'')"
  obtains e where "m s = (Inl e, s'')" and "r = Inl e"
  | a s' where "m s = (Inr a, s')" and "f a s' = (r, s'')"
  using assms by (auto simp: st_bind_def split: prod.splits sum.splits)

lemma st_thenE [consumes 1, case_names err ok]:
  assumes "st_then m k s = (r, s'')"
  obtains e where "m s = (Inl e, s'')" and "r = Inl e"
  | a s' where "m s = (Inr a, s')" and "k s' = (r, s'')"
  using assms unfolding st_then_def by (rule st_bindE)

section \<open>Big-endian bytes\<close>

primrec be_bytes :: "nat \<Rightarrow> nat \<Rightarrow> bytes" where
  "be_bytes 0 n = []"
| "be_bytes (Suc k) n = be_bytes k (n div 256) @ [of_nat (n mod 256)]"

definition be_nat :: "bytes \<Rightarrow> nat" where
  "be_nat bs = foldl (\<lambda>a b. a * 256 + unat b) 0 bs"

lemma length_be_bytes [simp]: "length (be_bytes k n) = k"
  by (induction k arbitrary: n) auto

lemma be_nat_snoc: "be_nat (bs @ [b]) = be_nat bs * 256 + unat b"
  by (simp add: be_nat_def)

lemma unat_of_nat_byte: "n < 256 \<Longrightarrow> unat (of_nat n :: 8 word) = n"
  by (simp add: unat_of_nat)

lemma be_nat_be_bytes: "be_nat (be_bytes k n) = n mod 256 ^ k"
proof (induction k arbitrary: n)
  case 0
  then show ?case by (simp add: be_nat_def)
next
  case (Suc k)
  then show ?case
    by (simp add: be_nat_snoc unat_of_nat_byte mod_mult2_eq [symmetric] mult.commute)
qed

lemma be_bytes_inject:
  "be_bytes k m = be_bytes k n \<Longrightarrow> m < 256 ^ k \<Longrightarrow> n < 256 ^ k \<Longrightarrow> m = n"
  by (metis be_nat_be_bytes mod_less)

definition address_bytes :: "address \<Rightarrow> bytes" where
  "address_bytes a = be_bytes 20 (unat a)"

definition word256_bytes :: "256 word \<Rightarrow> bytes" where
  "word256_bytes w = be_bytes 32 (unat w)"

lemma length_address_bytes [simp]: "length (address_bytes a) = 20"
  by (simp add: address_bytes_def)

lemma length_word256_bytes [simp]: "length (word256_bytes w) = 32"
  by (simp add: word256_bytes_def)

lemma address_bytes_inject [simp]: "address_bytes a = address_bytes b \<longleftrightarrow> a = b"
proof
  assume "address_bytes a = address_bytes b"
  then have "unat a = unat b"
    unfolding address_bytes_def
    by (rule be_bytes_inject) (use unat_bound [of a] unat_bound [of b] in simp_all)
  then show "a = b" by (simp add: unat_eq_iff_eq)
qed simp

lemma word256_bytes_inject [simp]: "word256_bytes a = word256_bytes b \<longleftrightarrow> a = b"
proof
  assume "word256_bytes a = word256_bytes b"
  then have "unat a = unat b"
    unfolding word256_bytes_def
    by (rule be_bytes_inject) (use unat_bound [of a] unat_bound [of b] in simp_all)
  then show "a = b" by (simp add: unat_eq_iff_eq)
qed simp

end
