(* ===== verification/Rlp_Codec.thy ===== *)
theory Rlp_Codec
  imports Prelude
begin

text \<open>
  The interface of \<open>alloy_rlp\<close> that the transaction types use: a codec packs
  \<open>Encodable::encode\<close>, \<open>Encodable::length\<close> and \<open>Decodable::decode\<close> of one type, where decoding
  takes the buffer and returns the value with the unread rest. The locale \<open>field_codec\<close> is the
  contract of one codec; \<open>rlp_framing\<close> is the contract of the list header and of the
  string-header reader.

  Lengths are \<open>usize\<close>: a decoder is only promised to read back what fits \<open>2 ^ 64\<close> bytes.
\<close>

datatype rlp_error = InputTooShort | UnexpectedList | UnexpectedString | UnexpectedLength
  | Overflow | NonCanonical | Custom string

record 'a codec =
  encode :: "'a \<Rightarrow> bytes"
  len :: "'a \<Rightarrow> nat"
  decode :: "bytes \<Rightarrow> rlp_error + ('a \<times> bytes)"

definition usize_bytes :: "bytes \<Rightarrow> bool" where
  "usize_bytes bs \<longleftrightarrow> length bs < 2 ^ 64"

lemma usize_bytes_appendD: "usize_bytes (xs @ ys) \<Longrightarrow> usize_bytes xs \<and> usize_bytes ys"
  by (simp add: usize_bytes_def)

lemma usize_bytes_mono: "usize_bytes ys \<Longrightarrow> length xs \<le> length ys \<Longrightarrow> usize_bytes xs"
  by (simp add: usize_bytes_def)

section \<open>One codec\<close>

locale field_codec =
  fixes C :: "'a codec"
  assumes len_encode: "len C x = length (encode C x)"
    and decode_encode: "usize_bytes (encode C x) \<Longrightarrow> decode C (encode C x @ rest) = Inr (x, rest)"
begin

lemma encode_prefix_free:
  assumes "encode C x @ xs = encode C y @ ys"
    and "usize_bytes (encode C x)" "usize_bytes (encode C y)"
  shows "x = y \<and> xs = ys"
  using assms by (metis decode_encode prod.inject sum.inject(2))

lemma decode_exact: "usize_bytes (encode C x) \<Longrightarrow> decode C (encode C x) = Inr (x, [])"
  using decode_encode [of x "[]"] by simp

end

section \<open>List framing\<close>

text \<open>
  \<open>header l n\<close> is \<open>Header { list: l, payload_length: n }.encode\<close>, \<open>length_with_payload\<close> its
  method of that name, \<open>decode_bytes\<close> is \<open>Header::decode_bytes(buf, false)\<close>.
  \<open>rlp_encode_default\<close> and \<open>rlp_decode_default\<close> are the provided methods \<open>rlp_encode\<close> and
  \<open>rlp_decode\<close> of the traits \<open>RlpEcdsaEncodableTx\<close> and \<open>RlpEcdsaDecodableTx\<close> over the required
  ones; they wrap the fields in a list header and check the payload length on the way back.
\<close>

record 'a framing =
  header :: "bool \<Rightarrow> nat \<Rightarrow> bytes"
  length_with_payload :: "bool \<Rightarrow> nat \<Rightarrow> nat"
  decode_bytes :: "bytes \<Rightarrow> rlp_error + (bytes \<times> bytes)"
  encode_slice :: "bytes \<Rightarrow> bytes"
  slice_length :: "bytes \<Rightarrow> nat"
  empty_string_code :: u8
  rlp_encode_default :: "nat \<Rightarrow> bytes \<Rightarrow> bytes"
  rlp_decode_default :: "(bytes \<Rightarrow> rlp_error + ('a \<times> bytes)) \<Rightarrow> bytes \<Rightarrow> rlp_error + ('a \<times> bytes)"

locale rlp_framing =
  fixes F :: "'a framing"
  assumes length_with_payload: "length_with_payload F l n = length (header F l n) + n"
    and slice_length: "slice_length F bs = length (encode_slice F bs)"
    and decode_slice:
      "usize_bytes (encode_slice F bs) \<Longrightarrow> decode_bytes F (encode_slice F bs @ rest) = Inr (bs, rest)"
    and decode_empty: "decode_bytes F (empty_string_code F # rest) = Inr ([], rest)"
    and rlp_encode_default: "rlp_encode_default F n body = header F True n @ body"
    and rlp_decode_default:
      "usize_bytes (header F True (length body) @ body) \<Longrightarrow> read (body @ rest) = Inr (x, rest) \<Longrightarrow>
         rlp_decode_default F read (header F True (length body) @ body @ rest) = Inr (x, rest)"

end
