(* ===== verification/Ev_Primitives.thy ===== *)
theory Ev_Primitives
  imports Rlp_Codec
begin

text \<open>
  The transaction types of \<open>crates/ev-primitives/src/tx.rs\<close> and \<open>pool.rs\<close>: the EvNode
  transaction (a batch of calls with an optional sponsor), its two signing preimages, its RLP
  and database encodings, its view as an Ethereum transaction, and the consensus and pooled
  envelopes around it.

  Parameters: the RLP codecs of the field types, the byte form of a signature, \<open>keccak256\<close>
  and address recovery, the database codecs of the Ethereum part.
\<close>

section \<open>Data\<close>

definition EVNODE_TX_TYPE_ID :: u8 where
  "EVNODE_TX_TYPE_ID = 0x76"

definition EVNODE_SPONSOR_DOMAIN :: u8 where
  "EVNODE_SPONSOR_DOMAIN = 0x78"

datatype tx_kind = TxCreate | TxCall (callee: address)

record call =
  call_to :: tx_kind
  call_value :: u256
  call_input :: bytes

text \<open>\<open>alloy_eips::eip2930::AccessList\<close> and \<open>alloy_primitives::Signature\<close>.\<close>

type_synonym access_list = "(address \<times> b256 list) list"

record signature =
  sig_y_parity :: bool
  sig_r :: u256
  sig_s :: u256

record ev_node_transaction =
  tx_chain_id :: u64
  tx_nonce :: u64
  tx_max_priority_fee_per_gas :: u128
  tx_max_fee_per_gas :: u128
  tx_gas_limit :: u64
  tx_calls :: "call list"
  tx_access_list :: access_list
  tx_fee_payer_signature :: "signature option"

record ev_node_signed_tx =
  signed_tx :: ev_node_transaction
  signed_signature :: signature

datatype 'eth ev_tx_envelope = Ethereum 'eth | EvNode ev_node_signed_tx

datatype 'pooled ev_pooled_tx_envelope = PooledEthereum 'pooled | PooledEvNode ev_node_signed_tx

section \<open>Encodings it relies on\<close>

record rlp =
  rlp_u64 :: "u64 codec"
  rlp_u128 :: "u128 codec"
  rlp_calls :: "call list codec"
  rlp_access_list :: "access_list codec"
  rlp_frame :: "ev_node_transaction framing"
  sig_as_bytes :: "signature \<Rightarrow> bytes"
  sig_from_raw_array :: "bytes \<Rightarrow> signature option"

datatype signature_error = SignatureError

datatype recovery_error = RecoveryError

record crypto =
  keccak256 :: "bytes \<Rightarrow> b256"
  recover_address_from_prehash :: "signature \<Rightarrow> b256 \<Rightarrow> signature_error + address"

section \<open>RLP encoding and decoding\<close>

fun optional_signature_length :: "rlp \<Rightarrow> signature option \<Rightarrow> nat" where
  "optional_signature_length R (Some s) = slice_length (rlp_frame R) (sig_as_bytes R s)"
| "optional_signature_length R None = 1"

fun encode_optional_signature :: "rlp \<Rightarrow> signature option \<Rightarrow> bytes" where
  "encode_optional_signature R (Some s) = encode_slice (rlp_frame R) (sig_as_bytes R s)"
| "encode_optional_signature R None = [empty_string_code (rlp_frame R)]"

definition decode_optional_signature ::
    "rlp \<Rightarrow> bytes \<Rightarrow> rlp_error + (signature option \<times> bytes)" where
  "decode_optional_signature R buf =
     and_then (decode_bytes (rlp_frame R) buf) (\<lambda>(bs, rest).
       if bs = [] then Inr (None, rest)
       else if length bs \<noteq> 65 then Inl UnexpectedLength
       else case sig_from_raw_array R bs of
              None \<Rightarrow> Inl (Custom ''invalid signature bytes'')
            | Some s \<Rightarrow> Inr (Some s, rest))"

definition payload_fields_length :: "rlp \<Rightarrow> ev_node_transaction \<Rightarrow> signature option \<Rightarrow> nat" where
  "payload_fields_length R tx fs =
     len (rlp_u64 R) (tx_chain_id tx)
     + len (rlp_u64 R) (tx_nonce tx)
     + len (rlp_u128 R) (tx_max_priority_fee_per_gas tx)
     + len (rlp_u128 R) (tx_max_fee_per_gas tx)
     + len (rlp_u64 R) (tx_gas_limit tx)
     + len (rlp_calls R) (tx_calls tx)
     + len (rlp_access_list R) (tx_access_list tx)
     + optional_signature_length R fs"

definition encode_payload_fields :: "rlp \<Rightarrow> ev_node_transaction \<Rightarrow> signature option \<Rightarrow> bytes" where
  "encode_payload_fields R tx fs =
     encode (rlp_u64 R) (tx_chain_id tx)
     @ encode (rlp_u64 R) (tx_nonce tx)
     @ encode (rlp_u128 R) (tx_max_priority_fee_per_gas tx)
     @ encode (rlp_u128 R) (tx_max_fee_per_gas tx)
     @ encode (rlp_u64 R) (tx_gas_limit tx)
     @ encode (rlp_calls R) (tx_calls tx)
     @ encode (rlp_access_list R) (tx_access_list tx)
     @ encode_optional_signature R fs"

definition encoded_payload :: "rlp \<Rightarrow> ev_node_transaction \<Rightarrow> signature option \<Rightarrow> bytes" where
  "encoded_payload R tx fs =
     header (rlp_frame R) True (payload_fields_length R tx fs) @ encode_payload_fields R tx fs"

definition encoded_payload_with_executor :: "rlp \<Rightarrow> ev_node_transaction \<Rightarrow> address \<Rightarrow> bytes" where
  "encoded_payload_with_executor R tx executor =
     address_bytes executor @ encode_payload_fields R tx None"

definition rlp_encoded_fields_length :: "rlp \<Rightarrow> ev_node_transaction \<Rightarrow> nat" where
  "rlp_encoded_fields_length R tx = payload_fields_length R tx (tx_fee_payer_signature tx)"

definition rlp_encode_fields :: "rlp \<Rightarrow> ev_node_transaction \<Rightarrow> bytes" where
  "rlp_encode_fields R tx = encode_payload_fields R tx (tx_fee_payer_signature tx)"

definition rlp_decode_fields :: "rlp \<Rightarrow> bytes \<Rightarrow> rlp_error + (ev_node_transaction \<times> bytes)" where
  "rlp_decode_fields R b0 =
     and_then (decode (rlp_u64 R) b0) (\<lambda>(chain_id, b1).
     and_then (decode (rlp_u64 R) b1) (\<lambda>(nonce, b2).
     and_then (decode (rlp_u128 R) b2) (\<lambda>(prio, b3).
     and_then (decode (rlp_u128 R) b3) (\<lambda>(max_fee, b4).
     and_then (decode (rlp_u64 R) b4) (\<lambda>(gas_limit, b5).
     and_then (decode (rlp_calls R) b5) (\<lambda>(calls, b6).
     and_then (decode (rlp_access_list R) b6) (\<lambda>(al, b7).
     and_then (decode_optional_signature R b7) (\<lambda>(fs, b8).
       Inr (\<lparr> tx_chain_id = chain_id, tx_nonce = nonce, tx_max_priority_fee_per_gas = prio,
              tx_max_fee_per_gas = max_fee, tx_gas_limit = gas_limit, tx_calls = calls,
              tx_access_list = al, tx_fee_payer_signature = fs \<rparr>, b8)))))))))"

definition tx_length :: "rlp \<Rightarrow> ev_node_transaction \<Rightarrow> nat" where
  "tx_length R tx = length_with_payload (rlp_frame R) True (rlp_encoded_fields_length R tx)"

definition tx_encode :: "rlp \<Rightarrow> ev_node_transaction \<Rightarrow> bytes" where
  "tx_encode R tx =
     rlp_encode_default (rlp_frame R) (rlp_encoded_fields_length R tx) (rlp_encode_fields R tx)"

definition tx_decode :: "rlp \<Rightarrow> bytes \<Rightarrow> rlp_error + (ev_node_transaction \<times> bytes)" where
  "tx_decode R buf = rlp_decode_default (rlp_frame R) (rlp_decode_fields R) buf"

section \<open>Signing\<close>

definition executor_signing_hash :: "rlp \<Rightarrow> crypto \<Rightarrow> ev_node_transaction \<Rightarrow> b256" where
  "executor_signing_hash R K tx = keccak256 K (EVNODE_TX_TYPE_ID # encoded_payload R tx None)"

definition sponsor_preimage :: "rlp \<Rightarrow> ev_node_transaction \<Rightarrow> address \<Rightarrow> bytes" where
  "sponsor_preimage R tx executor =
     EVNODE_SPONSOR_DOMAIN # encoded_payload_with_executor R tx executor"

definition sponsor_signing_hash :: "rlp \<Rightarrow> crypto \<Rightarrow> ev_node_transaction \<Rightarrow> address \<Rightarrow> b256" where
  "sponsor_signing_hash R K tx executor = keccak256 K (sponsor_preimage R tx executor)"

definition recover_executor ::
    "rlp \<Rightarrow> crypto \<Rightarrow> ev_node_transaction \<Rightarrow> signature \<Rightarrow> signature_error + address" where
  "recover_executor R K tx s = recover_address_from_prehash K s (executor_signing_hash R K tx)"

definition recover_sponsor ::
    "rlp \<Rightarrow> crypto \<Rightarrow> ev_node_transaction \<Rightarrow> address \<Rightarrow> signature \<Rightarrow> signature_error + address" where
  "recover_sponsor R K tx executor s =
     recover_address_from_prehash K s (sponsor_signing_hash R K tx executor)"

definition set_chain_id :: "u64 \<Rightarrow> ev_node_transaction \<Rightarrow> ev_node_transaction" where
  "set_chain_id c tx = tx \<lparr> tx_chain_id := c \<rparr>"

definition encode_for_signing :: "rlp \<Rightarrow> ev_node_transaction \<Rightarrow> bytes" where
  "encode_for_signing R tx =
     EVNODE_TX_TYPE_ID # header (rlp_frame R) True (payload_fields_length R tx None)
       @ encode_payload_fields R tx None"

definition payload_len_for_signature :: "rlp \<Rightarrow> ev_node_transaction \<Rightarrow> nat" where
  "payload_len_for_signature R tx =
     1 + length_with_payload (rlp_frame R) True (payload_fields_length R tx None)"

section \<open>The view as an Ethereum transaction\<close>

definition first_call :: "ev_node_transaction \<Rightarrow> call option" where
  "first_call tx = (case tx_calls tx of [] \<Rightarrow> None | c # _ \<Rightarrow> Some c)"

definition effective_gas_price :: "ev_node_transaction \<Rightarrow> u64 option \<Rightarrow> u128" where
  "effective_gas_price tx base_fee =
     (case base_fee of
        None \<Rightarrow> tx_max_fee_per_gas tx
      | Some b \<Rightarrow>
          (let max_fee = tx_max_fee_per_gas tx; bf = (ucast b :: u128) in
           if max_fee < bf then max_fee
           else saturating_add bf
                  (min (tx_max_priority_fee_per_gas tx) (saturating_sub max_fee bf))))"

definition tx_kind_of :: "ev_node_transaction \<Rightarrow> tx_kind" where
  "tx_kind_of tx = (case first_call tx of Some c \<Rightarrow> call_to c | None \<Rightarrow> TxCreate)"

definition tx_is_create :: "ev_node_transaction \<Rightarrow> bool" where
  "tx_is_create tx \<longleftrightarrow> map_option call_to (first_call tx) = Some TxCreate"

definition tx_value :: "ev_node_transaction \<Rightarrow> u256" where
  "tx_value tx = foldl (\<lambda>acc c. saturating_add acc (call_value c)) 0 (tx_calls tx)"

definition tx_input :: "ev_node_transaction \<Rightarrow> bytes" where
  "tx_input tx = (case first_call tx of Some c \<Rightarrow> call_input c | None \<Rightarrow> [])"

text \<open>The remaining accessors of the \<open>Transaction\<close> impl, as one record; an authorization is its chain, address and nonce.\<close>

type_synonym authorization = "u256 \<times> address \<times> u64"

record transaction_view =
  view_chain_id :: "u64 option"
  view_nonce :: u64
  view_gas_limit :: u64
  view_gas_price :: "u128 option"
  view_max_fee_per_gas :: u128
  view_max_priority_fee_per_gas :: "u128 option"
  view_max_fee_per_blob_gas :: "u128 option"
  view_priority_fee_or_price :: u128
  view_is_dynamic_fee :: bool
  view_kind :: tx_kind
  view_is_create :: bool
  view_value :: u256
  view_input :: bytes
  view_access_list :: "access_list option"
  view_blob_versioned_hashes :: "b256 list option"
  view_authorization_list :: "authorization list option"
  view_ty :: u8

definition evnode_view :: "ev_node_transaction \<Rightarrow> transaction_view" where
  "evnode_view tx =
     \<lparr> view_chain_id = Some (tx_chain_id tx), view_nonce = tx_nonce tx,
       view_gas_limit = tx_gas_limit tx, view_gas_price = None,
       view_max_fee_per_gas = tx_max_fee_per_gas tx,
       view_max_priority_fee_per_gas = Some (tx_max_priority_fee_per_gas tx),
       view_max_fee_per_blob_gas = None,
       view_priority_fee_or_price = tx_max_priority_fee_per_gas tx,
       view_is_dynamic_fee = True, view_kind = tx_kind_of tx, view_is_create = tx_is_create tx,
       view_value = tx_value tx, view_input = tx_input tx,
       view_access_list = Some (tx_access_list tx), view_blob_versioned_hashes = None,
       view_authorization_list = None, view_ty = EVNODE_TX_TYPE_ID \<rparr>"

section \<open>Database encodings\<close>

text \<open>
  \<open>Compact\<close> is \<open>reth_codecs\<close>: \<open>vec_to_compact\<close> and \<open>vec_from_compact\<close> for \<open>Vec<u8>\<close>, the codec of
  \<open>alloy_consensus::TxType\<close> (the bytes written and the returned identifier), and the codec of an
  Ethereum transaction under its type. \<open>None\<close> is a panic.
\<close>

datatype eth_tx_type = Legacy | Eip2930 | Eip1559 | Eip4844 | Eip7702

datatype ev_tx_type = TyEthereum eth_tx_type | TyEvNode

definition COMPACT_EXTENDED_IDENTIFIER_FLAG :: nat where
  "COMPACT_EXTENDED_IDENTIFIER_FLAG = 3"

record 'eth compact_codec =
  vec_to_compact :: "bytes \<Rightarrow> bytes \<times> nat"
  vec_from_compact :: "bytes \<Rightarrow> nat \<Rightarrow> bytes \<times> bytes"
  txtype_to_compact :: "eth_tx_type \<Rightarrow> bytes \<times> nat"
  txtype_from_compact :: "bytes \<Rightarrow> nat \<Rightarrow> (eth_tx_type \<times> bytes) option"
  eth_to_tx_compact :: "'eth \<Rightarrow> bytes"
  eth_from_tx_compact :: "bytes \<Rightarrow> eth_tx_type \<Rightarrow> signature \<Rightarrow> 'eth \<times> bytes"
  eth_signature :: "'eth \<Rightarrow> signature"
  eth_tx_type :: "'eth \<Rightarrow> eth_tx_type"

definition evnode_to_compact :: "rlp \<Rightarrow> 'eth compact_codec \<Rightarrow> ev_node_transaction \<Rightarrow> bytes \<times> nat" where
  "evnode_to_compact R D tx = vec_to_compact D (tx_encode R tx)"

definition evnode_from_compact ::
    "rlp \<Rightarrow> 'eth compact_codec \<Rightarrow> bytes \<Rightarrow> nat \<Rightarrow> (ev_node_transaction \<times> bytes) option" where
  "evnode_from_compact R D buf n =
     (case vec_from_compact D buf n of
        (bs, rest) \<Rightarrow> (case tx_decode R bs of Inl _ \<Rightarrow> None | Inr (tx, _) \<Rightarrow> Some (tx, rest)))"

fun tx_type_to_compact :: "'eth compact_codec \<Rightarrow> ev_tx_type \<Rightarrow> bytes \<times> nat" where
  "tx_type_to_compact D (TyEthereum t) = txtype_to_compact D t"
| "tx_type_to_compact D TyEvNode = ([EVNODE_TX_TYPE_ID], COMPACT_EXTENDED_IDENTIFIER_FLAG)"

definition tx_type_from_compact ::
    "'eth compact_codec \<Rightarrow> bytes \<Rightarrow> nat \<Rightarrow> (ev_tx_type \<times> bytes) option" where
  "tx_type_from_compact D buf identifier =
     (if identifier = COMPACT_EXTENDED_IDENTIFIER_FLAG then
        (case buf of
           [] \<Rightarrow> None
         | b # rest \<Rightarrow> if b = EVNODE_TX_TYPE_ID then Some (TyEvNode, rest) else None)
      else map_option (\<lambda>(t, rest). (TyEthereum t, rest)) (txtype_from_compact D buf identifier))"

fun envelope_signature :: "'eth compact_codec \<Rightarrow> 'eth ev_tx_envelope \<Rightarrow> signature" where
  "envelope_signature D (Ethereum tx) = eth_signature D tx"
| "envelope_signature D (EvNode tx) = signed_signature tx"

fun envelope_tx_type :: "'eth compact_codec \<Rightarrow> 'eth ev_tx_envelope \<Rightarrow> ev_tx_type" where
  "envelope_tx_type D (Ethereum tx) = TyEthereum (eth_tx_type D tx)"
| "envelope_tx_type D (EvNode tx) = TyEvNode"

fun to_tx_compact :: "rlp \<Rightarrow> 'eth compact_codec \<Rightarrow> 'eth ev_tx_envelope \<Rightarrow> bytes" where
  "to_tx_compact R D (Ethereum tx) = eth_to_tx_compact D tx"
| "to_tx_compact R D (EvNode tx) = fst (evnode_to_compact R D (signed_tx tx))"

fun from_tx_compact ::
    "rlp \<Rightarrow> 'eth compact_codec \<Rightarrow> bytes \<Rightarrow> ev_tx_type \<Rightarrow> signature
       \<Rightarrow> ('eth ev_tx_envelope \<times> bytes) option" where
  "from_tx_compact R D buf (TyEthereum t) s =
     (case eth_from_tx_compact D buf t s of (tx, rest) \<Rightarrow> Some (Ethereum tx, rest))"
| "from_tx_compact R D buf TyEvNode s =
     map_option (\<lambda>(tx, rest). (EvNode \<lparr> signed_tx = tx, signed_signature = s \<rparr>, rest))
       (evnode_from_compact R D buf (length buf))"

section \<open>Sizes\<close>

text \<open>\<open>core::mem::size_of\<close> of the types and the sizes of their third-party parts.\<close>

record 'eth sizes =
  size_of_call :: nat
  size_of_evnode :: nat
  size_of_signature :: nat
  access_list_size :: "access_list \<Rightarrow> nat"
  eth_size :: "'eth \<Rightarrow> nat"
  signed_overhead :: nat

definition call_size :: "'eth sizes \<Rightarrow> call \<Rightarrow> nat" where
  "call_size Z c = size_of_call Z + length (call_input c)"

definition evnode_size :: "'eth sizes \<Rightarrow> ev_node_transaction \<Rightarrow> nat" where
  "evnode_size Z tx =
     size_of_evnode Z + (\<Sum>c\<leftarrow>tx_calls tx. call_size Z c)
     + access_list_size Z (tx_access_list tx)
     + (case tx_fee_payer_signature tx of Some _ \<Rightarrow> size_of_signature Z | None \<Rightarrow> 0)"

section \<open>The envelopes\<close>

text \<open>The Ethereum sides of the two envelopes: signer recovery, hash and conversion.\<close>

record ('eth, 'pooled) eth_ops =
  eth_recover_signer :: "'eth \<Rightarrow> recovery_error + address"
  eth_tx_hash :: "'eth \<Rightarrow> b256"
  pooled_recover_signer :: "'pooled \<Rightarrow> recovery_error + address"
  pooled_tx_hash :: "'pooled \<Rightarrow> b256"
  eth_try_into_pooled :: "'eth \<Rightarrow> 'eth + 'pooled"
  pooled_into_eth :: "'pooled \<Rightarrow> 'eth"
  signed_hash :: "ev_node_signed_tx \<Rightarrow> b256"

fun recover_signer ::
    "rlp \<Rightarrow> crypto \<Rightarrow> ('eth, 'pooled) eth_ops \<Rightarrow> 'eth ev_tx_envelope \<Rightarrow> recovery_error + address" where
  "recover_signer R K E (Ethereum tx) = eth_recover_signer E tx"
| "recover_signer R K E (EvNode tx) =
     map_err (\<lambda>_. RecoveryError)
       (recover_address_from_prehash K (signed_signature tx)
          (executor_signing_hash R K (signed_tx tx)))"

fun tx_hash :: "('eth, 'pooled) eth_ops \<Rightarrow> 'eth ev_tx_envelope \<Rightarrow> b256" where
  "tx_hash E (Ethereum tx) = eth_tx_hash E tx"
| "tx_hash E (EvNode tx) = signed_hash E tx"

fun pooled_envelope_recover_signer ::
    "rlp \<Rightarrow> crypto \<Rightarrow> ('eth, 'pooled) eth_ops \<Rightarrow> 'pooled ev_pooled_tx_envelope
       \<Rightarrow> recovery_error + address" where
  "pooled_envelope_recover_signer R K E (PooledEthereum tx) = pooled_recover_signer E tx"
| "pooled_envelope_recover_signer R K E (PooledEvNode tx) =
     map_err (\<lambda>_. RecoveryError)
       (recover_address_from_prehash K (signed_signature tx)
          (executor_signing_hash R K (signed_tx tx)))"

fun pooled_envelope_tx_hash :: "('eth, 'pooled) eth_ops \<Rightarrow> 'pooled ev_pooled_tx_envelope \<Rightarrow> b256" where
  "pooled_envelope_tx_hash E (PooledEthereum tx) = pooled_tx_hash E tx"
| "pooled_envelope_tx_hash E (PooledEvNode tx) = signed_hash E tx"

fun try_into_pooled ::
    "('eth, 'pooled) eth_ops \<Rightarrow> 'eth ev_tx_envelope \<Rightarrow> 'eth + 'pooled ev_pooled_tx_envelope" where
  "try_into_pooled E (Ethereum tx) = map_ok PooledEthereum (eth_try_into_pooled E tx)"
| "try_into_pooled E (EvNode tx) = Inr (PooledEvNode tx)"

fun from_pooled_envelope ::
    "('eth, 'pooled) eth_ops \<Rightarrow> 'pooled ev_pooled_tx_envelope \<Rightarrow> 'eth ev_tx_envelope" where
  "from_pooled_envelope E (PooledEthereum tx) = Ethereum (pooled_into_eth E tx)"
| "from_pooled_envelope E (PooledEvNode tx) = EvNode tx"

section \<open>The contract of the encodings\<close>

locale rlp_prims =
  fixes R :: rlp
  assumes u64_codec: "field_codec (rlp_u64 R)"
    and u128_codec: "field_codec (rlp_u128 R)"
    and calls_codec: "field_codec (rlp_calls R)"
    and access_list_codec: "field_codec (rlp_access_list R)"
    and framing: "rlp_framing (rlp_frame R)"
    and sig_bytes_length: "length (sig_as_bytes R s) = 65"
    and sig_bytes_round_trip: "sig_from_raw_array R (sig_as_bytes R s) = Some s"

sublocale rlp_prims \<subseteq> u64: field_codec "rlp_u64 R" by (rule u64_codec)

sublocale rlp_prims \<subseteq> u128: field_codec "rlp_u128 R" by (rule u128_codec)

sublocale rlp_prims \<subseteq> calls: field_codec "rlp_calls R" by (rule calls_codec)

sublocale rlp_prims \<subseteq> al: field_codec "rlp_access_list R" by (rule access_list_codec)

sublocale rlp_prims \<subseteq> frame: rlp_framing "rlp_frame R" by (rule framing)

text \<open>The optional sponsor signature and the whole transaction are codecs again.\<close>

definition optional_signature_codec :: "rlp \<Rightarrow> signature option codec" where
  "optional_signature_codec R =
     \<lparr> encode = encode_optional_signature R, len = optional_signature_length R,
       decode = decode_optional_signature R \<rparr>"

definition evnode_codec :: "rlp \<Rightarrow> ev_node_transaction codec" where
  "evnode_codec R = \<lparr> encode = tx_encode R, len = tx_length R, decode = tx_decode R \<rparr>"

lemma optional_signature_codec_simps [simp]:
  "encode (optional_signature_codec R) = encode_optional_signature R"
  "len (optional_signature_codec R) = optional_signature_length R"
  "decode (optional_signature_codec R) = decode_optional_signature R"
  by (simp_all add: optional_signature_codec_def)

lemma evnode_codec_simps [simp]:
  "encode (evnode_codec R) = tx_encode R"
  "len (evnode_codec R) = tx_length R"
  "decode (evnode_codec R) = tx_decode R"
  by (simp_all add: evnode_codec_def)

context rlp_prims
begin

lemma optional_signature_is_codec: "field_codec (optional_signature_codec R)"
proof
  fix x :: "signature option"
  show "len (optional_signature_codec R) x = length (encode (optional_signature_codec R) x)"
    by (cases x) (simp_all add: frame.slice_length)
next
  fix x :: "signature option" and rest
  assume u: "usize_bytes (encode (optional_signature_codec R) x)"
  show "decode (optional_signature_codec R) (encode (optional_signature_codec R) x @ rest) = Inr (x, rest)"
  proof (cases x)
    case None
    then show ?thesis by (simp add: decode_optional_signature_def frame.decode_empty)
  next
    case (Some s)
    moreover have "sig_as_bytes R s \<noteq> []" using sig_bytes_length [of s] by auto
    ultimately show ?thesis using u
      by (simp add: decode_optional_signature_def frame.decode_slice sig_bytes_length sig_bytes_round_trip)
  qed
qed

end

sublocale rlp_prims \<subseteq> sig: field_codec "optional_signature_codec R"
  rewrites "encode (optional_signature_codec R) = encode_optional_signature R"
    and "len (optional_signature_codec R) = optional_signature_length R"
    and "decode (optional_signature_codec R) = decode_optional_signature R"
  by (rule optional_signature_is_codec) simp_all

context rlp_prims
begin

lemmas len_codecs = u64.len_encode u128.len_encode calls.len_encode al.len_encode sig.len_encode

lemma payload_fields_length: "payload_fields_length R tx fs = length (encode_payload_fields R tx fs)"
  by (simp add: payload_fields_length_def encode_payload_fields_def len_codecs)

lemma usize_fields:
  assumes "usize_bytes (encode_payload_fields R tx fs)"
  shows "usize_bytes (encode (rlp_u64 R) (tx_chain_id tx))"
    "usize_bytes (encode (rlp_u64 R) (tx_nonce tx))"
    "usize_bytes (encode (rlp_u128 R) (tx_max_priority_fee_per_gas tx))"
    "usize_bytes (encode (rlp_u128 R) (tx_max_fee_per_gas tx))"
    "usize_bytes (encode (rlp_u64 R) (tx_gas_limit tx))"
    "usize_bytes (encode (rlp_calls R) (tx_calls tx))"
    "usize_bytes (encode (rlp_access_list R) (tx_access_list tx))"
    "usize_bytes (encode_optional_signature R fs)"
  using assms by (simp_all add: encode_payload_fields_def usize_bytes_def)

lemma rlp_decode_fields:
  assumes "usize_bytes (encode_payload_fields R tx fs)"
  shows "rlp_decode_fields R (encode_payload_fields R tx fs @ rest) =
           Inr (tx \<lparr> tx_fee_payer_signature := fs \<rparr>, rest)"
  using usize_fields [OF assms]
  by (simp add: rlp_decode_fields_def encode_payload_fields_def u64.decode_encode
      u128.decode_encode calls.decode_encode al.decode_encode sig.decode_encode)

lemma tx_encode_eq: "tx_encode R tx = encoded_payload R tx (tx_fee_payer_signature tx)"
  by (simp add: tx_encode_def encoded_payload_def rlp_encoded_fields_length_def
      rlp_encode_fields_def frame.rlp_encode_default)

lemma encode_for_signing_eq: "encode_for_signing R tx = EVNODE_TX_TYPE_ID # encoded_payload R tx None"
  by (simp add: encode_for_signing_def encoded_payload_def)

lemma evnode_is_codec: "field_codec (evnode_codec R)"
proof
  fix tx
  show "len (evnode_codec R) tx = length (encode (evnode_codec R) tx)"
    by (simp add: tx_length_def tx_encode_eq encoded_payload_def frame.length_with_payload
        rlp_encoded_fields_length_def payload_fields_length)
next
  fix tx rest
  let ?body = "encode_payload_fields R tx (tx_fee_payer_signature tx)"
  assume "usize_bytes (encode (evnode_codec R) tx)"
  then have u: "usize_bytes (header (rlp_frame R) True (length ?body) @ ?body)"
    by (simp add: tx_encode_eq encoded_payload_def payload_fields_length)
  then have "rlp_decode_fields R (?body @ rest) = Inr (tx, rest)"
    using rlp_decode_fields [of tx "tx_fee_payer_signature tx" rest] usize_bytes_appendD [OF u]
    by simp
  from frame.rlp_decode_default [of ?body "rlp_decode_fields R" rest tx, OF u this]
  show "decode (evnode_codec R) (encode (evnode_codec R) tx @ rest) = Inr (tx, rest)"
    by (simp add: tx_decode_def tx_encode_eq encoded_payload_def payload_fields_length)
qed

text \<open>
  The field string is self-delimiting: it determines the fields, the sponsor slot included, and
  what follows it.
\<close>

lemma encode_payload_fields_inject:
  assumes "encode_payload_fields R tx fs @ xs = encode_payload_fields R tx' fs' @ ys"
    and "usize_bytes (encode_payload_fields R tx fs)" "usize_bytes (encode_payload_fields R tx' fs')"
  shows "tx \<lparr> tx_fee_payer_signature := fs \<rparr> = tx' \<lparr> tx_fee_payer_signature := fs' \<rparr> \<and> xs = ys"
  using assms by (metis rlp_decode_fields prod.inject sum.inject(2))

lemma encode_payload_fields_irrelevant:
  "encode_payload_fields R (tx \<lparr> tx_fee_payer_signature := s \<rparr>) fs = encode_payload_fields R tx fs"
  by (simp add: encode_payload_fields_def)

lemma encoded_payload_irrelevant:
  "encoded_payload R (tx \<lparr> tx_fee_payer_signature := s \<rparr>) fs = encoded_payload R tx fs"
  by (simp add: encoded_payload_def encode_payload_fields_irrelevant payload_fields_length)

lemma sponsor_preimage_inject:
  assumes "sponsor_preimage R tx ex = sponsor_preimage R tx' ex'"
    and "usize_bytes (sponsor_preimage R tx ex)" "usize_bytes (sponsor_preimage R tx' ex')"
  shows "ex = ex' \<and> tx \<lparr> tx_fee_payer_signature := None \<rparr> = tx' \<lparr> tx_fee_payer_signature := None \<rparr>"
proof -
  have *: "ex = ex'" "encode_payload_fields R tx None = encode_payload_fields R tx' None"
    using assms(1) append_eq_append_conv [of "address_bytes ex" "address_bytes ex'"]
    by (simp_all add: sponsor_preimage_def encoded_payload_with_executor_def)
  moreover have "usize_bytes (encode_payload_fields R tx None)" "usize_bytes (encode_payload_fields R tx' None)"
    using assms(2,3) by (auto simp: sponsor_preimage_def encoded_payload_with_executor_def usize_bytes_def)
  ultimately show ?thesis using encode_payload_fields_inject [of tx None "[]" tx' None "[]"] by simp
qed

end

sublocale rlp_prims \<subseteq> evnode: field_codec "evnode_codec R"
  rewrites "encode (evnode_codec R) = tx_encode R"
    and "len (evnode_codec R) = tx_length R"
    and "decode (evnode_codec R) = tx_decode R"
  by (rule evnode_is_codec) simp_all

context rlp_prims
begin

lemma evnode_round_trip:
  "usize_bytes (tx_encode R tx) \<Longrightarrow> tx_decode R (tx_encode R tx @ rest) = Inr (tx, rest)"
  by (rule evnode.decode_encode)

lemma tx_length_eq: "tx_length R tx = length (tx_encode R tx)"
  by (rule evnode.len_encode)

lemma payload_len_for_signature_eq: "payload_len_for_signature R tx = length (encode_for_signing R tx)"
  by (simp add: payload_len_for_signature_def encode_for_signing_def frame.length_with_payload
      payload_fields_length)

lemma executor_signing_hash_eq: "executor_signing_hash R K tx = keccak256 K (encode_for_signing R tx)"
  by (simp add: executor_signing_hash_def encode_for_signing_eq)

lemma signing_ignores_sponsor:
  "encode_for_signing R (tx \<lparr> tx_fee_payer_signature := s \<rparr>) = encode_for_signing R tx"
  "sponsor_preimage R (tx \<lparr> tx_fee_payer_signature := s \<rparr>) ex = sponsor_preimage R tx ex"
  by (simp_all add: encode_for_signing_eq encoded_payload_irrelevant sponsor_preimage_def
      encoded_payload_with_executor_def encode_payload_fields_irrelevant)

lemma signing_domains_disjoint: "sponsor_preimage R tx ex \<noteq> encode_for_signing R tx'"
  by (simp add: sponsor_preimage_def encode_for_signing_eq EVNODE_TX_TYPE_ID_def
      EVNODE_SPONSOR_DOMAIN_def)

end

section \<open>Fees and values\<close>

text \<open>The effective price, read as a number: the base fee plus the tip that still fits the cap.\<close>

lemma unat_effective_gas_price:
  "unat (effective_gas_price tx (Some b)) =
     (if unat (tx_max_fee_per_gas tx) < unat b then unat (tx_max_fee_per_gas tx)
      else min (unat (tx_max_fee_per_gas tx)) (unat b + unat (tx_max_priority_fee_per_gas tx)))"
proof -
  have "unat (tx_max_fee_per_gas tx) < 2 ^ 128" using unat_bound [of "tx_max_fee_per_gas tx"] by simp
  then show ?thesis
    by (auto simp: effective_gas_price_def Let_def word_less_nat_alt unat_saturating_add
        unat_saturating_sub min_def word_le_nat_alt)
qed

lemma unat_tx_value:
  "unat (tx_value tx) = min (\<Sum>c\<leftarrow>tx_calls tx. unat (call_value c)) (2 ^ 256 - 1)"
  using foldl_saturating_add [of call_value 0 "tx_calls tx"] by (simp add: tx_value_def)

section \<open>The database contract\<close>

locale compact_prims = rlp_prims R
  for R :: rlp +
  fixes D :: "'eth compact_codec"
  assumes vec_round_trip: "vec_to_compact D v = (bs, k) \<Longrightarrow> vec_from_compact D (bs @ rest) n = (v, rest)"
    and txtype_round_trip:
      "txtype_to_compact D t = (bs, k) \<Longrightarrow> txtype_from_compact D (bs @ rest) k = Some (t, rest)"
    and eth_round_trip:
      "eth_from_tx_compact D (eth_to_tx_compact D e @ rest) (eth_tx_type D e) (eth_signature D e) = (e, rest)"
begin

lemma evnode_compact_round_trip:
  "usize_bytes (tx_encode R tx) \<Longrightarrow>
     evnode_from_compact R D (fst (evnode_to_compact R D tx) @ rest) n = Some (tx, rest)"
  using evnode.decode_exact [of tx]
  by (auto simp: evnode_from_compact_def evnode_to_compact_def
      vec_round_trip [OF prod.collapse [symmetric]])

lemma envelope_compact_round_trip:
  assumes "\<And>tx. e = EvNode tx \<Longrightarrow> usize_bytes (tx_encode R (signed_tx tx))"
  shows "from_tx_compact R D (to_tx_compact R D e @ rest) (envelope_tx_type D e) (envelope_signature D e)
           = Some (e, rest)"
  using assms by (cases e) (simp_all add: eth_round_trip evnode_compact_round_trip)

lemma tx_type_compact_round_trip:
  assumes "tx_type_to_compact D t = (bs, k)"
  shows "tx_type_from_compact D (bs @ rest) k =
    (case t of
       TyEvNode \<Rightarrow> Some (TyEvNode, rest)
     | TyEthereum e \<Rightarrow>
         if k \<noteq> COMPACT_EXTENDED_IDENTIFIER_FLAG then Some (TyEthereum e, rest)
         else (case bs @ rest of
                 [] \<Rightarrow> None
               | b # r \<Rightarrow> if b = EVNODE_TX_TYPE_ID then Some (TyEvNode, r) else None))"
  using assms txtype_round_trip
  by (cases t) (auto simp: tx_type_from_compact_def)

end

end
