(* ===== verification/Rlp_Reference.thy ===== *)
theory Rlp_Reference
  imports Ev_Primitives
begin

text \<open>
  A concrete instance of the encodings that \<open>Ev_Primitives\<close> takes as parameters: Ethereum's RLP
  (short and long headers, minimal big-endian scalars), the 65-byte signature form and the
  database codecs. It discharges the laws of \<open>rlp_prims\<close> and \<open>compact_prims\<close>, and the
  properties are evaluated on it.
\<close>

section \<open>Headers and strings\<close>

fun nbytes :: "nat \<Rightarrow> nat" where
  "nbytes n = (if n = 0 then 0 else Suc (nbytes (n div 256)))"

declare nbytes.simps [simp del]

definition ref_header :: "bool \<Rightarrow> nat \<Rightarrow> bytes" where
  "ref_header l n =
     (if n < 56 then [of_nat ((if l then 192 else 128) + n)]
      else of_nat ((if l then 247 else 183) + nbytes n) # be_bytes (nbytes n) n)"

definition ref_slice :: "bytes \<Rightarrow> bytes" where
  "ref_slice bs = (if length bs = 1 \<and> unat (hd bs) < 128 then bs else ref_header False (length bs) @ bs)"

definition long_header :: "bool \<Rightarrow> nat \<Rightarrow> bytes \<Rightarrow> rlp_error + (bool \<times> nat \<times> bytes)" where
  "long_header l k r =
     (if length r < k then Inl InputTooShort else Inr (l, be_nat (take k r), drop k r))"

definition ref_decode_header :: "bytes \<Rightarrow> rlp_error + (bool \<times> nat \<times> bytes)" where
  "ref_decode_header buf =
     (case buf of
        [] \<Rightarrow> Inl InputTooShort
      | b # r \<Rightarrow>
          (let v = unat b in
           if v < 128 then Inr (False, 1, b # r)
           else if v < 184 then Inr (False, v - 128, r)
           else if v < 192 then long_header False (v - 183) r
           else if v < 248 then Inr (True, v - 192, r)
           else long_header True (v - 247) r))"

definition ref_payload :: "bool \<Rightarrow> bytes \<Rightarrow> rlp_error + (bytes \<times> bytes)" where
  "ref_payload l buf =
     and_then (ref_decode_header buf) (\<lambda>(l', n, r).
       if l' \<noteq> l then Inl (if l' then UnexpectedList else UnexpectedString)
       else if length r < n then Inl InputTooShort
       else Inr (take n r, drop n r))"

lemma less_256_power_nbytes: "n < 256 ^ nbytes n"
proof (induction n rule: nbytes.induct)
  case (1 n)
  show ?case
  proof (cases "n = 0")
    case False
    then have "n div 256 < 256 ^ nbytes (n div 256)" using 1 by simp
    then have "n < 256 * 256 ^ nbytes (n div 256)" by (simp add: div_less_iff_less_mult mult.commute)
    then show ?thesis using False by (simp add: nbytes.simps [of n])
  qed (simp add: nbytes.simps)
qed

lemma be_nat_minimal [simp]: "be_nat (be_bytes (nbytes n) n) = n"
  by (simp add: be_nat_be_bytes less_256_power_nbytes)

lemma nbytes_le: "n < 256 ^ k \<Longrightarrow> nbytes n \<le> k"
proof (induction k arbitrary: n)
  case (Suc k)
  then have "n div 256 < 256 ^ k" by (simp add: div_less_iff_less_mult mult.commute)
  then show ?case using Suc.IH by (simp add: nbytes.simps [of n])
qed (simp add: nbytes.simps)

lemma nbytes_pos: "0 < n \<Longrightarrow> 0 < nbytes n"
  by (simp add: nbytes.simps)

lemma ref_header_nonempty [simp]: "ref_header l n \<noteq> []"
  by (simp add: ref_header_def)

lemma ref_decode_header:
  assumes "n < 2 ^ 64"
  shows "ref_decode_header (ref_header l n @ rest) = Inr (l, n, rest)"
proof (cases "n < 56")
  case True
  then show ?thesis
    by (simp add: ref_decode_header_def ref_header_def unat_of_nat_byte Let_def del: of_nat_add)
next
  case False
  have "nbytes n \<le> 8" "0 < nbytes n" using assms False by (auto intro: nbytes_le nbytes_pos)
  then show ?thesis using False
    by (simp add: ref_decode_header_def ref_header_def unat_of_nat_byte long_header_def Let_def
        del: of_nat_add)
qed

lemma ref_payload_header:
  "length body < 2 ^ 64 \<Longrightarrow> ref_payload l (ref_header l (length body) @ body @ rest) = Inr (body, rest)"
  by (simp add: ref_payload_def ref_decode_header)

lemma ref_payload_slice:
  assumes "usize_bytes (ref_slice bs)"
  shows "ref_payload False (ref_slice bs @ rest) = Inr (bs, rest)"
proof (cases "length bs = 1 \<and> unat (hd bs) < 128")
  case True
  then obtain b where "bs = [b]" "unat b < 128" by (cases bs) auto
  then show ?thesis by (simp add: ref_payload_def ref_slice_def ref_decode_header_def)
next
  case False
  then show ?thesis using assms ref_payload_header [of bs False rest]
    by (auto simp: ref_slice_def usize_bytes_def)
qed

lemma ref_slice_nonempty [simp]: "ref_slice bs \<noteq> []"
  by (auto simp: ref_slice_def)

section \<open>Codecs\<close>

text \<open>A value written as one byte string; a pair written in sequence; a list header around it.\<close>

definition via_slice :: "('a \<Rightarrow> bytes) \<Rightarrow> (bytes \<Rightarrow> 'a option) \<Rightarrow> 'a codec" where
  "via_slice f g =
     \<lparr> encode = (\<lambda>x. ref_slice (f x)), len = (\<lambda>x. length (ref_slice (f x))),
       decode = (\<lambda>buf. and_then (ref_payload False buf) (\<lambda>(bs, rest).
                  case g bs of None \<Rightarrow> Inl UnexpectedLength | Some x \<Rightarrow> Inr (x, rest))) \<rparr>"

definition in_sequence :: "'a codec \<Rightarrow> 'b codec \<Rightarrow> ('a \<times> 'b) codec" where
  "in_sequence A B =
     \<lparr> encode = (\<lambda>(x, y). encode A x @ encode B y), len = (\<lambda>(x, y). len A x + len B y),
       decode = (\<lambda>buf. and_then (decode A buf) (\<lambda>(x, r). and_then (decode B r) (\<lambda>(y, r').
                  Inr ((x, y), r')))) \<rparr>"

definition as_list :: "'a codec \<Rightarrow> 'a codec" where
  "as_list A =
     \<lparr> encode = (\<lambda>x. ref_header True (length (encode A x)) @ encode A x),
       len = (\<lambda>x. length (ref_header True (length (encode A x))) + len A x),
       decode = (\<lambda>buf. and_then (ref_payload True buf) (\<lambda>(body, rest).
                  and_then (decode A body) (\<lambda>(x, r).
                    if r = [] then Inr (x, rest) else Inl UnexpectedLength))) \<rparr>"

primrec decode_items :: "'a codec \<Rightarrow> nat \<Rightarrow> bytes \<Rightarrow> rlp_error + 'a list" where
  "decode_items A 0 buf = (if buf = [] then Inr [] else Inl UnexpectedLength)"
| "decode_items A (Suc k) buf =
     (if buf = [] then Inr []
      else and_then (decode A buf) (\<lambda>(x, r). map_ok (\<lambda>xs. x # xs) (decode_items A k r)))"

definition items :: "'a codec \<Rightarrow> 'a list codec" where
  "items A =
     \<lparr> encode = (\<lambda>xs. concat (map (encode A) xs)), len = (\<lambda>xs. \<Sum>x\<leftarrow>xs. len A x),
       decode = (\<lambda>buf. map_ok (\<lambda>xs. (xs, [])) (decode_items A (length buf) buf)) \<rparr>"

definition iso :: "('a \<Rightarrow> 'b) \<Rightarrow> ('b \<Rightarrow> 'a) \<Rightarrow> 'b codec \<Rightarrow> 'a codec" where
  "iso f g B =
     \<lparr> encode = (\<lambda>x. encode B (f x)), len = (\<lambda>x. len B (f x)),
       decode = (\<lambda>buf. map_ok (\<lambda>(y, r). (g y, r)) (decode B buf)) \<rparr>"

lemma via_slice_codec: "(\<And>x. g (f x) = Some x) \<Longrightarrow> field_codec (via_slice f g)"
  by unfold_locales (simp_all add: via_slice_def ref_payload_slice)

lemma in_sequence_codec:
  assumes "field_codec A" "field_codec B"
  shows "field_codec (in_sequence A B)"
proof -
  note laws = field_codec.len_encode [OF assms(1)] field_codec.len_encode [OF assms(2)]
    field_codec.decode_encode [OF assms(1)] field_codec.decode_encode [OF assms(2)]
  show ?thesis
    by unfold_locales (auto simp: in_sequence_def laws dest!: usize_bytes_appendD)
qed

lemma iso_codec: "field_codec B \<Longrightarrow> (\<And>x. g (f x) = x) \<Longrightarrow> field_codec (iso f g B)"
  by unfold_locales (simp_all add: iso_def field_codec.len_encode field_codec.decode_encode)

lemma as_list_codec:
  assumes "\<And>x. len A x = length (encode A x)"
    and "\<And>x. usize_bytes (encode A x) \<Longrightarrow> decode A (encode A x) = Inr (x, [])"
  shows "field_codec (as_list A)"
proof
  fix x rest
  assume "usize_bytes (encode (as_list A) x)"
  then have "usize_bytes (encode A x)" by (auto simp: as_list_def dest: usize_bytes_appendD)
  then show "decode (as_list A) (encode (as_list A) x @ rest) = Inr (x, rest)"
    by (simp add: as_list_def ref_payload_header assms(2) usize_bytes_def)
qed (simp add: as_list_def assms(1))

lemma decode_items:
  assumes "field_codec A" "\<And>x. encode A x \<noteq> []"
    and "usize_bytes (concat (map (encode A) xs))" "length (concat (map (encode A) xs)) \<le> k"
  shows "decode_items A k (concat (map (encode A) xs)) = Inr xs"
  using assms(3,4)
proof (induction xs arbitrary: k)
  case Nil
  then show ?case by (cases k) simp_all
next
  case (Cons x xs)
  have "0 < length (encode A x)" using assms(2) by simp
  then obtain k' where k: "k = Suc k'" using Cons.prems(2) by (cases k) auto
  moreover have "length (concat (map (encode A) xs)) \<le> k'"
    using Cons.prems(2) k \<open>0 < length (encode A x)\<close> by (simp del: length_greater_0_conv)
  moreover have "usize_bytes (encode A x)" "usize_bytes (concat (map (encode A) xs))"
    using Cons.prems(1) by (auto dest: usize_bytes_appendD)
  ultimately show ?case using assms(2) Cons.IH
    by (simp add: field_codec.decode_encode [OF assms(1)])
qed

lemma items_list_codec:
  assumes "field_codec A" "\<And>x. encode A x \<noteq> []"
  shows "field_codec (as_list (items A))"
proof (rule as_list_codec)
  fix xs
  show "len (items A) xs = length (encode (items A) xs)"
    by (induction xs) (simp_all add: items_def field_codec.len_encode [OF assms(1)])
next
  fix xs
  assume "usize_bytes (encode (items A) xs)"
  then show "decode (items A) (encode (items A) xs) = Inr (xs, [])"
    by (simp add: items_def decode_items [OF assms])
qed

section \<open>The field types\<close>

definition scalar :: "'a::len word codec" where
  "scalar = via_slice (\<lambda>w. be_bytes (nbytes (unat w)) (unat w))
     (\<lambda>bs. if be_nat bs < 2 ^ LENGTH('a) then Some (of_nat (be_nat bs)) else None)"

definition fixed_bytes :: "nat \<Rightarrow> 'a::len word codec" where
  "fixed_bytes k = via_slice (\<lambda>w. be_bytes k (unat w))
     (\<lambda>bs. if length bs = k then Some (of_nat (be_nat bs)) else None)"

definition kind_codec :: "tx_kind codec" where
  "kind_codec = via_slice (\<lambda>k. case k of TxCreate \<Rightarrow> [] | TxCall a \<Rightarrow> be_bytes 20 (unat a))
     (\<lambda>bs. if bs = [] then Some TxCreate
           else if length bs = 20 then Some (TxCall (of_nat (be_nat bs))) else None)"

definition call_codec :: "call codec" where
  "call_codec =
     iso (\<lambda>c. (call_to c, call_value c, call_input c))
         (\<lambda>(k, v, i). \<lparr> call_to = k, call_value = v, call_input = i \<rparr>)
       (as_list (in_sequence kind_codec (in_sequence scalar (via_slice (\<lambda>b. b) Some))))"

definition access_list_codec :: "access_list codec" where
  "access_list_codec =
     as_list (items (as_list (in_sequence (fixed_bytes 20) (as_list (items (fixed_bytes 32))))))"

definition ref_frame :: "'a framing" where
  "ref_frame =
     \<lparr> header = ref_header,
       length_with_payload = (\<lambda>l n. length (ref_header l n) + n),
       decode_bytes = ref_payload False,
       encode_slice = ref_slice,
       slice_length = (\<lambda>bs. length (ref_slice bs)),
       empty_string_code = 128,
       rlp_encode_default = (\<lambda>n body. ref_header True n @ body),
       rlp_decode_default = (\<lambda>read buf.
         and_then (ref_decode_header buf) (\<lambda>(l, n, r).
           if \<not> l then Inl UnexpectedString
           else if length r < n then Inl InputTooShort
           else and_then (read r) (\<lambda>(x, r').
             if length r' + n \<noteq> length r then Inl UnexpectedLength else Inr (x, r')))) \<rparr>"

definition ref_sig_bytes :: "signature \<Rightarrow> bytes" where
  "ref_sig_bytes s =
     word256_bytes (sig_r s) @ word256_bytes (sig_s s) @ [if sig_y_parity s then 28 else 27]"

definition ref_sig_parse :: "bytes \<Rightarrow> signature option" where
  "ref_sig_parse bs =
     (let v = unat (bs ! 64) in
      if v \<in> {0, 1, 27, 28} then
        Some \<lparr> sig_y_parity = (v \<in> {1, 28}), sig_r = of_nat (be_nat (take 32 bs)),
               sig_s = of_nat (be_nat (take 32 (drop 32 bs))) \<rparr>
      else None)"

definition ref_rlp :: rlp where
  "ref_rlp =
     \<lparr> rlp_u64 = scalar, rlp_u128 = scalar, rlp_calls = as_list (items call_codec),
       rlp_access_list = access_list_codec, rlp_frame = ref_frame,
       sig_as_bytes = ref_sig_bytes, sig_from_raw_array = ref_sig_parse \<rparr>"

lemma scalar_codec: "field_codec (scalar :: 'a::len word codec)"
  unfolding scalar_def by (rule via_slice_codec) (simp add: unat_bound)

lemma of_nat_be_bytes:
  "2 ^ LENGTH('a) \<le> (256 :: nat) ^ k \<Longrightarrow> of_nat (be_nat (be_bytes k (unat (w :: 'a::len word)))) = w"
  using order_less_le_trans [OF unat_bound [of w], of "256 ^ k"] by (simp add: be_nat_be_bytes)

lemma fixed_bytes_codec:
  "2 ^ LENGTH('a) \<le> (256 :: nat) ^ k \<Longrightarrow> field_codec (fixed_bytes k :: 'a::len word codec)"
  unfolding fixed_bytes_def by (rule via_slice_codec) (simp add: of_nat_be_bytes)

lemma encode_nonempty [simp]:
  "encode (fixed_bytes k) x \<noteq> []" "encode (as_list A) y \<noteq> []" "encode call_codec c \<noteq> []"
  by (simp_all add: fixed_bytes_def via_slice_def as_list_def call_codec_def iso_def)

lemma kind_is_codec: "field_codec kind_codec"
proof -
  have "be_bytes 20 n \<noteq> []" for n by (metis length_be_bytes list.size(3) zero_neq_numeral)
  then show ?thesis unfolding kind_codec_def
    by (intro via_slice_codec) (simp add: of_nat_be_bytes split: tx_kind.split)
qed

lemma call_is_codec: "field_codec call_codec"
  unfolding call_codec_def
  by (intro iso_codec as_list_codec)
    (simp_all add: in_sequence_codec kind_is_codec scalar_codec via_slice_codec
      field_codec.len_encode field_codec.decode_exact)

lemma access_list_is_codec: "field_codec access_list_codec"
  unfolding access_list_codec_def
proof (rule items_list_codec)
  let ?entry = "in_sequence (fixed_bytes 20 :: address codec)
    (as_list (items (fixed_bytes 32 :: b256 codec)))"
  have keys: "field_codec (as_list (items (fixed_bytes 32 :: b256 codec)))"
    by (rule items_list_codec) (simp_all add: fixed_bytes_codec)
  have "field_codec ?entry"
    by (intro in_sequence_codec fixed_bytes_codec keys) simp
  then show "field_codec (as_list ?entry)"
    by (intro as_list_codec) (simp_all add: field_codec.len_encode field_codec.decode_exact)
qed simp

lemma ref_sig_round_trip:
  "length (ref_sig_bytes s) = 65" "ref_sig_parse (ref_sig_bytes s) = Some s"
proof -
  show "length (ref_sig_bytes s) = 65" by (simp add: ref_sig_bytes_def)
  have "of_nat (be_nat (word256_bytes w)) = w" for w
    by (simp add: word256_bytes_def of_nat_be_bytes)
  then show "ref_sig_parse (ref_sig_bytes s) = Some s"
    by (simp add: ref_sig_parse_def ref_sig_bytes_def nth_append)
qed

interpretation ref_frame: rlp_framing ref_frame
proof
  fix body rest :: bytes and read :: "bytes \<Rightarrow> rlp_error + ('a \<times> bytes)" and x
  assume "usize_bytes (header ref_frame True (length body) @ body)" "read (body @ rest) = Inr (x, rest)"
  then show "rlp_decode_default ref_frame read (header ref_frame True (length body) @ body @ rest) =
    Inr (x, rest)"
    by (simp add: ref_frame_def ref_decode_header usize_bytes_def)
qed (simp_all add: ref_frame_def ref_payload_slice,
     simp add: ref_payload_def ref_decode_header_def)

interpretation ref_rlp: rlp_prims ref_rlp
  by (rule rlp_prims.intro)
    (simp_all add: ref_rlp_def scalar_codec access_list_is_codec ref_sig_round_trip
      ref_frame.rlp_framing_axioms items_list_codec call_is_codec)

section \<open>Database codecs\<close>

text \<open>
  \<open>reth_codecs\<close>: a vector is its length as a variable-length integer and then each element with
  its own length; the two newest Ethereum transaction types go through the extended flag.
\<close>

fun varuint :: "nat \<Rightarrow> bytes" where
  "varuint n = (if n < 128 then [of_nat n] else of_nat (128 + n mod 128) # varuint (n div 128))"

declare varuint.simps [simp del]

fun read_varuint :: "bytes \<Rightarrow> nat \<times> bytes" where
  "read_varuint [] = (0, [])"
| "read_varuint (b # bs) =
     (if unat b < 128 then (unat b, bs)
      else case read_varuint bs of (n, r) \<Rightarrow> (unat b - 128 + 128 * n, r))"

definition compact_u8 :: "u8 \<Rightarrow> bytes" where
  "compact_u8 b = (if b = 0 then [0] else [1, b])"

fun read_u8s :: "nat \<Rightarrow> bytes \<Rightarrow> bytes \<times> bytes" where
  "read_u8s (Suc k) (m # r) =
     (if m = 0 then (case read_u8s k r of (v, r') \<Rightarrow> (0 # v, r'))
      else case r of [] \<Rightarrow> ([], [])
           | b # r' \<Rightarrow> (case read_u8s k r' of (v, r'') \<Rightarrow> (b # v, r'')))"
| "read_u8s _ r = ([], r)"

fun ref_txtype_to_compact :: "eth_tx_type \<Rightarrow> bytes \<times> nat" where
  "ref_txtype_to_compact Legacy = ([], 0)"
| "ref_txtype_to_compact Eip2930 = ([], 1)"
| "ref_txtype_to_compact Eip1559 = ([], 2)"
| "ref_txtype_to_compact Eip4844 = ([3], COMPACT_EXTENDED_IDENTIFIER_FLAG)"
| "ref_txtype_to_compact Eip7702 = ([4], COMPACT_EXTENDED_IDENTIFIER_FLAG)"

definition ref_txtype_from_compact :: "bytes \<Rightarrow> nat \<Rightarrow> (eth_tx_type \<times> bytes) option" where
  "ref_txtype_from_compact buf k =
     (if k = 0 then Some (Legacy, buf)
      else if k = 1 then Some (Eip2930, buf)
      else if k = 2 then Some (Eip1559, buf)
      else case buf of
             [] \<Rightarrow> None
           | b # r \<Rightarrow> if b = 3 then Some (Eip4844, r) else if b = 4 then Some (Eip7702, r) else None)"

text \<open>An Ethereum transaction stands here for its type, its signature and its payload bytes.\<close>

type_synonym ref_eth = "eth_tx_type \<times> signature \<times> bytes"

definition ref_vec_to_compact :: "bytes \<Rightarrow> bytes \<times> nat" where
  "ref_vec_to_compact v = (varuint (length v) @ concat (map compact_u8 v), 0)"

definition ref_vec_from_compact :: "bytes \<Rightarrow> nat \<Rightarrow> bytes \<times> bytes" where
  "ref_vec_from_compact buf n = (case read_varuint buf of (k, r) \<Rightarrow> read_u8s k r)"

definition ref_compact :: "ref_eth compact_codec" where
  "ref_compact =
     \<lparr> vec_to_compact = ref_vec_to_compact, vec_from_compact = ref_vec_from_compact,
       txtype_to_compact = ref_txtype_to_compact, txtype_from_compact = ref_txtype_from_compact,
       eth_to_tx_compact = (\<lambda>(_, _, v). fst (ref_vec_to_compact v)),
       eth_from_tx_compact =
         (\<lambda>buf t s. case ref_vec_from_compact buf 0 of (v, r) \<Rightarrow> ((t, s, v), r)),
       eth_signature = (\<lambda>(_, s, _). s), eth_tx_type = fst \<rparr>"

lemma read_varuint: "read_varuint (varuint n @ rest) = (n, rest)"
proof (induction n rule: varuint.induct)
  case (1 n)
  have "unat (of_nat (128 + n mod 128) :: u8) = 128 + n mod 128"
    by (rule unat_of_nat_byte) (use mod_less_divisor [of 128 n] in linarith)
  then show ?case using 1
    by (simp add: varuint.simps [of n] unat_of_nat_byte del: of_nat_add)
qed

lemma read_u8s: "read_u8s (length v) (concat (map compact_u8 v) @ rest) = (v, rest)"
  by (induction v) (auto simp: compact_u8_def)

lemma ref_vec_round_trip: "ref_vec_from_compact (fst (ref_vec_to_compact v) @ rest) n = (v, rest)"
  by (simp add: ref_vec_from_compact_def ref_vec_to_compact_def read_varuint read_u8s)

interpretation ref_compact: compact_prims ref_rlp ref_compact
proof
  fix v bs k rest n
  assume "vec_to_compact ref_compact v = (bs, k)"
  then show "vec_from_compact ref_compact (bs @ rest) n = (v, rest)"
    using ref_vec_round_trip [of v rest n] by (simp add: ref_compact_def)
next
  fix t bs k rest
  assume "txtype_to_compact ref_compact t = (bs, k)"
  then show "txtype_from_compact ref_compact (bs @ rest) k = Some (t, rest)"
    by (cases t)
      (auto simp: ref_compact_def ref_txtype_from_compact_def COMPACT_EXTENDED_IDENTIFIER_FLAG_def)
next
  fix e rest
  show "eth_from_tx_compact ref_compact (eth_to_tx_compact ref_compact e @ rest)
      (eth_tx_type ref_compact e) (eth_signature ref_compact e) = (e, rest)"
    by (cases e) (simp add: ref_compact_def ref_vec_round_trip)
qed

end
