(* ===== verification/Ev_Primitives_Correct.thy ===== *)
theory Ev_Primitives_Correct
  imports Rlp_Reference
begin

text \<open>
  The properties of the transaction types, over any encodings that meet the contracts
  \<open>rlp_prims\<close> and \<open>pooled_conversion\<close>, each applied to the concrete encodings of
  \<open>Rlp_Reference\<close> on a sponsored two-call transaction.
\<close>

section \<open>The pooled form\<close>

text \<open>
  \<open>reth\<close>'s conversion of an Ethereum transaction to its pooled form and back loses nothing; a blob
  transaction without its sidecar has no pooled form.
\<close>

locale pooled_conversion =
  fixes E :: "('eth, 'pooled) eth_ops"
  assumes into_eth: "eth_try_into_pooled E e = Inr p \<Longrightarrow> pooled_into_eth E p = e"
    and same_signer: "eth_recover_signer E (pooled_into_eth E p) = pooled_recover_signer E p"
    and same_hash: "eth_tx_hash E (pooled_into_eth E p) = pooled_tx_hash E p"
begin

lemma from_try_into: "try_into_pooled E x = Inr p \<Longrightarrow> from_pooled_envelope E p = x"
  by (cases x) (auto simp: ok_iff into_eth)

lemma pooled_same_signer:
  "recover_signer R K E (from_pooled_envelope E p) = pooled_envelope_recover_signer R K E p"
  by (cases p) (simp_all add: same_signer)

lemma pooled_same_hash: "tx_hash E (from_pooled_envelope E p) = pooled_envelope_tx_hash E p"
  by (cases p) (simp_all add: same_hash)

end

definition ref_eth_ops :: "(ref_eth, ref_eth) eth_ops" where
  "ref_eth_ops =
     \<lparr> eth_recover_signer = (\<lambda>(_, s, _). Inr (ucast (sig_r s))),
       eth_tx_hash = (\<lambda>(_, s, v). sig_s s + of_nat (length v)),
       pooled_recover_signer = (\<lambda>(_, s, _). Inr (ucast (sig_r s))),
       pooled_tx_hash = (\<lambda>(_, s, v). sig_s s + of_nat (length v)),
       eth_try_into_pooled = (\<lambda>e. if fst e = Eip4844 then Inl e else Inr e),
       pooled_into_eth = (\<lambda>p. p),
       signed_hash = (\<lambda>tx. sig_s (signed_signature tx)) \<rparr>"

interpretation ref_pooled: pooled_conversion ref_eth_ops
  by unfold_locales (auto simp: ref_eth_ops_def split: if_splits)

section \<open>A sample\<close>

definition sample_signature :: signature where
  "sample_signature = \<lparr> sig_y_parity = True, sig_r = 0x1234, sig_s = 0x56 \<rparr>"

definition sample_tx :: ev_node_transaction where
  "sample_tx =
     \<lparr> tx_chain_id = 1234, tx_nonce = 7, tx_max_priority_fee_per_gas = 2, tx_max_fee_per_gas = 100,
       tx_gas_limit = 90000,
       tx_calls = [\<lparr> call_to = TxCall 0xAA, call_value = 5, call_input = [1, 2] \<rparr>,
                   \<lparr> call_to = TxCall 0xBB, call_value = 6, call_input = [] \<rparr>],
       tx_access_list = [], tx_fee_payer_signature = Some sample_signature \<rparr>"

definition sample_crypto :: crypto where
  "sample_crypto =
     \<lparr> keccak256 = (\<lambda>bs. of_nat (be_nat bs)),
       recover_address_from_prehash =
         (\<lambda>s h. if sig_r s = 0 then Inl SignatureError else Inr (ucast (sig_r s + h))) \<rparr>"

lemma usize_sample: "usize_bytes (tx_encode ref_rlp sample_tx)"
  by (simp add: usize_bytes_def tx_encode_def rlp_encode_fields_def encode_payload_fields_def
      rlp_encoded_fields_length_def payload_fields_length_def sample_tx_def ref_rlp_def ref_frame_def scalar_def
      via_slice_def ref_slice_def ref_header_def nbytes.simps as_list_def items_def call_codec_def iso_def
      in_sequence_def kind_codec_def access_list_codec_def ref_sig_bytes_def)

lemma usize_sample_sponsor: "usize_bytes (sponsor_preimage ref_rlp sample_tx 0xCC)"
  by (simp add: usize_bytes_def sponsor_preimage_def encoded_payload_with_executor_def
      encode_payload_fields_def sample_tx_def ref_rlp_def ref_frame_def scalar_def
      via_slice_def ref_slice_def ref_header_def nbytes.simps as_list_def items_def call_codec_def iso_def
      in_sequence_def kind_codec_def access_list_codec_def)

section \<open>Encoding\<close>

text \<open>C10. The RLP form of an EvNode transaction is read back exactly, whatever follows it in the
  buffer, sponsor signature included, and \<open>length()\<close> announces its number of bytes.\<close>

theorem evnode_rlp_round_trip:
  assumes "rlp_prims R" "usize_bytes (tx_encode R tx)"
  shows "tx_decode R (tx_encode R tx @ rest) = Inr (tx, rest) \<and>
         tx_length R tx = length (tx_encode R tx)"
  using assms by (simp add: rlp_prims.evnode_round_trip rlp_prims.tx_length_eq)

theorem evnode_rlp_round_trip_witness:
  "tx_decode ref_rlp (tx_encode ref_rlp sample_tx @ [1]) = Inr (sample_tx, [1]) \<and>
   tx_length ref_rlp sample_tx = length (tx_encode ref_rlp sample_tx)"
  by (rule evnode_rlp_round_trip [OF ref_rlp.rlp_prims_axioms usize_sample])

text \<open>What the executor signs: the signing hash is the hash of the bytes \<open>encode_for_signing\<close>
  writes, \<open>payload_len_for_signature\<close> is their number, and neither they nor the sponsor's
  preimage depend on the sponsor signature already in the transaction.\<close>

lemma executor_signing:
  assumes "rlp_prims R"
  shows "executor_signing_hash R K tx = keccak256 K (encode_for_signing R tx) \<and>
         payload_len_for_signature R tx = length (encode_for_signing R tx) \<and>
         encode_for_signing R (tx \<lparr> tx_fee_payer_signature := s \<rparr>) = encode_for_signing R tx \<and>
         sponsor_preimage R (tx \<lparr> tx_fee_payer_signature := s \<rparr>) ex = sponsor_preimage R tx ex"
  using assms
  by (simp add: rlp_prims.executor_signing_hash_eq rlp_prims.payload_len_for_signature_eq
      rlp_prims.signing_ignores_sponsor)

lemma executor_signing_witness:
  "executor_signing_hash ref_rlp sample_crypto sample_tx =
     keccak256 sample_crypto (encode_for_signing ref_rlp sample_tx) \<and>
   encode_for_signing ref_rlp (sample_tx \<lparr> tx_fee_payer_signature := None \<rparr>) =
     encode_for_signing ref_rlp sample_tx"
  using executor_signing [OF ref_rlp.rlp_prims_axioms, of sample_crypto sample_tx None 0] by blast

text \<open>C11. A sponsor's authorization binds the executor and every field of the transaction: two
  equal sponsor preimages come from the same executor and from transactions that differ at most
  in the sponsor signature; and no sponsor preimage is an executor preimage.\<close>

theorem sponsor_preimage_binds:
  assumes "rlp_prims R"
    and "usize_bytes (sponsor_preimage R tx ex)" "usize_bytes (sponsor_preimage R tx' ex')"
  shows "(sponsor_preimage R tx ex = sponsor_preimage R tx' ex' \<longleftrightarrow>
            ex = ex' \<and> tx \<lparr> tx_fee_payer_signature := None \<rparr> = tx' \<lparr> tx_fee_payer_signature := None \<rparr>) \<and>
         sponsor_preimage R tx ex \<noteq> encode_for_signing R tx'"
  using rlp_prims.sponsor_preimage_inject [OF assms(1) _ assms(2,3)]
    rlp_prims.signing_ignores_sponsor(2) [OF assms(1)]
    rlp_prims.signing_domains_disjoint [OF assms(1)]
  by metis

theorem sponsor_preimage_binds_witness:
  "sponsor_preimage ref_rlp sample_tx 0xCC \<noteq> encode_for_signing ref_rlp sample_tx \<and>
   (sponsor_preimage ref_rlp sample_tx 0xCC = sponsor_preimage ref_rlp sample_tx 0xCC \<longleftrightarrow>
      (0xCC :: address) = 0xCC \<and>
      sample_tx \<lparr> tx_fee_payer_signature := None \<rparr> = sample_tx \<lparr> tx_fee_payer_signature := None \<rparr>)"
  using sponsor_preimage_binds [OF ref_rlp.rlp_prims_axioms usize_sample_sponsor usize_sample_sponsor]
  by blast

section \<open>Fees and values\<close>

text \<open>The effective gas price never exceeds the fee cap; under a base fee the cap covers it is
  the base fee plus the tip, cut at the cap, computed without overflow at 128 bits.\<close>

lemma effective_gas_price_correct:
  "effective_gas_price tx bf \<le> tx_max_fee_per_gas tx \<and>
   effective_gas_price tx None = tx_max_fee_per_gas tx \<and>
   unat (effective_gas_price tx (Some b)) =
     (if unat (tx_max_fee_per_gas tx) < unat b then unat (tx_max_fee_per_gas tx)
      else min (unat (tx_max_fee_per_gas tx)) (unat b + unat (tx_max_priority_fee_per_gas tx)))"
proof -
  have "effective_gas_price tx bf \<le> tx_max_fee_per_gas tx"
  proof (cases bf)
    case (Some b)
    then show ?thesis by (simp add: word_le_nat_alt unat_effective_gas_price)
  qed (simp add: effective_gas_price_def)
  then show ?thesis using unat_effective_gas_price by (simp add: effective_gas_price_def)
qed

text \<open>The value of a batch is the sum of its calls' values capped at \<open>U256::MAX\<close>; kind and input
  are those of the first call, and an empty batch reads as a creation that \<open>is_create\<close> denies.\<close>

lemma evnode_view_correct:
  "unat (view_value (evnode_view tx)) = min (\<Sum>c\<leftarrow>tx_calls tx. unat (call_value c)) (2 ^ 256 - 1) \<and>
   (case tx_calls tx of
      [] \<Rightarrow> view_kind (evnode_view tx) = TxCreate \<and> \<not> view_is_create (evnode_view tx) \<and>
            view_input (evnode_view tx) = []
    | c # _ \<Rightarrow> view_kind (evnode_view tx) = call_to c \<and>
            (view_is_create (evnode_view tx) \<longleftrightarrow> call_to c = TxCreate) \<and>
            view_input (evnode_view tx) = call_input c)"
  by (auto simp: evnode_view_def unat_tx_value tx_kind_of_def tx_is_create_def tx_input_def
      first_call_def split: list.split)

section \<open>Pooling\<close>

text \<open>A transaction that has a pooled form is the same transaction after conversion there and
  back, with the same hash and the same recovered signer.\<close>

lemma pooled_round_trip:
  assumes "pooled_conversion E" "try_into_pooled E x = Inr p"
  shows "from_pooled_envelope E p = x \<and> pooled_envelope_tx_hash E p = tx_hash E x \<and>
         pooled_envelope_recover_signer R K E p = recover_signer R K E x"
  using pooled_conversion.from_try_into [OF assms] pooled_conversion.pooled_same_hash [OF assms(1)]
    pooled_conversion.pooled_same_signer [OF assms(1)]
  by metis

lemma pooled_round_trip_witness:
  "(let x = EvNode \<lparr> signed_tx = sample_tx, signed_signature = sample_signature \<rparr> in
    \<exists>p. try_into_pooled ref_eth_ops x = Inr p \<and> from_pooled_envelope ref_eth_ops p = x \<and>
        pooled_envelope_tx_hash ref_eth_ops p = tx_hash ref_eth_ops x)"
  using pooled_round_trip [OF ref_pooled.pooled_conversion_axioms,
      of "EvNode \<lparr> signed_tx = sample_tx, signed_signature = sample_signature \<rparr>"]
  by simp

end
