(* ===== verification/Ev_Database.thy ===== *)
theory Ev_Database
  imports Ev_Primitives_Correct
begin

text \<open>
  Storing the transaction envelope (\<open>crates/ev-primitives/src/tx.rs\<close>): \<open>Compact\<close>, \<open>Compress\<close> and
  \<open>Decompress\<close> of \<open>EvTxEnvelope\<close>, and the in-memory sizes of both envelopes. \<open>CompactEnvelope\<close> of
  \<open>reth_codecs\<close>, which frames a transaction over the methods of its type, is a parameter
  (\<open>compact_envelope\<close>, locale \<open>envelope_framing\<close>). \<open>None\<close> is a panic.
\<close>

section \<open>Storing an envelope\<close>

record ('e, 'ty) envelope_methods =
  em_signature :: "'e \<Rightarrow> signature"
  em_tx_type :: "'e \<Rightarrow> 'ty"
  em_type_to_compact :: "'ty \<Rightarrow> bytes \<times> nat"
  em_type_from_compact :: "bytes \<Rightarrow> nat \<Rightarrow> ('ty \<times> bytes) option"
  em_to_tx_compact :: "'e \<Rightarrow> bytes"
  em_from_tx_compact :: "bytes \<Rightarrow> 'ty \<Rightarrow> signature \<Rightarrow> ('e \<times> bytes) option"

record ('e, 'ty) compact_envelope =
  ce_to_compact :: "('e, 'ty) envelope_methods \<Rightarrow> 'e \<Rightarrow> bytes \<times> nat"
  ce_from_compact :: "('e, 'ty) envelope_methods \<Rightarrow> bytes \<Rightarrow> nat \<Rightarrow> ('e \<times> bytes) option"

text \<open>The methods of the envelope, as its trait implementations give them.\<close>

definition ev_methods :: "rlp \<Rightarrow> 'eth compact_codec \<Rightarrow> ('eth ev_tx_envelope, ev_tx_type) envelope_methods" where
  "ev_methods R D =
     \<lparr> em_signature = envelope_signature D, em_tx_type = envelope_tx_type D,
       em_type_to_compact = tx_type_to_compact D, em_type_from_compact = tx_type_from_compact D,
       em_to_tx_compact = to_tx_compact R D, em_from_tx_compact = from_tx_compact R D \<rparr>"

definition envelope_to_compact ::
    "rlp \<Rightarrow> 'eth compact_codec \<Rightarrow> ('eth ev_tx_envelope, ev_tx_type) compact_envelope \<Rightarrow> 'eth ev_tx_envelope
       \<Rightarrow> bytes \<times> nat" where
  "envelope_to_compact R D N e = ce_to_compact N (ev_methods R D) e"

definition envelope_from_compact ::
    "rlp \<Rightarrow> 'eth compact_codec \<Rightarrow> ('eth ev_tx_envelope, ev_tx_type) compact_envelope \<Rightarrow> bytes \<Rightarrow> nat
       \<Rightarrow> ('eth ev_tx_envelope \<times> bytes) option" where
  "envelope_from_compact R D N buf n = ce_from_compact N (ev_methods R D) buf n"

definition compress_to_buf ::
    "rlp \<Rightarrow> 'eth compact_codec \<Rightarrow> ('eth ev_tx_envelope, ev_tx_type) compact_envelope \<Rightarrow> 'eth ev_tx_envelope
       \<Rightarrow> bytes \<Rightarrow> bytes" where
  "compress_to_buf R D N e buf = (case envelope_to_compact R D N e of (bs, _) \<Rightarrow> buf @ bs)"

datatype decompress_error = DecompressError

definition decompress ::
    "rlp \<Rightarrow> 'eth compact_codec \<Rightarrow> ('eth ev_tx_envelope, ev_tx_type) compact_envelope \<Rightarrow> bytes
       \<Rightarrow> (decompress_error + 'eth ev_tx_envelope) option" where
  "decompress R D N val =
     (case envelope_from_compact R D N val (length val) of None \<Rightarrow> None | Some (obj, _) \<Rightarrow> Some (Inr obj))"

section \<open>Sizes\<close>

text \<open>The size of a signed transaction is that of the transaction and of what the signature adds.\<close>

definition envelope_size :: "'eth sizes \<Rightarrow> 'eth ev_tx_envelope \<Rightarrow> nat" where
  "envelope_size Z e =
     (case e of
        Ethereum tx \<Rightarrow> eth_size Z tx
      | EvNode tx \<Rightarrow> evnode_size Z (signed_tx tx) + signed_overhead Z)"

definition pooled_envelope_size :: "'pooled sizes \<Rightarrow> 'pooled ev_pooled_tx_envelope \<Rightarrow> nat" where
  "pooled_envelope_size Z e =
     (case e of
        PooledEthereum tx \<Rightarrow> eth_size Z tx
      | PooledEvNode tx \<Rightarrow> evnode_size Z (signed_tx tx) + signed_overhead Z)"

text \<open>The calls of a batch are accounted for one by one, inputs included.\<close>

lemma evnode_size_calls:
  "evnode_size Z (tx \<lparr> tx_calls := cs @ ds \<rparr>) =
     evnode_size Z (tx \<lparr> tx_calls := cs \<rparr>) + (\<Sum>c\<leftarrow>ds. size_of_call Z + length (call_input c))"
  by (simp add: evnode_size_def call_size_def [abs_def])

section \<open>The contract of the framing\<close>

text \<open>Blob and set-code transactions.\<close>

definition extended_eth :: "'eth compact_codec \<Rightarrow> 'eth ev_tx_envelope \<Rightarrow> bool" where
  "extended_eth D e =
     (case e of Ethereum tx \<Rightarrow> eth_tx_type D tx = Eip4844 \<or> eth_tx_type D tx = Eip7702 | EvNode _ \<Rightarrow> False)"

text \<open>
  What \<open>CompactEnvelope\<close> wrote is read through the methods: the type from its bytes and its
  identifier of two bits, then the transaction under the stored signature.
\<close>

locale envelope_framing =
  fixes N :: "('e, 'ty) compact_envelope"
  assumes reads_back:
    "\<lbrakk>em_type_to_compact M (em_tx_type M x) = (tb, k); k \<le> 3\<rbrakk> \<Longrightarrow>
       map_option fst (ce_from_compact N M (fst (ce_to_compact N M x)) n) =
         (case em_type_from_compact M (tb @ em_to_tx_compact M x) k of
            None \<Rightarrow> None
          | Some (t, buf) \<Rightarrow> map_option fst (em_from_tx_compact M buf t (em_signature M x)))"

text \<open>The storage the node runs on; \<open>alloy_consensus::TxType\<close> writes blob and set-code types as an extended byte.\<close>

locale tx_storage = compact_prims R D + envelope_framing N
  for R :: rlp and D :: "'eth compact_codec" and N :: "('eth ev_tx_envelope, ev_tx_type) compact_envelope" +
  assumes type_bytes: "txtype_to_compact D t =
    (case t of
       Legacy \<Rightarrow> ([], 0)
     | Eip2930 \<Rightarrow> ([], 1)
     | Eip1559 \<Rightarrow> ([], 2)
     | Eip4844 \<Rightarrow> ([3], 3)
     | Eip7702 \<Rightarrow> ([4], 3))"
begin

lemma stored_type:
  "tx_type_to_compact D (envelope_tx_type D e) =
     (case e of
        EvNode _ \<Rightarrow> ([EVNODE_TX_TYPE_ID], 3)
      | Ethereum tx \<Rightarrow>
          (case eth_tx_type D tx of
             Legacy \<Rightarrow> ([], 0)
           | Eip2930 \<Rightarrow> ([], 1)
           | Eip1559 \<Rightarrow> ([], 2)
           | Eip4844 \<Rightarrow> ([3], 3)
           | Eip7702 \<Rightarrow> ([4], 3)))"
  by (simp add: type_bytes COMPACT_EXTENDED_IDENTIFIER_FLAG_def split: ev_tx_envelope.split eth_tx_type.split)

lemma stored_type_read:
  assumes "tx_type_to_compact D (envelope_tx_type D e) = (tb, k)"
  shows "k \<le> 3 \<and> tx_type_from_compact D (tb @ rest) k =
    (if extended_eth D e then None else Some (envelope_tx_type D e, rest))"
proof (cases e)
  case (EvNode tx)
  then show ?thesis using assms
    by (auto simp: extended_eth_def tx_type_from_compact_def COMPACT_EXTENDED_IDENTIFIER_FLAG_def)
next
  case (Ethereum tx)
  then show ?thesis
    using assms tx_type_compact_round_trip [of "TyEthereum (eth_tx_type D tx)" tb k rest]
    by (cases "eth_tx_type D tx")
      (auto simp: extended_eth_def type_bytes COMPACT_EXTENDED_IDENTIFIER_FLAG_def EVNODE_TX_TYPE_ID_def)
qed

lemma database_round_trip:
  assumes "\<And>tx. e = EvNode tx \<Longrightarrow> usize_bytes (tx_encode R (signed_tx tx))"
  shows "decompress R D N (compress_to_buf R D N e []) = (if extended_eth D e then None else Some (Inr e))"
proof -
  let ?M = "ev_methods R D"
  obtain tb k where tk: "tx_type_to_compact D (envelope_tx_type D e) = (tb, k)" by force
  note ty = stored_type_read [OF tk]
  let ?bs = "fst (ce_to_compact N ?M e)"
  have "map_option fst (ce_from_compact N ?M ?bs (length ?bs)) = (if extended_eth D e then None else Some e)"
    using reads_back [of ?M e tb k "length ?bs"] tk ty envelope_compact_round_trip [OF assms, where rest = "[]"]
    by (simp add: ev_methods_def)
  then show ?thesis
    by (auto simp: decompress_def compress_to_buf_def envelope_to_compact_def envelope_from_compact_def
        split: prod.split option.splits if_splits)
qed

end

text \<open>A framing of one identifier byte and the signature.\<close>

definition ref_envelope :: "('e, 'ty) compact_envelope" where
  "ref_envelope =
     \<lparr> ce_to_compact = (\<lambda>M x.
         case em_type_to_compact M (em_tx_type M x) of
           (tb, k) \<Rightarrow> (of_nat k # sig_as_bytes ref_rlp (em_signature M x) @ tb @ em_to_tx_compact M x, 0)),
       ce_from_compact = (\<lambda>M buf n.
         case buf of
           [] \<Rightarrow> None
         | b # rest \<Rightarrow>
             (case sig_from_raw_array ref_rlp (take 65 rest) of
                None \<Rightarrow> None
              | Some s \<Rightarrow>
                  (case em_type_from_compact M (drop 65 rest) (unat b) of
                     None \<Rightarrow> None
                   | Some (t, rest') \<Rightarrow> em_from_tx_compact M rest' t s))) \<rparr>"

interpretation ref_storage: tx_storage ref_rlp ref_compact ref_envelope
proof unfold_locales
  fix M :: "('a ev_tx_envelope, ev_tx_type) envelope_methods" and x tb k n
  assume "em_type_to_compact M (em_tx_type M x) = (tb, k)" and "k \<le> 3"
  moreover have "unat (word_of_nat k :: 8 word) = k"
    using \<open>k \<le> 3\<close> by (simp add: unat_of_nat take_bit_nat_eq_self)
  ultimately show "map_option fst (ce_from_compact ref_envelope M (fst (ce_to_compact ref_envelope M x)) n) =
      (case em_type_from_compact M (tb @ em_to_tx_compact M x) k of
         None \<Rightarrow> None
       | Some (t, buf) \<Rightarrow> map_option fst (em_from_tx_compact M buf t (em_signature M x)))"
    using ref_rlp.sig_bytes_length [of "em_signature M x"] ref_rlp.sig_bytes_round_trip [of "em_signature M x"]
    by (auto simp: ref_envelope_def split: option.split)
next
  fix t
  show "txtype_to_compact ref_compact t =
    (case t of
       Legacy \<Rightarrow> ([], 0)
     | Eip2930 \<Rightarrow> ([], 1)
     | Eip1559 \<Rightarrow> ([], 2)
     | Eip4844 \<Rightarrow> ([3], 3)
     | Eip7702 \<Rightarrow> ([4], 3))"
    by (cases t) (simp_all add: ref_compact_def COMPACT_EXTENDED_IDENTIFIER_FLAG_def)
qed

section \<open>Properties\<close>

text \<open>C12. A transaction stored in the database is read back as the same transaction, type, signature and
  sponsor signature included, for EvNode transactions and for legacy, access-list and dynamic-fee
  Ethereum ones; the reader panics on every stored blob or set-code transaction, whose type the writer
  puts behind the extended identifier and the reader accepts there for EvNode only. No stored
  transaction reads as a different one and no error is returned.\<close>

theorem stored_transaction_round_trip:
  assumes "tx_storage R D N"
    and "\<And>tx. e = EvNode tx \<Longrightarrow> usize_bytes (tx_encode R (signed_tx tx))"
  shows "decompress R D N (compress_to_buf R D N e []) =
    (case e of
       EvNode _ \<Rightarrow> Some (Inr e)
     | Ethereum tx \<Rightarrow>
         if eth_tx_type D tx = Eip4844 \<or> eth_tx_type D tx = Eip7702 then None else Some (Inr e))"
  using tx_storage.database_round_trip [OF assms]
  by (simp add: extended_eth_def split: ev_tx_envelope.split)

theorem stored_transaction_round_trip_witness:
  "(let e = EvNode \<lparr> signed_tx = sample_tx, signed_signature = sample_signature \<rparr>;
        b = Ethereum (Eip7702, sample_signature, [])
    in decompress ref_rlp ref_compact ref_envelope (compress_to_buf ref_rlp ref_compact ref_envelope e []) = Some (Inr e) \<and>
       decompress ref_rlp ref_compact ref_envelope (compress_to_buf ref_rlp ref_compact ref_envelope b []) = None)"
  using stored_transaction_round_trip [OF ref_storage.tx_storage_axioms,
      of "EvNode \<lparr> signed_tx = sample_tx, signed_signature = sample_signature \<rparr>"]
    stored_transaction_round_trip [OF ref_storage.tx_storage_axioms, of "Ethereum (Eip7702, sample_signature, [])"]
    usize_sample
  by (simp add: ref_compact_def)

end
