(* ===== verification/Tx_Env.thy ===== *)
theory Tx_Env
  imports Ev_Primitives
begin

text \<open>
  The transaction environment of \<open>crates/ev-revm/src/tx_env.rs\<close>: a revm \<open>TxEnv\<close> with the sponsor,
  the batch of calls and their total value. Parameters: the conversion of an Ethereum transaction,
  the default \<open>TxEnv\<close> and the \<open>TxEnv\<close> builder, which are revm's.
\<close>

section \<open>Data\<close>

text \<open>\<open>revm::context::TxEnv\<close>.\<close>

record tx_env =
  te_tx_type :: u8
  te_caller :: address
  te_gas_limit :: u64
  te_gas_price :: u128
  te_kind :: tx_kind
  te_value :: u256
  te_data :: bytes
  te_nonce :: u64
  te_chain_id :: "u64 option"
  te_access_list :: access_list
  te_gas_priority_fee :: "u128 option"
  te_blob_hashes :: "b256 list"
  te_max_fee_per_blob_gas :: u128
  te_authorization_list :: "authorization list"

record ev_tx_env =
  env_inner :: tx_env
  env_sponsor :: "address option"
  env_sponsor_signature_invalid :: bool
  env_calls :: "call list"
  env_batch_value :: u256
  env_is_evnode :: bool

record 'eth tx_env_ops =
  default_tx_env :: tx_env
  eth_tx_env :: "'eth \<Rightarrow> address \<Rightarrow> tx_env"
  build_tx_env :: "address \<Rightarrow> bytes \<Rightarrow> tx_kind \<Rightarrow> u64 \<Rightarrow> tx_env option"

definition TX_TYPE_LEGACY :: u8 where
  "TX_TYPE_LEGACY = 0"

definition TX_TYPE_EIP1559 :: u8 where
  "TX_TYPE_EIP1559 = 2"

section \<open>Operations\<close>

definition ev_tx_env_new :: "tx_env \<Rightarrow> ev_tx_env" where
  "ev_tx_env_new inner =
     \<lparr> env_inner = inner, env_sponsor = None, env_sponsor_signature_invalid = False,
       env_calls = [], env_batch_value = te_value inner, env_is_evnode = False \<rparr>"

definition set_call :: "call \<Rightarrow> ev_tx_env \<Rightarrow> ev_tx_env" where
  "set_call c env =
     env \<lparr> env_inner := (env_inner env)
            \<lparr> te_kind := call_to c, te_value := call_value c, te_data := call_input c \<rparr> \<rparr>"

definition set_gas_limit :: "u64 \<Rightarrow> ev_tx_env \<Rightarrow> ev_tx_env" where
  "set_gas_limit g env = env \<lparr> env_inner := (env_inner env) \<lparr> te_gas_limit := g \<rparr> \<rparr>"

definition set_nonce_env :: "u64 \<Rightarrow> ev_tx_env \<Rightarrow> ev_tx_env" where
  "set_nonce_env n env = env \<lparr> env_inner := (env_inner env) \<lparr> te_nonce := n \<rparr> \<rparr>"

definition set_access_list :: "access_list \<Rightarrow> ev_tx_env \<Rightarrow> ev_tx_env" where
  "set_access_list al env = env \<lparr> env_inner := (env_inner env) \<lparr> te_access_list := al \<rparr> \<rparr>"

definition sponsor_of_tx ::
    "rlp \<Rightarrow> crypto \<Rightarrow> ev_node_transaction \<Rightarrow> address \<Rightarrow> address option \<times> bool" where
  "sponsor_of_tx R K tx sender =
     (case tx_fee_payer_signature tx of
        Some s \<Rightarrow> (case recover_sponsor R K tx sender s of
                    Inr a \<Rightarrow> (Some a, False)
                  | Inl _ \<Rightarrow> (None, True))
      | None \<Rightarrow> (None, False))"

definition from_evnode_tx ::
    "rlp \<Rightarrow> crypto \<Rightarrow> 'eth tx_env_ops \<Rightarrow> ev_node_transaction \<Rightarrow> address \<Rightarrow> ev_tx_env" where
  "from_evnode_tx R K T tx sender =
     (let batch_value = foldl (\<lambda>acc c. saturating_add acc (call_value c)) 0 (tx_calls tx);
          env = (default_tx_env T)
            \<lparr> te_caller := sender, te_gas_limit := tx_gas_limit tx,
              te_gas_price := tx_max_fee_per_gas tx,
              te_gas_priority_fee := Some (tx_max_priority_fee_per_gas tx),
              te_kind := (case tx_calls tx of c # _ \<Rightarrow> call_to c | [] \<Rightarrow> TxCreate),
              te_value := batch_value,
              te_data := (case tx_calls tx of c # _ \<Rightarrow> call_input c | [] \<Rightarrow> []),
              te_nonce := tx_nonce tx, te_chain_id := Some (tx_chain_id tx),
              te_access_list := tx_access_list tx, te_tx_type := TX_TYPE_EIP1559 \<rparr> in
      \<lparr> env_inner = env, env_sponsor = fst (sponsor_of_tx R K tx sender),
        env_sponsor_signature_invalid = snd (sponsor_of_tx R K tx sender),
        env_calls = tx_calls tx, env_batch_value = batch_value, env_is_evnode = True \<rparr>)"

fun from_recovered_tx ::
    "rlp \<Rightarrow> crypto \<Rightarrow> 'eth tx_env_ops \<Rightarrow> 'eth ev_tx_envelope \<Rightarrow> address \<Rightarrow> ev_tx_env" where
  "from_recovered_tx R K T (Ethereum e) sender = ev_tx_env_new (eth_tx_env T e sender)"
| "from_recovered_tx R K T (EvNode ev) sender = from_evnode_tx R K T (signed_tx ev) sender"

text \<open>\<open>None\<close> is the panic of \<open>unwrap\<close> when the builder refuses.\<close>

definition new_system_tx_with_caller ::
    "'eth tx_env_ops \<Rightarrow> address \<Rightarrow> address \<Rightarrow> bytes \<Rightarrow> ev_tx_env option" where
  "new_system_tx_with_caller T caller system_contract data =
     map_option ev_tx_env_new (build_tx_env T caller data (TxCall system_contract) 30000000)"

definition batch_calls :: "ev_tx_env \<Rightarrow> call list option" where
  "batch_calls env = (if env_is_evnode env \<or> env_calls env \<noteq> [] then Some (env_calls env) else None)"

definition batch_total_value :: "ev_tx_env \<Rightarrow> u256" where
  "batch_total_value env = env_batch_value env"

definition set_batch_call :: "call \<Rightarrow> ev_tx_env \<Rightarrow> ev_tx_env" where
  "set_batch_call c env = set_call c env"

text \<open>The same traits on a plain \<open>TxEnv\<close>.\<close>

definition plain_sponsor :: "tx_env \<Rightarrow> address option \<times> bool" where
  "plain_sponsor t = (None, False)"

definition plain_batch :: "tx_env \<Rightarrow> call list option \<times> u256" where
  "plain_batch t = (None, te_value t)"

definition plain_set_batch_call :: "call \<Rightarrow> tx_env \<Rightarrow> tx_env" where
  "plain_set_batch_call c t =
     t \<lparr> te_kind := call_to c, te_value := call_value c, te_data := call_input c \<rparr>"

text \<open>The conversions, the derived default and the \<open>Transaction\<close> view revm reads.\<close>

definition ev_tx_env_of :: "tx_env \<Rightarrow> ev_tx_env" where
  "ev_tx_env_of inner =
     \<lparr> env_inner = inner, env_sponsor = None, env_sponsor_signature_invalid = False,
       env_calls = [], env_batch_value = te_value inner, env_is_evnode = False \<rparr>"

definition tx_env_of :: "ev_tx_env \<Rightarrow> tx_env" where
  "tx_env_of env = env_inner env"

definition ev_tx_env_default :: "'eth tx_env_ops \<Rightarrow> ev_tx_env" where
  "ev_tx_env_default T =
     \<lparr> env_inner = default_tx_env T, env_sponsor = None, env_sponsor_signature_invalid = False,
       env_calls = [], env_batch_value = 0, env_is_evnode = False \<rparr>"

definition from_encoded_tx ::
    "rlp \<Rightarrow> crypto \<Rightarrow> 'eth tx_env_ops \<Rightarrow> 'eth ev_tx_envelope \<Rightarrow> address \<Rightarrow> bytes \<Rightarrow> ev_tx_env" where
  "from_encoded_tx R K T tx caller encoded = from_recovered_tx R K T tx caller"

definition to_tx_env :: "ev_tx_env \<Rightarrow> ev_tx_env" where
  "to_tx_env env = env"

record revm_tx_view =
  rt_tx_type :: u8
  rt_caller :: address
  rt_gas_limit :: u64
  rt_value :: u256
  rt_input :: bytes
  rt_nonce :: u64
  rt_kind :: tx_kind
  rt_chain_id :: "u64 option"
  rt_gas_price :: u128
  rt_access_list :: "access_list option"
  rt_blob_versioned_hashes :: "b256 list"
  rt_max_fee_per_blob_gas :: u128
  rt_authorization_list_len :: nat
  rt_max_priority_fee_per_gas :: "u128 option"

definition revm_transaction :: "ev_tx_env \<Rightarrow> revm_tx_view" where
  "revm_transaction env =
     \<lparr> rt_tx_type = te_tx_type (env_inner env), rt_caller = te_caller (env_inner env),
       rt_gas_limit = te_gas_limit (env_inner env), rt_value = te_value (env_inner env),
       rt_input = te_data (env_inner env), rt_nonce = te_nonce (env_inner env),
       rt_kind = te_kind (env_inner env), rt_chain_id = te_chain_id (env_inner env),
       rt_gas_price = te_gas_price (env_inner env),
       rt_access_list = Some (te_access_list (env_inner env)),
       rt_blob_versioned_hashes = te_blob_hashes (env_inner env),
       rt_max_fee_per_blob_gas = te_max_fee_per_blob_gas (env_inner env),
       rt_authorization_list_len = length (te_authorization_list (env_inner env)),
       rt_max_priority_fee_per_gas = te_gas_priority_fee (env_inner env) \<rparr>"

section \<open>Lemmas\<close>

lemma set_call_simps [simp]:
  "env_sponsor (set_call c env) = env_sponsor env"
  "env_sponsor_signature_invalid (set_call c env) = env_sponsor_signature_invalid env"
  "env_calls (set_call c env) = env_calls env"
  "env_batch_value (set_call c env) = env_batch_value env"
  "env_is_evnode (set_call c env) = env_is_evnode env"
  "te_caller (env_inner (set_call c env)) = te_caller (env_inner env)"
  "te_nonce (env_inner (set_call c env)) = te_nonce (env_inner env)"
  "te_gas_limit (env_inner (set_call c env)) = te_gas_limit (env_inner env)"
  "te_gas_price (env_inner (set_call c env)) = te_gas_price (env_inner env)"
  "te_kind (env_inner (set_call c env)) = call_to c"
  "te_value (env_inner (set_call c env)) = call_value c"
  "te_data (env_inner (set_call c env)) = call_input c"
  by (simp_all add: set_call_def)

lemma set_call_overwrite [simp]: "set_call c (set_call d env) = set_call c env"
  by (simp add: set_call_def)

lemma batch_calls_set_call [simp]: "batch_calls (set_call c env) = batch_calls env"
  by (simp add: batch_calls_def)

lemma batch_calls_evnode: "batch_calls (from_evnode_tx R K T tx sender) = Some (tx_calls tx)"
  by (simp add: batch_calls_def from_evnode_tx_def Let_def)

lemma batch_calls_new [simp]: "batch_calls (ev_tx_env_new t) = None"
  by (simp add: batch_calls_def ev_tx_env_new_def)

text \<open>The environment of a recovered transaction carries the transaction: for an EvNode
  transaction the inner environment is its \<open>Transaction\<close> view (caller, limits, fees, nonce, value,
  kind and input of the first call), the batch is its calls, and the sponsor is the address that
  signed the sponsor hash for this sender, absent and flagged when recovery fails; an Ethereum
  transaction has no batch and no sponsor.\<close>

lemma from_recovered_tx_correct:
  "(let env = from_recovered_tx R K T (EvNode ev) sender; tx = signed_tx ev; v = evnode_view tx;
        t = env_inner env in
    te_caller t = sender \<and> te_gas_limit t = view_gas_limit v \<and> te_nonce t = view_nonce v \<and>
    te_gas_price t = view_max_fee_per_gas v \<and>
    te_gas_priority_fee t = view_max_priority_fee_per_gas v \<and> te_chain_id t = view_chain_id v \<and>
    te_kind t = view_kind v \<and> te_value t = view_value v \<and> te_data t = view_input v \<and>
    Some (te_access_list t) = view_access_list v \<and>
    batch_calls env = Some (tx_calls tx) \<and> batch_total_value env = tx_value tx \<and>
    (env_sponsor_signature_invalid env \<longleftrightarrow>
       (\<exists>s e. tx_fee_payer_signature tx = Some s \<and> recover_sponsor R K tx sender s = Inl e)) \<and>
    (\<forall>a. env_sponsor env = Some a \<longleftrightarrow>
       (\<exists>s. tx_fee_payer_signature tx = Some s \<and> recover_sponsor R K tx sender s = Inr a))) \<and>
   (let env = from_recovered_tx R K T (Ethereum e) sender in
    env_inner env = eth_tx_env T e sender \<and> batch_calls env = None \<and> env_sponsor env = None \<and>
    batch_total_value env = te_value (env_inner env))"
  by (auto simp: from_evnode_tx_def evnode_view_def sponsor_of_tx_def batch_calls_def
      batch_total_value_def tx_kind_of_def first_call_def tx_input_def tx_value_def Let_def
      ev_tx_env_new_def split: option.split list.split sum.split)

text \<open>Running one call of a batch changes kind, value and data of the inner environment and
  nothing else, the last call set wins, and on an environment without a batch the wrapper behaves
  as the plain \<open>TxEnv\<close> it wraps.\<close>

lemma set_batch_call_frame:
  "env_inner (set_batch_call c env) = plain_set_batch_call c (env_inner env) \<and>
   set_batch_call c (set_batch_call d env) = set_batch_call c env \<and>
   set_batch_call c env \<lparr> env_inner := env_inner env \<rparr> = env \<and>
   set_batch_call \<lparr> call_to = te_kind (env_inner env), call_value = te_value (env_inner env),
     call_input = te_data (env_inner env) \<rparr> env = env \<and>
   (batch_calls (ev_tx_env_new t), batch_total_value (ev_tx_env_new t)) = plain_batch t \<and>
   (env_sponsor (ev_tx_env_new t), env_sponsor_signature_invalid (ev_tx_env_new t)) = plain_sponsor t"
  by (simp add: set_batch_call_def set_call_def plain_set_batch_call_def plain_batch_def
      plain_sponsor_def batch_calls_def batch_total_value_def ev_tx_env_new_def)

end
