(* ===== verification/Tx_Env_Types.thy ===== *)
theory Tx_Env_Types
  imports Tx_Env Ev_Primitives_Correct
begin

text \<open>
  The design of \<open>EvTxEnv\<close> (\<open>crates/ev-revm/src/tx_env.rs\<close>): one struct with a flag instead of two
  types. Every environment its constructors and setters can produce is shown to be of one kind.
\<close>

section \<open>One struct for two kinds of transaction\<close>

text \<open>
  The environments a node can hold: built by one of the constructors, then changed by the setters
  of revm and of the batch loop.
\<close>

inductive reachable_env :: "rlp \<Rightarrow> crypto \<Rightarrow> 'eth tx_env_ops \<Rightarrow> ev_tx_env \<Rightarrow> bool"
  for R K T where
  env_default: "reachable_env R K T (ev_tx_env_default T)"
| env_new: "reachable_env R K T (ev_tx_env_new t)"
| env_of: "reachable_env R K T (ev_tx_env_of t)"
| env_recovered: "reachable_env R K T (from_recovered_tx R K T tx sender)"
| env_encoded: "reachable_env R K T (from_encoded_tx R K T tx sender encoded)"
| env_system: "new_system_tx_with_caller T caller a data = Some env \<Longrightarrow> reachable_env R K T env"
| env_set_call: "reachable_env R K T env \<Longrightarrow> reachable_env R K T (set_call c env)"
| env_set_batch_call: "reachable_env R K T env \<Longrightarrow> reachable_env R K T (set_batch_call c env)"
| env_set_gas_limit: "reachable_env R K T env \<Longrightarrow> reachable_env R K T (set_gas_limit g env)"
| env_set_nonce: "reachable_env R K T env \<Longrightarrow> reachable_env R K T (set_nonce_env n env)"
| env_set_access_list: "reachable_env R K T env \<Longrightarrow> reachable_env R K T (set_access_list al env)"
| env_to_tx_env: "reachable_env R K T env \<Longrightarrow> reachable_env R K T (to_tx_env env)"

definition env_wf :: "ev_tx_env \<Rightarrow> bool" where
  "env_wf env \<longleftrightarrow>
     (if env_is_evnode env
      then te_tx_type (env_inner env) = TX_TYPE_EIP1559 \<and>
        unat (env_batch_value env) = min (\<Sum>c\<leftarrow>env_calls env. unat (call_value c)) (2 ^ 256 - 1) \<and>
        \<not> (env_sponsor env \<noteq> None \<and> env_sponsor_signature_invalid env)
      else env_calls env = [] \<and> env_sponsor env = None \<and> \<not> env_sponsor_signature_invalid env)"

lemma env_wf_plain:
  "env_wf (ev_tx_env_new t)" "env_wf (ev_tx_env_of t)" "env_wf (ev_tx_env_default T)"
  by (simp_all add: env_wf_def ev_tx_env_new_def ev_tx_env_of_def ev_tx_env_default_def)

lemma env_wf_setters:
  "env_wf env \<Longrightarrow> env_wf (set_call c env)" "env_wf env \<Longrightarrow> env_wf (set_gas_limit g env)"
  "env_wf env \<Longrightarrow> env_wf (set_nonce_env n env)" "env_wf env \<Longrightarrow> env_wf (set_access_list al env)"
  by (auto simp: env_wf_def set_call_def set_gas_limit_def set_nonce_env_def set_access_list_def)

lemma env_wf_recovered: "env_wf (from_recovered_tx R K T tx sender)"
proof (cases tx)
  case (EvNode ev)
  have "\<not> (fst (sponsor_of_tx R K t s) \<noteq> None \<and> snd (sponsor_of_tx R K t s))" for t s
    by (auto simp: sponsor_of_tx_def split: option.splits sum.splits)
  then show ?thesis
    by (auto simp: EvNode from_evnode_tx_def env_wf_def Let_def foldl_saturating_add split: prod.splits)
qed (simp add: env_wf_plain)

lemma reachable_env_wf: "reachable_env R K T env \<Longrightarrow> env_wf env"
proof (induction rule: reachable_env.induct)
  case (env_system caller a data env)
  then show ?case by (auto simp: new_system_tx_with_caller_def env_wf_plain)
qed (simp_all add: env_wf_plain env_wf_setters env_wf_recovered from_encoded_tx_def set_batch_call_def to_tx_env_def)

text \<open>C37. The single struct is as good as two types: in every environment that the constructors and
  setters can produce, the flag decides the kind of transaction. Without it the environment has no
  batch, no sponsor and no invalid sponsor, exactly as the plain \<open>TxEnv\<close> inside it; with it there is
  a batch (possibly empty), the inner transaction is of type EIP-1559, the total value is the sum of
  the values of the calls capped at the largest word, and a sponsor is never both present and
  flagged as unrecoverable.\<close>

theorem env_type_sound:
  assumes "reachable_env R K T env"
  shows "if env_is_evnode env
    then batch_calls env = Some (env_calls env) \<and> te_tx_type (tx_env_of env) = 2 \<and>
      unat (batch_total_value env) = min (\<Sum>c\<leftarrow>env_calls env. unat (call_value c)) (2 ^ 256 - 1) \<and>
      (env_sponsor env = None \<or> \<not> env_sponsor_signature_invalid env)
    else batch_calls env = fst (plain_batch (tx_env_of env)) \<and>
      (env_sponsor env, env_sponsor_signature_invalid env) = plain_sponsor (tx_env_of env)"
  using reachable_env_wf [OF assms]
  by (auto simp: env_wf_def batch_calls_def batch_total_value_def plain_batch_def plain_sponsor_def TX_TYPE_EIP1559_def
      tx_env_of_def)

definition plain_env_ops :: "ref_eth tx_env_ops" where
  "plain_env_ops =
     (let t = \<lparr> te_tx_type = 0, te_caller = 0, te_gas_limit = 0, te_gas_price = 0, te_kind = TxCreate, te_value = 0,
            te_data = [], te_nonce = 0, te_chain_id = None, te_access_list = [], te_gas_priority_fee = None,
            te_blob_hashes = [], te_max_fee_per_blob_gas = 0, te_authorization_list = [] \<rparr>
      in \<lparr> default_tx_env = t, eth_tx_env = (\<lambda>e sender. t \<lparr> te_caller := sender \<rparr>),
           build_tx_env = (\<lambda>caller data kind gas. Some (t \<lparr> te_caller := caller, te_data := data, te_kind := kind,
             te_gas_limit := gas \<rparr>)) \<rparr>)"

text \<open>The second call of the sample is set: the total value is still that of the whole batch.\<close>

theorem env_type_sound_witness:
  "let env = set_call \<lparr> call_to = TxCall 0xBB, call_value = 6, call_input = [] \<rparr>
     (from_recovered_tx ref_rlp sample_crypto plain_env_ops
        (EvNode \<lparr> signed_tx = sample_tx, signed_signature = sample_signature \<rparr>) 0xCC)
   in batch_calls env = Some (tx_calls sample_tx) \<and> unat (batch_total_value env) = 11"
proof -
  let ?env = "set_call \<lparr> call_to = TxCall 0xBB, call_value = 6, call_input = [] \<rparr>
     (from_recovered_tx ref_rlp sample_crypto plain_env_ops
        (EvNode \<lparr> signed_tx = sample_tx, signed_signature = sample_signature \<rparr>) 0xCC)"
  have r: "reachable_env ref_rlp sample_crypto plain_env_ops ?env" by (intro env_set_call env_recovered)
  have k: "env_is_evnode ?env" "env_calls ?env = tx_calls sample_tx"
    by (simp_all add: from_evnode_tx_def Let_def split: prod.split)
  show ?thesis
    using env_type_sound [OF r] k by (simp add: sample_tx_def)
qed

end
