(* ===== verification/Revm_Interface.thy ===== *)
theory Revm_Interface
  imports Tx_Env
begin

text \<open>
  What the EV handler uses of revm, as parameters with contracts: the journaled state (accounts
  and checkpoints), the interpreter loop, the gas counter of a frame and the derived fee methods
  of a transaction. The contracts are locales; a concrete journal (a stack of snapshots), gas
  counter and interpreter at the end interpret them.
\<close>

section \<open>Data\<close>

datatype spec_id = FRONTIER | FRONTIER_THAWING | HOMESTEAD | DAO_FORK | TANGERINE | SPURIOUS_DRAGON
  | BYZANTIUM | CONSTANTINOPLE | PETERSBURG | ISTANBUL | MUIR_GLACIER | BERLIN | LONDON
  | ARROW_GLACIER | GRAY_GLACIER | MERGE | SHANGHAI | CANCUN | PRAGUE | OSAKA | AMSTERDAM

definition spec_order :: "spec_id list" where
  "spec_order = [FRONTIER, FRONTIER_THAWING, HOMESTEAD, DAO_FORK, TANGERINE, SPURIOUS_DRAGON,
     BYZANTIUM, CONSTANTINOPLE, PETERSBURG, ISTANBUL, MUIR_GLACIER, BERLIN, LONDON,
     ARROW_GLACIER, GRAY_GLACIER, MERGE, SHANGHAI, CANCUN, PRAGUE, OSAKA, AMSTERDAM]"

fun index_in :: "'a list \<Rightarrow> 'a \<Rightarrow> nat" where
  "index_in [] y = 0"
| "index_in (x # xs) y = (if x = y then 0 else Suc (index_in xs y))"

lemma nth_index_in: "y \<in> set xs \<Longrightarrow> xs ! index_in xs y = y"
  by (induction xs) auto

lemma in_spec_order [simp]: "s \<in> set spec_order"
  by (cases s) (simp_all add: spec_order_def)

instantiation spec_id :: linorder
begin

definition less_eq_spec_id :: "spec_id \<Rightarrow> spec_id \<Rightarrow> bool" where
  "s \<le> t \<longleftrightarrow> index_in spec_order s \<le> index_in spec_order t"

definition less_spec_id :: "spec_id \<Rightarrow> spec_id \<Rightarrow> bool" where
  "s < t \<longleftrightarrow> index_in spec_order s < index_in spec_order t"

instance
proof
  fix s t :: spec_id
  assume "s \<le> t" "t \<le> s"
  then have "index_in spec_order s = index_in spec_order t" by (simp add: less_eq_spec_id_def)
  then show "s = t" by (metis nth_index_in in_spec_order)
qed (auto simp: less_eq_spec_id_def less_spec_id_def)

end

definition is_enabled_in :: "spec_id \<Rightarrow> spec_id \<Rightarrow> bool" where
  "is_enabled_in s other \<longleftrightarrow> other \<le> s"

datatype bytecode = LegacyCode bytes | Eip7702Code address

fun code_is_empty :: "bytecode \<Rightarrow> bool" where
  "code_is_empty (LegacyCode bs) \<longleftrightarrow> bs = []"
| "code_is_empty (Eip7702Code _) \<longleftrightarrow> False"

fun code_is_eip7702 :: "bytecode \<Rightarrow> bool" where
  "code_is_eip7702 (LegacyCode _) \<longleftrightarrow> False"
| "code_is_eip7702 (Eip7702Code _) \<longleftrightarrow> True"

record account_info =
  ai_balance :: u256
  ai_nonce :: u64
  ai_code :: "bytecode option"

type_synonym accounts = "address \<Rightarrow> account_info"

datatype invalid_transaction =
    RejectCallerWithCode
  | NonceTooHigh u64 u64
  | NonceTooLow u64 u64
  | LackOfFundForMaxFee u256 u256
  | CallGasCostMoreThanGasLimit u64 u64
  | GasFloorMoreThanGasLimit u64 u64
  | OverflowPaymentInTransaction

datatype 'd evm_error = DbError 'd | TxError invalid_transaction | CustomError string | Panic string

datatype instruction_result = IrOk | IrRevert | IrHalt

fun ir_is_ok :: "instruction_result \<Rightarrow> bool" where
  "ir_is_ok IrOk \<longleftrightarrow> True"
| "ir_is_ok _ \<longleftrightarrow> False"

fun ir_is_ok_or_revert :: "instruction_result \<Rightarrow> bool" where
  "ir_is_ok_or_revert IrHalt \<longleftrightarrow> False"
| "ir_is_ok_or_revert _ \<longleftrightarrow> True"

record 'g frame_result =
  fr_result :: instruction_result
  fr_output :: bytes
  fr_gas :: 'g

record initial_gas =
  ig_total :: u64
  ig_state :: u64
  ig_floor :: u64
  ig_eip7702_reservoir_refund :: u64

record block_env =
  blk_number :: u256
  blk_basefee :: u64
  blk_blob_gasprice :: "u128 option"
  blk_beneficiary :: address
  blk_gas_limit :: u64

record cfg_env =
  cfg_spec :: spec_id
  cfg_balance_check_disabled :: bool
  cfg_eip3607_disabled :: bool
  cfg_nonce_check_disabled :: bool
  cfg_eip7623_disabled :: bool
  cfg_eip8037_enabled :: bool
  cfg_tx_gas_limit_cap :: u64

record 'j evm_ctx =
  ctx_block :: block_env
  ctx_cfg :: cfg_env
  ctx_tx :: ev_tx_env
  ctx_journal :: 'j

section \<open>The journal\<close>

text \<open>
  \<open>jn_load\<close> stands for \<open>load_account\<close> and \<open>load_account_mut\<close>, \<open>jn_load_code\<close> for
  \<open>load_account_with_code_mut\<close>: both warm the account and hand out its contents, or fail in the
  database. \<open>jn_set_balance\<close> and \<open>jn_set_nonce\<close> are the setters of the handed-out account.
\<close>

record ('j, 'cp, 'd) journal_ops =
  jn_load :: "address \<Rightarrow> ('j, 'd, account_info) st"
  jn_load_code :: "address \<Rightarrow> ('j, 'd, account_info) st"
  jn_set_balance :: "address \<Rightarrow> u256 \<Rightarrow> 'j \<Rightarrow> 'j"
  jn_set_nonce :: "address \<Rightarrow> u64 \<Rightarrow> 'j \<Rightarrow> 'j"
  jn_balance_incr :: "address \<Rightarrow> u256 \<Rightarrow> ('j, 'd, unit) st"
  jn_checkpoint :: "'j \<Rightarrow> 'cp \<times> 'j"
  jn_checkpoint_commit :: "'j \<Rightarrow> 'j"
  jn_checkpoint_revert :: "'cp \<Rightarrow> 'j \<Rightarrow> 'j"

text \<open>
  \<open>info\<close> reads the accounts of a journal and \<open>saved j cp\<close> the accounts a revert to \<open>cp\<close> would
  restore.
\<close>

locale journal =
  fixes J :: "('j, 'cp, 'd) journal_ops"
    and info :: "'j \<Rightarrow> accounts"
    and saved :: "'j \<Rightarrow> 'cp \<Rightarrow> accounts option"
  assumes load_info: "jn_load J a j = (r, j') \<Longrightarrow> info j' = info j"
    and load_saved: "jn_load J a j = (r, j') \<Longrightarrow> saved j' = saved j"
    and load_value: "jn_load J a j = (Inr i, j') \<Longrightarrow>
      ai_balance i = ai_balance (info j a) \<and> ai_nonce i = ai_nonce (info j a)"
    and load_code_info: "jn_load_code J a j = (r, j') \<Longrightarrow> info j' = info j"
    and load_code_saved: "jn_load_code J a j = (r, j') \<Longrightarrow> saved j' = saved j"
    and load_code_value: "jn_load_code J a j = (Inr i, j') \<Longrightarrow> i = info j a"
    and set_balance_info:
      "info (jn_set_balance J a v j) = (info j) (a := (info j a) \<lparr> ai_balance := v \<rparr>)"
    and set_balance_saved: "saved (jn_set_balance J a v j) = saved j"
    and set_nonce_info:
      "info (jn_set_nonce J a n j) = (info j) (a := (info j a) \<lparr> ai_nonce := n \<rparr>)"
    and set_nonce_saved: "saved (jn_set_nonce J a n j) = saved j"
    and balance_incr_info:
      "jn_balance_incr J a v j = (Inr (), j') \<Longrightarrow>
       unat (ai_balance (info j a)) + unat v < 2 ^ 256 \<Longrightarrow>
       info j' = (info j) (a := (info j a) \<lparr> ai_balance := ai_balance (info j a) + v \<rparr>)"
    and checkpoint_info: "jn_checkpoint J j = (cp, j') \<Longrightarrow> info j' = info j"
    and checkpoint_saved: "jn_checkpoint J j = (cp, j') \<Longrightarrow> saved j' cp = Some (info j)"
    and commit_info: "info (jn_checkpoint_commit J j) = info j"
    and revert_info: "saved j cp = Some accs \<Longrightarrow> info (jn_checkpoint_revert J cp j) = accs"

section \<open>Gas, fees and the interpreter\<close>

record 'g gas_ops =
  gas_new_spent :: "u64 \<Rightarrow> 'g"
  gas_erase_cost :: "u64 \<Rightarrow> 'g \<Rightarrow> 'g"
  gas_record_refund :: "i64 \<Rightarrow> 'g \<Rightarrow> 'g"
  gas_set_state_gas_spent :: "u64 \<Rightarrow> 'g \<Rightarrow> 'g"
  gas_set_reservoir :: "u64 \<Rightarrow> 'g \<Rightarrow> 'g"
  gas_limit_of :: "'g \<Rightarrow> u64"
  gas_remaining :: "'g \<Rightarrow> u64"
  gas_refunded :: "'g \<Rightarrow> i64"
  gas_reservoir :: "'g \<Rightarrow> u64"
  gas_state_spent :: "'g \<Rightarrow> u64"
  gas_spent_sub_refunded :: "'g \<Rightarrow> u64"

text \<open>A fresh counter has spent its whole limit; \<open>erase_cost\<close> gives gas back; the rest are fields.\<close>

locale gas_meter =
  fixes G :: "'g gas_ops"
  assumes new_spent:
      "gas_limit_of G (gas_new_spent G n) = n" "gas_remaining G (gas_new_spent G n) = 0"
      "gas_refunded G (gas_new_spent G n) = 0"
    and erase_cost:
      "gas_remaining G (gas_erase_cost G c g) = gas_remaining G g + c"
      "gas_limit_of G (gas_erase_cost G c g) = gas_limit_of G g"
      "gas_refunded G (gas_erase_cost G c g) = gas_refunded G g"
    and record_refund:
      "gas_refunded G (gas_record_refund G r g) = gas_refunded G g + r"
      "gas_remaining G (gas_record_refund G r g) = gas_remaining G g"
      "gas_limit_of G (gas_record_refund G r g) = gas_limit_of G g"
    and set_state_gas_spent:
      "gas_state_spent G (gas_set_state_gas_spent G s g) = s"
      "gas_remaining G (gas_set_state_gas_spent G s g) = gas_remaining G g"
      "gas_refunded G (gas_set_state_gas_spent G s g) = gas_refunded G g"
      "gas_limit_of G (gas_set_state_gas_spent G s g) = gas_limit_of G g"
    and set_reservoir:
      "gas_reservoir G (gas_set_reservoir G s g) = s"
      "gas_remaining G (gas_set_reservoir G s g) = gas_remaining G g"
      "gas_refunded G (gas_set_reservoir G s g) = gas_refunded G g"
      "gas_state_spent G (gas_set_reservoir G s g) = gas_state_spent G g"
      "gas_limit_of G (gas_set_reservoir G s g) = gas_limit_of G g"
begin

lemmas gas_laws = new_spent erase_cost record_refund set_state_gas_spent set_reservoir

end

text \<open>The provided methods of revm's \<open>Transaction\<close> trait, over the inner environment.\<close>

record fee_ops =
  fee_effective_gas_price :: "tx_env \<Rightarrow> u128 \<Rightarrow> u128"
  fee_max_fee_per_gas :: "tx_env \<Rightarrow> u128"
  fee_effective_balance_spending :: "tx_env \<Rightarrow> u128 \<Rightarrow> u128 \<Rightarrow> u256 option"
  fee_blob_fee :: "tx_env \<Rightarrow> u128 \<Rightarrow> nat"

text \<open>
  The effective price is capped by the maximum. The effective spending is the value, the gas limit
  at the effective price and the blob fee: the gas cost is a checked product of \<open>u128\<close>, the sums are
  checked at 256 bits, and it fails exactly when one of them overflows. The blob fee is that of a
  blob transaction, saturated at 128 bits.
\<close>

locale tx_fees =
  fixes F :: fee_ops
  assumes effective_le_max: "fee_effective_gas_price F t b \<le> fee_max_fee_per_gas F t"
    and spending:
      "fee_effective_balance_spending F t b p = Some s \<longleftrightarrow>
       unat (te_gas_limit t) * unat (fee_effective_gas_price F t b) < 2 ^ 128 \<and>
       unat s = unat (te_value t) + unat (te_gas_limit t) * unat (fee_effective_gas_price F t b)
                + fee_blob_fee F t p"

text \<open>
  The mainnet handler's steps that the EV handler delegates to, on the whole context, and the gas
  schedule: \<open>calculate_initial_tx_gas\<close> and the constants of access lists and authorizations.
\<close>

record ('j, 'g, 'd, 'fi) mainnet_ops =
  mn_validate_env :: "('j evm_ctx, 'd evm_error, unit) st"
  mn_validate_initial_tx_gas :: "('j evm_ctx, 'd evm_error, initial_gas) st"
  mn_execution :: "initial_gas \<Rightarrow> ('j evm_ctx, 'd evm_error, 'g frame_result) st"
  mn_first_frame_input :: "u64 \<Rightarrow> u64 \<Rightarrow> ('j evm_ctx, 'd evm_error, 'fi) st"
  mn_run_exec_loop :: "'fi \<Rightarrow> ('j evm_ctx, 'd evm_error, 'g frame_result) st"
  mn_reimburse_caller :: "'g frame_result \<Rightarrow> ('j evm_ctx, 'd evm_error, unit) st"
  mn_reward_beneficiary :: "'g \<Rightarrow> ('j evm_ctx, 'd evm_error, unit) st"
  mn_initial_gas_and_reservoir :: "initial_gas \<Rightarrow> u64 \<Rightarrow> u64 \<Rightarrow> bool \<Rightarrow> u64 \<times> u64"
  mn_calculate_initial_tx_gas :: "spec_id \<Rightarrow> bytes \<Rightarrow> bool \<Rightarrow> initial_gas"
  ACCESS_LIST_ADDRESS :: u64
  ACCESS_LIST_STORAGE_KEY :: u64
  PER_EMPTY_ACCOUNT_COST :: u64

text \<open>
  A frame may change the accounts but not what an older checkpoint saved, nor the block, the
  configuration or the transaction of the context.
\<close>

locale interpreter = journal J info saved
  for J :: "('j, 'cp, 'd) journal_ops"
    and info :: "'j \<Rightarrow> accounts"
    and saved :: "'j \<Rightarrow> 'cp \<Rightarrow> accounts option" +
  fixes M :: "('j, 'g, 'd, 'fi) mainnet_ops"
  assumes first_frame_saved:
      "mn_first_frame_input M g r c = (res, c') \<Longrightarrow> saved (ctx_journal c) cp = Some v \<Longrightarrow>
       saved (ctx_journal c') cp = Some v"
    and first_frame_info: "mn_first_frame_input M g r c = (res, c') \<Longrightarrow>
       info (ctx_journal c') = info (ctx_journal c)"
    and run_loop_saved:
      "mn_run_exec_loop M fi c = (out, c') \<Longrightarrow> saved (ctx_journal c) cp = Some v \<Longrightarrow>
       saved (ctx_journal c') cp = Some v"
    and first_frame_ctx: "mn_first_frame_input M g r c = (res, c') \<Longrightarrow>
       ctx_tx c' = ctx_tx c \<and> ctx_cfg c' = ctx_cfg c \<and> ctx_block c' = ctx_block c"
    and run_loop_ctx: "mn_run_exec_loop M fi c = (out, c') \<Longrightarrow>
       ctx_tx c' = ctx_tx c \<and> ctx_cfg c' = ctx_cfg c \<and> ctx_block c' = ctx_block c"

section \<open>A concrete instance\<close>

text \<open>
  The journal keeps the accounts, the stack of snapshots and the addresses whose load fails in the
  database. The interpreter transfers the value of a call whose input is empty, reverts on a call
  whose input starts with \<open>1\<close>, halts on one that starts with \<open>2\<close>, and spends 21000 gas.
\<close>

record ref_journal =
  rj_accounts :: accounts
  rj_stack :: "accounts list"
  rj_broken :: "address list"

definition ref_load :: "address \<Rightarrow> (ref_journal, string, account_info) st" where
  "ref_load a j = (if a \<in> set (rj_broken j) then Inl ''db'' else Inr (rj_accounts j a), j)"

definition ref_update :: "address \<Rightarrow> (account_info \<Rightarrow> account_info) \<Rightarrow> ref_journal \<Rightarrow> ref_journal" where
  "ref_update a f j = j \<lparr> rj_accounts := (rj_accounts j) (a := f (rj_accounts j a)) \<rparr>"

definition ref_journal_ops :: "(ref_journal, nat, string) journal_ops" where
  "ref_journal_ops =
     \<lparr> jn_load = ref_load, jn_load_code = ref_load,
       jn_set_balance = (\<lambda>a v. ref_update a (ai_balance_update (\<lambda>_. v))),
       jn_set_nonce = (\<lambda>a n. ref_update a (ai_nonce_update (\<lambda>_. n))),
       jn_balance_incr = (\<lambda>a v j.
         if a \<in> set (rj_broken j) then (Inl ''db'', j)
         else (Inr (), ref_update a (ai_balance_update (\<lambda>b. saturating_add b v)) j)),
       jn_checkpoint = (\<lambda>j. (length (rj_stack j), j \<lparr> rj_stack := rj_stack j @ [rj_accounts j] \<rparr>)),
       jn_checkpoint_commit = (\<lambda>j. j \<lparr> rj_stack := butlast (rj_stack j) \<rparr>),
       jn_checkpoint_revert = (\<lambda>cp j. j \<lparr> rj_accounts := rj_stack j ! cp, rj_stack := take cp (rj_stack j) \<rparr>) \<rparr>"

definition ref_saved :: "ref_journal \<Rightarrow> nat \<Rightarrow> accounts option" where
  "ref_saved j cp = (if cp < length (rj_stack j) then Some (rj_stack j ! cp) else None)"

interpretation ref_journal: journal ref_journal_ops rj_accounts ref_saved
  by unfold_locales
    (auto simp: ref_journal_ops_def ref_load_def ref_update_def ref_saved_def saturating_add_def
      fun_eq_iff split: if_splits)

record ref_gas =
  rg_limit :: u64
  rg_remaining :: u64
  rg_refunded :: i64
  rg_reservoir :: u64
  rg_state_spent :: u64

definition ref_gas_ops :: "ref_gas gas_ops" where
  "ref_gas_ops =
     \<lparr> gas_new_spent = (\<lambda>n. \<lparr> rg_limit = n, rg_remaining = 0, rg_refunded = 0, rg_reservoir = 0,
                              rg_state_spent = 0 \<rparr>),
       gas_erase_cost = (\<lambda>c. rg_remaining_update (\<lambda>r. r + c)),
       gas_record_refund = (\<lambda>x. rg_refunded_update (\<lambda>r. r + x)),
       gas_set_state_gas_spent = (\<lambda>s. rg_state_spent_update (\<lambda>_. s)),
       gas_set_reservoir = (\<lambda>s. rg_reservoir_update (\<lambda>_. s)),
       gas_limit_of = rg_limit, gas_remaining = rg_remaining, gas_refunded = rg_refunded,
       gas_reservoir = rg_reservoir, gas_state_spent = rg_state_spent,
       gas_spent_sub_refunded =
         (\<lambda>g. rg_limit g - rg_remaining g - of_int (rg_refunded g)) \<rparr>"

interpretation ref_gas: gas_meter ref_gas_ops
  by unfold_locales (simp_all add: ref_gas_ops_def)

definition ref_effective_gas_price :: "tx_env \<Rightarrow> u128 \<Rightarrow> u128" where
  "ref_effective_gas_price t b =
     (case te_gas_priority_fee t of
        None \<Rightarrow> te_gas_price t
      | Some p \<Rightarrow> min (te_gas_price t) (saturating_add b p))"

definition ref_blob_fee :: "tx_env \<Rightarrow> u128 \<Rightarrow> nat" where
  "ref_blob_fee t p =
     (if te_tx_type t = 3 then min (unat p * length (te_blob_hashes t) * 131072) (2 ^ 128 - 1) else 0)"

definition ref_fees :: fee_ops where
  "ref_fees =
     \<lparr> fee_effective_gas_price = ref_effective_gas_price,
       fee_max_fee_per_gas = te_gas_price,
       fee_effective_balance_spending = (\<lambda>t b p.
         let gas_cost = unat (te_gas_limit t) * unat (ref_effective_gas_price t b);
             n = unat (te_value t) + gas_cost + ref_blob_fee t p in
         if gas_cost < 2 ^ 128 \<and> n < 2 ^ 256 then Some (of_nat n) else None),
       fee_blob_fee = ref_blob_fee \<rparr>"

interpretation ref_fees: tx_fees ref_fees
proof
  fix t b
  show "fee_effective_gas_price ref_fees t b \<le> fee_max_fee_per_gas ref_fees t"
    by (simp add: ref_fees_def ref_effective_gas_price_def split: option.split)
next
  fix t b p and s :: u256
  have "(if g \<and> n < 2 ^ 256 then Some (of_nat n) else None) = Some s \<longleftrightarrow> g \<and> unat s = n" for g n
    using unat_bound [of s] by (auto simp: unat_of_nat)
  then show "fee_effective_balance_spending ref_fees t b p = Some s \<longleftrightarrow>
       unat (te_gas_limit t) * unat (fee_effective_gas_price ref_fees t b) < 2 ^ 128 \<and>
       unat s = unat (te_value t) + unat (te_gas_limit t) * unat (fee_effective_gas_price ref_fees t b)
                + fee_blob_fee ref_fees t p"
    by (simp add: ref_fees_def Let_def)
qed

definition ref_transfer :: "address \<Rightarrow> address \<Rightarrow> u256 \<Rightarrow> ref_journal \<Rightarrow> ref_journal" where
  "ref_transfer a b v j =
     ref_update b (ai_balance_update (\<lambda>x. x + v)) (ref_update a (ai_balance_update (\<lambda>x. x - v)) j)"

definition ref_result :: "bytes \<Rightarrow> instruction_result" where
  "ref_result data =
     (case data of [] \<Rightarrow> IrOk | b # _ \<Rightarrow> if b = 1 then IrRevert else if b = 2 then IrHalt else IrOk)"

definition ref_run ::
    "u64 \<times> u64 \<Rightarrow> (ref_journal evm_ctx, string evm_error, ref_gas frame_result) st" where
  "ref_run fi c =
     (let t = env_inner (ctx_tx c);
          g = \<lparr> rg_limit = fst fi, rg_remaining = saturating_sub (fst fi) 21000, rg_refunded = 0,
                rg_reservoir = snd fi, rg_state_spent = 0 \<rparr>;
          j = (case te_kind t of
                 TxCall a \<Rightarrow> ref_transfer (te_caller t) a (te_value t) (ctx_journal c)
               | TxCreate \<Rightarrow> ref_update (te_caller t) (ai_nonce_update (\<lambda>n. saturating_add n 1)) (ctx_journal c)) in
      (Inr \<lparr> fr_result = ref_result (te_data t), fr_output = te_data t, fr_gas = g \<rparr>,
       c \<lparr> ctx_journal := j \<rparr>))"

definition ref_mainnet :: "(ref_journal, ref_gas, string, u64 \<times> u64) mainnet_ops" where
  "ref_mainnet =
     \<lparr> mn_validate_env = st_return (),
       mn_validate_initial_tx_gas =
         st_return \<lparr> ig_total = 21000, ig_state = 0, ig_floor = 0, ig_eip7702_reservoir_refund = 0 \<rparr>,
       mn_execution = (\<lambda>ig. \<lambda>c. ref_run (te_gas_limit (env_inner (ctx_tx c)) - ig_total ig, 0) c),
       mn_first_frame_input = (\<lambda>g r. st_return (g, r)),
       mn_run_exec_loop = ref_run,
       mn_reimburse_caller = (\<lambda>_. st_return ()),
       mn_reward_beneficiary = (\<lambda>_. st_return ()),
       mn_initial_gas_and_reservoir = (\<lambda>ig n cap en. (n - ig_total ig, 0)),
       mn_calculate_initial_tx_gas = (\<lambda>s d cr.
         \<lparr> ig_total = 21000 + 16 * of_nat (length d) + (if cr then 32000 else 0), ig_state = 0,
           ig_floor = 21000 + 40 * of_nat (length d), ig_eip7702_reservoir_refund = 0 \<rparr>),
       ACCESS_LIST_ADDRESS = 2400, ACCESS_LIST_STORAGE_KEY = 1900, PER_EMPTY_ACCOUNT_COST = 25000 \<rparr>"

lemma ref_saved_update [simp]:
  "ref_saved (ref_update a f j) = ref_saved j" "ref_saved (ref_transfer a b v j) = ref_saved j"
  by (simp_all add: ref_saved_def ref_update_def ref_transfer_def fun_eq_iff)

lemma ref_run_frame:
  "ref_run fi c = (r, c') \<Longrightarrow> ref_saved (ctx_journal c') = ref_saved (ctx_journal c) \<and>
     ctx_tx c' = ctx_tx c \<and> ctx_cfg c' = ctx_cfg c \<and> ctx_block c' = ctx_block c"
  by (auto simp: ref_run_def Let_def split: tx_kind.split)

interpretation ref_interpreter: interpreter ref_journal_ops rj_accounts ref_saved ref_mainnet
  by unfold_locales (auto simp: ref_mainnet_def st_return_def dest: ref_run_frame)

end
