(* ===== verification/Deploy_Allowlist.thy ===== *)
theory Deploy_Allowlist
  imports Prelude
begin

text \<open>
  The deploy allowlist of \<open>crates/ev-revm/src/deploy.rs\<close>: the settings sort the list once, so that
  the check is a binary search (\<open>slice::binary_search\<close> of the Rust library, modelled by its loop
  over a window that halves). The check is proved equal to plain membership.
\<close>

section \<open>Binary search\<close>

text \<open>The window is \<open>[base, base + sz)\<close>; the position is \<open>Ok\<close>, a miss \<open>Err\<close>.\<close>

function search_window :: "'a::linorder list \<Rightarrow> 'a \<Rightarrow> nat \<Rightarrow> nat \<Rightarrow> nat + nat" where
  "search_window xs key base sz =
     (if sz = 0 then Inl base
      else if sz = 1 then
        (if xs ! base = key then Inr base
         else Inl (if xs ! base < key then base + 1 else base))
      else
        (let half = sz div 2; mid = base + half in
         search_window xs key (if key < xs ! mid then base else mid) (sz - half)))"
  by pat_completeness auto
termination
  by (relation "measure (\<lambda>(xs, key, base, sz). sz)") auto

declare search_window.simps [simp del]

definition binary_search :: "'a::linorder list \<Rightarrow> 'a \<Rightarrow> nat + nat" where
  "binary_search xs key = search_window xs key 0 (length xs)"

text \<open>A key of the list is always in the window, which is what makes the halving safe.\<close>

lemma search_window_hit:
  "search_window xs key base sz = Inr i \<Longrightarrow> base + sz \<le> length xs \<Longrightarrow>
     i < length xs \<and> xs ! i = key"
proof (induction xs key base sz rule: search_window.induct)
  case (1 xs key base sz)
  show ?case
  proof (cases "sz \<le> 1")
    case True
    then have "sz = 0 \<or> sz = 1" by linarith
    then show ?thesis using 1(2,3) by (auto simp: search_window.simps split: if_splits)
  next
    case False
    let ?half = "sz div 2"
    let ?base = "if key < xs ! (base + ?half) then base else base + ?half"
    have "?base + (sz - ?half) \<le> length xs" using 1(3) False by auto
    moreover have "search_window xs key ?base (sz - ?half) = Inr i"
      using 1(2) False by (simp add: search_window.simps [of xs key base sz] Let_def split: if_splits)
    ultimately show ?thesis using 1(1) False by simp
  qed
qed

lemma search_window_complete:
  assumes "sorted xs"
  shows "base \<le> j \<Longrightarrow> j < base + sz \<Longrightarrow> base + sz \<le> length xs \<Longrightarrow> xs ! j = key \<Longrightarrow>
     \<exists>i. search_window xs key base sz = Inr i"
  using assms
proof (induction xs key base sz arbitrary: j rule: search_window.induct)
  case (1 xs key base sz)
  show ?case
  proof (cases "sz \<le> 1")
    case True
    then have "sz = 1" "j = base" using 1(2,3) by linarith+
    then show ?thesis using 1(5) by (simp add: search_window.simps)
  next
    case False
    define mid where "mid = base + sz div 2"
    have mid: "base < mid" "mid < length xs" "mid < base + sz" using False 1(4) by (auto simp: mid_def)
    have step: "search_window xs key base sz =
        search_window xs key (if key < xs ! mid then base else mid) (sz - sz div 2)"
      using False by (simp add: search_window.simps [of xs key base sz] Let_def mid_def)
    show ?thesis
    proof (cases "key < xs ! mid")
      case True
      then have "j < mid" using 1(5,6) mid sorted_nth_mono [of xs mid j] 1(3,4)
        by (metis leD leI le_trans less_le_trans)
      then have "j < base + (sz - sz div 2)" by (simp add: mid_def)
      moreover have "base + (sz - sz div 2) \<le> length xs" using 1(4) by simp
      ultimately show ?thesis using 1(1) [of "sz div 2" mid j] False True 1(2,5,6) step
        by (simp add: mid_def)
    next
      case False
      have "\<exists>j'. mid \<le> j' \<and> j' < base + sz \<and> xs ! j' = key"
      proof (cases "mid \<le> j")
        case True then show ?thesis using 1(3,5) by blast
      next
        case j: False
        then have "xs ! j \<le> xs ! mid" using 1(6) mid by (intro sorted_nth_mono) auto
        then have "xs ! mid = key" using False 1(5) by simp
        then show ?thesis using mid by blast
      qed
      then obtain j' where j': "mid \<le> j'" "j' < base + sz" "xs ! j' = key" by blast
      moreover have "mid + (sz - sz div 2) = base + sz" by (simp add: mid_def)
      ultimately show ?thesis using 1(1) [of "sz div 2" mid j'] \<open>\<not> sz \<le> 1\<close> False 1(4,6) step
        by (simp add: mid_def)
    qed
  qed
qed

lemma binary_search_is_ok: "sorted xs \<Longrightarrow> is_ok (binary_search xs key) \<longleftrightarrow> key \<in> set xs"
proof
  assume "is_ok (binary_search xs key)"
  then obtain i where "search_window xs key 0 (length xs) = Inr i"
    by (auto simp: is_ok_iff binary_search_def)
  from search_window_hit [OF this] show "key \<in> set xs" by auto
next
  assume "sorted xs" "key \<in> set xs"
  then show "is_ok (binary_search xs key)"
    using search_window_complete [of xs 0 _ "length xs" key]
    by (fastforce simp: is_ok_iff binary_search_def in_set_conv_nth)
qed

text \<open>
  The loop of the search as a machine on windows: a step halves the window, so a list of at most
  \<open>2 ^ k\<close> entries is down to one candidate after at most \<open>k\<close> steps.
\<close>

inductive search_step :: "'a::linorder list \<Rightarrow> 'a \<Rightarrow> nat \<times> nat \<Rightarrow> nat \<times> nat \<Rightarrow> bool"
  for xs key where
  halve: "1 < sz \<Longrightarrow> search_step xs key (base, sz)
     (if key < xs ! (base + sz div 2) then base else base + sz div 2, sz - sz div 2)"

inductive_simps search_step_iff: "search_step xs key (base, sz) w"

lemma search_window_step:
  "search_step xs key (base, sz) (base', sz') \<Longrightarrow> search_window xs key base sz = search_window xs key base' sz'"
  by (auto simp: search_step_iff search_window.simps [of xs key base sz] Let_def split: if_splits)

lemma search_terminates:
  "sz \<le> 2 ^ k \<Longrightarrow> \<exists>j b s. j \<le> k \<and> (search_step xs key ^^ j) (base, sz) (b, s) \<and> s \<le> 1 \<and> (0 < sz \<longrightarrow> s = 1) \<and>
     (\<nexists>w. search_step xs key (b, s) w) \<and> search_window xs key base sz = search_window xs key b s"
proof (induction k arbitrary: base sz)
  case 0
  then show ?case by (intro exI [of _ 0] exI [of _ base] exI [of _ sz]) (auto simp: search_step_iff)
next
  case (Suc k)
  show ?case
  proof (cases "1 < sz")
    case False
    then show ?thesis by (intro exI [of _ 0] exI [of _ base] exI [of _ sz]) (auto simp: search_step_iff)
  next
    case True
    define b1 where "b1 = (if key < xs ! (base + sz div 2) then base else base + sz div 2)"
    have step: "search_step xs key (base, sz) (b1, sz - sz div 2)" using True by (simp add: b1_def search_step.halve)
    have "sz - sz div 2 \<le> 2 ^ k" using Suc.prems by simp
    from Suc.IH [OF this, of b1] obtain j b s where run: "j \<le> k" "(search_step xs key ^^ j) (b1, sz - sz div 2) (b, s)"
        "s \<le> 1" "0 < sz - sz div 2 \<longrightarrow> s = 1" "\<nexists>w. search_step xs key (b, s) w"
        "search_window xs key b1 (sz - sz div 2) = search_window xs key b s"
      by (elim exE conjE) (rule that)
    have "(search_step xs key ^^ Suc j) (base, sz) (b, s)" using step run(2) by (rule relpowp_Suc_I2)
    moreover have "s = 1" using run(4) True by linarith
    ultimately show ?thesis
      using run(1,5,6) search_window_step [OF step] by (intro exI [of _ "Suc j"] exI [of _ b] exI [of _ s]) simp
  qed
qed

section \<open>The settings\<close>

record deploy_allowlist_settings =
  allowlist :: "address list"
  activation_height :: u64

definition deploy_allowlist_new :: "address list \<Rightarrow> u64 \<Rightarrow> deploy_allowlist_settings" where
  "deploy_allowlist_new xs height = \<lparr> allowlist = sort xs, activation_height = height \<rparr>"

definition is_active :: "deploy_allowlist_settings \<Rightarrow> u64 \<Rightarrow> bool" where
  "is_active s block_number \<longleftrightarrow> activation_height s \<le> block_number"

definition is_allowed :: "deploy_allowlist_settings \<Rightarrow> address \<Rightarrow> bool" where
  "is_allowed s caller \<longleftrightarrow>
     (if allowlist s = [] then True else is_ok (binary_search (allowlist s) caller))"

datatype deploy_check_error = NotAllowed

definition check_deploy_allowed ::
    "deploy_allowlist_settings option \<Rightarrow> address \<Rightarrow> bool \<Rightarrow> u64 \<Rightarrow> deploy_check_error + unit" where
  "check_deploy_allowed settings caller is_top_level_create block_number =
     (if \<not> is_top_level_create then Inr ()
      else case settings of
             None \<Rightarrow> Inr ()
           | Some s \<Rightarrow>
               if \<not> is_active s block_number then Inr ()
               else if is_allowed s caller then Inr ()
               else Inl NotAllowed)"

text \<open>
  Well-formed settings hold a sorted list; the constructor makes such settings, and its
  permission is the specification: an empty list permits everyone, otherwise membership.
\<close>

definition settings_wf :: "deploy_allowlist_settings \<Rightarrow> bool" where
  "settings_wf s \<longleftrightarrow> sorted (allowlist s)"

definition permits :: "address list \<Rightarrow> address \<Rightarrow> bool" where
  "permits xs caller \<longleftrightarrow> xs = [] \<or> caller \<in> set xs"

lemma deploy_allowlist_new_wf: "settings_wf (deploy_allowlist_new xs h)"
  by (simp add: settings_wf_def deploy_allowlist_new_def)

lemma is_allowed_wf: "settings_wf s \<Longrightarrow> is_allowed s caller \<longleftrightarrow> permits (allowlist s) caller"
  by (simp add: settings_wf_def is_allowed_def permits_def binary_search_is_ok)

lemma is_allowed_new: "is_allowed (deploy_allowlist_new xs h) caller \<longleftrightarrow> permits xs caller"
  using is_allowed_wf [OF deploy_allowlist_new_wf, of xs h caller]
  by (simp add: deploy_allowlist_new_def permits_def) (metis set_empty set_sort)

lemma is_active_new: "is_active (deploy_allowlist_new xs h) n \<longleftrightarrow> h \<le> n"
  by (simp add: is_active_def deploy_allowlist_new_def)

lemma check_deploy_allowed_Inr_iff [ok_iff]:
  "check_deploy_allowed s caller create n = Inr u \<longleftrightarrow>
     (create \<longrightarrow> (case s of None \<Rightarrow> True | Some x \<Rightarrow> is_active x n \<longrightarrow> is_allowed x caller))"
  by (auto simp: check_deploy_allowed_def split: option.split)

text \<open>The allowlist check decides membership: after the constructor's sort, the binary search
  of \<open>is_allowed\<close> accepts exactly the listed callers, and everyone when the list is empty.\<close>

lemma is_allowed_correct:
  "is_allowed (deploy_allowlist_new xs h) caller \<longleftrightarrow> xs = [] \<or> caller \<in> set xs"
  by (simp add: is_allowed_new permits_def)

text \<open>\<open>check_deploy_allowed\<close> refuses exactly the top-level creations, at or after the
  activation height, by a caller that a non-empty allowlist does not contain.\<close>

lemma check_deploy_allowed_correct:
  "check_deploy_allowed (Some (deploy_allowlist_new xs h)) caller create n =
     (if create \<and> h \<le> n \<and> xs \<noteq> [] \<and> caller \<notin> set xs then Inl NotAllowed else Inr ()) \<and>
   check_deploy_allowed None caller create n = Inr ()"
  by (auto simp: check_deploy_allowed_def is_allowed_new permits_def is_active_new)

end
