(* ===== verification/Ev_Handler.thy ===== *)
theory Ev_Handler
  imports Revm_Interface Deploy_Allowlist
begin

text \<open>
  The execution handler of \<open>crates/ev-revm/src/handler.rs\<close> and the base-fee redirect of
  \<open>base_fee.rs\<close>: the deploy allowlist check, intrinsic gas of a batch, validation and fee
  deduction with and without a sponsor, the atomic execution of a batch, the sponsor's
  reimbursement and the base-fee credit. revm's journal, gas counter, fee methods and mainnet
  steps are the parameters \<open>J\<close>, \<open>G\<close>, \<open>F\<close> and \<open>M\<close>.
\<close>

section \<open>State\<close>

record base_fee_redirect =
  fee_sink :: address

record ev_handler =
  hd_redirect :: "base_fee_redirect option"
  hd_deploy_allowlist :: "deploy_allowlist_settings option"

definition ev_handler_new ::
    "base_fee_redirect option \<Rightarrow> deploy_allowlist_settings option \<Rightarrow> ev_handler" where
  "ev_handler_new redirect allow = \<lparr> hd_redirect = redirect, hd_deploy_allowlist = allow \<rparr>"

text \<open>A journal operation, run inside the context.\<close>

definition on_journal :: "('j, 'e, 'a) st \<Rightarrow> ('j evm_ctx, 'e, 'a) st" where
  "on_journal m c = (case m (ctx_journal c) of (r, j) \<Rightarrow> (r, c \<lparr> ctx_journal := j \<rparr>))"

section \<open>Base-fee redirect\<close>

datatype 'd base_fee_redirect_error = Database 'd

definition redirect_apply ::
    "('j, 'cp, 'd) journal_ops \<Rightarrow> base_fee_redirect \<Rightarrow> u64
       \<Rightarrow> ('j evm_ctx, 'd base_fee_redirect_error, u256) st" where
  "redirect_apply J redirect gas_used c =
     (let base_fee = blk_basefee (ctx_block c) in
      if gas_used = 0 \<or> base_fee = 0 then (Inr 0, c)
      else
        let amount = (ucast base_fee :: u256) * ucast gas_used in
        if amount = 0 then (Inr amount, c)
        else
          st_then (st_map_err Database (on_journal (jn_load J (fee_sink redirect))))
            (st_then (st_map_err Database (on_journal (jn_balance_incr J (fee_sink redirect) amount)))
              (st_return amount)) c)"

section \<open>Deploy allowlist\<close>

definition deploy_allowlist_for_block :: "ev_handler \<Rightarrow> u64 \<Rightarrow> deploy_allowlist_settings option" where
  "deploy_allowlist_for_block h block_number =
     (case hd_deploy_allowlist h of
        Some s \<Rightarrow> if is_active s block_number then Some s else None
      | None \<Rightarrow> None)"

text \<open>\<open>number().try_into().unwrap_or(u64::MAX)\<close>.\<close>

definition block_number_u64 :: "u256 \<Rightarrow> u64" where
  "block_number_u64 n = (if unat n < 2 ^ 64 then ucast n else - 1)"

definition ensure_deploy_allowed :: "ev_handler \<Rightarrow> 'j evm_ctx \<Rightarrow> 'd evm_error + unit" where
  "ensure_deploy_allowed h c =
     (let block_number = block_number_u64 (blk_number (ctx_block c));
          t = env_inner (ctx_tx c);
          is_create = (te_kind t = TxCreate);
          settings = deploy_allowlist_for_block h block_number in
      case check_deploy_allowed settings (te_caller t) is_create block_number of
        Inl _ \<Rightarrow> Inl (CustomError ''contract deployment not allowed'')
      | Inr _ \<Rightarrow> Inr ())"

section \<open>Intrinsic gas of a batch\<close>

definition validate_batch_initial_tx_gas ::
    "('j, 'g, 'd, 'fi) mainnet_ops \<Rightarrow> tx_env \<Rightarrow> call list \<Rightarrow> spec_id \<Rightarrow> bool \<Rightarrow> bool \<Rightarrow> u64
       \<Rightarrow> invalid_transaction + initial_gas" where
  "validate_batch_initial_tx_gas M t calls spec is_eip7623_disabled is_eip8037_enabled cap =
     (let call_gas = (\<lambda>c. mn_calculate_initial_tx_gas M spec (call_input c) (call_to c = TxCreate));
          total0 = foldl (\<lambda>acc c. saturating_add acc (ig_total (call_gas c))) 0 calls;
          state0 = foldl (\<lambda>acc c. saturating_add acc (ig_state (call_gas c))) 0 calls;
          floor0 = foldl (\<lambda>acc c. saturating_add acc (ig_floor (call_gas c))) 0 calls;
          (accounts, storages) =
            (if te_tx_type t \<noteq> TX_TYPE_LEGACY then
               foldl (\<lambda>(acc, stor) item. (saturating_add acc 1,
                        saturating_add stor (of_nat (length (snd item)))))
                 (0, 0) (te_access_list t)
             else (0, 0));
          total1 = saturating_add
                     (saturating_add total0 (saturating_mul accounts (ACCESS_LIST_ADDRESS M)))
                     (saturating_mul storages (ACCESS_LIST_STORAGE_KEY M));
          auth = saturating_mul (of_nat (length (te_authorization_list t))) (PER_EMPTY_ACCOUNT_COST M);
          prague = is_enabled_in spec PRAGUE;
          total = (if prague then saturating_add total1 auth else total1);
          state = (if prague then saturating_add state0 auth else state0);
          floor1 = (if prague then floor0 else 0);
          floor = (if is_eip7623_disabled then 0 else floor1);
          min_regular_gas = max (saturating_sub total state) floor in
      if te_gas_limit t < total then Inl (CallGasCostMoreThanGasLimit (te_gas_limit t) total)
      else if prague \<and> te_gas_limit t < floor then Inl (GasFloorMoreThanGasLimit floor (te_gas_limit t))
      else if is_eip8037_enabled \<and> cap < te_gas_limit t \<and> cap < min_regular_gas
        then Inl (GasFloorMoreThanGasLimit min_regular_gas cap)
      else Inr \<lparr> ig_total = total, ig_state = state, ig_floor = floor,
                 ig_eip7702_reservoir_refund = 0 \<rparr>)"

definition validate_initial_tx_gas ::
    "('j, 'g, 'd, 'fi) mainnet_ops \<Rightarrow> ('j evm_ctx, 'd evm_error, initial_gas) st" where
  "validate_initial_tx_gas M c =
     (case batch_calls (ctx_tx c) of
        Some calls \<Rightarrow>
          if calls = [] then (Inl (CustomError ''evnode transaction must include at least one call''), c)
          else if \<exists>x \<in> set (tl calls). call_to x = TxCreate
            then (Inl (CustomError ''only the first call may be CREATE''), c)
          else if length calls > 1 then
            (map_err TxError (validate_batch_initial_tx_gas M (env_inner (ctx_tx c)) calls
               (cfg_spec (ctx_cfg c)) (cfg_eip7623_disabled (ctx_cfg c))
               (cfg_eip8037_enabled (ctx_cfg c)) (cfg_tx_gas_limit_cap (ctx_cfg c))), c)
          else mn_validate_initial_tx_gas M c
      | None \<Rightarrow> mn_validate_initial_tx_gas M c)"

section \<open>Validation against state\<close>

definition validate_account_nonce_and_code ::
    "account_info \<Rightarrow> tx_env \<Rightarrow> bool \<Rightarrow> bool \<Rightarrow> invalid_transaction + unit" where
  "validate_account_nonce_and_code caller_info t is_eip3607_disabled is_nonce_check_disabled =
     (let bytecode = (case ai_code caller_info of Some code \<Rightarrow> code | None \<Rightarrow> LegacyCode []) in
      if \<not> is_eip3607_disabled \<and> \<not> code_is_empty bytecode \<and> \<not> code_is_eip7702 bytecode
        then Inl RejectCallerWithCode
      else if \<not> is_nonce_check_disabled \<and> ai_nonce caller_info < te_nonce t
        then Inl (NonceTooHigh (te_nonce t) (ai_nonce caller_info))
      else if \<not> is_nonce_check_disabled \<and> te_nonce t < ai_nonce caller_info
        then Inl (NonceTooLow (te_nonce t) (ai_nonce caller_info))
      else Inr ())"

text \<open>The \<open>expect\<close> on the effective spending is the \<open>Panic\<close>.\<close>

definition calculate_caller_fee ::
    "fee_ops \<Rightarrow> u256 \<Rightarrow> tx_env \<Rightarrow> u128 \<Rightarrow> u128 \<Rightarrow> bool \<Rightarrow> 'd evm_error + u256" where
  "calculate_caller_fee F balance t basefee blob_price is_balance_check_disabled =
     (case fee_effective_balance_spending F t basefee blob_price of
        None \<Rightarrow> Inl (Panic ''effective balance is always smaller than max balance so it can't overflow'')
      | Some spending \<Rightarrow>
          if \<not> is_balance_check_disabled \<and> balance < spending
            then Inl (TxError (LackOfFundForMaxFee spending balance))
          else
            let gas_balance_spending = spending - te_value t;
                new_balance = saturating_sub balance gas_balance_spending in
            Inr (if is_balance_check_disabled then max new_balance (te_value t) else new_balance))"

definition validate_and_deduct_sponsored_tx ::
    "('j, 'cp, 'd) journal_ops \<Rightarrow> fee_ops \<Rightarrow> tx_env \<Rightarrow> address \<Rightarrow> address \<Rightarrow> u256 \<Rightarrow> bool \<Rightarrow> u128
       \<Rightarrow> bool \<Rightarrow> bool \<Rightarrow> bool \<Rightarrow> ('j, 'd evm_error, unit) st" where
  "validate_and_deduct_sponsored_tx J F t caller sponsor total_value is_call basefee
       is_balance_check_disabled is_eip3607_disabled is_nonce_check_disabled =
     st_bind (st_map_err DbError (jn_load_code J caller)) (\<lambda>caller_info.
     st_then (st_lift (map_err TxError (validate_account_nonce_and_code caller_info t
                is_eip3607_disabled is_nonce_check_disabled)))
     (if \<not> is_balance_check_disabled \<and> ai_balance caller_info < total_value
        then st_fail (TxError (LackOfFundForMaxFee total_value (ai_balance caller_info)))
      else
        st_then (st_modify (\<lambda>j. if is_call
                   then jn_set_nonce J caller (saturating_add (ai_nonce caller_info) 1) j else j))
        (st_bind (st_map_err DbError (jn_load_code J sponsor)) (\<lambda>sponsor_info.
           let sponsor_balance = ai_balance sponsor_info;
               max_gas_cost = saturating_mul (ucast (te_gas_limit t) :: u256)
                                (ucast (fee_max_fee_per_gas F t)) in
           if \<not> is_balance_check_disabled \<and> sponsor_balance < max_gas_cost
             then st_fail (TxError (LackOfFundForMaxFee max_gas_cost sponsor_balance))
           else
             let gas_cost = saturating_mul (ucast (te_gas_limit t) :: u256)
                              (ucast (fee_effective_gas_price F t basefee));
                 new_balance = saturating_sub sponsor_balance gas_cost in
             st_modify (jn_set_balance J sponsor
               (if is_balance_check_disabled then max new_balance gas_cost else new_balance))))))"

definition validate_and_deduct_normal_tx ::
    "('j, 'cp, 'd) journal_ops \<Rightarrow> fee_ops \<Rightarrow> tx_env \<Rightarrow> address \<Rightarrow> bool \<Rightarrow> u128 \<Rightarrow> u128
       \<Rightarrow> bool \<Rightarrow> bool \<Rightarrow> bool \<Rightarrow> ('j, 'd evm_error, unit) st" where
  "validate_and_deduct_normal_tx J F t caller is_call basefee blob_price
       is_balance_check_disabled is_eip3607_disabled is_nonce_check_disabled =
     st_bind (st_map_err DbError (jn_load_code J caller)) (\<lambda>caller_info.
     st_then (st_lift (map_err TxError (validate_account_nonce_and_code caller_info t
                is_eip3607_disabled is_nonce_check_disabled)))
     (st_bind (st_lift (calculate_caller_fee F (ai_balance caller_info) t basefee blob_price
                is_balance_check_disabled)) (\<lambda>new_balance.
      st_then (st_modify (jn_set_balance J caller new_balance))
        (st_modify (\<lambda>j. if is_call
           then jn_set_nonce J caller (saturating_add (ai_nonce caller_info) 1) j else j)))))"

definition validate_against_state_and_deduct_caller ::
    "('j, 'cp, 'd) journal_ops \<Rightarrow> fee_ops \<Rightarrow> ev_handler \<Rightarrow> ('j evm_ctx, 'd evm_error, unit) st" where
  "validate_against_state_and_deduct_caller J F h =
     st_bind (st_get (\<lambda>c. c)) (\<lambda>c.
     st_then (st_lift (ensure_deploy_allowed h c))
     (let env = ctx_tx c; t = env_inner env; cfg = ctx_cfg c;
          is_call = (te_kind t \<noteq> TxCreate);
          basefee = (ucast (blk_basefee (ctx_block c)) :: u128);
          blob_price = (case blk_blob_gasprice (ctx_block c) of Some p \<Rightarrow> p | None \<Rightarrow> 0) in
      if env_sponsor_signature_invalid env then st_fail (CustomError ''invalid sponsor signature'')
      else case env_sponsor env of
             Some sponsor \<Rightarrow>
               on_journal (validate_and_deduct_sponsored_tx J F t (te_caller t) sponsor
                 (batch_total_value env) is_call basefee (cfg_balance_check_disabled cfg)
                 (cfg_eip3607_disabled cfg) (cfg_nonce_check_disabled cfg))
           | None \<Rightarrow>
               on_journal (validate_and_deduct_normal_tx J F t (te_caller t) is_call basefee blob_price
                 (cfg_balance_check_disabled cfg) (cfg_eip3607_disabled cfg)
                 (cfg_nonce_check_disabled cfg))))"

section \<open>Batch execution\<close>

definition finalize_batch_gas ::
    "'g gas_ops \<Rightarrow> u64 \<Rightarrow> u64 \<Rightarrow> u64 \<Rightarrow> u64 \<Rightarrow> i64 \<Rightarrow> 'g frame_result \<Rightarrow> 'g frame_result" where
  "finalize_batch_gas G limit remaining reservoir state_gas_spent refund fr =
     (let gas0 = gas_new_spent G limit;
          gas1 = (if ir_is_ok_or_revert (fr_result fr) then gas_erase_cost G remaining gas0 else gas0);
          gas2 = (if ir_is_ok (fr_result fr)
                  then gas_set_reservoir G reservoir
                         (gas_set_state_gas_spent G state_gas_spent (gas_record_refund G refund gas1))
                  else gas_set_reservoir G (saturating_add reservoir state_gas_spent)
                         (gas_set_state_gas_spent G 0 gas1)) in
      fr \<lparr> fr_gas := gas2 \<rparr>)"

text \<open>The local variables of the batch loop.\<close>

record 'g batch_state =
  bs_remaining :: u64
  bs_reservoir :: u64
  bs_refunded :: i64
  bs_state_gas_spent :: u64
  bs_last :: "'g frame_result option"

definition batch_account :: "'g gas_ops \<Rightarrow> 'g frame_result \<Rightarrow> 'g batch_state \<Rightarrow> 'g batch_state" where
  "batch_account G fr s =
     s \<lparr> bs_refunded := i64_saturating_add (bs_refunded s) (gas_refunded G (fr_gas fr)),
         bs_remaining := gas_remaining G (fr_gas fr),
         bs_reservoir := gas_reservoir G (fr_gas fr),
         bs_state_gas_spent := saturating_add (bs_state_gas_spent s) (gas_state_spent G (fr_gas fr)) \<rparr>"

definition run_call ::
    "('j, 'g, 'd, 'fi) mainnet_ops \<Rightarrow> 'g gas_ops \<Rightarrow> ev_tx_env \<Rightarrow> call \<Rightarrow> 'g batch_state
       \<Rightarrow> ('j evm_ctx, 'd evm_error, 'g frame_result) st" where
  "run_call M G base_tx call s =
     st_then (st_modify (\<lambda>c. c \<lparr> ctx_tx := set_batch_call call base_tx \<rparr>))
       (st_bind (mn_first_frame_input M (bs_remaining s) (bs_reservoir s)) (mn_run_exec_loop M))"

definition revert_batch ::
    "('j, 'cp, 'd) journal_ops \<Rightarrow> 'cp \<Rightarrow> bool \<Rightarrow> address \<Rightarrow> 'j evm_ctx \<Rightarrow> 'j evm_ctx" where
  "revert_batch J cp first_is_create caller c =
     (let j = jn_checkpoint_revert J cp (ctx_journal c);
          j' = (if first_is_create then
                  (case jn_load_code J caller j of
                     (Inr acc, j1) \<Rightarrow> jn_set_nonce J caller (saturating_add (ai_nonce acc) 1) j1
                   | (Inl _, j1) \<Rightarrow> j1)
                else j) in
      c \<lparr> ctx_journal := j' \<rparr>)"

text \<open>\<open>Inl\<close> is the early return of a failed call, \<open>Inr\<close> the state after the whole loop.\<close>

primrec batch_loop ::
    "('j, 'cp, 'd) journal_ops \<Rightarrow> ('j, 'g, 'd, 'fi) mainnet_ops \<Rightarrow> 'g gas_ops \<Rightarrow> ev_tx_env \<Rightarrow> 'cp
       \<Rightarrow> bool \<Rightarrow> call list \<Rightarrow> 'g batch_state
       \<Rightarrow> ('j evm_ctx, 'd evm_error, 'g frame_result + 'g batch_state) st" where
  "batch_loop J M G base_tx cp first_is_create [] s = st_return (Inr s)"
| "batch_loop J M G base_tx cp first_is_create (call # calls) s =
     st_bind (run_call M G base_tx call s) (\<lambda>fr.
       let s' = batch_account G fr s in
       if \<not> ir_is_ok (fr_result fr) then
         st_then (st_modify (revert_batch J cp first_is_create (te_caller (env_inner base_tx))))
           (st_return (Inl (finalize_batch_gas G (te_gas_limit (env_inner base_tx)) (bs_remaining s')
              (bs_reservoir s') (bs_state_gas_spent s') 0 fr)))
       else batch_loop J M G base_tx cp first_is_create calls (s' \<lparr> bs_last := Some fr \<rparr>))"

definition execute_batch ::
    "('j, 'cp, 'd) journal_ops \<Rightarrow> ('j, 'g, 'd, 'fi) mainnet_ops \<Rightarrow> 'g gas_ops \<Rightarrow> initial_gas \<Rightarrow> call list
       \<Rightarrow> ('j evm_ctx, 'd evm_error, 'g frame_result) st" where
  "execute_batch J M G ig calls c =
     (let base_tx = ctx_tx c;
          limit = te_gas_limit (env_inner base_tx);
          (remaining, reservoir) = mn_initial_gas_and_reservoir M ig limit
            (cfg_tx_gas_limit_cap (ctx_cfg c)) (cfg_eip8037_enabled (ctx_cfg c));
          (cp, j) = jn_checkpoint J (ctx_journal c);
          s = \<lparr> bs_remaining = remaining, bs_reservoir = reservoir, bs_refunded = 0,
                bs_state_gas_spent = 0, bs_last = None \<rparr> in
      st_bind (batch_loop J M G base_tx cp (call_to (hd calls) = TxCreate) calls s) (\<lambda>out.
        case out of
          Inl fr \<Rightarrow> st_return fr
        | Inr s' \<Rightarrow>
            st_then (st_modify (\<lambda>c. c \<lparr> ctx_journal := jn_checkpoint_commit J (ctx_journal c) \<rparr>))
              (case bs_last s' of
                 None \<Rightarrow> st_fail (Panic ''batch execution requires at least one call'')
               | Some fr \<Rightarrow> st_return (finalize_batch_gas G limit (bs_remaining s') (bs_reservoir s')
                   (bs_state_gas_spent s') (bs_refunded s') fr)))
        (c \<lparr> ctx_journal := j \<rparr>))"

definition execution ::
    "('j, 'cp, 'd) journal_ops \<Rightarrow> ('j, 'g, 'd, 'fi) mainnet_ops \<Rightarrow> 'g gas_ops \<Rightarrow> initial_gas
       \<Rightarrow> ('j evm_ctx, 'd evm_error, 'g frame_result) st" where
  "execution J M G ig c =
     (case batch_calls (ctx_tx c) of
        Some calls \<Rightarrow>
          if calls = [] then (Inl (CustomError ''evnode transaction must include at least one call''), c)
          else if length calls > 1 then execute_batch J M G ig calls c
          else mn_execution M ig c
      | None \<Rightarrow> mn_execution M ig c)"

section \<open>After execution\<close>

text \<open>\<open>gas.refunded() as u64\<close> reinterprets the signed count; the sum wraps at 64 bits.\<close>

definition reimburse_caller ::
    "('j, 'cp, 'd) journal_ops \<Rightarrow> ('j, 'g, 'd, 'fi) mainnet_ops \<Rightarrow> 'g gas_ops \<Rightarrow> fee_ops \<Rightarrow> 'g frame_result
       \<Rightarrow> ('j evm_ctx, 'd evm_error, unit) st" where
  "reimburse_caller J M G F fr c =
     (case env_sponsor (ctx_tx c) of
        Some sponsor \<Rightarrow>
          (let basefee = (ucast (blk_basefee (ctx_block c)) :: u128);
               price = fee_effective_gas_price F (env_inner (ctx_tx c)) basefee;
               returned = gas_remaining G (fr_gas fr) + of_int (gas_refunded G (fr_gas fr));
               reimbursement = (ucast (saturating_mul price (ucast returned)) :: u256) in
           st_bind (st_map_err DbError (on_journal (jn_load J sponsor))) (\<lambda>acc.
             st_modify (\<lambda>c. c \<lparr> ctx_journal := jn_set_balance J sponsor
               (saturating_add (ai_balance acc) reimbursement) (ctx_journal c) \<rparr>)) c)
      | None \<Rightarrow> mn_reimburse_caller M fr c)"

fun redirect_error :: "'d base_fee_redirect_error \<Rightarrow> 'd evm_error" where
  "redirect_error (Database d) = DbError d"

definition reward_beneficiary ::
    "('j, 'cp, 'd) journal_ops \<Rightarrow> ('j, 'g, 'd, 'fi) mainnet_ops \<Rightarrow> 'g gas_ops \<Rightarrow> ev_handler
       \<Rightarrow> 'g frame_result \<Rightarrow> ('j evm_ctx, 'd evm_error, unit) st" where
  "reward_beneficiary J M G h fr =
     (let gas = fr_gas fr; spent = gas_spent_sub_refunded G gas in
      st_then
        (case hd_redirect h of
           Some redirect \<Rightarrow>
             if spent \<noteq> 0 then
               st_bind (st_map_err redirect_error (redirect_apply J redirect spent)) (\<lambda>_. st_return ())
             else st_return ()
         | None \<Rightarrow> st_return ())
        (mn_reward_beneficiary M gas))"

end
