(* ===== verification/Handler_Samples.thy ===== *)
theory Handler_Samples
  imports Ev_Handler
begin

text \<open>
  Concrete inputs for the handler: a sponsored batch of two transfers from account 1, gas paid by
  account 2, in a block with base fee 10, over the concrete journal of \<open>Revm_Interface\<close>.
\<close>

definition demo_accounts :: accounts where
  "demo_accounts a =
     \<lparr> ai_balance = (if a = 1 then 1000 else if a = 2 then 100000000 else 0),
       ai_nonce = (if a = 1 then 7 else 0), ai_code = None \<rparr>"

definition demo_journal :: ref_journal where
  "demo_journal = \<lparr> rj_accounts = demo_accounts, rj_stack = [], rj_broken = [] \<rparr>"

definition demo_calls :: "call list" where
  "demo_calls = [\<lparr> call_to = TxCall 3, call_value = 5, call_input = [] \<rparr>,
                 \<lparr> call_to = TxCall 4, call_value = 6, call_input = [] \<rparr>]"

text \<open>The same with a second call that reverts, and with a creation in front of it.\<close>

definition demo_failing_calls :: "call list" where
  "demo_failing_calls = [\<lparr> call_to = TxCall 3, call_value = 5, call_input = [] \<rparr>,
                         \<lparr> call_to = TxCall 4, call_value = 6, call_input = [1] \<rparr>]"

definition demo_failing_create :: "call list" where
  "demo_failing_create = [\<lparr> call_to = TxCreate, call_value = 0, call_input = [] \<rparr>,
                          \<lparr> call_to = TxCall 4, call_value = 6, call_input = [1] \<rparr>]"

definition demo_inner :: tx_env where
  "demo_inner =
     \<lparr> te_tx_type = 2, te_caller = 1, te_gas_limit = 100000, te_gas_price = 100, te_kind = TxCall 3,
       te_value = 11, te_data = [], te_nonce = 7, te_chain_id = Some 1234, te_access_list = [],
       te_gas_priority_fee = Some 2, te_blob_hashes = [], te_max_fee_per_blob_gas = 0,
       te_authorization_list = [] \<rparr>"

definition demo_env :: "call list \<Rightarrow> ev_tx_env" where
  "demo_env calls =
     \<lparr> env_inner = demo_inner, env_sponsor = Some 2, env_sponsor_signature_invalid = False,
       env_calls = calls, env_batch_value = 11, env_is_evnode = True \<rparr>"

definition demo_block :: block_env where
  "demo_block =
     \<lparr> blk_number = 10, blk_basefee = 10, blk_blob_gasprice = None, blk_beneficiary = 9,
       blk_gas_limit = 30000000 \<rparr>"

definition demo_cfg :: cfg_env where
  "demo_cfg =
     \<lparr> cfg_spec = PRAGUE, cfg_balance_check_disabled = False, cfg_eip3607_disabled = False,
       cfg_nonce_check_disabled = False, cfg_eip7623_disabled = False, cfg_eip8037_enabled = False,
       cfg_tx_gas_limit_cap = 16777216 \<rparr>"

definition demo_ctx :: "call list \<Rightarrow> ref_journal evm_ctx" where
  "demo_ctx calls =
     \<lparr> ctx_block = demo_block, ctx_cfg = demo_cfg, ctx_tx = demo_env calls, ctx_journal = demo_journal \<rparr>"

definition demo_handler :: ev_handler where
  "demo_handler = ev_handler_new (Some \<lparr> fee_sink = 8 \<rparr>) None"

lemmas demo_defs = demo_accounts_def demo_journal_def demo_calls_def demo_failing_calls_def
  demo_failing_create_def demo_inner_def demo_env_def demo_block_def demo_cfg_def demo_ctx_def
  demo_handler_def

end
