(* ===== verification/Ev_Handler_Fees.thy ===== *)
theory Ev_Handler_Fees
  imports Handler_Samples
begin

text \<open>
  Correctness of the money flow of the handler: validation and deduction with and without a
  sponsor, the sponsor's reimbursement, and the base-fee credit. The specification changes an
  account map by \<open>bump_nonce\<close>, \<open>charge\<close> and \<open>credit\<close>, on natural amounts.
\<close>

section \<open>Specification\<close>

definition bump_nonce :: "address \<Rightarrow> bool \<Rightarrow> accounts \<Rightarrow> accounts" where
  "bump_nonce a on accs =
     (if on then accs (a := (accs a) \<lparr> ai_nonce := saturating_add (ai_nonce (accs a)) 1 \<rparr>) else accs)"

definition charge :: "address \<Rightarrow> nat \<Rightarrow> accounts \<Rightarrow> accounts" where
  "charge a n accs = accs (a := (accs a) \<lparr> ai_balance := ai_balance (accs a) - of_nat n \<rparr>)"

definition credit :: "address \<Rightarrow> nat \<Rightarrow> accounts \<Rightarrow> accounts" where
  "credit a n accs = accs (a := (accs a) \<lparr> ai_balance := ai_balance (accs a) + of_nat n \<rparr>)"

definition balance_of :: "accounts \<Rightarrow> address \<Rightarrow> nat" where
  "balance_of accs a = unat (ai_balance (accs a))"

text \<open>A sender has no code of its own (a delegation is fine) and the nonce of the transaction.\<close>

definition sender_ok :: "account_info \<Rightarrow> tx_env \<Rightarrow> bool \<Rightarrow> bool \<Rightarrow> bool" where
  "sender_ok i t is_eip3607_disabled is_nonce_check_disabled \<longleftrightarrow>
     (is_eip3607_disabled \<or>
      (case ai_code i of None \<Rightarrow> True | Some code \<Rightarrow> code_is_empty code \<or> code_is_eip7702 code)) \<and>
     (is_nonce_check_disabled \<or> te_nonce t = ai_nonce i)"

definition max_gas_cost :: "fee_ops \<Rightarrow> tx_env \<Rightarrow> nat" where
  "max_gas_cost F t = unat (te_gas_limit t) * unat (fee_max_fee_per_gas F t)"

definition gas_cost :: "fee_ops \<Rightarrow> tx_env \<Rightarrow> u128 \<Rightarrow> nat" where
  "gas_cost F t basefee = unat (te_gas_limit t) * unat (fee_effective_gas_price F t basefee)"

text \<open>What a sender without a sponsor spends at most, and when revm cannot compute it.\<close>

definition spend_total :: "fee_ops \<Rightarrow> tx_env \<Rightarrow> u128 \<Rightarrow> u128 \<Rightarrow> nat" where
  "spend_total F t basefee blob_price =
     unat (te_value t) + gas_cost F t basefee + fee_blob_fee F t blob_price"

definition spend_overflows :: "fee_ops \<Rightarrow> tx_env \<Rightarrow> u128 \<Rightarrow> u128 \<Rightarrow> bool" where
  "spend_overflows F t basefee blob_price \<longleftrightarrow>
     2 ^ 128 \<le> gas_cost F t basefee \<or> 2 ^ 256 \<le> spend_total F t basefee blob_price"

lemma balance_of_bump [simp]: "balance_of (bump_nonce a on accs) = balance_of accs"
  by (auto simp: balance_of_def bump_nonce_def)

lemma balance_of_charge:
  assumes "n \<le> balance_of accs a"
  shows "balance_of (charge a n accs) b = (if b = a then balance_of accs a - n else balance_of accs b)"
proof -
  have n: "unat (of_nat n :: u256) = n"
    using assms unat_bound [of "ai_balance (accs a)"] by (simp add: balance_of_def unat_of_nat)
  then have "of_nat n \<le> ai_balance (accs a)" using assms by (simp add: word_le_nat_alt balance_of_def)
  then show ?thesis using n by (simp add: balance_of_def charge_def unat_sub_exact)
qed

lemma balance_of_credit:
  assumes "balance_of accs a + n < 2 ^ 256"
  shows "balance_of (credit a n accs) b = (if b = a then balance_of accs a + n else balance_of accs b)"
proof -
  have "unat (of_nat n :: u256) = n" using assms by (simp add: unat_of_nat)
  then show ?thesis using assms
    by (simp add: balance_of_def credit_def unat_add_exact)
qed

lemma validate_account_nonce_and_code_Inr_iff [ok_iff]:
  "validate_account_nonce_and_code i t e n = Inr u \<longleftrightarrow> sender_ok i t e n"
  by (auto simp: validate_account_nonce_and_code_def sender_ok_def Let_def split: option.split)

lemma validate_account_nonce_and_code_cases:
  "validate_account_nonce_and_code i t e n = Inr () \<or>
     (\<exists>x. validate_account_nonce_and_code i t e n = Inl x)"
  by (cases "validate_account_nonce_and_code i t e n") auto

text \<open>A gas cost fits 192 bits, so the 256-bit products never saturate.\<close>

lemma u64_u128_product: "unat (a :: u64) * unat (p :: u128) < 2 ^ 192"
proof -
  have "unat a < 2 ^ 64" "unat p < 2 ^ 128" using unat_bound [of a] unat_bound [of p] by simp_all
  then have "unat a * unat p < 2 ^ 64 * 2 ^ 128" by (intro mult_strict_mono) simp_all
  then show ?thesis by simp
qed

lemma unat_of_nat_gas: "unat (of_nat (unat (a :: u64) * unat (p :: u128)) :: u256) = unat a * unat p"
  using u64_u128_product [of a p] by (simp add: unat_of_nat del: of_nat_mult)

lemma saturating_mul_gas:
  "saturating_mul (ucast (a :: u64) :: u256) (ucast (p :: u128)) = of_nat (unat a * unat p)"
  using u64_u128_product [of a p]
  by (simp add: word_unat_eq_iff unat_saturating_mul unat_of_nat_gas del: of_nat_mult)

lemma of_nat_le_balance: "n < 2 ^ 256 \<Longrightarrow> (of_nat n :: u256) \<le> b \<longleftrightarrow> n \<le> unat b"
  by (simp add: word_le_nat_alt unat_of_nat)

section \<open>Deduction\<close>

text \<open>The nonce write of a call, with the nonce that was read.\<close>

definition nonce_step :: "('j, 'cp, 'd) journal_ops \<Rightarrow> address \<Rightarrow> bool \<Rightarrow> u64 \<Rightarrow> 'j \<Rightarrow> 'j" where
  "nonce_step J a on n j = (if on then jn_set_nonce J a (saturating_add n 1) j else j)"

locale fee_state = journal J info saved + tx_fees F
  for J :: "('j, 'cp, 'd) journal_ops"
    and info :: "'j \<Rightarrow> accounts"
    and saved :: "'j \<Rightarrow> 'cp \<Rightarrow> accounts option"
    and F :: fee_ops
begin

lemma gas_cost_le_max: "gas_cost F t b \<le> max_gas_cost F t"
  using effective_le_max [of t b] by (simp add: gas_cost_def max_gas_cost_def word_le_nat_alt)

lemma gas_cost_bounds: "gas_cost F t b < 2 ^ 256" "max_gas_cost F t < 2 ^ 256"
  unfolding gas_cost_def max_gas_cost_def
  by (rule less_trans [OF u64_u128_product], simp)+

lemma info_nonce_step:
  "info (nonce_step J a on (ai_nonce (info j a)) j) = bump_nonce a on (info j)"
  by (simp add: nonce_step_def bump_nonce_def set_nonce_info)

lemma sponsored_unfold:
  assumes "jn_load_code J caller j = (Inr i, j1)"
    and "jn_load_code J sponsor (nonce_step J caller is_call (ai_nonce i) j1) = (Inr k, j2)"
  shows "validate_and_deduct_sponsored_tx J F t caller sponsor v is_call b False e n j =
    (case validate_account_nonce_and_code (info j caller) t e n of
       Inl x \<Rightarrow> (Inl (TxError x), j1)
     | Inr _ \<Rightarrow>
         if ai_balance (info j caller) < v
           then (Inl (TxError (LackOfFundForMaxFee v (ai_balance (info j caller)))), j1)
         else if balance_of (info j) sponsor < max_gas_cost F t
           then (Inl (TxError (LackOfFundForMaxFee (of_nat (max_gas_cost F t)) (ai_balance (info j sponsor)))), j2)
         else (Inr (), jn_set_balance J sponsor
                 (saturating_sub (ai_balance (info j sponsor)) (of_nat (gas_cost F t b))) j2))"
proof -
  have i: "i = info j caller" "info j1 = info j"
    using load_code_value [OF assms(1)] load_code_info [OF assms(1)] by simp_all
  have k: "ai_balance k = ai_balance (info j sponsor)"
    using load_code_value [OF assms(2)] info_nonce_step [of caller is_call j1]
    by (simp add: i bump_nonce_def)
  have m: "ai_balance (info j sponsor) < of_nat (max_gas_cost F t) \<longleftrightarrow>
      balance_of (info j) sponsor < max_gas_cost F t"
    using of_nat_le_balance [OF gas_cost_bounds(2), of t "ai_balance (info j sponsor)"]
    by (simp add: balance_of_def flip: not_le)
  show ?thesis
    using assms m k unfolding validate_and_deduct_sponsored_tx_def
    by (cases is_call)
      (simp_all add: st_run_simps st_bind_def st_then_def st_map_err_def nonce_step_def i
        saturating_mul_gas Let_def flip: max_gas_cost_def gas_cost_def split: sum.split)
qed

lemma sponsored_outcome:
  assumes "jn_load_code J caller j = (Inr i, j1)"
    and "jn_load_code J sponsor (nonce_step J caller is_call (ai_nonce i) j1) = (Inr k, j2)"
  shows "let r = validate_and_deduct_sponsored_tx J F t caller sponsor v is_call b False e n j in
    if sender_ok (info j caller) t e n \<and> v \<le> ai_balance (info j caller) \<and>
       max_gas_cost F t \<le> balance_of (info j) sponsor
    then fst r = Inr () \<and>
         info (snd r) = charge sponsor (gas_cost F t b) (bump_nonce caller is_call (info j))
    else (\<exists>x. fst r = Inl (TxError x)) \<and> balance_of (info (snd r)) = balance_of (info j)"
proof -
  have j1: "info j1 = info j" "i = info j caller"
    using load_code_info [OF assms(1)] load_code_value [OF assms(1)] by simp_all
  have j2: "info j2 = bump_nonce caller is_call (info j)"
    using load_code_info [OF assms(2)] info_nonce_step [of caller is_call j1] j1 by simp
  have exact: "saturating_sub (ai_balance (info j sponsor)) (of_nat (gas_cost F t b)) =
      ai_balance (info j sponsor) - of_nat (gas_cost F t b)"
    if "max_gas_cost F t \<le> balance_of (info j) sponsor"
    using that gas_cost_le_max [of t b] gas_cost_bounds(1) [of t b]
    by (simp add: saturating_sub_def of_nat_le_balance balance_of_def)
  have bal: "ai_balance (bump_nonce caller is_call (info j) a) = ai_balance (info j a)" for a
    by (simp add: bump_nonce_def)
  show ?thesis
    using validate_account_nonce_and_code_Inr_iff [of "info j caller" t e n "()"]
    by (auto simp: sponsored_unfold [OF assms] set_balance_info exact j1 j2 bal charge_def not_less
        not_le Let_def split: sum.split)
qed

text \<open>What a normal sender spends: the gas limit at the effective price, and the blob fee.\<close>

lemma spending_cases:
  "case fee_effective_balance_spending F t b p of
     None \<Rightarrow> spend_overflows F t b p
   | Some s \<Rightarrow> \<not> spend_overflows F t b p \<and> unat s = spend_total F t b p"
proof (cases "fee_effective_balance_spending F t b p")
  case None
  let ?n = "spend_total F t b p"
  have "\<not> (gas_cost F t b < 2 ^ 128 \<and> unat (of_nat ?n :: u256) = ?n)"
    using spending [of t b p "of_nat ?n"] None by (auto simp: gas_cost_def spend_total_def)
  then have "\<not> (gas_cost F t b < 2 ^ 128 \<and> ?n < 2 ^ 256)" by (auto simp: unat_of_nat)
  then show ?thesis using None by (auto simp: spend_overflows_def)
next
  case (Some s)
  then show ?thesis using spending [of t b p s] unat_bound [of s]
    by (auto simp: gas_cost_def spend_total_def spend_overflows_def)
qed

lemma caller_fee:
  assumes "fee_effective_balance_spending F t b p = Some s" "s \<le> bal"
  shows "calculate_caller_fee F bal t b p False = Inr (bal - of_nat (gas_cost F t b + fee_blob_fee F t p))"
proof -
  let ?n = "gas_cost F t b + fee_blob_fee F t p"
  have s: "unat s = unat (te_value t) + ?n" using spending_cases [of t b p] assms(1) by (simp add: spend_total_def)
  then have "unat (of_nat ?n :: u256) = ?n"
    using unat_bound [of s] by (simp add: unat_of_nat del: of_nat_add)
  then have n: "s - te_value t = of_nat ?n"
    using s unat_sub_exact [of "te_value t" s]
    by (simp add: word_unat_eq_iff word_le_nat_alt del: of_nat_add)
  have "s - te_value t \<le> bal"
    using s assms(2) unat_sub_exact [of "te_value t" s] by (simp add: word_le_nat_alt)
  then show ?thesis
    using assms by (simp add: calculate_caller_fee_def Let_def n saturating_sub_def not_less del: of_nat_add)
qed

lemma normal_outcome:
  assumes "jn_load_code J caller j = (Inr i, j1)"
  shows "let r = validate_and_deduct_normal_tx J F t caller is_call b p False e n j in
    if \<not> sender_ok (info j caller) t e n
      then (\<exists>x. fst r = Inl (TxError x)) \<and> info (snd r) = info j
    else if spend_overflows F t b p then (\<exists>m. fst r = Inl (Panic m)) \<and> info (snd r) = info j
    else if balance_of (info j) caller < spend_total F t b p
      then fst r = Inl (TxError (LackOfFundForMaxFee (of_nat (spend_total F t b p)) (ai_balance (info j caller)))) \<and>
           info (snd r) = info j
    else fst r = Inr () \<and>
         info (snd r) = bump_nonce caller is_call
           (charge caller (gas_cost F t b + fee_blob_fee F t p) (info j))"
proof -
  have j1: "info j1 = info j" "i = info j caller"
    using load_code_info [OF assms(1)] load_code_value [OF assms(1)] by simp_all
  note run = Let_def validate_and_deduct_normal_tx_def st_run_simps st_bind_def st_then_def st_map_err_def
    assms(1) j1
  consider (sender) "\<not> sender_ok (info j caller) t e n"
    | (panic) "sender_ok (info j caller) t e n" "fee_effective_balance_spending F t b p = None"
    | (spend) s where "sender_ok (info j caller) t e n" "fee_effective_balance_spending F t b p = Some s"
    by (cases "fee_effective_balance_spending F t b p") auto
  then show ?thesis
  proof cases
    case sender
    then obtain x where "validate_account_nonce_and_code (info j caller) t e n = Inl x"
      using validate_account_nonce_and_code_cases validate_account_nonce_and_code_Inr_iff by blast
    then show ?thesis using sender by (simp add: run)
  next
    case panic
    then have "validate_account_nonce_and_code (info j caller) t e n = Inr ()"
      by (simp add: validate_account_nonce_and_code_Inr_iff)
    then show ?thesis using panic spending_cases [of t b p]
      by (simp add: run calculate_caller_fee_def)
  next
    case spend
    then have ok: "validate_account_nonce_and_code (info j caller) t e n = Inr ()"
      by (simp add: validate_account_nonce_and_code_Inr_iff)
    have s: "unat s = spend_total F t b p" "\<not> spend_overflows F t b p" "s = of_nat (spend_total F t b p)"
      using spending_cases [of t b p] spend unat_bound [of s] word_unat_eq_iff [of s "of_nat (spend_total F t b p)"]
      by (simp_all add: unat_of_nat)
    show ?thesis
    proof (cases "s \<le> ai_balance (info j caller)")
      case True
      then show ?thesis using spend s(1,2)
        by (auto simp: run ok caller_fee [OF spend(2) True] word_le_nat_alt balance_of_def charge_def bump_nonce_def set_balance_info
            set_nonce_info fun_eq_iff)
    next
      case False
      then show ?thesis using spend s
        by (auto simp: run ok calculate_caller_fee_def word_le_nat_alt word_less_nat_alt balance_of_def
            not_le)
    qed
  qed
qed

end

section \<open>Reimbursement and base fee\<close>

text \<open>The gas a frame gives back: the rest and a non-negative refund that together fit 64 bits.\<close>

definition returned_gas :: "'g gas_ops \<Rightarrow> 'g frame_result \<Rightarrow> nat" where
  "returned_gas G fr = unat (gas_remaining G (fr_gas fr)) + nat (gas_refunded G (fr_gas fr))"

definition refund_fits :: "'g gas_ops \<Rightarrow> 'g frame_result \<Rightarrow> bool" where
  "refund_fits G fr \<longleftrightarrow> 0 \<le> gas_refunded G (fr_gas fr) \<and> returned_gas G fr < 2 ^ 64"

lemma unat_returned_gas:
  assumes "refund_fits G fr"
  shows "unat (gas_remaining G (fr_gas fr) + of_int (gas_refunded G (fr_gas fr))) = returned_gas G fr"
proof -
  have r: "(of_int (gas_refunded G (fr_gas fr)) :: u64) = of_nat (nat (gas_refunded G (fr_gas fr)))"
    using assms by (simp add: refund_fits_def)
  have "unat (of_nat (nat (gas_refunded G (fr_gas fr))) :: u64) = nat (gas_refunded G (fr_gas fr))"
    using assms by (simp add: refund_fits_def returned_gas_def unat_of_nat del: of_nat_nat)
  then show ?thesis using assms unfolding r
    by (simp add: unat_add_exact refund_fits_def returned_gas_def del: of_nat_nat)
qed

context fee_state
begin

lemma reimburse_sponsor:
  assumes "env_sponsor (ctx_tx c) = Some sponsor" "reimburse_caller J M G F fr c = (Inr (), c')"
    and "refund_fits G fr"
  defines "amount \<equiv> min (unat (fee_effective_gas_price F (env_inner (ctx_tx c)) (ucast (blk_basefee (ctx_block c))))
                          * returned_gas G fr) (2 ^ 128 - 1)"
  assumes "balance_of (info (ctx_journal c)) sponsor + amount < 2 ^ 256"
  shows "info (ctx_journal c') = credit sponsor amount (info (ctx_journal c))"
proof -
  let ?p = "fee_effective_gas_price F (env_inner (ctx_tx c)) (ucast (blk_basefee (ctx_block c)))"
  let ?m = "ucast (saturating_mul ?p (ucast (gas_remaining G (fr_gas fr) + of_int (gas_refunded G (fr_gas fr))))) :: u256"
  have m: "unat ?m = amount"
    using unat_returned_gas [OF assms(3)] by (simp add: unat_saturating_mul amount_def)
  obtain i j1 where l: "jn_load J sponsor (ctx_journal c) = (Inr i, j1)"
    and c': "c' = c \<lparr> ctx_journal := jn_set_balance J sponsor (saturating_add (ai_balance i) ?m) j1 \<rparr>"
    using assms(1,2)
    by (auto simp: reimburse_caller_def Let_def ok_iff on_journal_def split: prod.splits)
  have i: "ai_balance i = ai_balance (info (ctx_journal c) sponsor)" "info j1 = info (ctx_journal c)"
    using load_value [OF l] load_info [OF l] by simp_all
  have "saturating_add (ai_balance i) ?m = ai_balance i + ?m"
    using assms(5) m by (simp add: saturating_add_def balance_of_def i)
  moreover have "?m = of_nat amount" using m by (metis of_nat_unat ucast_id)
  ultimately show ?thesis by (simp add: c' set_balance_info i credit_def)
qed

lemma sponsored_Ok:
  assumes "validate_and_deduct_sponsored_tx J F t caller sponsor v is_call b False e n j = (Inr (), j')"
  shows "sender_ok (info j caller) t e n \<and> v \<le> ai_balance (info j caller) \<and>
    max_gas_cost F t \<le> balance_of (info j) sponsor \<and>
    info j' = charge sponsor (gas_cost F t b) (bump_nonce caller is_call (info j))"
proof -
  obtain i j1 where 1: "jn_load_code J caller j = (Inr i, j1)"
    using assms unfolding validate_and_deduct_sponsored_tx_def by (auto simp: ok_iff)
  moreover obtain k j2 where "jn_load_code J sponsor (nonce_step J caller is_call (ai_nonce i) j1) = (Inr k, j2)"
    using assms 1 unfolding validate_and_deduct_sponsored_tx_def nonce_step_def
    by (auto simp: ok_iff Let_def st_basic_Inr_iff split: if_splits)
  ultimately show ?thesis
    using sponsored_outcome [OF 1, of sponsor is_call k j2 t v b e n] assms
    by (auto simp: Let_def split: if_splits)
qed

end

context journal
begin

lemma redirect_apply_Ok:
  assumes "redirect_apply J r g c = (Inr amount, c')"
  defines "due \<equiv> unat (blk_basefee (ctx_block c)) * unat g"
  assumes "balance_of (info (ctx_journal c)) (fee_sink r) + due < 2 ^ 256"
  shows "unat amount = due \<and> info (ctx_journal c') = credit (fee_sink r) due (info (ctx_journal c))"
proof -
  let ?a = "(ucast (blk_basefee (ctx_block c)) :: u256) * ucast g"
  have "unat (blk_basefee (ctx_block c)) * unat g < 2 ^ 256"
    using assms(3) unfolding due_def by linarith
  then have a: "unat ?a = due"
    unfolding due_def by (subst unat_mul_exact) simp_all
  then have a': "?a = of_nat due" by (metis of_nat_unat ucast_id)
  show ?thesis
  proof (cases "g = 0 \<or> blk_basefee (ctx_block c) = 0 \<or> ?a = 0")
    case True
    then have "amount = 0" "c' = c" "due = 0"
      using assms(1) a by (auto simp: redirect_apply_def Let_def split: if_splits)
    then show ?thesis by (simp add: credit_def)
  next
    case False
    then obtain i j1 j2 where l: "jn_load J (fee_sink r) (ctx_journal c) = (Inr i, j1)"
      and b: "jn_balance_incr J (fee_sink r) ?a j1 = (Inr (), j2)"
      and c': "c' = c \<lparr> ctx_journal := j2 \<rparr>" "amount = ?a"
      using assms(1)
      by (auto simp: redirect_apply_def Let_def ok_iff on_journal_def split: prod.splits)
    have "info j1 = info (ctx_journal c)" by (rule load_info [OF l])
    then show ?thesis
      using balance_incr_info [OF b] assms(3) a a' by (simp add: c' credit_def balance_of_def)
  qed
qed

end

section \<open>Properties\<close>

text \<open>C6. Sponsored deduction, on every branch that reaches the state: it succeeds exactly when the
  caller is a valid sender, holds the value of the whole batch and the sponsor holds the gas limit
  at the fee cap; it then charges the sponsor the gas limit at the effective price, without
  underflow, and bumps the caller's nonce for a call; otherwise it reports a transaction error and
  moves no balance.\<close>

theorem sponsored_deduction_correct:
  assumes "journal J info saved" "tx_fees F"
    and "jn_load_code J caller j = (Inr i, j1)"
    and "jn_load_code J sponsor (nonce_step J caller is_call (ai_nonce i) j1) = (Inr k, j2)"
  shows "let r = validate_and_deduct_sponsored_tx J F t caller sponsor v is_call b False e n j in
    gas_cost F t b \<le> max_gas_cost F t \<and>
    (if sender_ok (info j caller) t e n \<and> v \<le> ai_balance (info j caller) \<and>
        max_gas_cost F t \<le> balance_of (info j) sponsor
     then fst r = Inr () \<and>
          info (snd r) = charge sponsor (gas_cost F t b) (bump_nonce caller is_call (info j))
     else (\<exists>x. fst r = Inl (TxError x)) \<and> balance_of (info (snd r)) = balance_of (info j))"
  using fee_state.sponsored_outcome [OF fee_state.intro [OF assms(1,2)] assms(3,4)]
    fee_state.gas_cost_le_max [OF fee_state.intro [OF assms(1,2)]]
  by (simp add: Let_def)

theorem sponsored_deduction_correct_witness:
  "let r = validate_and_deduct_sponsored_tx ref_journal_ops ref_fees demo_inner 1 2 11 True 10 False
     False False demo_journal in
   fst r = Inr () \<and> rj_accounts (snd r) = charge 2 1200000 (bump_nonce 1 True demo_accounts)"
proof -
  have l: "jn_load_code ref_journal_ops a demo_journal = (Inr (demo_accounts a), demo_journal)" for a
    by (simp add: ref_journal_ops_def ref_load_def demo_journal_def)
  have l2: "jn_load_code ref_journal_ops 2 (nonce_step ref_journal_ops 1 True (ai_nonce (demo_accounts 1)) demo_journal)
      = (Inr (demo_accounts 2), ref_update 1 (ai_nonce_update (\<lambda>_. 8)) demo_journal)"
    by (simp add: nonce_step_def ref_journal_ops_def ref_load_def ref_update_def demo_journal_def
        demo_accounts_def saturating_add_def)
  show ?thesis
    using sponsored_deduction_correct [OF ref_journal.journal_axioms ref_fees.tx_fees_axioms l l2,
        of demo_inner 11 10 False False]
    by (simp add: sender_ok_def max_gas_cost_def gas_cost_def balance_of_def ref_fees_def
        ref_effective_gas_price_def saturating_add_def demo_journal_def demo_accounts_def demo_inner_def)
qed

text \<open>C35. Deduction without a sponsor: the caller is charged the gas limit at the effective price
  plus the blob fee when it can cover that and the value; an invalid sender or a short balance is
  a transaction error and leaves the accounts alone. A gas cost of 128 bits or more, or a total of 256
  bits or more, panics whatever the balance, and leaves the accounts alone too.\<close>

theorem normal_deduction_correct:
  assumes "journal J info saved" "tx_fees F" "jn_load_code J caller j = (Inr i, j1)"
  shows "let r = validate_and_deduct_normal_tx J F t caller is_call b p False e n j in
    if \<not> sender_ok (info j caller) t e n
      then (\<exists>x. fst r = Inl (TxError x)) \<and> info (snd r) = info j
    else if 2 ^ 128 \<le> gas_cost F t b \<or> 2 ^ 256 \<le> spend_total F t b p
      then (\<exists>m. fst r = Inl (Panic m)) \<and> info (snd r) = info j
    else if balance_of (info j) caller < spend_total F t b p
      then fst r = Inl (TxError (LackOfFundForMaxFee (of_nat (spend_total F t b p)) (ai_balance (info j caller)))) \<and>
           info (snd r) = info j
    else fst r = Inr () \<and>
         info (snd r) = bump_nonce caller is_call
           (charge caller (gas_cost F t b + fee_blob_fee F t p) (info j))"
  using fee_state.normal_outcome [OF fee_state.intro [OF assms(1,2)] assms(3)] by (simp only: spend_overflows_def)

text \<open>The sample transaction with a small gas limit, and one whose gas cost does not fit 128 bits.\<close>

theorem normal_deduction_correct_witness:
  "(let r = validate_and_deduct_normal_tx ref_journal_ops ref_fees (demo_inner \<lparr> te_gas_limit := 10 \<rparr>) 1
      True 10 0 False False False demo_journal in
    fst r = Inr () \<and> rj_accounts (snd r) = bump_nonce 1 True (charge 1 120 demo_accounts)) \<and>
   (\<exists>m. fst (validate_and_deduct_normal_tx ref_journal_ops ref_fees
      (demo_inner \<lparr> te_gas_price := 2 ^ 127, te_gas_priority_fee := Some (2 ^ 127) \<rparr>) 1
      True 10 0 False False False demo_journal) = Inl (Panic m))"
proof -
  let ?t = "demo_inner \<lparr> te_gas_limit := 10 \<rparr>"
  let ?u = "demo_inner \<lparr> te_gas_price := 2 ^ 127, te_gas_priority_fee := Some (2 ^ 127) \<rparr>"
  have l: "jn_load_code ref_journal_ops 1 demo_journal = (Inr (demo_accounts 1), demo_journal)"
    by (simp add: ref_journal_ops_def ref_load_def demo_journal_def)
  note ok = normal_deduction_correct [OF ref_journal.journal_axioms ref_fees.tx_fees_axioms l, of _ True 10 0 False False]
  note cost = gas_cost_def ref_fees_def ref_effective_gas_price_def saturating_add_def demo_inner_def
  have "rj_accounts demo_journal = demo_accounts" by (simp add: demo_journal_def)
  moreover have "gas_cost ref_fees ?t 10 = 120" "fee_blob_fee ref_fees ?t 0 = 0" "te_value ?t = 11"
    by (simp_all add: cost ref_blob_fee_def)
  moreover have "2 ^ 128 \<le> gas_cost ref_fees ?u 10" by (simp add: cost)
  moreover have "sender_ok (demo_accounts 1) ?t False False" "sender_ok (demo_accounts 1) ?u False False"
    by (simp_all add: sender_ok_def demo_accounts_def demo_inner_def)
  ultimately show ?thesis using ok [of ?t] ok [of ?u]
    by (simp add: spend_total_def balance_of_def Let_def) (simp add: demo_accounts_def)
qed

text \<open>The redirect credits the sink with exactly base fee times gas used, computed without
  overflow, and touches no other account.\<close>

lemma base_fee_redirect_exact:
  assumes "journal J info saved" "redirect_apply J r g c = (Inr amount, c')"
    and "balance_of (info (ctx_journal c)) (fee_sink r) + unat (blk_basefee (ctx_block c)) * unat g < 2 ^ 256"
  shows "unat amount = unat (blk_basefee (ctx_block c)) * unat g \<and>
    info (ctx_journal c') =
      credit (fee_sink r) (unat (blk_basefee (ctx_block c)) * unat g) (info (ctx_journal c)) \<and>
    balance_of (info (ctx_journal c')) (fee_sink r) =
      balance_of (info (ctx_journal c)) (fee_sink r) + unat (blk_basefee (ctx_block c)) * unat g"
  using journal.redirect_apply_Ok [OF assms(1,2,3)] balance_of_credit [OF assms(3)] by simp

end
