(* ===== verification/Ev_Handler_Batch.thy ===== *)
theory Ev_Handler_Batch
  imports Ev_Handler_Fees
begin

text \<open>
  Correctness of batch execution. The specification is the relation \<open>frames\<close>, over the interpreter
  alone: the frames a batch runs, with the gas each is given. The loop of the code is related to it
  in two stages: its iterations as a step relation (\<open>batch_step\<close>), from which the loop returns
  normally exactly when the empty batch is reached and early exactly when a call fails, and the
  steps as frames.
\<close>

section \<open>The iterations of the loop\<close>

type_synonym ('j, 'g) batch_conf = "call list \<times> 'g batch_state \<times> 'j evm_ctx"

inductive batch_step ::
    "('j, 'g, 'd, 'fi) mainnet_ops \<Rightarrow> 'g gas_ops \<Rightarrow> ev_tx_env
       \<Rightarrow> ('j, 'g) batch_conf \<Rightarrow> ('j, 'g) batch_conf \<Rightarrow> bool"
  for M G base_tx where
  call_ok:
    "run_call M G base_tx call s c = (Inr fr, c') \<Longrightarrow> ir_is_ok (fr_result fr) \<Longrightarrow>
     s' = (batch_account G fr s) \<lparr> bs_last := Some fr \<rparr> \<Longrightarrow>
     batch_step M G base_tx (call # calls, s, c) (calls, s', c')"

inductive_cases batch_step_elim: "batch_step M G base_tx (calls, s, c) conf"

inductive_simps batch_step_Nil: "batch_step M G base_tx ([], s, c) conf"

inductive_simps batch_step_Cons: "batch_step M G base_tx (call # calls, s, c) conf"

abbreviation batch_steps ::
    "('j, 'g, 'd, 'fi) mainnet_ops \<Rightarrow> 'g gas_ops \<Rightarrow> ev_tx_env
       \<Rightarrow> ('j, 'g) batch_conf \<Rightarrow> ('j, 'g) batch_conf \<Rightarrow> bool" where
  "batch_steps M G base_tx \<equiv> (batch_step M G base_tx)\<^sup>*\<^sup>*"

text \<open>A configuration whose next call fails.\<close>

definition call_fails ::
    "('j, 'g, 'd, 'fi) mainnet_ops \<Rightarrow> 'g gas_ops \<Rightarrow> ev_tx_env \<Rightarrow> call \<Rightarrow> 'g batch_state \<Rightarrow> 'j evm_ctx
       \<Rightarrow> 'g frame_result \<Rightarrow> 'j evm_ctx \<Rightarrow> bool" where
  "call_fails M G base_tx call s c fr c' \<longleftrightarrow>
     run_call M G base_tx call s c = (Inr fr, c') \<and> \<not> ir_is_ok (fr_result fr)"

definition reaches_failure ::
    "('j, 'g, 'd, 'fi) mainnet_ops \<Rightarrow> 'g gas_ops \<Rightarrow> ev_tx_env \<Rightarrow> ('j, 'g) batch_conf
       \<Rightarrow> 'g batch_state \<Rightarrow> 'g frame_result \<Rightarrow> 'j evm_ctx \<Rightarrow> bool" where
  "reaches_failure M G base_tx conf s fr c' \<longleftrightarrow>
     (\<exists>call rest c. batch_steps M G base_tx conf (call # rest, s, c) \<and>
        call_fails M G base_tx call s c fr c')"

definition failed_result ::
    "'g gas_ops \<Rightarrow> ev_tx_env \<Rightarrow> 'g batch_state \<Rightarrow> 'g frame_result \<Rightarrow> 'g frame_result" where
  "failed_result G base_tx s fr =
     (let s' = batch_account G fr s in
      finalize_batch_gas G (te_gas_limit (env_inner base_tx)) (bs_remaining s') (bs_reservoir s')
        (bs_state_gas_spent s') 0 fr)"

section \<open>The loop refines the steps\<close>

lemma steps_unfold:
  "batch_steps M G base x y \<longleftrightarrow> y = x \<or> (\<exists>z. batch_step M G base x z \<and> batch_steps M G base z y)"
proof
  assume "batch_steps M G base x y"
  then show "y = x \<or> (\<exists>z. batch_step M G base x z \<and> batch_steps M G base z y)"
    by (cases rule: converse_rtranclpE) auto
qed (auto intro: converse_rtranclp_into_rtranclp)

lemma steps_Nil: "batch_steps M G base ([], s, c) conf \<longleftrightarrow> conf = ([], s, c)"
  by (subst steps_unfold) (simp add: batch_step_Nil)

lemma steps_Cons:
  "batch_steps M G base (call # calls, s, c) conf \<longleftrightarrow>
     conf = (call # calls, s, c) \<or>
     (\<exists>fr c'. run_call M G base call s c = (Inr fr, c') \<and> ir_is_ok (fr_result fr) \<and>
        batch_steps M G base (calls, (batch_account G fr s) \<lparr> bs_last := Some fr \<rparr>, c') conf)"
  by (subst steps_unfold) (auto simp: batch_step_Cons)

lemma batch_loop_Cons:
  "batch_loop J M G base cp fc (call # calls) s c = (Inr out, c'') \<longleftrightarrow>
     (\<exists>fr c'. run_call M G base call s c = (Inr fr, c') \<and>
        (if ir_is_ok (fr_result fr)
         then batch_loop J M G base cp fc calls ((batch_account G fr s) \<lparr> bs_last := Some fr \<rparr>) c' = (Inr out, c'')
         else out = Inl (failed_result G base s fr) \<and>
              c'' = revert_batch J cp fc (te_caller (env_inner base)) c'))"
  by (auto simp: ok_iff Let_def failed_result_def st_run_simps st_then_run split: if_splits)

lemma batch_loop_success:
  "batch_loop J M G base cp fc calls s c = (Inr (Inr s'), c') \<longleftrightarrow>
     batch_steps M G base (calls, s, c) ([], s', c')"
proof (induction calls arbitrary: s c)
  case Nil
  then show ?case by (auto simp: steps_Nil st_run_simps)
next
  case (Cons call calls)
  then show ?case by (auto simp: batch_loop_Cons steps_Cons simp del: batch_loop.simps)
qed

lemma reaches_failure_Nil: "\<not> reaches_failure M G base ([], s, c) s1 fr c'"
  by (simp add: reaches_failure_def steps_Nil)

lemma reaches_failure_Cons:
  "reaches_failure M G base (call # calls, s, c) s1 fr1 c2 \<longleftrightarrow>
     (\<exists>fr c'. run_call M G base call s c = (Inr fr, c') \<and>
        (if ir_is_ok (fr_result fr)
         then reaches_failure M G base (calls, (batch_account G fr s) \<lparr> bs_last := Some fr \<rparr>, c') s1 fr1 c2
         else s1 = s \<and> fr1 = fr \<and> c2 = c'))"
proof (cases "\<exists>fr c'. run_call M G base call s c = (Inr fr, c')")
  case True
  then obtain fr c' where r: "run_call M G base call s c = (Inr fr, c')" by blast
  show ?thesis
  proof (cases "ir_is_ok (fr_result fr)")
    case True
    then have "reaches_failure M G base (call # calls, s, c) s1 fr1 c2 \<longleftrightarrow>
      reaches_failure M G base (calls, (batch_account G fr s) \<lparr> bs_last := Some fr \<rparr>, c') s1 fr1 c2"
      using r by (auto simp: reaches_failure_def steps_Cons call_fails_def)
    then show ?thesis using True r by simp
  next
    case False
    then show ?thesis using r by (auto simp: reaches_failure_def steps_Cons call_fails_def)
  qed
qed (auto simp: reaches_failure_def steps_Cons call_fails_def)

lemma batch_loop_failure:
  "batch_loop J M G base cp fc calls s c = (Inr (Inl out), c') \<longleftrightarrow>
     (\<exists>s1 fr c2. reaches_failure M G base (calls, s, c) s1 fr c2 \<and> out = failed_result G base s1 fr \<and>
        c' = revert_batch J cp fc (te_caller (env_inner base)) c2)"
proof (induction calls arbitrary: s c)
  case Nil
  then show ?case by (simp add: reaches_failure_Nil st_run_simps)
next
  case (Cons call calls)
  show ?case
  proof (cases "\<exists>fr c'. run_call M G base call s c = (Inr fr, c')")
    case True
    then obtain fr c' where "run_call M G base call s c = (Inr fr, c')" by blast
    then show ?thesis using Cons.IH by (simp add: batch_loop_Cons reaches_failure_Cons del: batch_loop.simps)
  qed (auto simp: batch_loop_Cons reaches_failure_Cons simp del: batch_loop.simps)
qed

section \<open>A whole batch\<close>

definition batch_start :: "('j, 'g, 'd, 'fi) mainnet_ops \<Rightarrow> initial_gas \<Rightarrow> 'j evm_ctx \<Rightarrow> 'g batch_state" where
  "batch_start M ig c =
     (let g = mn_initial_gas_and_reservoir M ig (te_gas_limit (env_inner (ctx_tx c)))
                (cfg_tx_gas_limit_cap (ctx_cfg c)) (cfg_eip8037_enabled (ctx_cfg c)) in
      \<lparr> bs_remaining = fst g, bs_reservoir = snd g, bs_refunded = 0, bs_state_gas_spent = 0,
        bs_last = None \<rparr>)"

definition batch_entry :: "('j, 'cp, 'd) journal_ops \<Rightarrow> 'j evm_ctx \<Rightarrow> 'j evm_ctx" where
  "batch_entry J c = c \<lparr> ctx_journal := snd (jn_checkpoint J (ctx_journal c)) \<rparr>"

definition batch_success ::
    "('j, 'cp, 'd) journal_ops \<Rightarrow> ('j, 'g, 'd, 'fi) mainnet_ops \<Rightarrow> 'g gas_ops \<Rightarrow> initial_gas \<Rightarrow> call list
       \<Rightarrow> 'j evm_ctx \<Rightarrow> 'g frame_result \<Rightarrow> 'j evm_ctx \<Rightarrow> bool" where
  "batch_success J M G ig calls c fr c' \<longleftrightarrow>
     (\<exists>s' c1 lfr.
        batch_steps M G (ctx_tx c) (calls, batch_start M ig c, batch_entry J c) ([], s', c1) \<and>
        bs_last s' = Some lfr \<and>
        c' = c1 \<lparr> ctx_journal := jn_checkpoint_commit J (ctx_journal c1) \<rparr> \<and>
        fr = finalize_batch_gas G (te_gas_limit (env_inner (ctx_tx c))) (bs_remaining s')
               (bs_reservoir s') (bs_state_gas_spent s') (bs_refunded s') lfr)"

definition batch_failure ::
    "('j, 'cp, 'd) journal_ops \<Rightarrow> ('j, 'g, 'd, 'fi) mainnet_ops \<Rightarrow> 'g gas_ops \<Rightarrow> initial_gas \<Rightarrow> call list
       \<Rightarrow> 'j evm_ctx \<Rightarrow> 'g frame_result \<Rightarrow> 'j evm_ctx \<Rightarrow> bool" where
  "batch_failure J M G ig calls c fr c' \<longleftrightarrow>
     (\<exists>s1 fr1 c2.
        reaches_failure M G (ctx_tx c) (calls, batch_start M ig c, batch_entry J c) s1 fr1 c2 \<and>
        fr = failed_result G (ctx_tx c) s1 fr1 \<and>
        c' = revert_batch J (fst (jn_checkpoint J (ctx_journal c))) (call_to (hd calls) = TxCreate)
               (te_caller (env_inner (ctx_tx c))) c2)"

lemma execute_batch_unfold:
  "execute_batch J M G ig calls c =
     st_bind (batch_loop J M G (ctx_tx c) (fst (jn_checkpoint J (ctx_journal c)))
               (call_to (hd calls) = TxCreate) calls (batch_start M ig c)) (\<lambda>out.
        case out of
          Inl fr \<Rightarrow> st_return fr
        | Inr s' \<Rightarrow>
            st_then (st_modify (\<lambda>c. c \<lparr> ctx_journal := jn_checkpoint_commit J (ctx_journal c) \<rparr>))
              (case bs_last s' of
                 None \<Rightarrow> st_fail (Panic ''batch execution requires at least one call'')
               | Some fr \<Rightarrow> st_return (finalize_batch_gas G (te_gas_limit (env_inner (ctx_tx c)))
                   (bs_remaining s') (bs_reservoir s') (bs_state_gas_spent s') (bs_refunded s') fr)))
     (batch_entry J c)"
  by (simp add: execute_batch_def batch_start_def batch_entry_def Let_def split: prod.split)

lemma execute_batch_Inr_iff:
  "execute_batch J M G ig calls c = (Inr fr, c') \<longleftrightarrow>
     batch_success J M G ig calls c fr c' \<or> batch_failure J M G ig calls c fr c'"
proof -
  have "execute_batch J M G ig calls c = (Inr fr, c') \<longleftrightarrow>
      (\<exists>s' c1 lfr. batch_loop J M G (ctx_tx c) (fst (jn_checkpoint J (ctx_journal c)))
          (call_to (hd calls) = TxCreate) calls (batch_start M ig c) (batch_entry J c) = (Inr (Inr s'), c1) \<and>
        bs_last s' = Some lfr \<and> c' = c1 \<lparr> ctx_journal := jn_checkpoint_commit J (ctx_journal c1) \<rparr> \<and>
        fr = finalize_batch_gas G (te_gas_limit (env_inner (ctx_tx c))) (bs_remaining s')
               (bs_reservoir s') (bs_state_gas_spent s') (bs_refunded s') lfr) \<or>
      batch_loop J M G (ctx_tx c) (fst (jn_checkpoint J (ctx_journal c)))
          (call_to (hd calls) = TxCreate) calls (batch_start M ig c) (batch_entry J c) = (Inr (Inl fr), c')"
    unfolding execute_batch_unfold
    by (auto simp: st_bind_def st_then_def st_run_simps split: prod.splits sum.splits option.splits)
  then show ?thesis
    by (simp add: batch_loop_success batch_loop_failure batch_success_def batch_failure_def)
qed

lemma execution_batch_iff:
  assumes "batch_calls (ctx_tx c) = Some calls" "1 < length calls"
  shows "execution J M G ig c = (Inr fr, c') \<longleftrightarrow>
    batch_success J M G ig calls c fr c' \<or> batch_failure J M G ig calls c fr c'"
proof -
  have "execution J M G ig c = execute_batch J M G ig calls c" using assms by (auto simp: execution_def)
  then show ?thesis by (simp add: execute_batch_Inr_iff)
qed

lemma fr_result_finalize [simp]: "fr_result (finalize_batch_gas G l r v st rf fr) = fr_result fr"
  by (simp add: finalize_batch_gas_def Let_def)

lemma fr_result_failed: "reaches_failure M G base conf s fr c \<Longrightarrow> \<not> ir_is_ok (fr_result (failed_result G base s fr))"
  by (auto simp: reaches_failure_def call_fails_def failed_result_def Let_def)

text \<open>The last frame recorded is one that succeeded.\<close>

lemma steps_last_ok:
  assumes "batch_steps M G base conf conf'" "\<forall>fr. bs_last (fst (snd conf)) = Some fr \<longrightarrow> ir_is_ok (fr_result fr)"
  shows "\<forall>fr. bs_last (fst (snd conf')) = Some fr \<longrightarrow> ir_is_ok (fr_result fr)"
  using assms by (induction rule: rtranclp_induct) (auto elim!: batch_step.cases)

lemma batch_success_ok: "batch_success J M G ig calls c fr c' \<Longrightarrow> ir_is_ok (fr_result fr)"
  using steps_last_ok by (fastforce simp: batch_success_def batch_start_def Let_def)

lemma batch_failure_not_ok: "batch_failure J M G ig calls c fr c' \<Longrightarrow> \<not> ir_is_ok (fr_result fr)"
  by (auto simp: batch_failure_def fr_result_failed)

text \<open>The calls run in the order of the batch: what is left is a suffix.\<close>

lemma steps_suffix:
  "batch_steps M G base conf conf' \<Longrightarrow> \<exists>ran. fst conf = ran @ fst conf'"
  by (induction rule: rtranclp_induct) (auto elim!: batch_step.cases)

context interpreter
begin

lemma run_call_saved:
  assumes "run_call M G base call s c = (r, c')" "saved (ctx_journal c) cp = Some v"
  shows "saved (ctx_journal c') cp = Some v"
proof -
  let ?c = "c \<lparr> ctx_tx := set_batch_call call base \<rparr>"
  obtain r1 c1 where f: "mn_first_frame_input M (bs_remaining s) (bs_reservoir s) ?c = (r1, c1)"
    by fastforce
  have s1: "saved (ctx_journal c1) cp = Some v"
    using first_frame_saved [OF f, of cp v] assms(2) by simp
  show ?thesis
  proof (cases r1)
    case (Inl e)
    then have "c' = c1" using assms(1) f by (simp add: run_call_def st_then_def st_bind_def st_run_simps)
    then show ?thesis using s1 by simp
  next
    case (Inr fi)
    then have "mn_run_exec_loop M fi c1 = (r, c')"
      using assms(1) f by (simp add: run_call_def st_then_def st_bind_def st_run_simps)
    then show ?thesis by (rule run_loop_saved [OF _ s1])
  qed
qed

lemma steps_saved:
  assumes "batch_steps M G base conf conf'" "saved (ctx_journal (snd (snd conf))) cp = Some v"
  shows "saved (ctx_journal (snd (snd conf'))) cp = Some v"
  using assms by (induction rule: rtranclp_induct) (auto elim!: batch_step.cases dest: run_call_saved)

lemma reaches_failure_saved:
  assumes "reaches_failure M G base conf s fr c'" "saved (ctx_journal (snd (snd conf))) cp = Some v"
  shows "saved (ctx_journal c') cp = Some v"
proof -
  obtain call rest c where "batch_steps M G base conf (call # rest, s, c)"
    and r: "run_call M G base call s c = (Inr fr, c')"
    using assms(1) by (auto simp: reaches_failure_def call_fails_def)
  from steps_saved [OF this(1) assms(2)] show ?thesis using run_call_saved [OF r] by simp
qed

lemma revert_batch_info:
  assumes "saved (ctx_journal c) cp = Some v"
  shows "\<exists>j1. info j1 = v \<and>
    info (ctx_journal (revert_batch J cp fc a c)) = bump_nonce a (fc \<and> is_ok (fst (jn_load_code J a j1))) v"
proof -
  let ?j = "jn_checkpoint_revert J cp (ctx_journal c)"
  obtain r j1 where l: "jn_load_code J a ?j = (r, j1)" by fastforce
  have i: "info ?j = v" "info j1 = v"
    using revert_info [OF assms] load_code_info [OF l] by simp_all
  then show ?thesis using l load_code_value [of a ?j _ j1]
    by (intro exI [of _ ?j]) (cases r; auto simp: revert_batch_def Let_def bump_nonce_def set_nonce_info)
qed

lemma batch_failure_info:
  assumes "batch_failure J M G ig calls c fr c'"
  shows "\<exists>j1. info j1 = info (ctx_journal c) \<and>
    info (ctx_journal c') =
      bump_nonce (te_caller (env_inner (ctx_tx c)))
        (call_to (hd calls) = TxCreate \<and> is_ok (fst (jn_load_code J (te_caller (env_inner (ctx_tx c))) j1)))
        (info (ctx_journal c))"
proof -
  have "saved (ctx_journal (batch_entry J c)) (fst (jn_checkpoint J (ctx_journal c))) = Some (info (ctx_journal c))"
    using checkpoint_saved [OF prod.collapse [symmetric], of "ctx_journal c"] by (simp add: batch_entry_def)
  then show ?thesis
    using assms revert_batch_info reaches_failure_saved by (fastforce simp: batch_failure_def)
qed

end

section \<open>The frames of a batch\<close>

text \<open>
  The specification of a batch, over the interpreter alone: the first frame of each call is run on
  the base transaction with the target, value and input of the call, and is given the gas and the
  reservoir its predecessor left.
\<close>

inductive frames ::
    "('j, 'g, 'd, 'fi) mainnet_ops \<Rightarrow> 'g gas_ops \<Rightarrow> ev_tx_env \<Rightarrow> call list \<Rightarrow> u64 \<Rightarrow> u64 \<Rightarrow> 'j evm_ctx
       \<Rightarrow> 'g frame_result list \<Rightarrow> 'j evm_ctx \<Rightarrow> bool"
  for M G base_tx where
  no_frame: "frames M G base_tx [] gas reservoir c [] c"
| next_frame:
    "mn_first_frame_input M gas reservoir
       (c \<lparr> ctx_tx := base_tx \<lparr> env_inner := (env_inner base_tx)
          \<lparr> te_kind := call_to call, te_value := call_value call, te_data := call_input call \<rparr> \<rparr> \<rparr>) = (Inr fi, c1) \<Longrightarrow>
     mn_run_exec_loop M fi c1 = (Inr fr, c2) \<Longrightarrow>
     frames M G base_tx calls (gas_remaining G (fr_gas fr)) (gas_reservoir G (fr_gas fr)) c2 frs c3 \<Longrightarrow>
     frames M G base_tx (call # calls) gas reservoir c (fr # frs) c3"

inductive_simps frames_Nil: "frames M G base_tx [] gas reservoir c frs c'"

inductive_simps frames_Cons: "frames M G base_tx (call # calls) gas reservoir c frs c'"

abbreviation frame_ok :: "'g frame_result \<Rightarrow> bool" where
  "frame_ok f \<equiv> ir_is_ok (fr_result f)"

text \<open>The frames of a batch from a checkpoint on: all calls, or the calls up to the first that fails.\<close>

definition batch_frames ::
    "('j, 'cp, 'd) journal_ops \<Rightarrow> ('j, 'g, 'd, 'fi) mainnet_ops \<Rightarrow> 'g gas_ops \<Rightarrow> initial_gas \<Rightarrow> call list
       \<Rightarrow> 'j evm_ctx \<Rightarrow> 'g frame_result list \<Rightarrow> 'j evm_ctx \<Rightarrow> bool" where
  "batch_frames J M G ig calls c frs c' \<longleftrightarrow>
     (\<exists>gas reservoir.
        mn_initial_gas_and_reservoir M ig (te_gas_limit (env_inner (ctx_tx c)))
          (cfg_tx_gas_limit_cap (ctx_cfg c)) (cfg_eip8037_enabled (ctx_cfg c)) = (gas, reservoir) \<and>
        frames M G (ctx_tx c) (take (length frs) calls) gas reservoir
          (c \<lparr> ctx_journal := snd (jn_checkpoint J (ctx_journal c)) \<rparr>) frs c') \<and>
     frs \<noteq> [] \<and> length frs \<le> length calls \<and> list_all frame_ok (butlast frs) \<and>
     (frame_ok (last frs) \<longrightarrow> length frs = length calls)"

text \<open>
  The gas a batch reports against the limit of the transaction: what the last frame left, with the
  refunds and the state gas of all frames when it succeeded, and none of them when it failed, where
  the state gas returns to the reservoir. Sums stop at the bounds of their types.
\<close>

definition batch_gas :: "'g gas_ops \<Rightarrow> u64 \<Rightarrow> 'g frame_result list \<Rightarrow> 'g \<Rightarrow> bool" where
  "batch_gas G limit frs g \<longleftrightarrow>
     (let last_gas = fr_gas (last frs);
          state = (\<Sum>f\<leftarrow>frs. unat (gas_state_spent G (fr_gas f))) in
      gas_limit_of G g = limit \<and>
      gas_remaining G g = (if ir_is_ok_or_revert (fr_result (last frs)) then gas_remaining G last_gas else 0) \<and>
      (if frame_ok (last frs)
       then gas_refunded G g =
              foldl (\<lambda>acc f. max (- (2 ^ 63)) (min (2 ^ 63 - 1) (acc + gas_refunded G (fr_gas f)))) 0 frs \<and>
            unat (gas_state_spent G g) = min state (2 ^ 64 - 1) \<and> gas_reservoir G g = gas_reservoir G last_gas
       else gas_refunded G g = 0 \<and> gas_state_spent G g = 0 \<and>
            unat (gas_reservoir G g) = min (unat (gas_reservoir G last_gas) + state) (2 ^ 64 - 1)))"

text \<open>The local variables of the loop after some frames.\<close>

definition account_frames :: "'g gas_ops \<Rightarrow> 'g frame_result list \<Rightarrow> 'g batch_state \<Rightarrow> 'g batch_state" where
  "account_frames G frs s = foldl (\<lambda>s f. (batch_account G f s) \<lparr> bs_last := Some f \<rparr>) s frs"

lemma account_frames_last:
  assumes "frs \<noteq> []"
  shows "bs_last (account_frames G frs s) = Some (last frs)"
    "bs_remaining (account_frames G frs s) = gas_remaining G (fr_gas (last frs))"
    "bs_reservoir (account_frames G frs s) = gas_reservoir G (fr_gas (last frs))"
  using assms by (cases frs rule: rev_cases; simp add: account_frames_def batch_account_def)+

lemma account_frames_refunded:
  "bs_refunded (account_frames G frs s) =
     foldl (\<lambda>acc f. max (- (2 ^ 63)) (min (2 ^ 63 - 1) (acc + gas_refunded G (fr_gas f)))) (bs_refunded s) frs"
  by (induction frs rule: rev_induct) (simp_all add: account_frames_def batch_account_def i64_saturating_add_def)

lemma account_frames_state:
  "unat (bs_state_gas_spent (account_frames G frs s)) =
     min (unat (bs_state_gas_spent s) + (\<Sum>f\<leftarrow>frs. unat (gas_state_spent G (fr_gas f)))) (2 ^ 64 - 1)"
  using unat_bound [of "bs_state_gas_spent s"]
  by (induction frs rule: rev_induct) (simp_all add: account_frames_def batch_account_def unat_saturating_add)

lemma run_call_frame:
  "run_call M G base call s c = (Inr fr, c') \<longleftrightarrow>
     (\<exists>fi c1. mn_first_frame_input M (bs_remaining s) (bs_reservoir s)
        (c \<lparr> ctx_tx := base \<lparr> env_inner := (env_inner base)
           \<lparr> te_kind := call_to call, te_value := call_value call, te_data := call_input call \<rparr> \<rparr> \<rparr>) = (Inr fi, c1) \<and>
        mn_run_exec_loop M fi c1 = (Inr fr, c'))"
  by (auto simp: run_call_def ok_iff set_batch_call_def set_call_def)

lemma account_frames_Nil [simp]: "account_frames G [] s = s"
  by (simp add: account_frames_def)

lemma account_frames_Cons [simp]:
  "account_frames G (f # frs) s = account_frames G frs ((batch_account G f s) \<lparr> bs_last := Some f \<rparr>)"
  by (simp add: account_frames_def)

lemma frames_run_call:
  "frames M G base (call # calls) (bs_remaining s) (bs_reservoir s) c frs c' \<longleftrightarrow>
     (\<exists>fr frs' c1. frs = fr # frs' \<and> run_call M G base call s c = (Inr fr, c1) \<and>
        frames M G base calls (bs_remaining (batch_account G fr s)) (bs_reservoir (batch_account G fr s)) c1 frs' c')"
  by (auto simp: frames_Cons run_call_frame batch_account_def)

lemma ex_list_split: "(\<exists>xs. P xs) \<longleftrightarrow> P [] \<or> (\<exists>x xs. P (x # xs))"
proof
  assume "\<exists>xs. P xs"
  then obtain xs where "P xs" ..
  then show "P [] \<or> (\<exists>x xs. P (x # xs))" by (cases xs) auto
qed auto

text \<open>The steps of the loop are frames that succeed.\<close>

lemma steps_frames:
  "batch_steps M G base (calls, s, c) (rest, s', c') \<longleftrightarrow>
     (\<exists>frs. length frs \<le> length calls \<and> rest = drop (length frs) calls \<and> list_all frame_ok frs \<and>
        frames M G base (take (length frs) calls) (bs_remaining s) (bs_reservoir s) c frs c' \<and>
        s' = account_frames G frs s)"
proof (induction calls arbitrary: s c)
  case Nil
  then show ?case by (auto simp: steps_Nil frames_Nil)
next
  case (Cons call calls)
  show ?case
    by (subst ex_list_split, unfold steps_Cons Cons.IH) (auto simp: frames_Nil frames_run_call)
qed

lemma batch_frames_start:
  "batch_frames J M G ig calls c frs c' \<longleftrightarrow>
     frames M G (ctx_tx c) (take (length frs) calls) (bs_remaining (batch_start M ig c))
       (bs_reservoir (batch_start M ig c)) (batch_entry J c) frs c' \<and>
     frs \<noteq> [] \<and> length frs \<le> length calls \<and> list_all frame_ok (butlast frs) \<and>
     (frame_ok (last frs) \<longrightarrow> length frs = length calls)"
  by (cases "mn_initial_gas_and_reservoir M ig (te_gas_limit (env_inner (ctx_tx c)))
        (cfg_tx_gas_limit_cap (ctx_cfg c)) (cfg_eip8037_enabled (ctx_cfg c))")
    (auto simp: batch_frames_def batch_start_def batch_entry_def Let_def)

lemma failure_frames:
  "reaches_failure M G base (calls, s, c) s1 fr c' \<longleftrightarrow>
     (\<exists>frs. length frs < length calls \<and> list_all frame_ok frs \<and> \<not> frame_ok fr \<and> s1 = account_frames G frs s \<and>
        frames M G base (take (Suc (length frs)) calls) (bs_remaining s) (bs_reservoir s) c (frs @ [fr]) c')"
proof (induction calls arbitrary: s c)
  case Nil
  then show ?case by (simp add: reaches_failure_Nil)
next
  case (Cons call calls)
  show ?case
    by (subst ex_list_split, unfold reaches_failure_Cons Cons.IH)
      (auto simp: frames_Nil frames_run_call)
qed

text \<open>A success is the frames of all calls, a failure those up to the call that failed.\<close>

lemma batch_success_frames:
  assumes "calls \<noteq> []"
  shows "batch_success J M G ig calls c fr c' \<longleftrightarrow>
    (\<exists>frs c1. batch_frames J M G ig calls c frs c1 \<and> frame_ok (last frs) \<and>
       c' = c1 \<lparr> ctx_journal := jn_checkpoint_commit J (ctx_journal c1) \<rparr> \<and>
       (let s = account_frames G frs (batch_start M ig c) in
        fr = finalize_batch_gas G (te_gas_limit (env_inner (ctx_tx c))) (bs_remaining s) (bs_reservoir s)
               (bs_state_gas_spent s) (bs_refunded s) (last frs)))" (is "_ \<longleftrightarrow> ?rhs")
proof
  assume "batch_success J M G ig calls c fr c'"
  then obtain frs c1 lfr where f: "length frs = length calls" "list_all frame_ok frs"
      "frames M G (ctx_tx c) (take (length frs) calls) (bs_remaining (batch_start M ig c))
         (bs_reservoir (batch_start M ig c)) (batch_entry J c) frs c1"
    and c': "c' = c1 \<lparr> ctx_journal := jn_checkpoint_commit J (ctx_journal c1) \<rparr>"
    and l: "bs_last (account_frames G frs (batch_start M ig c)) = Some lfr"
    and fr: "let s = account_frames G frs (batch_start M ig c) in
        fr = finalize_batch_gas G (te_gas_limit (env_inner (ctx_tx c))) (bs_remaining s) (bs_reservoir s)
               (bs_state_gas_spent s) (bs_refunded s) lfr"
    by (auto simp: batch_success_def steps_frames Let_def)
  have ne: "frs \<noteq> []" using f(1) assms by auto
  then have "list_all frame_ok (butlast frs)" "frame_ok (last frs)"
    using f(2) by (cases frs rule: rev_cases; simp)+
  then show ?rhs using f ne c' l fr account_frames_last(1) [OF ne]
    by (intro exI [of _ frs] exI [of _ c1]) (simp add: batch_frames_start)
next
  assume ?rhs
  then obtain frs c1 where f: "batch_frames J M G ig calls c frs c1" "frame_ok (last frs)"
    and c': "c' = c1 \<lparr> ctx_journal := jn_checkpoint_commit J (ctx_journal c1) \<rparr>"
    and fr: "let s = account_frames G frs (batch_start M ig c) in
        fr = finalize_batch_gas G (te_gas_limit (env_inner (ctx_tx c))) (bs_remaining s) (bs_reservoir s)
               (bs_state_gas_spent s) (bs_refunded s) (last frs)" by blast
  have ne: "frs \<noteq> []" using f(1) by (simp add: batch_frames_start)
  have "list_all frame_ok frs" using f by (cases frs rule: rev_cases) (simp_all add: batch_frames_start)
  then have "batch_steps M G (ctx_tx c) (calls, batch_start M ig c, batch_entry J c)
      ([], account_frames G frs (batch_start M ig c), c1)"
    using f by (auto simp: steps_frames batch_frames_start)
  then show "batch_success J M G ig calls c fr c'"
    unfolding batch_success_def using account_frames_last(1) [OF ne] c' fr
    by - (rule exI [of _ "account_frames G frs (batch_start M ig c)"], rule exI [of _ c1], rule exI [of _ "last frs"],
      simp add: Let_def)
qed

lemma batch_failure_frames:
  "batch_failure J M G ig calls c fr c' \<longleftrightarrow>
    (\<exists>frs c1. batch_frames J M G ig calls c frs c1 \<and> \<not> frame_ok (last frs) \<and>
       fr = failed_result G (ctx_tx c) (account_frames G (butlast frs) (batch_start M ig c)) (last frs) \<and>
       c' = revert_batch J (fst (jn_checkpoint J (ctx_journal c))) (call_to (hd calls) = TxCreate)
              (te_caller (env_inner (ctx_tx c))) c1)" (is "_ \<longleftrightarrow> (\<exists>frs c1. ?P frs c1)")
proof
  assume "batch_failure J M G ig calls c fr c'"
  then obtain fs f c1 where "length fs < length calls" "list_all frame_ok fs" "\<not> frame_ok f"
      "frames M G (ctx_tx c) (take (Suc (length fs)) calls) (bs_remaining (batch_start M ig c))
         (bs_reservoir (batch_start M ig c)) (batch_entry J c) (fs @ [f]) c1"
      "fr = failed_result G (ctx_tx c) (account_frames G fs (batch_start M ig c)) f"
      "c' = revert_batch J (fst (jn_checkpoint J (ctx_journal c))) (call_to (hd calls) = TxCreate)
              (te_caller (env_inner (ctx_tx c))) c1"
    by (auto simp: batch_failure_def failure_frames)
  then have "?P (fs @ [f]) c1" by (simp add: batch_frames_start)
  then show "\<exists>frs c1. ?P frs c1" by blast
next
  assume "\<exists>frs c1. ?P frs c1"
  then obtain frs c1 where p: "?P frs c1" by blast
  then obtain fs f where frs: "frs = fs @ [f]" by (cases frs rule: rev_cases) (auto simp: batch_frames_start)
  then have "reaches_failure M G (ctx_tx c) (calls, batch_start M ig c, batch_entry J c)
      (account_frames G fs (batch_start M ig c)) f c1"
    unfolding failure_frames using p by (intro exI [of _ fs]) (auto simp: batch_frames_start)
  then show "batch_failure J M G ig calls c fr c'" using p by (auto simp: batch_failure_def frs)
qed

lemma execution_frames:
  assumes "batch_calls (ctx_tx c) = Some calls" "1 < length calls"
  shows "(\<exists>fr c'. execution J M G ig c = (Inr fr, c')) \<longleftrightarrow> (\<exists>frs c1. batch_frames J M G ig calls c frs c1)"
proof
  have ne: "calls \<noteq> []" using assms(2) by auto
  show "\<exists>frs c1. batch_frames J M G ig calls c frs c1" if "\<exists>fr c'. execution J M G ig c = (Inr fr, c')"
    using that execution_batch_iff [OF assms, of J M G ig] batch_success_frames [OF ne, of J M G ig c]
      batch_failure_frames [of J M G ig calls c] by metis
  show "\<exists>fr c'. execution J M G ig c = (Inr fr, c')" if ex: "\<exists>frs c1. batch_frames J M G ig calls c frs c1"
  proof -
    obtain frs c1 where f: "batch_frames J M G ig calls c frs c1" using ex by blast
    have "(\<exists>fr c'. batch_success J M G ig calls c fr c') \<or> (\<exists>fr c'. batch_failure J M G ig calls c fr c')"
      using f by (cases "frame_ok (last frs)") (auto simp: batch_success_frames [OF ne] batch_failure_frames Let_def)
    then show ?thesis using execution_batch_iff [OF assms, of J M G ig] by blast
  qed
qed

section \<open>Gas\<close>

text \<open>A frame gives back at most the gas it was given.\<close>

locale metered_interpreter = interpreter J info saved M + gas_meter G
  for J :: "('j, 'cp, 'd) journal_ops"
    and info :: "'j \<Rightarrow> accounts"
    and saved :: "'j \<Rightarrow> 'cp \<Rightarrow> accounts option"
    and M :: "('j, 'g, 'd, 'fi) mainnet_ops"
    and G :: "'g gas_ops" +
  assumes frame_gas:
    "mn_first_frame_input M g r c = (Inr fi, c1) \<Longrightarrow> mn_run_exec_loop M fi c1 = (Inr fr, c2) \<Longrightarrow>
     gas_remaining G (fr_gas fr) \<le> g"
begin

lemma run_call_gas:
  "run_call M G base call s c = (Inr fr, c') \<Longrightarrow> gas_remaining G (fr_gas fr) \<le> bs_remaining s"
  by (auto simp: run_call_def ok_iff dest: frame_gas)

lemma steps_gas:
  "batch_steps M G base conf conf' \<Longrightarrow> bs_remaining (fst (snd conf')) \<le> bs_remaining (fst (snd conf))"
  by (induction rule: rtranclp_induct)
    (auto elim!: batch_step.cases dest!: run_call_gas simp: batch_account_def intro: order_trans)

lemma failed_gas:
  assumes "reaches_failure M G base conf s fr c'"
  shows "gas_remaining G (fr_gas fr) \<le> bs_remaining (fst (snd conf))"
proof -
  obtain call rest c where "batch_steps M G base conf (call # rest, s, c)"
    and r: "run_call M G base call s c = (Inr fr, c')"
    using assms by (auto simp: reaches_failure_def call_fails_def)
  from steps_gas [OF this(1)] run_call_gas [OF r] show ?thesis by simp
qed

lemma finalize_gas:
  "gas_limit_of G (fr_gas (finalize_batch_gas G l r v st rf fr)) = l"
  "gas_remaining G (fr_gas (finalize_batch_gas G l r v st rf fr)) = (if ir_is_ok_or_revert (fr_result fr) then r else 0)"
  "gas_refunded G (fr_gas (finalize_batch_gas G l r v st rf fr)) = (if ir_is_ok (fr_result fr) then rf else 0)"
  "gas_state_spent G (fr_gas (finalize_batch_gas G l r v st rf fr)) = (if ir_is_ok (fr_result fr) then st else 0)"
  "gas_reservoir G (fr_gas (finalize_batch_gas G l r v st rf fr)) =
     (if ir_is_ok (fr_result fr) then v else saturating_add v st)"
  by (simp_all add: finalize_batch_gas_def Let_def gas_laws)

lemma success_gas:
  assumes "frs \<noteq> []" "frame_ok (last frs)" "s = account_frames G frs (batch_start M ig c)"
  shows "batch_gas G l frs (fr_gas (finalize_batch_gas G l (bs_remaining s) (bs_reservoir s)
    (bs_state_gas_spent s) (bs_refunded s) (last frs)))"
proof -
  have "ir_is_ok_or_revert (fr_result (last frs))" using assms(2) by (cases "fr_result (last frs)") simp_all
  then show ?thesis
    using assms account_frames_refunded [of G frs "batch_start M ig c"] account_frames_state [of G frs "batch_start M ig c"]
    by (simp add: batch_gas_def finalize_gas account_frames_last Let_def) (simp add: batch_start_def Let_def)
qed

lemma failed_result_gas:
  assumes "\<not> frame_ok f" "s = account_frames G fs (batch_start M ig c)"
  shows "batch_gas G (te_gas_limit (env_inner base)) (fs @ [f]) (fr_gas (failed_result G base s f))"
proof -
  have "unat (bs_state_gas_spent (batch_account G f s)) =
      min (\<Sum>g\<leftarrow>fs @ [f]. unat (gas_state_spent G (fr_gas g))) (2 ^ 64 - 1)"
    using account_frames_state [of G fs "batch_start M ig c"]
    by (simp add: assms(2) batch_account_def unat_saturating_add batch_start_def Let_def)
  then show ?thesis using assms(1)
    by (simp add: batch_gas_def failed_result_def finalize_gas Let_def unat_saturating_add)
      (simp add: batch_account_def)
qed

text \<open>What execution makes of the frames of a batch.\<close>

lemma frames_outcome:
  assumes f: "batch_frames J M G ig calls c frs c1" and t: "t = env_inner (ctx_tx c)"
    and x: "execution J M G ig c = (Inr fr, c')" and calls: "batch_calls (ctx_tx c) = Some calls" "1 < length calls"
  shows "fr_result fr = fr_result (last frs) \<and> fr_output fr = fr_output (last frs) \<and>
    batch_gas G (te_gas_limit t) frs (fr_gas fr) \<and>
    ctx_tx c' = ctx_tx c1 \<and> ctx_block c' = ctx_block c1 \<and> ctx_cfg c' = ctx_cfg c1 \<and>
    (if frame_ok (last frs) then info (ctx_journal c') = info (ctx_journal c1)
     else \<exists>j1. info j1 = info (ctx_journal c) \<and>
       info (ctx_journal c') = bump_nonce (te_caller t)
         (call_to (hd calls) = TxCreate \<and> is_ok (fst (jn_load_code J (te_caller t) j1))) (info (ctx_journal c)))"
proof -
  have ne: "calls \<noteq> []" "frs \<noteq> []" using calls(2) f by (auto simp: batch_frames_start)
  note runs = execution_batch_iff [OF calls, of J M G ig]
  show ?thesis
  proof (cases "frame_ok (last frs)")
    case True
    let ?s = "account_frames G frs (batch_start M ig c)"
    let ?c = "c1 \<lparr> ctx_journal := jn_checkpoint_commit J (ctx_journal c1) \<rparr>"
    let ?fr = "finalize_batch_gas G (te_gas_limit t) (bs_remaining ?s) (bs_reservoir ?s) (bs_state_gas_spent ?s)
      (bs_refunded ?s) (last frs)"
    have "batch_success J M G ig calls c ?fr ?c"
      unfolding batch_success_frames [OF ne(1)] Let_def using f True by (auto simp: t)
    then have "fr = ?fr" "c' = ?c" using runs [of ?fr ?c] x by auto
    then show ?thesis using True success_gas [OF ne(2) True refl] commit_info
      by (simp add: finalize_batch_gas_def Let_def)
  next
    case False
    let ?fr = "failed_result G (ctx_tx c) (account_frames G (butlast frs) (batch_start M ig c)) (last frs)"
    let ?c = "revert_batch J (fst (jn_checkpoint J (ctx_journal c))) (call_to (hd calls) = TxCreate)
      (te_caller (env_inner (ctx_tx c))) c1"
    have b: "batch_failure J M G ig calls c ?fr ?c"
      unfolding batch_failure_frames using f False by blast
    then have e: "fr = ?fr" "c' = ?c" using runs [of ?fr ?c] x by auto
    have "batch_gas G (te_gas_limit t) frs (fr_gas fr)"
      using failed_result_gas [OF False refl, of "ctx_tx c" "butlast frs"] ne(2) by (simp add: e t)
    then show ?thesis using False batch_failure_info [OF b]
      by (auto simp: e t failed_result_def finalize_batch_gas_def revert_batch_def Let_def)
  qed
qed

end

interpretation ref_metered: metered_interpreter ref_journal_ops rj_accounts ref_saved ref_mainnet ref_gas_ops
  by unfold_locales
    (auto simp: ref_mainnet_def st_return_def ref_run_def ref_gas_ops_def Let_def word_le_nat_alt
      unat_saturating_sub)

lemmas demo_run = execution_def execute_batch_def batch_calls_def run_call_def revert_batch_def
  batch_account_def finalize_batch_gas_def st_bind_def st_then_def st_run_simps Let_def
  ref_mainnet_def ref_run_def ref_result_def ref_journal_ops_def ref_load_def ref_update_def
  ref_transfer_def ref_gas_ops_def i64_saturating_add_def saturating_add_def saturating_sub_def
  set_batch_call_def set_call_def

definition demo_initial :: initial_gas where
  "demo_initial = \<lparr> ig_total = 42000, ig_state = 0, ig_floor = 0, ig_eip7702_reservoir_refund = 0 \<rparr>"

lemma demo_batch:
  "batch_calls (ctx_tx (demo_ctx demo_calls)) = Some demo_calls \<and> 1 < length demo_calls"
  "batch_calls (ctx_tx (demo_ctx demo_failing_create)) = Some demo_failing_create \<and> 1 < length demo_failing_create"
  by (simp_all add: batch_calls_def demo_defs)

section \<open>Properties\<close>

text \<open>C7. A batch of several calls runs its frames: execution returns a result exactly when there is a
  sequence of frames from a checkpoint on, one per call in order, each on the base transaction with the
  target, value and input of its call and the gas its predecessor left, that either covers all calls and
  succeeds throughout or ends with the first frame that fails. The result has status and output of the
  last frame and the gas of the frames. After a success the accounts are those the last frame left; after
  a failure they are those before the batch, but for the nonce of a caller whose batch starts with a
  creation. The transaction of the context stays that of the last call that ran.\<close>

theorem batch_execution_refines:
  assumes "metered_interpreter J info saved M G"
    and "batch_calls (ctx_tx c) = Some calls" "1 < length calls"
    and "t = env_inner (ctx_tx c)"
  shows "((\<exists>fr c'. execution J M G ig c = (Inr fr, c')) \<longleftrightarrow> (\<exists>frs c1. batch_frames J M G ig calls c frs c1)) \<and>
    (\<forall>fr c' frs c1. execution J M G ig c = (Inr fr, c') \<and> batch_frames J M G ig calls c frs c1 \<longrightarrow>
       fr_result fr = fr_result (last frs) \<and> fr_output fr = fr_output (last frs) \<and>
       batch_gas G (te_gas_limit t) frs (fr_gas fr) \<and>
       ctx_tx c' = ctx_tx c1 \<and> ctx_block c' = ctx_block c1 \<and> ctx_cfg c' = ctx_cfg c1 \<and>
       (if ir_is_ok (fr_result (last frs)) then info (ctx_journal c') = info (ctx_journal c1)
        else \<exists>j1. info j1 = info (ctx_journal c) \<and>
          info (ctx_journal c') = bump_nonce (te_caller t)
            (call_to (hd calls) = TxCreate \<and> is_ok (fst (jn_load_code J (te_caller t) j1))) (info (ctx_journal c))))"
  unfolding assms(4)
  by (rule conjI [OF execution_frames [OF assms(2,3)]], intro allI impI, elim conjE,
    rule metered_interpreter.frames_outcome [OF assms(1) _ refl _ assms(2,3)])

text \<open>Two transfers of 5 to account 3 and 6 to account 4: both frames succeed, and the accounts are theirs.\<close>

theorem batch_execution_refines_witness:
  "\<exists>fr c' frs c1.
     execution ref_journal_ops ref_mainnet ref_gas_ops demo_initial (demo_ctx demo_calls) = (Inr fr, c') \<and>
     batch_frames ref_journal_ops ref_mainnet ref_gas_ops demo_initial demo_calls (demo_ctx demo_calls) frs c1 \<and>
     batch_gas ref_gas_ops 100000 frs (fr_gas fr) \<and> rg_remaining (fr_gas fr) = 16000 \<and>
     rj_accounts (ctx_journal c') = rj_accounts (ctx_journal c1) \<and>
     map (balance_of (rj_accounts (ctx_journal c'))) [1, 3, 4] = [989, 5, 6]"
proof -
  let ?x = "execution ref_journal_ops ref_mainnet ref_gas_ops demo_initial (demo_ctx demo_calls)"
  have x: "\<exists>fr. ?x = (Inr fr, snd ?x) \<and> frame_ok fr \<and> rg_remaining (fr_gas fr) = 16000"
    "map (balance_of (rj_accounts (ctx_journal (snd ?x)))) [1, 3, 4] = [989, 5, 6]"
    by (simp_all add: demo_run demo_defs demo_initial_def balance_of_def)
  obtain fr where fr: "?x = (Inr fr, snd ?x)" "frame_ok fr" "rg_remaining (fr_gas fr) = 16000" using x(1) by blast
  have l: "te_gas_limit (env_inner (ctx_tx (demo_ctx demo_calls))) = 100000" by (simp add: demo_defs)
  note r = batch_execution_refines [OF ref_metered.metered_interpreter_axioms conjunct1 [OF demo_batch(1)]
      conjunct2 [OF demo_batch(1)] refl, of demo_initial, unfolded l]
  obtain frs c1 where f: "batch_frames ref_journal_ops ref_mainnet ref_gas_ops demo_initial demo_calls (demo_ctx demo_calls) frs c1"
    using conjunct1 [OF r] fr(1) by blast
  note o = conjunct2 [OF r, rule_format, OF conjI [OF fr(1) f]]
  then have "batch_gas ref_gas_ops 100000 frs (fr_gas fr)"
    "rj_accounts (ctx_journal (snd ?x)) = rj_accounts (ctx_journal c1)" using fr(2) by simp_all
  then show ?thesis using fr f x(2)
    by - (rule exI [of _ fr], rule exI [of _ "snd ?x"], rule exI [of _ frs], rule exI [of _ c1], intro conjI)
qed

text \<open>C2. A batch is atomic: when its result is not a success, the accounts are those before the
  batch, except that a batch that starts with a creation advances the caller's nonce by one, as
  long as the caller can be loaded.\<close>

theorem batch_atomicity:
  assumes "interpreter J info saved M"
    and "batch_calls (ctx_tx c) = Some calls" "1 < length calls"
    and "execution J M G ig c = (Inr fr, c')" "\<not> ir_is_ok (fr_result fr)"
    and "caller = te_caller (env_inner (ctx_tx c))"
  shows "\<exists>j1. info j1 = info (ctx_journal c) \<and>
    info (ctx_journal c') =
      bump_nonce caller (call_to (hd calls) = TxCreate \<and> is_ok (fst (jn_load_code J caller j1)))
        (info (ctx_journal c))"
proof -
  have "batch_failure J M G ig calls c fr c'"
    using execution_batch_iff [OF assms(2,3)] assms(4,5) batch_success_ok by metis
  then show ?thesis using interpreter.batch_failure_info [OF assms(1)] assms(6) by blast
qed

theorem batch_atomicity_witness:
  "\<exists>fr c'. execution ref_journal_ops ref_mainnet ref_gas_ops demo_initial (demo_ctx demo_failing_create)
       = (Inr fr, c') \<and> fr_result fr = IrRevert \<and>
     (\<exists>on. rj_accounts (ctx_journal c') = bump_nonce 1 on demo_accounts)"
proof -
  let ?x = "execution ref_journal_ops ref_mainnet ref_gas_ops demo_initial (demo_ctx demo_failing_create)"
  have "\<exists>fr. fst ?x = Inr fr \<and> fr_result fr = IrRevert" by (simp add: demo_run demo_defs)
  then obtain fr where x: "?x = (Inr fr, snd ?x)" "fr_result fr = IrRevert" by (metis prod.collapse)
  moreover have "\<exists>on. rj_accounts (ctx_journal (snd ?x)) = bump_nonce 1 on demo_accounts"
    using batch_atomicity [OF ref_interpreter.interpreter_axioms _ _ x(1) _ refl, of demo_failing_create]
      demo_batch(2) x(2)
    by (fastforce simp: demo_ctx_def demo_env_def demo_inner_def demo_journal_def)
  ultimately show ?thesis by blast
qed

text \<open>Gas of a batch: the result is metered against the transaction's gas limit and never gives
  back more than the gas the batch started with; a success reports the gas left by the last call
  with the refunds and state gas of all calls; a failure reports no refund and no state gas, and a
  halt no remaining gas.\<close>

lemma batch_gas_accounting:
  assumes "metered_interpreter J info saved M G"
    and "batch_calls (ctx_tx c) = Some calls" "1 < length calls"
    and "execution J M G ig c = (Inr fr, c')"
  shows "gas_limit_of G (fr_gas fr) = te_gas_limit (env_inner (ctx_tx c)) \<and>
    gas_remaining G (fr_gas fr) \<le> bs_remaining (batch_start M ig c) \<and>
    (if ir_is_ok (fr_result fr)
     then \<exists>s' c1. batch_steps M G (ctx_tx c) (calls, batch_start M ig c, batch_entry J c) ([], s', c1) \<and>
            gas_remaining G (fr_gas fr) = bs_remaining s' \<and> gas_refunded G (fr_gas fr) = bs_refunded s' \<and>
            gas_state_spent G (fr_gas fr) = bs_state_gas_spent s' \<and> gas_reservoir G (fr_gas fr) = bs_reservoir s'
     else gas_refunded G (fr_gas fr) = 0 \<and> gas_state_spent G (fr_gas fr) = 0 \<and>
          (\<not> ir_is_ok_or_revert (fr_result fr) \<longrightarrow> gas_remaining G (fr_gas fr) = 0))"
proof -
  note fin = metered_interpreter.finalize_gas [OF assms(1)]
  have "batch_success J M G ig calls c fr c' \<or> batch_failure J M G ig calls c fr c'"
    using execution_batch_iff [OF assms(2,3)] assms(4) by metis
  then show ?thesis
  proof
    assume succ: "batch_success J M G ig calls c fr c'"
    then obtain s' c1 lfr where
      st: "batch_steps M G (ctx_tx c) (calls, batch_start M ig c, batch_entry J c) ([], s', c1)"
      and fr: "fr = finalize_batch_gas G (te_gas_limit (env_inner (ctx_tx c))) (bs_remaining s')
               (bs_reservoir s') (bs_state_gas_spent s') (bs_refunded s') lfr"
      by (auto simp: batch_success_def)
    have ok: "ir_is_ok (fr_result lfr)" using batch_success_ok [OF succ] by (simp add: fr)
    then have "ir_is_ok_or_revert (fr_result lfr)" by (cases "fr_result lfr") simp_all
    then show ?thesis using st ok metered_interpreter.steps_gas [OF assms(1) st] by (auto simp: fr fin)
  next
    assume "batch_failure J M G ig calls c fr c'"
    then obtain s1 fr1 c2 where
      f: "reaches_failure M G (ctx_tx c) (calls, batch_start M ig c, batch_entry J c) s1 fr1 c2"
      and fr: "fr = failed_result G (ctx_tx c) s1 fr1"
      by (auto simp: batch_failure_def)
    have "\<not> ir_is_ok (fr_result fr1)" using f by (auto simp: reaches_failure_def call_fails_def)
    then show ?thesis using metered_interpreter.failed_gas [OF assms(1) f]
      by (simp add: fr failed_result_def Let_def fin batch_account_def)
  qed
qed

end
