(* ===== verification/Ev_Handler_Validation.thy ===== *)
theory Ev_Handler_Validation
  imports Ev_Handler_Batch
begin

text \<open>
  What the handler lets through: the shape and the intrinsic gas of a batch, the deploy allowlist
  and the sponsor signature. The intrinsic gas is specified as an exact natural sum, which the
  64-bit saturating arithmetic computes up to its cap.
\<close>

section \<open>Specification\<close>

definition u64_cap :: "nat \<Rightarrow> nat" where
  "u64_cap n = min n (2 ^ 64 - 1)"

definition well_formed_batch :: "call list \<Rightarrow> bool" where
  "well_formed_batch calls \<longleftrightarrow> calls \<noteq> [] \<and> (\<forall>c \<in> set (tl calls). call_to c \<noteq> TxCreate)"

definition call_initial_gas :: "('j, 'g, 'd, 'fi) mainnet_ops \<Rightarrow> spec_id \<Rightarrow> call \<Rightarrow> initial_gas" where
  "call_initial_gas M spec c = mn_calculate_initial_tx_gas M spec (call_input c) (call_to c = TxCreate)"

definition access_list_gas :: "('j, 'g, 'd, 'fi) mainnet_ops \<Rightarrow> tx_env \<Rightarrow> nat" where
  "access_list_gas M t =
     (if te_tx_type t = TX_TYPE_LEGACY then 0
      else length (te_access_list t) * unat (ACCESS_LIST_ADDRESS M)
           + (\<Sum>item\<leftarrow>te_access_list t. length (snd item)) * unat (ACCESS_LIST_STORAGE_KEY M))"

definition batch_intrinsic_gas ::
    "('j, 'g, 'd, 'fi) mainnet_ops \<Rightarrow> tx_env \<Rightarrow> call list \<Rightarrow> spec_id \<Rightarrow> nat" where
  "batch_intrinsic_gas M t calls spec =
     (\<Sum>c\<leftarrow>calls. unat (ig_total (call_initial_gas M spec c))) + access_list_gas M t
     + (if PRAGUE \<le> spec then length (te_authorization_list t) * unat (PER_EMPTY_ACCOUNT_COST M) else 0)"

definition batch_floor_gas :: "('j, 'g, 'd, 'fi) mainnet_ops \<Rightarrow> call list \<Rightarrow> spec_id \<Rightarrow> bool \<Rightarrow> nat" where
  "batch_floor_gas M calls spec is_eip7623_disabled =
     (if is_eip7623_disabled \<or> \<not> PRAGUE \<le> spec then 0
      else \<Sum>c\<leftarrow>calls. unat (ig_floor (call_initial_gas M spec c)))"

text \<open>Lists in memory are shorter than \<open>2 ^ 64\<close>.\<close>

definition fits_memory :: "tx_env \<Rightarrow> bool" where
  "fits_memory t \<longleftrightarrow>
     length (te_authorization_list t) < 2 ^ 64 \<and>
     list_all (\<lambda>item. length (snd item) < 2 ^ 64) (te_access_list t)"

section \<open>Capped arithmetic\<close>

lemma u64_cap_absorb:
  "u64_cap (u64_cap a + b) = u64_cap (a + b)" "u64_cap (a + u64_cap b) = u64_cap (a + b)"
  "u64_cap (u64_cap a * b) = u64_cap (a * b)"
proof -
  show "u64_cap (u64_cap a + b) = u64_cap (a + b)" "u64_cap (a + u64_cap b) = u64_cap (a + b)"
    by (simp_all add: u64_cap_def)
  show "u64_cap (u64_cap a * b) = u64_cap (a * b)"
  proof (cases "a \<le> 2 ^ 64 - 1 \<or> b = 0")
    case False
    then have "2 ^ 64 - 1 \<le> a * b" by (metis le_trans less_imp_le mult_le_mono2 nat_le_linear nat_mult_1_right not_le One_nat_def Suc_leI neq0_conv)
    moreover have "2 ^ 64 - 1 \<le> (2 ^ 64 - 1) * b" using False by simp
    ultimately show ?thesis using False by (simp add: u64_cap_def min_def)
  qed (auto simp: u64_cap_def min_def)
qed

lemma unat_u64_ops:
  "unat (saturating_add (a :: u64) b) = u64_cap (unat a + unat b)"
  "unat (saturating_mul (a :: u64) b) = u64_cap (unat a * unat b)"
  by (simp_all add: unat_saturating_add unat_saturating_mul u64_cap_def)

lemma unat_fold_gas:
  "unat (foldl (\<lambda>acc c. saturating_add acc (f c)) (0 :: u64) calls) = u64_cap (\<Sum>c\<leftarrow>calls. unat (f c))"
  using foldl_saturating_add [of f 0 calls] by (simp add: u64_cap_def)

lemma fold_access_list:
  assumes "list_all (\<lambda>item. length (snd item) < 2 ^ 64) xs"
  shows "foldl (\<lambda>(acc, stor) item. (saturating_add acc 1, saturating_add stor (of_nat (length (snd item)))))
      (a, b) xs =
    (foldl (\<lambda>acc _. saturating_add acc (1 :: u64)) a xs,
     foldl (\<lambda>acc item. saturating_add acc (of_nat (length (snd item)) :: u64)) b xs)"
  by (induction xs arbitrary: a b) simp_all

lemma unat_fold_access_list:
  assumes "list_all (\<lambda>item. length (snd item) < 2 ^ 64) xs"
  shows "unat (foldl (\<lambda>acc _. saturating_add acc (1 :: u64)) 0 xs) = u64_cap (length xs)"
    and "unat (foldl (\<lambda>acc item. saturating_add acc (of_nat (length (snd item)) :: u64)) 0 xs) =
      u64_cap (\<Sum>item\<leftarrow>xs. length (snd item))"
proof -
  show "unat (foldl (\<lambda>acc _. saturating_add acc (1 :: u64)) 0 xs) = u64_cap (length xs)"
    using unat_fold_gas [of "\<lambda>_. 1" xs] by (simp add: sum_list_triv)
  have "(\<Sum>item\<leftarrow>xs. unat (of_nat (length (snd item)) :: u64)) = (\<Sum>item\<leftarrow>xs. length (snd item))"
    using assms by (induction xs) (simp_all add: unat_of_nat)
  then show "unat (foldl (\<lambda>acc item. saturating_add acc (of_nat (length (snd item)) :: u64)) 0 xs) =
      u64_cap (\<Sum>item\<leftarrow>xs. length (snd item))"
    using unat_fold_gas [of "\<lambda>item. of_nat (length (snd item))" xs] by simp
qed

lemma batch_gas_words:
  assumes "fits_memory t"
  defines "acc \<equiv> (if te_tx_type t \<noteq> TX_TYPE_LEGACY then
             foldl (\<lambda>(acc, stor) item. (saturating_add acc 1, saturating_add stor (of_nat (length (snd item)))))
               (0 :: u64, 0 :: u64) (te_access_list t) else (0, 0))"
  shows "unat (saturating_add (saturating_add total0 (saturating_mul (fst acc) (ACCESS_LIST_ADDRESS M)))
           (saturating_mul (snd acc) (ACCESS_LIST_STORAGE_KEY M))) = u64_cap (unat total0 + access_list_gas M t)"
proof (cases "te_tx_type t = TX_TYPE_LEGACY")
  case True
  then show ?thesis
    using unat_bound [of total0]
    by (simp add: acc_def access_list_gas_def unat_u64_ops u64_cap_absorb saturating_mul_def u64_cap_def)
next
  case False
  have al: "list_all (\<lambda>item. length (snd item) < 2 ^ 64) (te_access_list t)"
    using assms(1) by (simp add: fits_memory_def)
  show ?thesis
    using False
    by (simp add: acc_def fold_access_list [OF al] unat_u64_ops unat_fold_access_list [OF al]
        u64_cap_absorb access_list_gas_def add.assoc)
qed

lemma u64_cap_self [simp]: "u64_cap (unat (w :: u64)) = unat w"
  using unat_bound [of w] by (simp add: u64_cap_def)

lemma validate_batch_words:
  assumes "fits_memory t"
  obtains total floor mrg where
    "unat total = u64_cap (batch_intrinsic_gas M t calls spec)"
    "unat floor = u64_cap (batch_floor_gas M calls spec d)"
    "\<exists>state. validate_batch_initial_tx_gas M t calls spec d e cap =
      (if te_gas_limit t < total then Inl (CallGasCostMoreThanGasLimit (te_gas_limit t) total)
       else if PRAGUE \<le> spec \<and> te_gas_limit t < floor then Inl (GasFloorMoreThanGasLimit floor (te_gas_limit t))
       else if e \<and> cap < te_gas_limit t \<and> cap < mrg then Inl (GasFloorMoreThanGasLimit mrg cap)
       else Inr \<lparr> ig_total = total, ig_state = state, ig_floor = floor, ig_eip7702_reservoir_refund = 0 \<rparr>)"
proof -
  let ?acc = "if te_tx_type t \<noteq> TX_TYPE_LEGACY then
             foldl (\<lambda>(acc, stor) item. (saturating_add acc 1, saturating_add stor (of_nat (length (snd item)))))
               (0 :: u64, 0 :: u64) (te_access_list t) else (0, 0)"
  let ?fold = "\<lambda>f. foldl (\<lambda>acc c. saturating_add acc (f (call_initial_gas M spec c))) (0 :: u64) calls"
  let ?total1 = "saturating_add (saturating_add (?fold ig_total) (saturating_mul (fst ?acc) (ACCESS_LIST_ADDRESS M)))
           (saturating_mul (snd ?acc) (ACCESS_LIST_STORAGE_KEY M))"
  let ?auth = "saturating_mul (of_nat (length (te_authorization_list t))) (PER_EMPTY_ACCOUNT_COST M)"
  let ?total = "if PRAGUE \<le> spec then saturating_add ?total1 ?auth else ?total1"
  let ?state = "if PRAGUE \<le> spec then saturating_add (?fold ig_state) ?auth else ?fold ig_state"
  let ?floor = "if d then 0 else if PRAGUE \<le> spec then ?fold ig_floor else 0"
  have auth: "unat (of_nat (length (te_authorization_list t)) :: u64) = length (te_authorization_list t)"
    using assms by (simp add: fits_memory_def unat_of_nat)
  have "unat ?total = u64_cap (batch_intrinsic_gas M t calls spec)"
    using batch_gas_words [OF assms, of "?fold ig_total" M]
    by (simp add: auth unat_u64_ops unat_fold_gas u64_cap_absorb batch_intrinsic_gas_def)
  moreover have "unat ?floor = u64_cap (batch_floor_gas M calls spec d)"
    by (simp add: unat_fold_gas batch_floor_gas_def u64_cap_def)
  moreover have "validate_batch_initial_tx_gas M t calls spec d e cap =
      (if te_gas_limit t < ?total then Inl (CallGasCostMoreThanGasLimit (te_gas_limit t) ?total)
       else if PRAGUE \<le> spec \<and> te_gas_limit t < ?floor then Inl (GasFloorMoreThanGasLimit ?floor (te_gas_limit t))
       else if e \<and> cap < te_gas_limit t \<and> cap < max (saturating_sub ?total ?state) ?floor
         then Inl (GasFloorMoreThanGasLimit (max (saturating_sub ?total ?state) ?floor) cap)
       else Inr \<lparr> ig_total = ?total, ig_state = ?state, ig_floor = ?floor, ig_eip7702_reservoir_refund = 0 \<rparr>)"
    unfolding validate_batch_initial_tx_gas_def Let_def is_enabled_in_def case_prod_unfold
      call_initial_gas_def by (rule refl)
  ultimately show ?thesis by (intro that exI) assumption+
qed

section \<open>Properties\<close>

text \<open>C33. Intrinsic gas of a batch. A batch that passes carries the exact sum of its calls' initial
  gas, its access list and its authorizations (capped at 64 bits), which its gas limit covers, as
  it covers the floor from Prague on; one that is refused breaks one of these bounds or exceeds the
  regular-gas cap.\<close>

theorem batch_intrinsic_gas_correct:
  assumes "fits_memory t"
  shows "case validate_batch_initial_tx_gas M t calls spec d e gas_cap of
      Inr g \<Rightarrow>
        unat (ig_total g) = u64_cap (batch_intrinsic_gas M t calls spec) \<and>
        unat (ig_floor g) = u64_cap (batch_floor_gas M calls spec d) \<and>
        u64_cap (batch_intrinsic_gas M t calls spec) \<le> unat (te_gas_limit t) \<and>
        (PRAGUE \<le> spec \<longrightarrow> u64_cap (batch_floor_gas M calls spec d) \<le> unat (te_gas_limit t))
    | Inl _ \<Rightarrow>
        unat (te_gas_limit t) < u64_cap (batch_intrinsic_gas M t calls spec) \<or>
        PRAGUE \<le> spec \<and> unat (te_gas_limit t) < u64_cap (batch_floor_gas M calls spec d) \<or>
        e \<and> gas_cap < te_gas_limit t"
  by (rule validate_batch_words [OF assms, of M calls spec d e gas_cap])
    (auto simp: word_less_nat_alt not_less split: sum.split if_splits)

theorem batch_intrinsic_gas_correct_witness:
  "fits_memory demo_inner \<and>
   (\<exists>g. validate_batch_initial_tx_gas ref_mainnet demo_inner demo_calls PRAGUE False False 16777216 = Inr g \<and>
      unat (ig_total g) = 42000 \<and> unat (ig_floor g) = 42000)"
proof -
  have f: "fits_memory demo_inner" by (simp add: fits_memory_def demo_inner_def)
  have ok: "is_ok (validate_batch_initial_tx_gas ref_mainnet demo_inner demo_calls PRAGUE False False 16777216)"
    by (simp add: validate_batch_initial_tx_gas_def ref_mainnet_def demo_inner_def demo_calls_def Let_def
        saturating_add_def saturating_mul_def saturating_sub_def is_enabled_in_def)
  have "u64_cap (batch_intrinsic_gas ref_mainnet demo_inner demo_calls PRAGUE) = 42000"
    "u64_cap (batch_floor_gas ref_mainnet demo_calls PRAGUE False) = 42000"
    by (simp_all add: batch_intrinsic_gas_def batch_floor_gas_def call_initial_gas_def access_list_gas_def
        ref_mainnet_def demo_inner_def demo_calls_def u64_cap_def)
  then show ?thesis
    using f ok batch_intrinsic_gas_correct [OF f, of ref_mainnet demo_calls PRAGUE False False 16777216]
    by (auto simp: is_ok_iff)
qed

text \<open>The shape of a batch: an EvNode transaction with no call, or with a creation after its
  first call, is refused with the context untouched; a well-formed batch of several calls goes to
  the batch gas check and a single call to the mainnet one. Execution refuses an empty batch too.\<close>

lemma batch_shape_checked:
  "(case batch_calls (ctx_tx c) of
      None \<Rightarrow> validate_initial_tx_gas M c = mn_validate_initial_tx_gas M c
    | Some calls \<Rightarrow>
        (if well_formed_batch calls
         then (if length calls = 1 then validate_initial_tx_gas M c = mn_validate_initial_tx_gas M c
               else validate_initial_tx_gas M c =
                 (map_err TxError (validate_batch_initial_tx_gas M (env_inner (ctx_tx c)) calls
                    (cfg_spec (ctx_cfg c)) (cfg_eip7623_disabled (ctx_cfg c))
                    (cfg_eip8037_enabled (ctx_cfg c)) (cfg_tx_gas_limit_cap (ctx_cfg c))), c))
         else \<exists>m. validate_initial_tx_gas M c = (Inl (CustomError m), c)) \<and>
        (if calls = [] then \<exists>m. execution J M G ig c = (Inl (CustomError m), c)
         else if length calls = 1 then execution J M G ig c = mn_execution M ig c else True))"
proof (cases "batch_calls (ctx_tx c)")
  case None
  then show ?thesis by (simp add: validate_initial_tx_gas_def)
next
  case (Some calls)
  then show ?thesis
    by (cases calls; cases "tl calls")
      (auto simp: validate_initial_tx_gas_def execution_def well_formed_batch_def)
qed

text \<open>C34. The gate before any state change: a transaction that creates at top level from a caller
  outside an active, non-empty allowlist, and one whose sponsor signature did not recover, are
  refused with the context untouched; any other one goes to fee deduction, paid by the sponsor
  when there is one.\<close>

theorem handler_gate:
  assumes "hd_deploy_allowlist h = Some (deploy_allowlist_new xs height)"
    and "t = env_inner (ctx_tx c)"
    and "denied = (te_kind t = TxCreate \<and> height \<le> block_number_u64 (blk_number (ctx_block c)) \<and>
                   xs \<noteq> [] \<and> te_caller t \<notin> set xs)"
  shows "if denied \<or> env_sponsor_signature_invalid (ctx_tx c)
    then \<exists>m. validate_against_state_and_deduct_caller J F h c = (Inl (CustomError m), c)
    else validate_against_state_and_deduct_caller J F h c =
      (case env_sponsor (ctx_tx c) of
         Some sponsor \<Rightarrow>
           on_journal (validate_and_deduct_sponsored_tx J F t (te_caller t) sponsor
             (batch_total_value (ctx_tx c)) (te_kind t \<noteq> TxCreate) (ucast (blk_basefee (ctx_block c)))
             (cfg_balance_check_disabled (ctx_cfg c)) (cfg_eip3607_disabled (ctx_cfg c))
             (cfg_nonce_check_disabled (ctx_cfg c)))
       | None \<Rightarrow>
           on_journal (validate_and_deduct_normal_tx J F t (te_caller t) (te_kind t \<noteq> TxCreate)
             (ucast (blk_basefee (ctx_block c)))
             (case blk_blob_gasprice (ctx_block c) of Some p \<Rightarrow> p | None \<Rightarrow> 0)
             (cfg_balance_check_disabled (ctx_cfg c)) (cfg_eip3607_disabled (ctx_cfg c))
             (cfg_nonce_check_disabled (ctx_cfg c)))) c"
proof -
  have gate: "ensure_deploy_allowed h c =
      (if denied then Inl (CustomError ''contract deployment not allowed'') else Inr ())"
    using assms
    by (auto simp: ensure_deploy_allowed_def deploy_allowlist_for_block_def check_deploy_allowed_def
        is_active_new is_allowed_new permits_def Let_def)
  show ?thesis
    using assms(2)
    by (auto simp: validate_against_state_and_deduct_caller_def st_bind_def st_then_def st_run_simps
        gate Let_def split: option.split)
qed

theorem handler_gate_witness:
  "\<exists>m. validate_against_state_and_deduct_caller ref_journal_ops ref_fees
      (ev_handler_new None (Some (deploy_allowlist_new [5, 6] 3)))
      (demo_ctx demo_calls \<lparr> ctx_tx := demo_env demo_calls
         \<lparr> env_inner := demo_inner \<lparr> te_kind := TxCreate \<rparr> \<rparr> \<rparr>) =
    (Inl (CustomError m), demo_ctx demo_calls \<lparr> ctx_tx := demo_env demo_calls
         \<lparr> env_inner := demo_inner \<lparr> te_kind := TxCreate \<rparr> \<rparr> \<rparr>)"
  using handler_gate [of "ev_handler_new None (Some (deploy_allowlist_new [5, 6] 3))" "[5, 6]" 3 _
      "demo_ctx demo_calls \<lparr> ctx_tx := demo_env demo_calls \<lparr> env_inner := demo_inner \<lparr> te_kind := TxCreate \<rparr> \<rparr> \<rparr>"
      True ref_journal_ops ref_fees]
  by (simp add: ev_handler_new_def block_number_u64_def demo_defs)

end
