(* ===== verification/Ev_Handler_Run.thy ===== *)
theory Ev_Handler_Run
  imports Ev_Handler_Batch
begin

text \<open>
  A whole transaction through the handler. The steps \<open>EvHandler\<close> only delegates to revm's
  \<open>MainnetHandler\<close> (\<open>crates/ev-revm/src/handler.rs\<close>) are added, and the handler is the record of all
  its steps. \<open>Handler::run\<close> of revm, which calls the steps in their order, is a parameter; the locale
  \<open>settled_run\<close> states that order and what the mainnet steps keep.
\<close>

section \<open>The delegated steps\<close>

text \<open>The steps of the mainnet handler beside those of \<open>mainnet_ops\<close>; \<open>'rg\<close> is \<open>ResultGas\<close>, \<open>'r\<close> the result.\<close>

record ('j, 'g, 'd, 'rg, 'r) mainnet_steps =
  ms_load_accounts :: "('j evm_ctx, 'd evm_error, unit) st"
  ms_apply_eip7702_auth_list :: "initial_gas \<Rightarrow> ('j evm_ctx, 'd evm_error, u64 \<times> initial_gas) st"
  ms_last_frame_result :: "'g frame_result \<Rightarrow> ('j evm_ctx, 'd evm_error, 'g frame_result) st"
  ms_eip7623_check_gas_floor :: "'g frame_result \<Rightarrow> initial_gas \<Rightarrow> 'j evm_ctx \<Rightarrow> 'g frame_result \<times> 'j evm_ctx"
  ms_refund :: "'g frame_result \<Rightarrow> i64 \<Rightarrow> 'j evm_ctx \<Rightarrow> 'g frame_result \<times> 'j evm_ctx"
  ms_execution_result :: "'g frame_result \<Rightarrow> 'rg \<Rightarrow> ('j evm_ctx, 'd evm_error, 'r) st"

definition handler_validate_env ::
    "('j, 'g, 'd, 'fi) mainnet_ops \<Rightarrow> ('j evm_ctx, 'd evm_error, unit) st" where
  "handler_validate_env M = mn_validate_env M"

definition handler_load_accounts ::
    "('j, 'g, 'd, 'rg, 'r) mainnet_steps \<Rightarrow> ('j evm_ctx, 'd evm_error, unit) st" where
  "handler_load_accounts X = ms_load_accounts X"

definition handler_apply_eip7702_auth_list ::
    "('j, 'g, 'd, 'rg, 'r) mainnet_steps \<Rightarrow> initial_gas \<Rightarrow> ('j evm_ctx, 'd evm_error, u64 \<times> initial_gas) st" where
  "handler_apply_eip7702_auth_list X init_and_floor_gas = ms_apply_eip7702_auth_list X init_and_floor_gas"

definition handler_first_frame_input ::
    "('j, 'g, 'd, 'fi) mainnet_ops \<Rightarrow> u64 \<Rightarrow> u64 \<Rightarrow> ('j evm_ctx, 'd evm_error, 'fi) st" where
  "handler_first_frame_input M gas_limit reservoir = mn_first_frame_input M gas_limit reservoir"

definition handler_last_frame_result ::
    "('j, 'g, 'd, 'rg, 'r) mainnet_steps \<Rightarrow> 'g frame_result \<Rightarrow> ('j evm_ctx, 'd evm_error, 'g frame_result) st" where
  "handler_last_frame_result X frame_result = ms_last_frame_result X frame_result"

definition handler_run_exec_loop ::
    "('j, 'g, 'd, 'fi) mainnet_ops \<Rightarrow> 'fi \<Rightarrow> ('j evm_ctx, 'd evm_error, 'g frame_result) st" where
  "handler_run_exec_loop M first_frame_input = mn_run_exec_loop M first_frame_input"

definition handler_eip7623_check_gas_floor ::
    "('j, 'g, 'd, 'rg, 'r) mainnet_steps \<Rightarrow> 'g frame_result \<Rightarrow> initial_gas \<Rightarrow> 'j evm_ctx
       \<Rightarrow> 'g frame_result \<times> 'j evm_ctx" where
  "handler_eip7623_check_gas_floor X exec_result init_and_floor_gas =
     ms_eip7623_check_gas_floor X exec_result init_and_floor_gas"

definition handler_refund ::
    "('j, 'g, 'd, 'rg, 'r) mainnet_steps \<Rightarrow> 'g frame_result \<Rightarrow> i64 \<Rightarrow> 'j evm_ctx
       \<Rightarrow> 'g frame_result \<times> 'j evm_ctx" where
  "handler_refund X exec_result eip7702_refund = ms_refund X exec_result eip7702_refund"

definition handler_execution_result ::
    "('j, 'g, 'd, 'rg, 'r) mainnet_steps \<Rightarrow> 'g frame_result \<Rightarrow> 'rg \<Rightarrow> ('j evm_ctx, 'd evm_error, 'r) st" where
  "handler_execution_result X frame_result result_gas = ms_execution_result X frame_result result_gas"

section \<open>The handler as its steps\<close>

record ('c, 'e, 'fr, 'fi, 'rg, 'r) handler_steps =
  hs_validate_env :: "('c, 'e, unit) st"
  hs_validate_initial_tx_gas :: "('c, 'e, initial_gas) st"
  hs_validate_against_state_and_deduct_caller :: "('c, 'e, unit) st"
  hs_load_accounts :: "('c, 'e, unit) st"
  hs_apply_eip7702_auth_list :: "initial_gas \<Rightarrow> ('c, 'e, u64 \<times> initial_gas) st"
  hs_first_frame_input :: "u64 \<Rightarrow> u64 \<Rightarrow> ('c, 'e, 'fi) st"
  hs_execution :: "initial_gas \<Rightarrow> ('c, 'e, 'fr) st"
  hs_last_frame_result :: "'fr \<Rightarrow> ('c, 'e, 'fr) st"
  hs_run_exec_loop :: "'fi \<Rightarrow> ('c, 'e, 'fr) st"
  hs_refund :: "'fr \<Rightarrow> i64 \<Rightarrow> 'c \<Rightarrow> 'fr \<times> 'c"
  hs_eip7623_check_gas_floor :: "'fr \<Rightarrow> initial_gas \<Rightarrow> 'c \<Rightarrow> 'fr \<times> 'c"
  hs_reimburse_caller :: "'fr \<Rightarrow> ('c, 'e, unit) st"
  hs_reward_beneficiary :: "'fr \<Rightarrow> ('c, 'e, unit) st"
  hs_execution_result :: "'fr \<Rightarrow> 'rg \<Rightarrow> ('c, 'e, 'r) st"

type_synonym ('j, 'g, 'd, 'fi, 'rg, 'r) evm_steps =
  "('j evm_ctx, 'd evm_error, 'g frame_result, 'fi, 'rg, 'r) handler_steps"

definition ev_handler_steps ::
    "('j, 'cp, 'd) journal_ops \<Rightarrow> fee_ops \<Rightarrow> ('j, 'g, 'd, 'fi) mainnet_ops \<Rightarrow> 'g gas_ops
       \<Rightarrow> ('j, 'g, 'd, 'rg, 'r) mainnet_steps \<Rightarrow> ev_handler \<Rightarrow> ('j, 'g, 'd, 'fi, 'rg, 'r) evm_steps" where
  "ev_handler_steps J F M G X h =
     \<lparr> hs_validate_env = handler_validate_env M,
       hs_validate_initial_tx_gas = validate_initial_tx_gas M,
       hs_validate_against_state_and_deduct_caller = validate_against_state_and_deduct_caller J F h,
       hs_load_accounts = handler_load_accounts X,
       hs_apply_eip7702_auth_list = handler_apply_eip7702_auth_list X,
       hs_first_frame_input = handler_first_frame_input M,
       hs_execution = execution J M G,
       hs_last_frame_result = handler_last_frame_result X,
       hs_run_exec_loop = handler_run_exec_loop M,
       hs_refund = handler_refund X,
       hs_eip7623_check_gas_floor = handler_eip7623_check_gas_floor X,
       hs_reimburse_caller = reimburse_caller J M G F,
       hs_reward_beneficiary = reward_beneficiary J M G h,
       hs_execution_result = handler_execution_result X \<rparr>"

section \<open>The contract of a run\<close>

text \<open>The accounts and everything but the journal stay as they are.\<close>

definition same_ctx :: "('j \<Rightarrow> accounts) \<Rightarrow> 'j evm_ctx \<Rightarrow> 'j evm_ctx \<Rightarrow> bool" where
  "same_ctx info c c' \<longleftrightarrow>
     info (ctx_journal c') = info (ctx_journal c) \<and> ctx_tx c' = ctx_tx c \<and> ctx_block c' = ctx_block c \<and>
     ctx_cfg c' = ctx_cfg c"

text \<open>A frame result gives back at most its limit, with a refund that is not negative.\<close>

definition frame_metered :: "'g gas_ops \<Rightarrow> 'g frame_result \<Rightarrow> bool" where
  "frame_metered G fr \<longleftrightarrow> refund_fits G fr \<and> returned_gas G fr \<le> unat (gas_limit_of G (fr_gas fr))"

text \<open>
  The steps in the order in which \<open>Handler::run\<close> calls them for a transaction that gets a result: the
  validation, the deduction, the execution and the settlement. The \<open>ResultGas\<close> that is handed to the
  last step is made by \<open>build\<close> from the frame after the refund and the initial and floor gas.
\<close>

definition run_order ::
    "('fr \<Rightarrow> initial_gas \<Rightarrow> 'rg) \<Rightarrow> ('c, 'e, 'fr, 'fi, 'rg, 'r) handler_steps \<Rightarrow> 'c \<Rightarrow> 'r \<Rightarrow> 'c \<Rightarrow> bool" where
  "run_order build H c r c' \<longleftrightarrow>
     (\<exists>c1 ig c2 c3 c4 n ig' c5 fr1 c6 fr2 c7 fr3 c8 c9 c10.
        hs_validate_env H c = (Inr (), c1) \<and>
        hs_validate_initial_tx_gas H c1 = (Inr ig, c2) \<and>
        hs_validate_against_state_and_deduct_caller H c2 = (Inr (), c3) \<and>
        hs_load_accounts H c3 = (Inr (), c4) \<and>
        hs_apply_eip7702_auth_list H ig c4 = (Inr (n, ig'), c5) \<and>
        hs_execution H ig' c5 = (Inr fr1, c6) \<and>
        hs_refund H fr1 (sint n) c6 = (fr2, c7) \<and>
        hs_eip7623_check_gas_floor H fr2 ig' c7 = (fr3, c8) \<and>
        hs_reimburse_caller H fr3 c8 = (Inr (), c9) \<and>
        hs_reward_beneficiary H fr3 c9 = (Inr (), c10) \<and>
        hs_execution_result H fr3 (build fr2 ig') c10 = (Inr r, c'))"

text \<open>
  What revm documents of these steps. The gas a result reports is that of its \<open>ResultGas\<close>, the larger
  of the gas spent less the refund and the floor; the floor check settles the frame to the same amount.
  Under EIP-8037 the gas of the reservoir is counted apart, and nothing is assumed of the two.
\<close>

locale settled_run = metered_interpreter J info saved M G + tx_fees F
  for J :: "('j, 'cp, 'd) journal_ops"
    and info :: "'j \<Rightarrow> accounts"
    and saved :: "'j \<Rightarrow> 'cp \<Rightarrow> accounts option"
    and M :: "('j, 'g, 'd, 'fi) mainnet_ops"
    and G :: "'g gas_ops"
    and F :: fee_ops +
  fixes X :: "('j, 'g, 'd, 'rg, 'r) mainnet_steps"
    and is_success :: "'r \<Rightarrow> bool"
    and gas_used :: "'r \<Rightarrow> nat"
    and build :: "'g frame_result \<Rightarrow> initial_gas \<Rightarrow> 'rg"
    and result_gas_used :: "'rg \<Rightarrow> nat"
    and run :: "('j, 'g, 'd, 'fi, 'rg, 'r) evm_steps \<Rightarrow> ('j evm_ctx, 'd evm_error, 'r) st"
  assumes validate_env_keeps: "mn_validate_env M c = (u, c') \<Longrightarrow> same_ctx info c c'"
    and load_accounts_keeps: "ms_load_accounts X c = (u, c') \<Longrightarrow> same_ctx info c c'"
    and auth_list_keeps: "ms_apply_eip7702_auth_list X ig c = (Inr (n, ig'), c') \<Longrightarrow>
      te_tx_type (env_inner (ctx_tx c)) \<noteq> 4 \<Longrightarrow> n = 0 \<and> ig' = ig \<and> same_ctx info c c'"
    and initial_gas_le: "ig_total ig \<le> l \<Longrightarrow> fst (mn_initial_gas_and_reservoir M ig l cap en) \<le> l"
    and refund_keeps: "ms_refund X fr k c = (fr', c') \<Longrightarrow>
      fr_result fr' = fr_result fr \<and> gas_limit_of G (fr_gas fr') = gas_limit_of G (fr_gas fr) \<and> same_ctx info c c'"
    and refund_metered: "ms_refund X fr k c = (fr', c') \<Longrightarrow> 0 \<le> gas_refunded G (fr_gas fr) + k \<Longrightarrow>
      gas_remaining G (fr_gas fr) \<le> gas_limit_of G (fr_gas fr) \<Longrightarrow> frame_metered G fr'"
    and floor_keeps: "ms_eip7623_check_gas_floor X fr ig c = (fr', c') \<Longrightarrow>
      fr_result fr' = fr_result fr \<and> gas_limit_of G (fr_gas fr') = gas_limit_of G (fr_gas fr) \<and> same_ctx info c c'"
    and floor_metered: "ms_eip7623_check_gas_floor X fr ig c = (fr', c') \<Longrightarrow> frame_metered G fr \<Longrightarrow> frame_metered G fr'"
    and spent: "frame_metered G fr \<Longrightarrow>
      unat (gas_spent_sub_refunded G (fr_gas fr)) = unat (gas_limit_of G (fr_gas fr)) - returned_gas G fr"
    and reward_beneficiary_only: "mn_reward_beneficiary M g c = (Inr (), c') \<Longrightarrow>
      a \<noteq> blk_beneficiary (ctx_block c) \<Longrightarrow> info (ctx_journal c') a = info (ctx_journal c) a"
    and execution_result_keeps: "ms_execution_result X fr rg c = (Inr r, c') \<Longrightarrow>
      is_success r = ir_is_ok (fr_result fr) \<and> gas_used r = result_gas_used rg \<and>
      info (ctx_journal c') = info (ctx_journal c)"
    and result_gas_settled: "frame_metered G fr \<Longrightarrow> ms_eip7623_check_gas_floor X fr ig c = (fr', c') \<Longrightarrow>
      \<not> cfg_eip8037_enabled (ctx_cfg c) \<Longrightarrow>
      result_gas_used (build fr ig) = unat (gas_spent_sub_refunded G (fr_gas fr'))"
    and price_of_fees: "fee_effective_gas_price F (t \<lparr> te_kind := to, te_value := v, te_data := d \<rparr>) b =
      fee_effective_gas_price F t b"
    and run_in_order: "run H c = (Inr r, c') \<Longrightarrow> run_order build H c r c'"

section \<open>Contexts\<close>

context interpreter
begin

lemma run_call_ctx:
  assumes "run_call M G base call s c = (Inr fr, c')"
  shows "ctx_tx c' = set_batch_call call base \<and> ctx_block c' = ctx_block c \<and> ctx_cfg c' = ctx_cfg c"
  using assms by (auto simp: run_call_def ok_iff dest!: first_frame_ctx run_loop_ctx)

lemma steps_settings:
  "batch_steps M G base conf conf' \<Longrightarrow>
     ctx_block (snd (snd conf')) = ctx_block (snd (snd conf)) \<and> ctx_cfg (snd (snd conf')) = ctx_cfg (snd (snd conf))"
  by (induction rule: rtranclp_induct) (auto elim!: batch_step.cases dest!: run_call_ctx)

lemma batch_failure_ctx:
  assumes "batch_failure J M G ig calls c fr c'"
  shows "(\<exists>call. ctx_tx c' = set_batch_call call (ctx_tx c)) \<and> ctx_block c' = ctx_block c \<and> ctx_cfg c' = ctx_cfg c"
proof -
  obtain s1 fr1 c2 call rest c1 where
    "batch_steps M G (ctx_tx c) (calls, batch_start M ig c, batch_entry J c) (call # rest, s1, c1)"
    "run_call M G (ctx_tx c) call s1 c1 = (Inr fr1, c2)"
    and c': "c' = revert_batch J (fst (jn_checkpoint J (ctx_journal c))) (call_to (hd calls) = TxCreate)
        (te_caller (env_inner (ctx_tx c))) c2"
    using assms by (auto simp: batch_failure_def reaches_failure_def call_fails_def)
  with steps_settings run_call_ctx have "ctx_tx c2 = set_batch_call call (ctx_tx c)" "ctx_block c2 = ctx_block c"
    "ctx_cfg c2 = ctx_cfg c"
    by (fastforce simp: batch_entry_def)+
  then show ?thesis by (auto simp: c' revert_batch_def Let_def)
qed

end

lemma deduct_ctx:
  assumes "validate_against_state_and_deduct_caller J F h c = (Inr (), c')"
  shows "ctx_tx c' = ctx_tx c \<and> ctx_block c' = ctx_block c \<and> ctx_cfg c' = ctx_cfg c"
  using assms
  by (auto simp: validate_against_state_and_deduct_caller_def ok_iff on_journal_def Let_def
      split: prod.splits if_splits option.splits)

lemma reimburse_ctx:
  assumes "reimburse_caller J M G F fr c = (Inr (), c')" "env_sponsor (ctx_tx c) = Some sponsor"
  shows "ctx_block c' = ctx_block c \<and> ctx_tx c' = ctx_tx c \<and> ctx_cfg c' = ctx_cfg c"
  using assms by (auto simp: reimburse_caller_def ok_iff on_journal_def Let_def split: prod.splits)

lemma redirect_ctx:
  "redirect_apply J r g c = (Inr amount, c') \<Longrightarrow>
     ctx_block c' = ctx_block c \<and> ctx_tx c' = ctx_tx c \<and> ctx_cfg c' = ctx_cfg c"
  by (auto simp: redirect_apply_def ok_iff on_journal_def Let_def split: prod.splits if_splits)

lemma batch_gas_covered:
  assumes "validate_initial_tx_gas M c = (Inr ig, c')" "batch_calls (ctx_tx c) = Some calls" "1 < length calls"
  shows "ig_total ig \<le> te_gas_limit (env_inner (ctx_tx c)) \<and> c' = c"
  using assms
  by (auto simp: validate_initial_tx_gas_def validate_batch_initial_tx_gas_def Let_def ok_iff
      split: if_splits prod.splits)

section \<open>Accounts\<close>

text \<open>What a redirect adds to the accounts.\<close>

definition redirected :: "ev_handler \<Rightarrow> nat \<Rightarrow> accounts \<Rightarrow> accounts" where
  "redirected h n accs = (case hd_redirect h of None \<Rightarrow> accs | Some s \<Rightarrow> credit (fee_sink s) n accs)"

lemma credit_0 [simp]: "credit a 0 accs = accs"
  by (simp add: credit_def)

lemma credit_charge: "m \<le> n \<Longrightarrow> credit a m (charge a n accs) = charge a (n - m) accs"
  by (simp add: credit_def charge_def of_nat_diff algebra_simps)

lemma bump_charge: "bump_nonce a on (charge b n accs) = charge b n (bump_nonce a on accs)"
  by (auto simp: bump_nonce_def charge_def fun_eq_iff)

lemma charge_le: "n \<le> balance_of accs b \<Longrightarrow> balance_of (charge b n accs) a \<le> balance_of accs a"
  by (simp add: balance_of_charge)

context fee_state
begin

lemma deduct_sponsored:
  assumes "validate_against_state_and_deduct_caller J F h c = (Inr (), c')" "t = env_inner (ctx_tx c)"
    and "env_sponsor (ctx_tx c) = Some sponsor" "\<not> cfg_balance_check_disabled (ctx_cfg c)"
  defines "cost \<equiv> gas_cost F t (ucast (blk_basefee (ctx_block c)))"
  shows "info (ctx_journal c') =
      charge sponsor cost (bump_nonce (te_caller t) (te_kind t \<noteq> TxCreate) (info (ctx_journal c)))"
    "cost \<le> balance_of (info (ctx_journal c)) sponsor"
proof -
  obtain j' where "validate_and_deduct_sponsored_tx J F t (te_caller t) sponsor (batch_total_value (ctx_tx c))
      (te_kind t \<noteq> TxCreate) (ucast (blk_basefee (ctx_block c))) False (cfg_eip3607_disabled (ctx_cfg c))
      (cfg_nonce_check_disabled (ctx_cfg c)) (ctx_journal c) = (Inr (), j')" "ctx_journal c' = j'"
    using assms(1-4)
    by (auto simp: validate_against_state_and_deduct_caller_def ok_iff Let_def on_journal_def
        split: if_splits prod.splits)
  from sponsored_Ok [OF this(1)] this(2) show
    "info (ctx_journal c') = charge sponsor cost (bump_nonce (te_caller t) (te_kind t \<noteq> TxCreate) (info (ctx_journal c)))"
    "cost \<le> balance_of (info (ctx_journal c)) sponsor"
    using gas_cost_le_max [of t "ucast (blk_basefee (ctx_block c))"] by (simp_all add: cost_def)
qed

end

context metered_interpreter
begin

lemma batch_failure_gas:
  assumes "batch_failure J M G ig calls c fr c'"
  shows "gas_limit_of G (fr_gas fr) = te_gas_limit (env_inner (ctx_tx c))"
    "gas_remaining G (fr_gas fr) \<le> bs_remaining (batch_start M ig c)" "gas_refunded G (fr_gas fr) = 0"
proof -
  obtain s1 fr1 c2 where
    f: "reaches_failure M G (ctx_tx c) (calls, batch_start M ig c, batch_entry J c) s1 fr1 c2"
    and fr: "fr = failed_result G (ctx_tx c) s1 fr1"
    using assms by (auto simp: batch_failure_def)
  have "\<not> ir_is_ok (fr_result fr1)" using f by (auto simp: reaches_failure_def call_fails_def)
  then show "gas_limit_of G (fr_gas fr) = te_gas_limit (env_inner (ctx_tx c))"
    "gas_remaining G (fr_gas fr) \<le> bs_remaining (batch_start M ig c)" "gas_refunded G (fr_gas fr) = 0"
    using failed_gas [OF f] by (auto simp: fr failed_result_def Let_def finalize_gas batch_account_def)
qed

end

section \<open>The settlement\<close>

context settled_run
begin

lemma fees: "fee_state J info saved F"
  by unfold_locales

text \<open>The base fee goes to the sink before the mainnet reward.\<close>

lemma reward_redirects:
  assumes run: "reward_beneficiary J M G h fr c = (Inr (), c')"
    and used: "used = unat (gas_spent_sub_refunded G (fr_gas fr))" and b: "b = unat (blk_basefee (ctx_block c))"
    and sink: "\<And>s. hd_redirect h = Some s \<Longrightarrow> balance_of (info (ctx_journal c)) (fee_sink s) + b * used < 2 ^ 256"
  obtains c1 where "mn_reward_beneficiary M (fr_gas fr) c1 = (Inr (), c')" "ctx_block c1 = ctx_block c"
    "ctx_tx c1 = ctx_tx c" "ctx_cfg c1 = ctx_cfg c"
    "info (ctx_journal c1) = redirected h (b * used) (info (ctx_journal c))"
proof (cases "hd_redirect h")
  case None
  then show ?thesis using run that [of c]
    by (simp add: reward_beneficiary_def Let_def st_then_def st_bind_def st_run_simps redirected_def)
next
  case (Some s)
  show ?thesis
  proof (cases "gas_spent_sub_refunded G (fr_gas fr) = 0")
    case True
    then have "used = 0" by (simp add: used)
    then show ?thesis using run that [of c] Some True
      by (simp add: reward_beneficiary_def Let_def st_then_def st_bind_def st_run_simps redirected_def)
  next
    case False
    then obtain amount c1 where r: "redirect_apply J s (gas_spent_sub_refunded G (fr_gas fr)) c = (Inr amount, c1)"
      and w: "mn_reward_beneficiary M (fr_gas fr) c1 = (Inr (), c')"
      using run Some by (auto simp: reward_beneficiary_def Let_def ok_iff)
    have "info (ctx_journal c1) = credit (fee_sink s) (b * used) (info (ctx_journal c))"
      using redirect_apply_Ok [OF r] sink [OF Some] by (simp add: used b)
    then show ?thesis using that [OF w] redirect_ctx [OF r] Some by (simp add: redirected_def)
  qed
qed

text \<open>The sponsor gets the gas back that was not used.\<close>

lemma reimburse_settles:
  assumes m: "frame_metered G fr" "gas_limit_of G (fr_gas fr) = te_gas_limit t"
    and price: "price = unat (fee_effective_gas_price F (env_inner (ctx_tx c)) (ucast (blk_basefee (ctx_block c))))"
      "price * unat (te_gas_limit t) < 2 ^ 128"
    and sponsor: "env_sponsor (ctx_tx c) = Some sponsor"
    and room: "balance_of (info (ctx_journal c)) sponsor + price * unat (te_gas_limit t) < 2 ^ 256"
    and run: "reimburse_caller J M G F fr c = (Inr (), c')"
  shows "info (ctx_journal c') = credit sponsor (price * returned_gas G fr) (info (ctx_journal c))"
proof -
  let ?l = "unat (te_gas_limit t)" and ?r = "returned_gas G fr"
  have fits: "refund_fits G fr" and le: "?r \<le> ?l" using m by (simp_all add: frame_metered_def)
  have returned_le: "price * ?r \<le> price * ?l" using le by (rule mult_le_mono2)
  have "price * ?r < 2 ^ 128" using returned_le price(2) by (rule le_less_trans)
  then have cap: "min (price * ?r) (2 ^ 128 - 1) = price * ?r" by simp
  have "balance_of (info (ctx_journal c)) sponsor + price * ?r < 2 ^ 256" using returned_le room by linarith
  then show ?thesis using fee_state.reimburse_sponsor [OF fees sponsor run fits] cap by (simp add: price(1))
qed

text \<open>The settlement of a sponsored transaction on accounts \<open>accs\<close> that the gas limit was taken from.\<close>

lemma settle_sponsored:
  assumes m: "frame_metered G fr" "gas_limit_of G (fr_gas fr) = te_gas_limit t"
    and price: "price = unat (fee_effective_gas_price F (env_inner (ctx_tx c)) (ucast (blk_basefee (ctx_block c))))"
      "price * unat (te_gas_limit t) < 2 ^ 128"
    and sponsor: "env_sponsor (ctx_tx c) = Some sponsor"
    and accs: "info (ctx_journal c) = charge sponsor (price * unat (te_gas_limit t)) accs"
      "price * unat (te_gas_limit t) \<le> balance_of accs sponsor"
    and sink: "\<And>s. hd_redirect h = Some s \<Longrightarrow>
      balance_of accs (fee_sink s) + unat (blk_basefee (ctx_block c)) * unat (te_gas_limit t) < 2 ^ 256"
    and run: "reimburse_caller J M G F fr c = (Inr (), c1)" "reward_beneficiary J M G h fr c1 = (Inr (), c2)"
    and used: "used = unat (te_gas_limit t) - returned_gas G fr"
    and a: "a \<noteq> blk_beneficiary (ctx_block c)"
  shows "info (ctx_journal c2) a = redirected h (unat (blk_basefee (ctx_block c)) * used) (charge sponsor (price * used) accs) a"
proof -
  let ?l = "unat (te_gas_limit t)" and ?r = "returned_gas G fr" and ?b = "unat (blk_basefee (ctx_block c))"
  have returned_le: "price * ?r \<le> price * ?l" using m by (intro mult_le_mono2) (simp add: frame_metered_def)
  have "balance_of (info (ctx_journal c)) sponsor = balance_of accs sponsor - price * ?l"
    using balance_of_charge [OF accs(2), of sponsor] by (simp add: accs(1))
  moreover have "balance_of accs sponsor < 2 ^ 256"
    using unat_bound [of "ai_balance (accs sponsor)"] by (simp add: balance_of_def)
  ultimately have "balance_of (info (ctx_journal c)) sponsor + price * ?l < 2 ^ 256" using accs(2) by linarith
  then have "info (ctx_journal c1) = credit sponsor (price * ?r) (info (ctx_journal c))"
    by (rule reimburse_settles [OF m price sponsor _ run(1)])
  then have paid: "info (ctx_journal c1) = charge sponsor (price * used) accs"
    using credit_charge [OF returned_le] by (simp add: accs(1) used diff_mult_distrib2)
  note b = reimburse_ctx [OF run(1) sponsor]
  have spend: "used = unat (gas_spent_sub_refunded G (fr_gas fr))" using spent [OF m(1)] m(2) by (simp add: used)
  have less: "balance_of (charge sponsor (price * used) accs) x \<le> balance_of accs x" for x
    using accs(2) by (intro charge_le) (simp add: used diff_mult_distrib2)
  have "?b * used \<le> ?b * ?l" by (simp add: used)
  then have "balance_of (info (ctx_journal c1)) (fee_sink s) + ?b * used < 2 ^ 256" if "hd_redirect h = Some s" for s
    using sink [OF that] less [of "fee_sink s"] unfolding paid by linarith
  then obtain c3 where "mn_reward_beneficiary M (fr_gas fr) c3 = (Inr (), c2)" "ctx_block c3 = ctx_block c"
      "info (ctx_journal c3) = redirected h (?b * used) (charge sponsor (price * used) accs)"
    using reward_redirects [OF run(2) spend, of ?b] b paid by metis
  then show ?thesis using reward_beneficiary_only [of "fr_gas fr" c3 c2 a] a by simp
qed

text \<open>Execution of a batch that fails, after the gas limit was taken: the accounts, context and gas it ends with.\<close>

lemma failed_execution:
  assumes x: "execution J M G ig c = (Inr fr, c')" "\<not> ir_is_ok (fr_result fr)"
    and calls: "batch_calls (ctx_tx c) = Some calls" "1 < length calls"
    and ig: "ig_total ig \<le> te_gas_limit (env_inner (ctx_tx c))"
  obtains on call where
    "info (ctx_journal c') = bump_nonce (te_caller (env_inner (ctx_tx c))) (call_to (hd calls) = TxCreate \<and> on)
       (info (ctx_journal c))"
    "ctx_tx c' = set_batch_call call (ctx_tx c)" "ctx_block c' = ctx_block c" "ctx_cfg c' = ctx_cfg c"
    "gas_limit_of G (fr_gas fr) = te_gas_limit (env_inner (ctx_tx c))"
    "gas_remaining G (fr_gas fr) \<le> gas_limit_of G (fr_gas fr)" "gas_refunded G (fr_gas fr) = 0"
proof -
  have f: "batch_failure J M G ig calls c fr c'"
    using execution_batch_iff [OF calls] x batch_success_ok by metis
  have start: "bs_remaining (batch_start M ig c) \<le> te_gas_limit (env_inner (ctx_tx c))"
    using initial_gas_le [OF ig] by (simp add: batch_start_def Let_def)
  obtain j1 where j1: "info (ctx_journal c') =
      bump_nonce (te_caller (env_inner (ctx_tx c)))
        (call_to (hd calls) = TxCreate \<and> is_ok (fst (jn_load_code J (te_caller (env_inner (ctx_tx c))) j1)))
        (info (ctx_journal c))"
    using batch_failure_info [OF f] by blast
  obtain call where call: "ctx_tx c' = set_batch_call call (ctx_tx c)" "ctx_block c' = ctx_block c" "ctx_cfg c' = ctx_cfg c"
    using batch_failure_ctx [OF f] by blast
  show thesis
    using that [OF j1 call] batch_failure_gas [OF f] start order_trans by metis
qed

text \<open>The steps before the execution take the gas limit from the sponsor.\<close>

lemma prepared:
  assumes s1: "mn_validate_env M c = (Inr (), c1)" and s2: "ig_total ig \<le> te_gas_limit (env_inner (ctx_tx c1))"
    and s3: "validate_against_state_and_deduct_caller J F h c1 = (Inr (), c3)"
    and s4: "ms_load_accounts X c3 = (Inr (), c4)" and s5: "ms_apply_eip7702_auth_list X ig c4 = (Inr (n, ig'), c5)"
    and t: "t = env_inner (ctx_tx c)" "te_tx_type t \<noteq> 4"
    and sponsor: "env_sponsor (ctx_tx c) = Some sponsor" "\<not> cfg_balance_check_disabled (ctx_cfg c)"
    and cost: "cost = gas_cost F t (ucast (blk_basefee (ctx_block c)))"
  shows "ctx_tx c5 = ctx_tx c" "ctx_block c5 = ctx_block c" "ig_total ig' \<le> te_gas_limit t" "sint n = 0"
    "info (ctx_journal c5) = charge sponsor cost (bump_nonce (te_caller t) (te_kind t \<noteq> TxCreate) (info (ctx_journal c)))"
    "cost \<le> balance_of (info (ctx_journal c)) sponsor" "ctx_cfg c5 = ctx_cfg c"
proof -
  note e1 = validate_env_keeps [OF s1, unfolded same_ctx_def]
  have t2: "t = env_inner (ctx_tx c1)" and sp2: "env_sponsor (ctx_tx c1) = Some sponsor"
    and bc2: "\<not> cfg_balance_check_disabled (ctx_cfg c1)" using t sponsor e1 by simp_all
  note e3 = deduct_ctx [OF s3] and d = fee_state.deduct_sponsored [OF fees s3 t2 sp2 bc2]
  note e4 = load_accounts_keeps [OF s4, unfolded same_ctx_def]
  have "te_tx_type (env_inner (ctx_tx c4)) \<noteq> 4" using e4 e3 e1 t by simp
  note e5 = auth_list_keeps [OF s5 this, unfolded same_ctx_def]
  show "ctx_tx c5 = ctx_tx c" "ctx_block c5 = ctx_block c" "ig_total ig' \<le> te_gas_limit t" "sint n = 0"
    "info (ctx_journal c5) = charge sponsor cost (bump_nonce (te_caller t) (te_kind t \<noteq> TxCreate) (info (ctx_journal c)))"
    "cost \<le> balance_of (info (ctx_journal c)) sponsor" "ctx_cfg c5 = ctx_cfg c"
    using e5 e4 e3 e1 d s2 t by (simp_all add: cost)
qed

text \<open>A failed execution and the refund leave a metered result, the accounts as taken and the price.\<close>

lemma failed_frame:
  assumes s6: "execution J M G ig c5 = (Inr fr1, c6)" "\<not> ir_is_ok (fr_result fr1)"
    and s7: "ms_refund X fr1 0 c6 = (fr2, c7)" and s8: "ms_eip7623_check_gas_floor X fr2 ig c7 = (fr3, c8)"
    and c5: "batch_calls (ctx_tx c5) = Some calls" "1 < length calls" "t = env_inner (ctx_tx c5)"
      "ig_total ig \<le> te_gas_limit t" "te_kind t = call_to (hd calls)"
      "info (ctx_journal c5) = charge sponsor cost (bump_nonce (te_caller t) (te_kind t \<noteq> TxCreate) accs)"
  obtains on where "te_kind t \<noteq> TxCreate \<longrightarrow> on"
    "info (ctx_journal c8) = charge sponsor cost (bump_nonce (te_caller t) on accs)"
    "frame_metered G fr3" "gas_limit_of G (fr_gas fr3) = te_gas_limit t"
    "fee_effective_gas_price F (env_inner (ctx_tx c8)) b = fee_effective_gas_price F t b"
    "env_sponsor (ctx_tx c8) = env_sponsor (ctx_tx c5)" "ctx_block c8 = ctx_block c5"
    "\<not> cfg_eip8037_enabled (ctx_cfg c5) \<Longrightarrow> result_gas_used (build fr2 ig) = unat (gas_spent_sub_refunded G (fr_gas fr3))"
proof -
  obtain on call where x: "info (ctx_journal c6) =
        bump_nonce (te_caller t) (call_to (hd calls) = TxCreate \<and> on) (info (ctx_journal c5))"
      "ctx_tx c6 = set_batch_call call (ctx_tx c5)" "ctx_block c6 = ctx_block c5" "ctx_cfg c6 = ctx_cfg c5"
      "gas_limit_of G (fr_gas fr1) = te_gas_limit t" "gas_remaining G (fr_gas fr1) \<le> gas_limit_of G (fr_gas fr1)"
      "gas_refunded G (fr_gas fr1) = 0"
    using failed_execution [OF s6 c5(1,2)] c5(3,4) by metis
  note k = refund_keeps [OF s7, unfolded same_ctx_def] floor_keeps [OF s8, unfolded same_ctx_def]
  have m2: "frame_metered G fr2" by (rule refund_metered [OF s7 _ x(6)]) (simp add: x(7))
  note m = floor_metered [OF s8 m2]
  let ?on = "te_kind t \<noteq> TxCreate \<or> on"
  have "bump_nonce (te_caller t) (call_to (hd calls) = TxCreate \<and> on)
      (bump_nonce (te_caller t) (te_kind t \<noteq> TxCreate) accs) = bump_nonce (te_caller t) ?on accs"
    by (cases "te_kind t = TxCreate") (auto simp: c5(5) bump_nonce_def)
  then have "info (ctx_journal c8) = charge sponsor cost (bump_nonce (te_caller t) ?on accs)"
    using k x(1) c5(6) by (simp add: bump_charge)
  moreover have "fee_effective_gas_price F (env_inner (ctx_tx c8)) b = fee_effective_gas_price F t b"
    using k x(2) by (simp add: set_batch_call_def set_call_def price_of_fees c5(3))
  ultimately show thesis
    using that [of ?on] m k x(2-5) result_gas_settled [OF m2 s8] by (simp add: set_batch_call_def)
qed

lemma failed_batch_settles:
  assumes run: "run_order build (ev_handler_steps J F M G X h) c r c'" "\<not> is_success r"
    and t: "t = env_inner (ctx_tx c)" "te_tx_type t \<noteq> 4" "te_kind t = call_to (hd calls)"
    and calls: "batch_calls (ctx_tx c) = Some calls" "1 < length calls"
    and sponsor: "env_sponsor (ctx_tx c) = Some sponsor" "\<not> cfg_balance_check_disabled (ctx_cfg c)"
    and no_reservoir: "\<not> cfg_eip8037_enabled (ctx_cfg c)"
    and b: "b = unat (blk_basefee (ctx_block c))"
    and price: "price = unat (fee_effective_gas_price F t (ucast (blk_basefee (ctx_block c))))"
      "price * unat (te_gas_limit t) < 2 ^ 128"
    and sink: "\<And>s. hd_redirect h = Some s \<Longrightarrow>
      balance_of (info (ctx_journal c)) (fee_sink s) + b * unat (te_gas_limit t) < 2 ^ 256"
    and used: "used = gas_used r"
  shows "used \<le> unat (te_gas_limit t) \<and>
    (\<exists>on. (te_kind t \<noteq> TxCreate \<longrightarrow> on) \<and>
      (\<forall>a. a \<noteq> blk_beneficiary (ctx_block c) \<longrightarrow>
         info (ctx_journal c') a =
           redirected h (b * used) (charge sponsor (price * used) (bump_nonce (te_caller t) on (info (ctx_journal c)))) a))"
proof -
  obtain c1 ig c2 c3 c4 n ig' c5 fr1 c6 fr2 c7 fr3 c8 c9 c10 where
    s: "mn_validate_env M c = (Inr (), c1)" "validate_initial_tx_gas M c1 = (Inr ig, c2)"
      "validate_against_state_and_deduct_caller J F h c2 = (Inr (), c3)" "ms_load_accounts X c3 = (Inr (), c4)"
      "ms_apply_eip7702_auth_list X ig c4 = (Inr (n, ig'), c5)"
    and s6: "execution J M G ig' c5 = (Inr fr1, c6)" and s7: "ms_refund X fr1 (sint n) c6 = (fr2, c7)"
    and s8: "ms_eip7623_check_gas_floor X fr2 ig' c7 = (fr3, c8)"
    and s9: "reimburse_caller J M G F fr3 c8 = (Inr (), c9)" "reward_beneficiary J M G h fr3 c9 = (Inr (), c10)"
    and s11: "ms_execution_result X fr3 (build fr2 ig') c10 = (Inr r, c')"
    using run(1) unfolding run_order_def ev_handler_steps_def handler_validate_env_def handler_load_accounts_def
      handler_apply_eip7702_auth_list_def handler_refund_def handler_eip7623_check_gas_floor_def
      handler_execution_result_def
    by (simp only: handler_steps.simps) (elim exE conjE, rule that)
  have cost: "price * unat (te_gas_limit t) = gas_cost F t (ucast (blk_basefee (ctx_block c)))"
    by (simp add: gas_cost_def price(1))
  have g: "ig_total ig \<le> te_gas_limit (env_inner (ctx_tx c1))" "c2 = c1"
    using batch_gas_covered [OF s(2), of calls] calls validate_env_keeps [OF s(1)] by (auto simp: same_ctx_def)
  note p = prepared [OF s(1) g(1) s(3) [unfolded g(2)] s(4,5) t(1,2) sponsor cost]
  note r = execution_result_keeps [OF s11]
  have bad: "\<not> ir_is_ok (fr_result fr1)" using r run(2) refund_keeps [OF s7] floor_keeps [OF s8] by simp
  have c5: "batch_calls (ctx_tx c5) = Some calls" "t = env_inner (ctx_tx c5)" using calls(1) t(1) p(1) by simp_all
  obtain on where f: "te_kind t \<noteq> TxCreate \<longrightarrow> on" "info (ctx_journal c8) =
        charge sponsor (price * unat (te_gas_limit t)) (bump_nonce (te_caller t) on (info (ctx_journal c)))"
      "frame_metered G fr3" "gas_limit_of G (fr_gas fr3) = te_gas_limit t"
      "fee_effective_gas_price F (env_inner (ctx_tx c8)) (ucast (blk_basefee (ctx_block c8))) =
        fee_effective_gas_price F t (ucast (blk_basefee (ctx_block c8)))"
      "env_sponsor (ctx_tx c8) = Some sponsor" "ctx_block c8 = ctx_block c"
      "result_gas_used (build fr2 ig') = unat (gas_spent_sub_refunded G (fr_gas fr3))"
    using failed_frame [OF s6 bad s7 [unfolded p(4)] s8 c5(1) calls(2) c5(2) p(3) t(3) p(5)] p(1,2,7) sponsor(1)
      no_reservoir by metis
  let ?accs = "bump_nonce (te_caller t) on (info (ctx_journal c))"
  have u: "used = unat (te_gas_limit t) - returned_gas G fr3" using spent [OF f(3)] r f(8) by (simp add: used f(4))
  have p8: "price = unat (fee_effective_gas_price F (env_inner (ctx_tx c8)) (ucast (blk_basefee (ctx_block c8))))"
    using f(5) by (simp add: f(7) price(1))
  have le8: "price * unat (te_gas_limit t) \<le> balance_of ?accs sponsor" using p(6) by simp
  have sink8: "balance_of ?accs (fee_sink s) + unat (blk_basefee (ctx_block c8)) * unat (te_gas_limit t) < 2 ^ 256"
    if "hd_redirect h = Some s" for s using sink [OF that] by (simp add: f(7) b)
  have "info (ctx_journal c10) a = redirected h (b * used) (charge sponsor (price * used) ?accs) a"
    if "a \<noteq> blk_beneficiary (ctx_block c)" for a
    using settle_sponsored [OF f(3,4) p8 price(2) f(6,2) le8 sink8 s9 u, of a] that by (simp add: f(7) b)
  then show ?thesis using r f(1) by (intro conjI exI [of _ on]) (simp_all add: u)
qed

end

section \<open>A concrete run\<close>

text \<open>A frame that used less than the floor is set to the floor, which the result gas counts as well.\<close>

definition ref_floor :: "u64 \<Rightarrow> ref_gas frame_result \<Rightarrow> ref_gas frame_result" where
  "ref_floor floor fr =
     (let g = fr_gas fr in
      if gas_spent_sub_refunded ref_gas_ops g < floor \<and> floor \<le> rg_limit g
      then fr \<lparr> fr_gas := g \<lparr> rg_remaining := rg_limit g - floor, rg_refunded := 0 \<rparr> \<rparr> else fr)"

definition ref_result_gas :: "ref_gas frame_result \<Rightarrow> initial_gas \<Rightarrow> nat" where
  "ref_result_gas fr ig =
     (let used = unat (gas_spent_sub_refunded ref_gas_ops (fr_gas fr)) in
      if ig_floor ig \<le> rg_limit (fr_gas fr) then max used (unat (ig_floor ig)) else used)"

definition ref_steps :: "(ref_journal, ref_gas, string, nat, bool \<times> nat) mainnet_steps" where
  "ref_steps =
     \<lparr> ms_load_accounts = st_return (), ms_apply_eip7702_auth_list = (\<lambda>ig. st_return (0, ig)),
       ms_last_frame_result = st_return,
       ms_eip7623_check_gas_floor = (\<lambda>fr ig c. (ref_floor (ig_floor ig) fr, c)),
       ms_refund = (\<lambda>fr k c.
         (fr \<lparr> fr_gas := (fr_gas fr) \<lparr> rg_refunded := max 0 (min (rg_refunded (fr_gas fr) + k)
            ((uint (rg_limit (fr_gas fr)) - uint (rg_remaining (fr_gas fr))) div 5)) \<rparr> \<rparr>, c)),
       ms_execution_result = (\<lambda>fr rg. st_return (ir_is_ok (fr_result fr), rg)) \<rparr>"

definition ref_handler_run ::
    "('fr \<Rightarrow> initial_gas \<Rightarrow> 'rg) \<Rightarrow> ('c, 'e, 'fr, 'fi, 'rg, 'r) handler_steps \<Rightarrow> ('c, 'e, 'r) st" where
  "ref_handler_run build H =
     st_then (hs_validate_env H)
    (st_bind (hs_validate_initial_tx_gas H) (\<lambda>ig.
     st_then (hs_validate_against_state_and_deduct_caller H)
    (st_then (hs_load_accounts H)
    (st_bind (hs_apply_eip7702_auth_list H ig) (\<lambda>x.
     st_bind (hs_execution H (snd x)) (\<lambda>fr1 c6.
       case hs_refund H fr1 (sint (fst x)) c6 of (fr2, c7) \<Rightarrow>
       case hs_eip7623_check_gas_floor H fr2 (snd x) c7 of (fr3, c8) \<Rightarrow>
         st_then (hs_reimburse_caller H fr3)
        (st_then (hs_reward_beneficiary H fr3)
         (hs_execution_result H fr3 (build fr2 (snd x)))) c8))))))"

lemma ref_handler_run_order:
  assumes "ref_handler_run build H c = (Inr r, c')"
  shows "run_order build H c r c'"
proof -
  obtain c1 ig c2 c3 c4 x c5 fr1 c6 where s: "hs_validate_env H c = (Inr (), c1)"
      "hs_validate_initial_tx_gas H c1 = (Inr ig, c2)"
      "hs_validate_against_state_and_deduct_caller H c2 = (Inr (), c3)" "hs_load_accounts H c3 = (Inr (), c4)"
      "hs_apply_eip7702_auth_list H ig c4 = (Inr x, c5)" "hs_execution H (snd x) c5 = (Inr fr1, c6)"
    and rest: "(case hs_refund H fr1 (sint (fst x)) c6 of (fr2, c7) \<Rightarrow>
       case hs_eip7623_check_gas_floor H fr2 (snd x) c7 of (fr3, c8) \<Rightarrow>
         st_then (hs_reimburse_caller H fr3)
        (st_then (hs_reward_beneficiary H fr3)
         (hs_execution_result H fr3 (build fr2 (snd x)))) c8) = (Inr r, c')"
    using assms unfolding ref_handler_run_def by (simp only: ok_iff) (elim exE conjE, rule that; simp)
  obtain n ig' where x: "x = (n, ig')" by force
  obtain fr2 c7 where r: "hs_refund H fr1 (sint n) c6 = (fr2, c7)" by force
  obtain fr3 c8 where f: "hs_eip7623_check_gas_floor H fr2 ig' c7 = (fr3, c8)" by force
  obtain c9 c10 where e: "hs_reimburse_caller H fr3 c8 = (Inr (), c9)" "hs_reward_beneficiary H fr3 c9 = (Inr (), c10)"
      "hs_execution_result H fr3 (build fr2 ig') c10 = (Inr r, c')"
    using rest by (auto simp: x r f ok_iff)
  show ?thesis unfolding run_order_def using s [unfolded x snd_conv] r f e by (intro exI conjI)
qed

lemma same_ctx_refl [simp]: "same_ctx info c c"
  by (simp add: same_ctx_def)

text \<open>The concrete refund is capped at a fifth of the gas spent.\<close>

lemma ref_refund_metered:
  assumes "ms_refund ref_steps fr k c = (fr', c')"
    and "gas_remaining ref_gas_ops (fr_gas fr) \<le> gas_limit_of ref_gas_ops (fr_gas fr)"
  shows "frame_metered ref_gas_ops fr'"
proof -
  let ?l = "uint (rg_limit (fr_gas fr))" and ?m = "uint (rg_remaining (fr_gas fr))"
  let ?r = "max 0 (min (rg_refunded (fr_gas fr) + k) ((?l - ?m) div 5))"
  have m: "?m \<le> ?l" using assms(2) by (simp add: ref_gas_ops_def word_le_def)
  then have "?m + ?r \<le> ?l" by linarith
  then have "unat (rg_remaining (fr_gas fr)) + nat ?r \<le> unat (rg_limit (fr_gas fr))"
    by (simp add: unat_eq_nat_uint nat_add_distrib [symmetric] nat_mono del: unat_eq_nat_uint [symmetric])
  then show ?thesis
    using assms(1) unat_bound [of "rg_limit (fr_gas fr)"]
    by (auto simp: ref_steps_def frame_metered_def refund_fits_def returned_gas_def ref_gas_ops_def)
qed

lemma ref_spent:
  assumes "frame_metered ref_gas_ops fr"
  shows "unat (gas_spent_sub_refunded ref_gas_ops (fr_gas fr)) =
    unat (gas_limit_of ref_gas_ops (fr_gas fr)) - returned_gas ref_gas_ops fr"
proof -
  have fits: "refund_fits ref_gas_ops fr" and le: "returned_gas ref_gas_ops fr \<le> unat (rg_limit (fr_gas fr))"
    using assms by (simp_all add: frame_metered_def ref_gas_ops_def)
  have r: "unat (rg_remaining (fr_gas fr) + of_int (rg_refunded (fr_gas fr))) = returned_gas ref_gas_ops fr"
    using unat_returned_gas [OF fits] by (simp add: ref_gas_ops_def)
  have "gas_spent_sub_refunded ref_gas_ops (fr_gas fr) =
      rg_limit (fr_gas fr) - (rg_remaining (fr_gas fr) + of_int (rg_refunded (fr_gas fr)))"
    by (simp add: ref_gas_ops_def)
  moreover have "rg_remaining (fr_gas fr) + of_int (rg_refunded (fr_gas fr)) \<le> rg_limit (fr_gas fr)"
    using le r by (simp only: word_le_nat_alt)
  ultimately show ?thesis using r by (simp only: unat_sub) (simp add: ref_gas_ops_def)
qed

lemma ref_floor_metered: "frame_metered ref_gas_ops fr \<Longrightarrow> frame_metered ref_gas_ops (ref_floor l fr)"
  using unat_bound [of "rg_limit (fr_gas fr)"]
  by (auto simp: ref_floor_def frame_metered_def refund_fits_def returned_gas_def ref_gas_ops_def Let_def
      word_le_nat_alt unat_sub)

lemma ref_floor_used:
  "unat (gas_spent_sub_refunded ref_gas_ops (fr_gas (ref_floor (ig_floor ig) fr))) = ref_result_gas fr ig"
  by (auto simp: ref_floor_def ref_result_gas_def ref_gas_ops_def Let_def word_less_nat_alt not_less max_def)

interpretation ref_settled: settled_run ref_journal_ops rj_accounts ref_saved ref_mainnet ref_gas_ops ref_fees
  ref_steps fst snd ref_result_gas "\<lambda>rg. rg" "ref_handler_run ref_result_gas"
proof (unfold_locales, goal_cases)
  case (4 ig l cap en) then show ?case by (simp add: ref_mainnet_def word_le_nat_alt unat_sub)
next
  case (6 fr k c fr' c') then show ?case by (auto intro: ref_refund_metered)
next
  case (8 fr ig c fr' c') then show ?case by (auto simp: ref_steps_def ref_floor_metered)
next
  case (9 fr) then show ?case by (rule ref_spent)
next
  case (12 fr ig c fr' c') then show ?case by (auto simp: ref_steps_def ref_floor_used)
next
  case (14 H c r c') then show ?case by (rule ref_handler_run_order)
qed (auto simp: ref_mainnet_def ref_steps_def st_return_def ref_gas_ops_def ref_fees_def ref_effective_gas_price_def
    Let_def ref_floor_def split: prod.splits option.splits if_splits)

lemmas demo_settled = ev_handler_steps_def handler_validate_env_def handler_load_accounts_def
  handler_apply_eip7702_auth_list_def handler_refund_def handler_eip7623_check_gas_floor_def
  handler_execution_result_def validate_initial_tx_gas_def validate_batch_initial_tx_gas_def
  validate_against_state_and_deduct_caller_def ensure_deploy_allowed_def check_deploy_allowed_def
  validate_and_deduct_sponsored_tx_def validate_account_nonce_and_code_def batch_total_value_def
  st_map_err_def on_journal_def ref_fees_def ref_effective_gas_price_def saturating_mul_def
  reimburse_caller_def reward_beneficiary_def redirect_apply_def ref_steps_def is_enabled_in_def demo_run demo_defs

text \<open>A failing batch: the contexts after the deduction, the execution, and the settlement.\<close>

definition demo_accounts_at :: "u256 \<Rightarrow> accounts" where
  "demo_accounts_at n = demo_accounts
     (1 := \<lparr> ai_balance = 1000, ai_nonce = 8, ai_code = None \<rparr>,
      2 := \<lparr> ai_balance = n, ai_nonce = 0, ai_code = None \<rparr>)"

definition demo_failed :: "call list \<Rightarrow> ev_tx_env \<Rightarrow> accounts \<Rightarrow> ref_journal evm_ctx" where
  "demo_failed calls e accs = demo_ctx calls \<lparr> ctx_tx := e, ctx_journal := demo_journal \<lparr> rj_accounts := accs \<rparr> \<rparr>"

definition demo_failed_gas :: ref_gas where
  "demo_failed_gas =
     \<lparr> rg_limit = 100000, rg_remaining = 15984, rg_refunded = 0, rg_reservoir = 0, rg_state_spent = 0 \<rparr>"

definition demo_failed_frame :: "ref_gas frame_result" where
  "demo_failed_frame = \<lparr> fr_result = IrRevert, fr_output = [1], fr_gas = demo_failed_gas \<rparr>"

lemma demo_failed_steps:
  defines "e \<equiv> demo_env demo_failing_calls"
    and "ig \<equiv> \<lparr> ig_total = 42016, ig_state = 0, ig_floor = 42040, ig_eip7702_reservoir_refund = 0 \<rparr>"
  defines "e' \<equiv> set_batch_call (last demo_failing_calls) e"
  shows "validate_initial_tx_gas ref_mainnet (demo_ctx demo_failing_calls) = (Inr ig, demo_ctx demo_failing_calls)"
    "validate_against_state_and_deduct_caller ref_journal_ops ref_fees demo_handler (demo_ctx demo_failing_calls) =
       (Inr (), demo_failed demo_failing_calls e (demo_accounts_at 98800000))"
    "execution ref_journal_ops ref_mainnet ref_gas_ops ig (demo_failed demo_failing_calls e accs) =
       (Inr demo_failed_frame, demo_failed demo_failing_calls e' accs)"
    "reimburse_caller ref_journal_ops ref_mainnet ref_gas_ops ref_fees demo_failed_frame
         (demo_failed demo_failing_calls e' (demo_accounts_at 98800000)) =
       (Inr (), demo_failed demo_failing_calls e' (demo_accounts_at 98991808))"
    "reward_beneficiary ref_journal_ops ref_mainnet ref_gas_ops demo_handler demo_failed_frame
         (demo_failed demo_failing_calls e' (demo_accounts_at 98991808)) =
       (Inr (), demo_failed demo_failing_calls e'
          ((demo_accounts_at 98991808) (8 := demo_accounts 8 \<lparr> ai_balance := 840160 \<rparr>)))"
  unfolding e_def ig_def e'_def demo_failed_def
  subgoal by (simp add: demo_settled)
  subgoal by (simp add: demo_settled demo_accounts_at_def)
  subgoal by (simp add: demo_settled demo_failed_frame_def demo_failed_gas_def)
  subgoal by (simp add: demo_settled demo_failed_frame_def demo_failed_gas_def demo_accounts_at_def)
  subgoal by (simp add: demo_settled demo_failed_frame_def demo_failed_gas_def demo_accounts_at_def ev_handler_new_def)
  done

lemma demo_failed_run:
  "ref_handler_run ref_result_gas (ev_handler_steps ref_journal_ops ref_fees ref_mainnet ref_gas_ops ref_steps demo_handler)
       (demo_ctx demo_failing_calls) =
     (Inr (False, 84016), demo_failed demo_failing_calls
        (set_batch_call (last demo_failing_calls) (demo_env demo_failing_calls))
        ((demo_accounts_at 98991808) (8 := demo_accounts 8 \<lparr> ai_balance := 840160 \<rparr>)))"
proof -
  let ?ig = "\<lparr> ig_total = 42016, ig_state = 0, ig_floor = 42040, ig_eip7702_reservoir_refund = 0 \<rparr>"
  have "ms_refund ref_steps demo_failed_frame 0 c = (demo_failed_frame, c)" for c
    by (simp add: ref_steps_def demo_failed_frame_def demo_failed_gas_def)
  moreover have "ms_eip7623_check_gas_floor ref_steps demo_failed_frame ?ig c = (demo_failed_frame, c)" for c
    by (simp add: ref_steps_def ref_floor_def demo_failed_frame_def demo_failed_gas_def ref_gas_ops_def)
  moreover have "ms_execution_result ref_steps demo_failed_frame (ref_result_gas demo_failed_frame ?ig) c =
      (Inr (False, 84016), c)" for c
    by (simp add: ref_steps_def ref_result_gas_def demo_failed_frame_def demo_failed_gas_def ref_gas_ops_def st_return_def)
  moreover have "mn_validate_env ref_mainnet = st_return ()" "ms_load_accounts ref_steps = st_return ()"
    "ms_apply_eip7702_auth_list ref_steps = (\<lambda>ig. st_return (0, ig))"
    by (simp_all add: ref_mainnet_def ref_steps_def)
  ultimately show ?thesis
    by (simp add: ref_handler_run_def ev_handler_steps_def handler_validate_env_def handler_load_accounts_def
        handler_apply_eip7702_auth_list_def handler_refund_def handler_eip7623_check_gas_floor_def
        handler_execution_result_def st_bind_def st_then_def st_return_def demo_failed_steps)
qed

section \<open>Properties\<close>

text \<open>C3. A failed batch costs its sponsor the gas and nothing else. When a whole run of the handler on
  a sponsored batch of several calls, in a configuration without EIP-8037, returns a result that is not a
  success, then the gas it reports as used is at most the gas limit, and every account other than the
  block's beneficiary is the one before the transaction but for three changes: the sponsor paid the
  effective price for the gas used, the sink of the base-fee redirect got the base fee for that gas, and
  the caller's nonce went up (always unless the batch starts with a creation). No value of a call moved.\<close>

theorem failed_batch_costs_only_gas:
  assumes "settled_run J info saved M G F X is_success gas_used build result_gas_used run"
    and "run (ev_handler_steps J F M G X h) c = (Inr r, c')" "\<not> is_success r"
    and t: "t = env_inner (ctx_tx c)" "te_tx_type t \<noteq> 4" "te_kind t = call_to (hd calls)"
    and "batch_calls (ctx_tx c) = Some calls" "1 < length calls"
    and "env_sponsor (ctx_tx c) = Some sponsor" "\<not> cfg_balance_check_disabled (ctx_cfg c)"
    and "\<not> cfg_eip8037_enabled (ctx_cfg c)"
    and "base_fee = unat (blk_basefee (ctx_block c))"
    and price: "price = unat (fee_effective_gas_price F t (ucast (blk_basefee (ctx_block c))))"
      "price * unat (te_gas_limit t) < 2 ^ 128"
    and "\<And>s. hd_redirect h = Some s \<Longrightarrow>
      balance_of (info (ctx_journal c)) (fee_sink s) + base_fee * unat (te_gas_limit t) < 2 ^ 256"
    and "used = gas_used r"
  shows "used \<le> unat (te_gas_limit t) \<and>
    (\<exists>on. (te_kind t \<noteq> TxCreate \<longrightarrow> on) \<and>
      (\<forall>a. a \<noteq> blk_beneficiary (ctx_block c) \<longrightarrow>
         info (ctx_journal c') a =
           redirected h (base_fee * used)
             (charge sponsor (price * used) (bump_nonce (te_caller t) on (info (ctx_journal c)))) a))"
  by (rule settled_run.failed_batch_settles [OF assms(1) settled_run.run_in_order [OF assms(1,2)] assms(3-)])

theorem failed_batch_costs_only_gas_witness:
  "\<exists>c'. ref_handler_run ref_result_gas
      (ev_handler_steps ref_journal_ops ref_fees ref_mainnet ref_gas_ops ref_steps demo_handler)
      (demo_ctx demo_failing_calls) = (Inr (False, 84016), c') \<and>
     rj_accounts (ctx_journal c') 1 = demo_accounts 1 \<lparr> ai_nonce := 8 \<rparr> \<and>
     rj_accounts (ctx_journal c') 2 = demo_accounts 2 \<lparr> ai_balance := 100000000 - 12 * 84016 \<rparr> \<and>
     rj_accounts (ctx_journal c') 3 = demo_accounts 3 \<and>
     rj_accounts (ctx_journal c') 8 = demo_accounts 8 \<lparr> ai_balance := 10 * 84016 \<rparr>"
proof -
  obtain c' where run: "ref_handler_run ref_result_gas
      (ev_handler_steps ref_journal_ops ref_fees ref_mainnet ref_gas_ops ref_steps demo_handler)
      (demo_ctx demo_failing_calls) = (Inr (False, 84016), c')"
    using demo_failed_run by blast
  have "\<exists>on. (te_kind demo_inner \<noteq> TxCreate \<longrightarrow> on) \<and> (\<forall>a. a \<noteq> 9 \<longrightarrow> rj_accounts (ctx_journal c') a =
      redirected demo_handler (10 * 84016) (charge 2 (12 * 84016) (bump_nonce 1 on demo_accounts)) a)"
    using failed_batch_costs_only_gas [OF ref_settled.settled_run_axioms run, of demo_inner demo_failing_calls 2 10 12 84016]
    by (simp add: demo_defs batch_calls_def ref_fees_def ref_effective_gas_price_def saturating_add_def
        ev_handler_new_def balance_of_def)
  then have "\<forall>a. a \<noteq> 9 \<longrightarrow> rj_accounts (ctx_journal c') a =
      redirected demo_handler (10 * 84016) (charge 2 (12 * 84016) (bump_nonce 1 True demo_accounts)) a"
    by (auto simp: demo_inner_def)
  then show ?thesis using run
    by (simp add: redirected_def demo_handler_def ev_handler_new_def credit_def charge_def bump_nonce_def
        demo_accounts_def saturating_add_def)
qed

end
