(* ===== verification/Ev_Handler_Inspect.thy ===== *)
theory Ev_Handler_Inspect
  imports Ev_Handler_Run Tx_Env_Types
begin

text \<open>
  Inspected execution, which tracing uses (\<open>impl InspectorHandler for EvHandler\<close>,
  \<open>crates/ev-revm/src/handler.rs\<close>). The implementation names the interpreter type and overrides no
  method, so \<open>inspect_execution\<close> is the provided one of revm's trait, on the steps of the handler. It
  is a parameter; the locale \<open>inspector\<close> states what revm documents of it: it runs the first frame
  of the context's transaction in the inspected loop and hands its result to \<open>last_frame_result\<close>.
\<close>

record ('c, 'e, 'fr, 'fi, 'rg, 'r) inspector_ops =
  io_inspect_execution ::
    "('c, 'e, 'fr, 'fi, 'rg, 'r) handler_steps \<Rightarrow> ('fi \<Rightarrow> ('c, 'e, 'fr) st) \<Rightarrow> initial_gas \<Rightarrow> ('c, 'e, 'fr) st"
  io_inspect_run_exec_loop :: "'fi \<Rightarrow> ('c, 'e, 'fr) st"

type_synonym ('j, 'g, 'd, 'fi, 'rg, 'r) evm_inspector =
  "('j evm_ctx, 'd evm_error, 'g frame_result, 'fi, 'rg, 'r) inspector_ops"

definition ev_inspect_execution ::
    "('j, 'g, 'd, 'fi, 'rg, 'r) evm_inspector \<Rightarrow> ('j, 'cp, 'd) journal_ops \<Rightarrow> fee_ops
       \<Rightarrow> ('j, 'g, 'd, 'fi) mainnet_ops \<Rightarrow> 'g gas_ops \<Rightarrow> ('j, 'g, 'd, 'rg, 'r) mainnet_steps \<Rightarrow> ev_handler
       \<Rightarrow> initial_gas \<Rightarrow> ('j evm_ctx, 'd evm_error, 'g frame_result) st" where
  "ev_inspect_execution I J F M G X h =
     io_inspect_execution I (ev_handler_steps J F M G X h) (io_inspect_run_exec_loop I)"

text \<open>One frame of the context's transaction, and the accounts it leaves.\<close>

definition one_frame ::
    "('j, 'g, 'd, 'fi) mainnet_ops \<Rightarrow> ('j \<Rightarrow> accounts) \<Rightarrow> 'j evm_ctx \<Rightarrow> 'g frame_result \<Rightarrow> accounts \<Rightarrow> bool" where
  "one_frame M info c fr accs \<longleftrightarrow>
     (\<exists>g r fi c1 c2. mn_first_frame_input M g r c = (Inr fi, c1) \<and> mn_run_exec_loop M fi c1 = (Inr fr, c2) \<and>
        accs = info (ctx_journal c2))"

text \<open>The inspector only watches: the inspected loop does to the context what the plain one does.\<close>

locale inspector = interpreter J info saved M
  for J :: "('j, 'cp, 'd) journal_ops"
    and info :: "'j \<Rightarrow> accounts"
    and saved :: "'j \<Rightarrow> 'cp \<Rightarrow> accounts option"
    and M :: "('j, 'g, 'd, 'fi) mainnet_ops" +
  fixes X :: "('j, 'g, 'd, 'rg, 'r) mainnet_steps"
    and I :: "('j, 'g, 'd, 'fi, 'rg, 'r) evm_inspector"
  assumes provided: "io_inspect_execution I H loop ig c = (Inr fr, c') \<Longrightarrow>
      \<exists>g r fi c1 fr1 c2. hs_first_frame_input H g r c = (Inr fi, c1) \<and> loop fi c1 = (Inr fr1, c2) \<and>
        hs_last_frame_result H fr1 c2 = (Inr fr, c')"
    and watches: "io_inspect_run_exec_loop I fi c = mn_run_exec_loop M fi c"
    and last_frame_keeps: "ms_last_frame_result X fr c = (Inr fr', c') \<Longrightarrow>
      fr_result fr' = fr_result fr \<and> same_ctx info c c'"
begin

lemma inspected_one_frame:
  assumes "ev_inspect_execution I J F M G X h ig c = (Inr fr, c')"
  shows "ctx_tx c' = ctx_tx c \<and>
    (\<exists>fr1. one_frame M info c fr1 (info (ctx_journal c')) \<and> fr_result fr = fr_result fr1)"
proof -
  obtain g r fi c1 fr1 c2 where s: "mn_first_frame_input M g r c = (Inr fi, c1)"
      "mn_run_exec_loop M fi c1 = (Inr fr1, c2)" "ms_last_frame_result X fr1 c2 = (Inr fr, c')"
    using provided [OF assms [unfolded ev_inspect_execution_def]] unfolding ev_handler_steps_def
      handler_first_frame_input_def handler_last_frame_result_def watches handler_steps.simps by blast
  note k = first_frame_ctx [OF s(1)] run_loop_ctx [OF s(2)] last_frame_keeps [OF s(3), unfolded same_ctx_def]
  have "one_frame M info c fr1 (info (ctx_journal c'))"
    using s(1,2) k unfolding one_frame_def by blast
  then show ?thesis using k by auto
qed

end

section \<open>A concrete inspector\<close>

definition ref_inspector :: "(ref_journal, ref_gas, string, u64 \<times> u64, nat, bool \<times> nat) evm_inspector" where
  "ref_inspector =
     \<lparr> io_inspect_execution = (\<lambda>H loop ig c.
         st_bind (hs_first_frame_input H (te_gas_limit (env_inner (ctx_tx c)) - ig_total ig) 0) (\<lambda>fi.
         st_bind (loop fi) (hs_last_frame_result H)) c),
       io_inspect_run_exec_loop = ref_run \<rparr>"

interpretation ref_inspect: inspector ref_journal_ops rj_accounts ref_saved ref_mainnet ref_steps ref_inspector
proof
  fix H :: "(ref_journal, ref_gas, string, u64 \<times> u64, nat, bool \<times> nat) evm_steps" and loop ig c fr c'
  assume "io_inspect_execution ref_inspector H loop ig c = (Inr fr, c')"
  then show "\<exists>g r fi c1 fr1 c2. hs_first_frame_input H g r c = (Inr fi, c1) \<and> loop fi c1 = (Inr fr1, c2) \<and>
      hs_last_frame_result H fr1 c2 = (Inr fr, c')"
    by (simp add: ref_inspector_def ok_iff) blast
qed (auto simp: ref_inspector_def ref_mainnet_def ref_steps_def st_return_def)

section \<open>Properties\<close>

text \<open>C21. An inspected execution of a batch does not run the batch. For an EvNode transaction of
  several calls the plain execution runs every call in order or reverts them all; the inspected one
  leaves the accounts of a single frame, whose target and input are those of the first call and
  whose value is the total of all calls, and no other call is ever set as the transaction.\<close>

theorem inspected_batch_runs_one_frame:
  assumes "inspector J info saved M X I"
    and tx: "ctx_tx c = from_recovered_tx R K T (EvNode ev) sender" "calls = tx_calls (signed_tx ev)" "1 < length calls"
    and inspected: "ev_inspect_execution I J F M G X h ig c = (Inr fr, c')"
    and plain: "execution J M G ig c = (Inr fr2, c2)"
  shows "(batch_success J M G ig calls c fr2 c2 \<or> batch_failure J M G ig calls c fr2 c2) \<and>
    (\<exists>fr1. one_frame M info c fr1 (info (ctx_journal c')) \<and> fr_result fr = fr_result fr1) \<and>
    ctx_tx c' = set_batch_call (hd calls \<lparr> call_value := tx_value (signed_tx ev) \<rparr>) (ctx_tx c) \<and>
    te_value (env_inner (ctx_tx c')) = foldl (\<lambda>acc c. saturating_add acc (call_value c)) 0 calls"
proof -
  obtain call rest where calls: "calls = call # rest" using tx(3) by (cases calls) auto
  have b: "batch_calls (ctx_tx c) = Some calls" by (simp add: tx(1,2) batch_calls_evnode)
  have "set_batch_call (hd calls \<lparr> call_value := tx_value (signed_tx ev) \<rparr>) (ctx_tx c) = ctx_tx c"
    "te_value (env_inner (ctx_tx c)) = foldl (\<lambda>acc c. saturating_add acc (call_value c)) 0 calls"
    using calls by (simp_all add: tx(1,2) from_evnode_tx_def tx_value_def set_batch_call_def set_call_def Let_def)
  then show ?thesis
    using inspector.inspected_one_frame [OF assms(1) inspected] plain
    by (simp add: execution_batch_iff [OF b tx(3)])
qed

text \<open>Two transfers of 5 to account 3 and 6 to account 4: inspected, account 3 gets 11 and account 4 nothing.\<close>

definition traced_tx :: ev_node_transaction where
  "traced_tx = sample_tx \<lparr> tx_calls := demo_calls, tx_gas_limit := 100000, tx_fee_payer_signature := None \<rparr>"

definition traced_ctx :: "ref_journal evm_ctx" where
  "traced_ctx = demo_ctx demo_calls \<lparr> ctx_tx := from_recovered_tx ref_rlp sample_crypto plain_env_ops
     (EvNode \<lparr> signed_tx = traced_tx, signed_signature = sample_signature \<rparr>) 1 \<rparr>"

lemmas traced_defs = traced_ctx_def traced_tx_def from_evnode_tx_def sponsor_of_tx_def plain_env_ops_def sample_tx_def

theorem inspected_batch_runs_one_frame_witness:
  "\<exists>fr c' fr2 c2.
     ev_inspect_execution ref_inspector ref_journal_ops ref_fees ref_mainnet ref_gas_ops ref_steps demo_handler
       demo_initial traced_ctx = (Inr fr, c') \<and>
     execution ref_journal_ops ref_mainnet ref_gas_ops demo_initial traced_ctx = (Inr fr2, c2) \<and>
     (\<exists>fr1. one_frame ref_mainnet rj_accounts traced_ctx fr1 (rj_accounts (ctx_journal c'))) \<and>
     map (\<lambda>a. balance_of (rj_accounts (ctx_journal c')) a) [1, 3, 4] = [989, 11, 0] \<and>
     map (\<lambda>a. balance_of (rj_accounts (ctx_journal c2)) a) [1, 3, 4] = [989, 5, 6]"
proof -
  let ?i = "ev_inspect_execution ref_inspector ref_journal_ops ref_fees ref_mainnet ref_gas_ops ref_steps
    demo_handler demo_initial traced_ctx"
  let ?e = "execution ref_journal_ops ref_mainnet ref_gas_ops demo_initial traced_ctx"
  have calls: "ctx_tx traced_ctx = from_recovered_tx ref_rlp sample_crypto plain_env_ops
      (EvNode \<lparr> signed_tx = traced_tx, signed_signature = sample_signature \<rparr>) 1"
    "demo_calls = tx_calls (signed_tx \<lparr> signed_tx = traced_tx, signed_signature = sample_signature \<rparr>)" "1 < length demo_calls"
    by (simp_all add: traced_ctx_def traced_tx_def demo_calls_def)
  have i: "\<exists>fr. ?i = (Inr fr, snd ?i)"
    "map (\<lambda>a. balance_of (rj_accounts (ctx_journal (snd ?i))) a) [1, 3, 4] = [989, 11, 0]"
    by (simp_all add: ev_inspect_execution_def ref_inspector_def ev_handler_steps_def handler_first_frame_input_def
        handler_last_frame_result_def ref_steps_def demo_run demo_defs traced_defs balance_of_def)
  have e: "\<exists>fr. ?e = (Inr fr, snd ?e)"
    "map (\<lambda>a. balance_of (rj_accounts (ctx_journal (snd ?e))) a) [1, 3, 4] = [989, 5, 6]"
    by (simp_all add: demo_run demo_defs traced_defs demo_initial_def balance_of_def)
  from i(1) e(1) obtain fr fr2 where r: "?i = (Inr fr, snd ?i)" "?e = (Inr fr2, snd ?e)" by blast
  have "\<exists>fr1. one_frame ref_mainnet rj_accounts traced_ctx fr1 (rj_accounts (ctx_journal (snd ?i)))"
    using inspected_batch_runs_one_frame [OF ref_inspect.inspector_axioms calls r] by blast
  then show ?thesis
    by - (rule exI [of _ fr], rule exI [of _ "snd ?i"], rule exI [of _ fr2], rule exI [of _ "snd ?e"],
      intro conjI r i(2) e(2))
qed

end
