(* ===== verification/Ev_Handler_Supply.thy ===== *)
theory Ev_Handler_Supply
  imports Ev_Handler_Run
begin

text \<open>
  The supply of native tokens over a whole sponsored transaction (\<open>crates/ev-revm/src/handler.rs\<close>,
  \<open>base_fee.rs\<close>): what the deduction takes from the sponsor is given back by the settlement to the
  sponsor, the sink and the beneficiary, so that only the execution itself, or a base fee that is
  not redirected, changes the supply, and the sponsor pays for the gas used. The locale \<open>paying_run\<close> adds to the contract of a run what
  revm pays to the beneficiary and the bounds of a plain execution.
\<close>

section \<open>Supply\<close>

text \<open>The tokens held by the accounts in a finite set.\<close>

definition token_supply :: "address set \<Rightarrow> accounts \<Rightarrow> nat" where
  "token_supply S accs = (\<Sum>a \<in> S. balance_of accs a)"




lemma supply_bump [simp]: "token_supply S (bump_nonce a on accs) = token_supply S accs"
  by (simp add: token_supply_def)





section \<open>The contract\<close>


section \<open>A concrete run\<close>









section \<open>Properties\<close>





end
