(* ===== verification/Mint_Precompile.thy ===== *)
theory Mint_Precompile
  imports Prelude
begin

text \<open>
  The native-token precompile of \<open>crates/ev-precompiles/src/mint.rs\<close>: mint and burn for the admin
  and the allowlisted callers, allowlist changes for the admin alone. The EVM internals it works
  on and the ABI coding are parameters. The abstract specification is a balance map and a set of
  allowlisted addresses, and every call that does not fail in the database implements it.
\<close>

section \<open>Interfaces\<close>

text \<open>\<open>in_load_account\<close> answers whether the account was loaded as not existing.\<close>

record ('i, 'e) internals_ops =
  in_load_account :: "address \<Rightarrow> ('i, 'e, bool) st"
  in_set_code :: "address \<Rightarrow> bytes \<Rightarrow> ('i, 'e, unit) st"
  in_load_account_mut :: "address \<Rightarrow> ('i, 'e, unit) st"
  in_set_nonce :: "address \<Rightarrow> u64 \<Rightarrow> 'i \<Rightarrow> 'i"
  in_touch_account :: "address \<Rightarrow> ('i, 'e, unit) st"
  in_incr_balance :: "address \<Rightarrow> u256 \<Rightarrow> 'i \<Rightarrow> bool \<times> 'i"
  in_decr_balance :: "address \<Rightarrow> u256 \<Rightarrow> 'i \<Rightarrow> bool \<times> 'i"
  in_sload :: "address \<Rightarrow> u256 \<Rightarrow> ('i, 'e, u256) st"
  in_sstore :: "address \<Rightarrow> u256 \<Rightarrow> u256 \<Rightarrow> ('i, 'e, unit) st"

datatype native_token_call =
    CallMint address u256
  | CallBurn address u256
  | CallAddToAllowList address
  | CallRemoveFromAllowList address
  | CallAllowlist address

record abi_ops =
  abi_decode :: "bytes \<Rightarrow> string + native_token_call"
  abi_encode_bool :: "bool \<Rightarrow> bytes"

section \<open>The precompile\<close>

definition MINT_PRECOMPILE_ADDR :: address where
  "MINT_PRECOMPILE_ADDR = 0xF100"

record mint_precompile =
  mp_admin :: address

datatype 'e mint_precompile_error = Fatal 'e | Halt string

datatype precompile_output = Output u64 bytes u64 | Halted string u64

definition mint_bytecode :: bytes where
  "mint_bytecode = [0xFE]"

definition ensure_account_created ::
    "('i, 'e) internals_ops \<Rightarrow> address \<Rightarrow> ('i, 'e mint_precompile_error, unit) st" where
  "ensure_account_created I addr =
     st_bind (st_map_err Fatal (in_load_account I addr)) (\<lambda>not_existing.
       if not_existing then
         st_then
           (if addr = MINT_PRECOMPILE_ADDR then
              st_then (st_map_err Fatal (in_set_code I addr mint_bytecode))
                (st_then (st_map_err Fatal (in_load_account_mut I addr))
                  (st_modify (in_set_nonce I addr 1)))
            else st_return ())
           (st_map_err Fatal (in_touch_account I addr))
       else st_return ())"

definition add_balance ::
    "('i, 'e) internals_ops \<Rightarrow> address \<Rightarrow> u256 \<Rightarrow> ('i, 'e mint_precompile_error, unit) st" where
  "add_balance I addr amount =
     st_then (st_map_err Fatal (in_load_account_mut I addr))
       (st_checked (in_incr_balance I addr amount) (Halt ''balance overflow''))"

definition sub_balance ::
    "('i, 'e) internals_ops \<Rightarrow> address \<Rightarrow> u256 \<Rightarrow> ('i, 'e mint_precompile_error, unit) st" where
  "sub_balance I addr amount =
     st_then (st_map_err Fatal (in_load_account_mut I addr))
       (st_checked (in_decr_balance I addr amount) (Halt ''insufficient balance''))"

definition ensure_admin :: "mint_precompile \<Rightarrow> address \<Rightarrow> ('i, 'e mint_precompile_error, unit) st" where
  "ensure_admin p caller =
     (if caller = mp_admin p then st_return () else st_fail (Halt ''unauthorized caller''))"

definition allowlist_key :: "address \<Rightarrow> u256" where
  "allowlist_key addr = ucast addr"

definition is_allowlisted ::
    "('i, 'e) internals_ops \<Rightarrow> address \<Rightarrow> ('i, 'e mint_precompile_error, bool) st" where
  "is_allowlisted I addr =
     st_then (ensure_account_created I MINT_PRECOMPILE_ADDR)
       (st_bind (st_map_err Fatal (in_sload I MINT_PRECOMPILE_ADDR (allowlist_key addr)))
         (\<lambda>value. st_return (value \<noteq> 0)))"

definition set_allowlisted ::
    "('i, 'e) internals_ops \<Rightarrow> address \<Rightarrow> bool \<Rightarrow> ('i, 'e mint_precompile_error, unit) st" where
  "set_allowlisted I addr allowed =
     st_then (ensure_account_created I MINT_PRECOMPILE_ADDR)
       (st_then (st_map_err Fatal (in_sstore I MINT_PRECOMPILE_ADDR (allowlist_key addr)
                   (if allowed then 1 else 0)))
         (st_map_err Fatal (in_touch_account I MINT_PRECOMPILE_ADDR)))"

definition ensure_authorized ::
    "mint_precompile \<Rightarrow> ('i, 'e) internals_ops \<Rightarrow> address \<Rightarrow> ('i, 'e mint_precompile_error, unit) st" where
  "ensure_authorized p I caller =
     (if caller = mp_admin p then st_return ()
      else st_bind (is_allowlisted I caller) (\<lambda>allowlisted.
        if allowlisted then st_return () else st_fail (Halt ''unauthorized caller'')))"

fun dispatch ::
    "mint_precompile \<Rightarrow> ('i, 'e) internals_ops \<Rightarrow> abi_ops \<Rightarrow> address \<Rightarrow> native_token_call
       \<Rightarrow> ('i, 'e mint_precompile_error, bytes) st" where
  "dispatch p I A caller (CallMint to amount) =
     st_then (ensure_authorized p I caller)
       (st_then (ensure_account_created I to)
         (st_then (add_balance I to amount)
           (st_then (st_map_err Fatal (in_touch_account I to)) (st_return []))))"
| "dispatch p I A caller (CallBurn from amount) =
     st_then (ensure_authorized p I caller)
       (st_then (ensure_account_created I from)
         (st_then (sub_balance I from amount)
           (st_then (st_map_err Fatal (in_touch_account I from)) (st_return []))))"
| "dispatch p I A caller (CallAddToAllowList account) =
     st_then (ensure_admin p caller) (st_then (set_allowlisted I account True) (st_return []))"
| "dispatch p I A caller (CallRemoveFromAllowList account) =
     st_then (ensure_admin p caller) (st_then (set_allowlisted I account False) (st_return []))"
| "dispatch p I A caller (CallAllowlist account) =
     st_bind (is_allowlisted I account) (\<lambda>b. st_return (abi_encode_bool A b))"

text \<open>\<open>data\<close>, \<open>caller\<close> and \<open>reservoir\<close> are the fields of \<open>PrecompileInput\<close> that the code reads.\<close>

definition mint_call ::
    "mint_precompile \<Rightarrow> ('i, 'e) internals_ops \<Rightarrow> abi_ops \<Rightarrow> address \<Rightarrow> bytes \<Rightarrow> u64
       \<Rightarrow> ('i, 'e, precompile_output) st" where
  "mint_call p I A caller data reservoir i =
     (case abi_decode A data of
        Inl e \<Rightarrow> (Inr (Halted e reservoir), i)
      | Inr call \<Rightarrow>
          (case dispatch p I A caller call i of
             (Inr bs, i') \<Rightarrow> (Inr (Output 0 bs reservoir), i')
           | (Inl (Halt reason), i') \<Rightarrow> (Inr (Halted reason reservoir), i')
           | (Inl (Fatal e), i') \<Rightarrow> (Inl e, i')))"

section \<open>Specification\<close>

record mint_state =
  ms_balance :: "address \<Rightarrow> nat"
  ms_allowed :: "address \<Rightarrow> bool"

text \<open>\<open>None\<close> is a refused call; the bytes are the return data.\<close>

definition authorized :: "mint_precompile \<Rightarrow> mint_state \<Rightarrow> address \<Rightarrow> bool" where
  "authorized p s caller \<longleftrightarrow> caller = mp_admin p \<or> ms_allowed s caller"

fun mint_spec ::
    "mint_precompile \<Rightarrow> abi_ops \<Rightarrow> address \<Rightarrow> native_token_call \<Rightarrow> mint_state
       \<Rightarrow> (bytes \<times> mint_state) option" where
  "mint_spec p A caller (CallMint to amount) s =
     (if authorized p s caller \<and> ms_balance s to + unat amount < 2 ^ 256
      then Some ([], s \<lparr> ms_balance := (ms_balance s) (to := ms_balance s to + unat amount) \<rparr>)
      else None)"
| "mint_spec p A caller (CallBurn from amount) s =
     (if authorized p s caller \<and> unat amount \<le> ms_balance s from
      then Some ([], s \<lparr> ms_balance := (ms_balance s) (from := ms_balance s from - unat amount) \<rparr>)
      else None)"
| "mint_spec p A caller (CallAddToAllowList a) s =
     (if caller = mp_admin p then Some ([], s \<lparr> ms_allowed := (ms_allowed s) (a := True) \<rparr>) else None)"
| "mint_spec p A caller (CallRemoveFromAllowList a) s =
     (if caller = mp_admin p then Some ([], s \<lparr> ms_allowed := (ms_allowed s) (a := False) \<rparr>) else None)"
| "mint_spec p A caller (CallAllowlist a) s = Some (abi_encode_bool A (ms_allowed s a), s)"

definition mint_abs ::
    "('i \<Rightarrow> address \<Rightarrow> u256) \<Rightarrow> ('i \<Rightarrow> address \<Rightarrow> u256 \<Rightarrow> u256) \<Rightarrow> 'i \<Rightarrow> mint_state" where
  "mint_abs bal stor i =
     \<lparr> ms_balance = (\<lambda>a. unat (bal i a)),
       ms_allowed = (\<lambda>a. stor i MINT_PRECOMPILE_ADDR (allowlist_key a) \<noteq> 0) \<rparr>"

lemma mint_spec_authorized:
  "mint_spec p A caller call s = Some (bs, s') \<Longrightarrow>
     (ms_balance s' = ms_balance s \<or> authorized p s caller) \<and>
     (ms_allowed s' = ms_allowed s \<or> caller = mp_admin p)"
  by (cases call) (auto split: if_splits)

section \<open>Refinement\<close>

text \<open>
  The contract of the internals: reads and bookkeeping keep balances and storage, failing or not;
  a balance change is exact and refuses overflow and underflow; a store writes one slot.
\<close>

locale evm_internals =
  fixes I :: "('i, 'e) internals_ops"
    and bal :: "'i \<Rightarrow> address \<Rightarrow> u256"
    and stor :: "'i \<Rightarrow> address \<Rightarrow> u256 \<Rightarrow> u256"
  assumes load_account: "in_load_account I a i = (rb, i') \<Longrightarrow> bal i' = bal i \<and> stor i' = stor i"
    and set_code: "in_set_code I a code i = (ru, i') \<Longrightarrow> bal i' = bal i \<and> stor i' = stor i"
    and load_account_mut: "in_load_account_mut I a i = (ru, i') \<Longrightarrow> bal i' = bal i \<and> stor i' = stor i"
    and set_nonce: "bal (in_set_nonce I a n i) = bal i \<and> stor (in_set_nonce I a n i) = stor i"
    and touch: "in_touch_account I a i = (ru, i') \<Longrightarrow> bal i' = bal i \<and> stor i' = stor i"
    and sload: "in_sload I a k i = (rv, i') \<Longrightarrow> bal i' = bal i \<and> stor i' = stor i"
    and sload_value: "in_sload I a k i = (Inr v, i') \<Longrightarrow> v = stor i a k"
    and sstore_ok: "in_sstore I a k v i = (Inr (), i') \<Longrightarrow>
      bal i' = bal i \<and> stor i' = (stor i) (a := (stor i a) (k := v))"
    and incr: "in_incr_balance I a v i = (b, i') \<Longrightarrow>
      b = (unat (bal i a) + unat v < 2 ^ 256) \<and> stor i' = stor i \<and>
      bal i' = (if b then (bal i) (a := bal i a + v) else bal i)"
    and decr: "in_decr_balance I a v i = (b, i') \<Longrightarrow>
      b = (v \<le> bal i a) \<and> stor i' = stor i \<and> bal i' = (if b then (bal i) (a := bal i a - v) else bal i)"
begin

abbreviation view :: "'i \<Rightarrow> mint_state" where
  "view \<equiv> mint_abs bal stor"

lemma ensure_account_created_frame:
  "ensure_account_created I a i = (r, i') \<Longrightarrow> bal i' = bal i \<and> stor i' = stor i"
  by (auto simp: ensure_account_created_def st_bind_def st_then_def st_map_err_def st_run_simps set_nonce
      dest!: load_account set_code load_account_mut touch split: prod.splits sum.splits if_splits)

lemma is_allowlisted_frame:
  "is_allowlisted I a i = (r, i') \<Longrightarrow> bal i' = bal i \<and> stor i' = stor i"
  by (auto simp: is_allowlisted_def st_bind_def st_then_def st_map_err_def st_run_simps
      dest!: ensure_account_created_frame sload split: prod.splits sum.splits)

lemma is_allowlisted_value:
  assumes "is_allowlisted I a i = (Inr b, i')"
  shows "b = ms_allowed (view i) a"
proof -
  obtain u i1 v where "ensure_account_created I MINT_PRECOMPILE_ADDR i = (Inr u, i1)"
    and s: "in_sload I MINT_PRECOMPILE_ADDR (allowlist_key a) i1 = (Inr v, i')" and b: "b = (v \<noteq> 0)"
    using assms by (auto simp: is_allowlisted_def ok_iff)
  then have "stor i1 = stor i" using ensure_account_created_frame by blast
  then show ?thesis using sload_value [OF s] by (simp add: mint_abs_def b)
qed

lemma ensure_authorized_frame:
  "ensure_authorized p I caller i = (r, i') \<Longrightarrow> bal i' = bal i \<and> stor i' = stor i"
  by (auto simp: ensure_authorized_def st_bind_def st_run_simps dest!: is_allowlisted_frame
      split: prod.splits sum.splits if_splits)

lemma is_allowlisted_no_halt: "is_allowlisted I a i \<noteq> (Inl (Halt m), i')"
  by (auto simp: is_allowlisted_def ensure_account_created_def err_iff split: if_splits)

lemma ensure_authorized_Inr: "ensure_authorized p I caller i = (Inr u, i') \<Longrightarrow> authorized p (view i) caller"
  by (auto simp: ensure_authorized_def authorized_def ok_iff split: if_splits dest: is_allowlisted_value)

lemma ensure_authorized_Halt:
  "ensure_authorized p I caller i = (Inl (Halt m), i') \<Longrightarrow> \<not> authorized p (view i) caller"
  by (auto simp: ensure_authorized_def authorized_def err_iff is_allowlisted_no_halt
      split: if_splits dest: is_allowlisted_value)

lemma add_balance_Inr:
  assumes "add_balance I a v i = (Inr u, i')"
  shows "unat (bal i a) + unat v < 2 ^ 256 \<and> bal i' = (bal i) (a := bal i a + v) \<and> stor i' = stor i"
  using assms
  by (auto simp: add_balance_def ok_iff dest!: load_account_mut incr)

lemma add_balance_Halt:
  assumes "add_balance I a v i = (Inl (Halt m), i')"
  shows "\<not> unat (bal i a) + unat v < 2 ^ 256 \<and> bal i' = bal i \<and> stor i' = stor i"
  using assms
  by (auto simp: add_balance_def err_iff ok_iff dest!: load_account_mut incr)

lemma sub_balance_Inr:
  assumes "sub_balance I a v i = (Inr u, i')"
  shows "v \<le> bal i a \<and> bal i' = (bal i) (a := bal i a - v) \<and> stor i' = stor i"
  using assms
  by (auto simp: sub_balance_def ok_iff dest!: load_account_mut decr)

lemma sub_balance_Halt:
  assumes "sub_balance I a v i = (Inl (Halt m), i')"
  shows "\<not> v \<le> bal i a \<and> bal i' = bal i \<and> stor i' = stor i"
  using assms
  by (auto simp: sub_balance_def err_iff ok_iff dest!: load_account_mut decr)

lemma ensure_account_created_no_halt: "ensure_account_created I a i \<noteq> (Inl (Halt m), i')"
  by (auto simp: ensure_account_created_def err_iff split: if_splits)

lemma mint_refines:
  assumes "dispatch p I A caller (CallMint a v) i = (r, i')"
  shows "case r of
      Inr bs \<Rightarrow> mint_spec p A caller (CallMint a v) (view i) = Some (bs, view i')
    | Inl (Halt m) \<Rightarrow> mint_spec p A caller (CallMint a v) (view i) = None \<and> bal i' = bal i \<and> stor i' = stor i
    | Inl (Fatal e) \<Rightarrow> True"
proof (cases r)
  case (Inr bs)
  then obtain i1 i2 i3 where *: "ensure_authorized p I caller i = (Inr (), i1)"
      "ensure_account_created I a i1 = (Inr (), i2)" "add_balance I a v i2 = (Inr (), i3)"
      "in_touch_account I a i3 = (Inr (), i')" "bs = []"
    using assms by (auto simp: ok_iff)
  have eq: "bal i2 = bal i" "stor i2 = stor i"
    using ensure_authorized_frame [OF *(1)] ensure_account_created_frame [OF *(2)] by simp_all
  have "authorized p (view i) caller" by (rule ensure_authorized_Inr [OF *(1)])
  then show ?thesis
    using Inr add_balance_Inr [OF *(3)] touch [OF *(4)] *(5) eq
    by (auto simp: mint_abs_def fun_eq_iff unat_add_exact)
next
  case (Inl err)
  then show ?thesis
  proof (cases err)
    case (Halt m)
    with Inl assms consider "ensure_authorized p I caller i = (Inl (Halt m), i')"
      | i1 i2 where "ensure_authorized p I caller i = (Inr (), i1)"
          "ensure_account_created I a i1 = (Inr (), i2)" "add_balance I a v i2 = (Inl (Halt m), i')"
      by (auto simp: err_iff ok_iff ensure_account_created_no_halt)
    then show ?thesis
    proof cases
      case 1
      then show ?thesis using Inl Halt ensure_authorized_Halt [OF 1] ensure_authorized_frame [OF 1] by simp
    next
      case 2
      then show ?thesis
        using Inl Halt ensure_authorized_frame [OF 2(1)] ensure_account_created_frame [OF 2(2)]
          add_balance_Halt [OF 2(3)]
        by (simp add: mint_abs_def)
    qed
  qed simp
qed

lemma burn_refines:
  assumes "dispatch p I A caller (CallBurn a v) i = (r, i')"
  shows "case r of
      Inr bs \<Rightarrow> mint_spec p A caller (CallBurn a v) (view i) = Some (bs, view i')
    | Inl (Halt m) \<Rightarrow> mint_spec p A caller (CallBurn a v) (view i) = None \<and> bal i' = bal i \<and> stor i' = stor i
    | Inl (Fatal e) \<Rightarrow> True"
proof (cases r)
  case (Inr bs)
  then obtain i1 i2 i3 where *: "ensure_authorized p I caller i = (Inr (), i1)"
      "ensure_account_created I a i1 = (Inr (), i2)" "sub_balance I a v i2 = (Inr (), i3)"
      "in_touch_account I a i3 = (Inr (), i')" "bs = []"
    using assms by (auto simp: ok_iff)
  have eq: "bal i2 = bal i" "stor i2 = stor i"
    using ensure_authorized_frame [OF *(1)] ensure_account_created_frame [OF *(2)] by simp_all
  have "authorized p (view i) caller" by (rule ensure_authorized_Inr [OF *(1)])
  then show ?thesis
    using Inr sub_balance_Inr [OF *(3)] touch [OF *(4)] *(5) eq
    by (auto simp: mint_abs_def fun_eq_iff unat_sub_exact word_le_nat_alt)
next
  case (Inl err)
  then show ?thesis
  proof (cases err)
    case (Halt m)
    with Inl assms consider "ensure_authorized p I caller i = (Inl (Halt m), i')"
      | i1 i2 where "ensure_authorized p I caller i = (Inr (), i1)"
          "ensure_account_created I a i1 = (Inr (), i2)" "sub_balance I a v i2 = (Inl (Halt m), i')"
      by (auto simp: err_iff ok_iff ensure_account_created_no_halt)
    then show ?thesis
    proof cases
      case 1
      then show ?thesis using Inl Halt ensure_authorized_Halt [OF 1] ensure_authorized_frame [OF 1] by simp
    next
      case 2
      then show ?thesis
        using Inl Halt ensure_authorized_frame [OF 2(1)] ensure_account_created_frame [OF 2(2)]
          sub_balance_Halt [OF 2(3)]
        by (simp add: mint_abs_def word_le_nat_alt)
    qed
  qed simp
qed

lemma allowlist_key_inject [simp]: "allowlist_key a = allowlist_key b \<longleftrightarrow> a = b"
  by (simp add: allowlist_key_def word_unat_eq_iff unat_ucast_up)

lemma set_allowlisted_Inr:
  assumes "set_allowlisted I a b i = (Inr u, i')"
  shows "view i' = (view i) \<lparr> ms_allowed := (ms_allowed (view i)) (a := b) \<rparr>"
  using assms
  by (auto simp: set_allowlisted_def ok_iff mint_abs_def fun_eq_iff
      dest!: ensure_account_created_frame sstore_ok touch split: if_splits)

lemma set_allowlisted_no_halt: "set_allowlisted I a b i \<noteq> (Inl (Halt m), i')"
  by (auto simp: set_allowlisted_def err_iff ok_iff ensure_account_created_no_halt)

lemma dispatch_refines:
  assumes "dispatch p I A caller call i = (r, i')"
  shows "case r of
      Inr bs \<Rightarrow> mint_spec p A caller call (view i) = Some (bs, view i')
    | Inl (Halt m) \<Rightarrow> mint_spec p A caller call (view i) = None \<and> bal i' = bal i \<and> stor i' = stor i
    | Inl (Fatal e) \<Rightarrow> True"
proof (cases call)
  case (CallMint a v)
  then show ?thesis using mint_refines assms by blast
next
  case (CallBurn a v)
  then show ?thesis using burn_refines assms by blast
next
  case (CallAddToAllowList a)
  then show ?thesis using assms
    by (auto simp: ensure_admin_def ok_iff err_iff set_allowlisted_no_halt
        split: sum.splits mint_precompile_error.splits if_splits dest!: set_allowlisted_Inr)
next
  case (CallRemoveFromAllowList a)
  then show ?thesis using assms
    by (auto simp: ensure_admin_def ok_iff err_iff set_allowlisted_no_halt
        split: sum.splits mint_precompile_error.splits if_splits dest!: set_allowlisted_Inr)
next
  case (CallAllowlist a)
  then show ?thesis using assms is_allowlisted_value [of a i _ i'] is_allowlisted_frame [of a i _ i']
    by (auto simp: ok_iff err_iff is_allowlisted_no_halt mint_abs_def
        split: sum.splits mint_precompile_error.splits)
qed

end

section \<open>A concrete instance\<close>

record ref_internals =
  ri_balance :: "address \<Rightarrow> u256"
  ri_storage :: "address \<Rightarrow> u256 \<Rightarrow> u256"
  ri_existing :: "address list"
  ri_broken :: "address list"

definition ref_guard :: "address \<Rightarrow> 'a \<Rightarrow> (ref_internals \<Rightarrow> ref_internals) \<Rightarrow> (ref_internals, string, 'a) st" where
  "ref_guard a x f i = (if a \<in> set (ri_broken i) then (Inl ''db'', i) else (Inr x, f i))"

definition ref_internals_ops :: "(ref_internals, string) internals_ops" where
  "ref_internals_ops =
     \<lparr> in_load_account = (\<lambda>a i. ref_guard a (a \<notin> set (ri_existing i)) id i),
       in_set_code = (\<lambda>a _. ref_guard a () (\<lambda>i. i \<lparr> ri_existing := a # ri_existing i \<rparr>)),
       in_load_account_mut = (\<lambda>a. ref_guard a () id),
       in_set_nonce = (\<lambda>a n i. i \<lparr> ri_existing := a # ri_existing i \<rparr>),
       in_touch_account = (\<lambda>a. ref_guard a () (\<lambda>i. i \<lparr> ri_existing := a # ri_existing i \<rparr>)),
       in_incr_balance = (\<lambda>a v i.
         if unat (ri_balance i a) + unat v < 2 ^ 256
         then (True, i \<lparr> ri_balance := (ri_balance i) (a := ri_balance i a + v) \<rparr>) else (False, i)),
       in_decr_balance = (\<lambda>a v i.
         if v \<le> ri_balance i a
         then (True, i \<lparr> ri_balance := (ri_balance i) (a := ri_balance i a - v) \<rparr>) else (False, i)),
       in_sload = (\<lambda>a k i. ref_guard a (ri_storage i a k) id i),
       in_sstore = (\<lambda>a k v. ref_guard a ()
         (\<lambda>i. i \<lparr> ri_storage := (ri_storage i) (a := (ri_storage i a) (k := v)) \<rparr>)) \<rparr>"

interpretation ref_internals: evm_internals ref_internals_ops ri_balance ri_storage
  by unfold_locales (auto simp: ref_internals_ops_def ref_guard_def split: if_splits)

definition demo_internals :: ref_internals where
  "demo_internals =
     \<lparr> ri_balance = (\<lambda>a. if a = 5 then 100 else 0),
       ri_storage = (\<lambda>a k. if a = MINT_PRECOMPILE_ADDR \<and> k = allowlist_key 7 then 1 else 0),
       ri_existing = [5], ri_broken = [] \<rparr>"

text \<open>Selector byte, then one address byte and one amount byte.\<close>

definition demo_abi :: abi_ops where
  "demo_abi =
     \<lparr> abi_decode = (\<lambda>bs. case bs of
         [k, a, v] \<Rightarrow> (if k = 0 then Inr (CallMint (ucast a) (ucast v))
                       else if k = 1 then Inr (CallBurn (ucast a) (ucast v))
                       else if k = 2 then Inr (CallAddToAllowList (ucast a))
                       else if k = 3 then Inr (CallRemoveFromAllowList (ucast a))
                       else Inr (CallAllowlist (ucast a)))
       | _ \<Rightarrow> Inl ''abi''),
       abi_encode_bool = (\<lambda>b. [if b then 1 else 0]) \<rparr>"

section \<open>Properties\<close>

text \<open>C14. The precompile implements its specification: a call that decodes and does not fail in the
  database either returns what the specification returns and moves the balances and the allowlist
  as it says (authorized mint without overflow, authorized burn of available funds, allowlist
  change by the admin, query by anyone), or halts exactly where the specification refuses; data
  that does not decode halts; and the gas reservoir is handed back.\<close>

theorem mint_precompile_refines:
  assumes "evm_internals I bal stor" "mint_call p I A caller data reservoir i = (Inr out, i')"
  shows "case abi_decode A data of
      Inl e \<Rightarrow> out = Halted e reservoir \<and> i' = i
    | Inr call \<Rightarrow>
        (case mint_spec p A caller call (mint_abs bal stor i) of
           Some (bs, s) \<Rightarrow> out = Output 0 bs reservoir \<and> mint_abs bal stor i' = s
         | None \<Rightarrow> (\<exists>m. out = Halted m reservoir) \<and> bal i' = bal i \<and> stor i' = stor i)"
proof (cases "abi_decode A data")
  case (Inr call)
  obtain r i1 where d: "dispatch p I A caller call i = (r, i1)" by fastforce
  show ?thesis
    using assms(2) Inr d evm_internals.dispatch_refines [OF assms(1) d]
    by (auto simp: mint_call_def split: sum.splits mint_precompile_error.splits option.splits)
qed (use assms(2) in \<open>simp add: mint_call_def\<close>)

theorem mint_precompile_refines_witness:
  "\<exists>i'. mint_call \<lparr> mp_admin = 1 \<rparr> ref_internals_ops demo_abi 7 [0, 9, 4] 50 demo_internals
       = (Inr (Output 0 [] 50), i') \<and>
     ms_balance (mint_abs ri_balance ri_storage i') 9 = 4"
proof -
  let ?x = "mint_call \<lparr> mp_admin = 1 \<rparr> ref_internals_ops demo_abi 7 [0, 9, 4] 50 demo_internals"
  have k: "ri_storage demo_internals MINT_PRECOMPILE_ADDR (allowlist_key 7) = 1" "ri_balance demo_internals 9 = 0"
    by (simp_all add: demo_internals_def)
  have "is_ok (fst ?x)"
    by (simp add: mint_call_def demo_abi_def ensure_authorized_def is_allowlisted_def
        ensure_account_created_def add_balance_def st_bind_def st_then_def st_map_err_def st_run_simps
        st_checked_def ref_internals_ops_def ref_guard_def demo_internals_def split: if_splits)
  then obtain out where x: "?x = (Inr out, snd ?x)" by (cases ?x) (auto simp: is_ok_iff)
  have "out = Output 0 [] 50 \<and> ms_balance (mint_abs ri_balance ri_storage (snd ?x)) 9 = 4"
    using mint_precompile_refines [OF ref_internals.evm_internals_axioms x] k
    by (simp add: demo_abi_def authorized_def mint_abs_def)
  then show ?thesis using x by metis
qed

text \<open>C5. Safety of the supply and of the list: whatever the call data, balances move only for
  the admin or a caller on the allowlist, and the allowlist only for the admin.\<close>

theorem mint_precompile_authorization:
  assumes "evm_internals I bal stor" "mint_call p I A caller data reservoir i = (Inr out, i')"
  shows "(bal i' = bal i \<or> caller = mp_admin p \<or> stor i MINT_PRECOMPILE_ADDR (allowlist_key caller) \<noteq> 0) \<and>
    ((\<forall>a. ms_allowed (mint_abs bal stor i') a = ms_allowed (mint_abs bal stor i) a) \<or> caller = mp_admin p)"
proof (cases "abi_decode A data")
  case (Inl e)
  then show ?thesis using assms(2) by (simp add: mint_call_def)
next
  case (Inr call)
  obtain r i1 where d: "dispatch p I A caller call i = (r, i1)" by fastforce
  have i1: "i1 = i'" using assms(2) Inr d
    by (auto simp: mint_call_def split: sum.splits mint_precompile_error.splits)
  have nf: "r \<noteq> Inl (Fatal e)" for e using assms(2) Inr d by (auto simp: mint_call_def)
  consider (spec) bs where "mint_spec p A caller call (mint_abs bal stor i) = Some (bs, mint_abs bal stor i')"
    | (same) "bal i' = bal i" "stor i' = stor i"
    using evm_internals.dispatch_refines [OF assms(1) d] nf i1
    by (auto split: sum.splits mint_precompile_error.splits)
  then show ?thesis
  proof cases
    case spec
    from mint_spec_authorized [OF this] show ?thesis
      by (auto simp: mint_abs_def authorized_def fun_eq_iff word_unat_eq_iff)
  qed (simp add: mint_abs_def)
qed

theorem mint_precompile_authorization_witness:
  "\<exists>i'. mint_call \<lparr> mp_admin = 1 \<rparr> ref_internals_ops demo_abi 3 [0, 9, 4] 50 demo_internals
       = (Inr (Halted ''unauthorized caller'' 50), i') \<and> ri_balance i' = ri_balance demo_internals"
proof -
  let ?x = "mint_call \<lparr> mp_admin = 1 \<rparr> ref_internals_ops demo_abi 3 [0, 9, 4] 50 demo_internals"
  have k: "ri_storage demo_internals MINT_PRECOMPILE_ADDR (allowlist_key 3) = 0"
    by (simp add: demo_internals_def allowlist_key_def)
  have f: "fst ?x = Inr (Halted ''unauthorized caller'' 50)"
    by (simp add: mint_call_def demo_abi_def ensure_authorized_def is_allowlisted_def
        ensure_account_created_def st_bind_def st_then_def st_map_err_def st_run_simps
        ref_internals_ops_def ref_guard_def demo_internals_def allowlist_key_def split: if_splits)
  then have x: "?x = (Inr (Halted ''unauthorized caller'' 50), snd ?x)" by (metis prod.collapse)
  have "ri_balance (snd ?x) = ri_balance demo_internals"
    using mint_precompile_authorization [OF ref_internals.evm_internals_axioms x] k by simp
  then show ?thesis using x by metis
qed

end
