(* ===== verification/Evm_Factory.thy ===== *)
theory Evm_Factory
  imports Ev_Handler Mint_Precompile
begin

text \<open>
  The EVM wrapper and its factories: \<open>crates/ev-revm/src/evm.rs\<close>, \<open>api/exec.rs\<close> and
  \<open>factory.rs\<close>. A factory holds the optional features with their activation heights and equips the
  EVM of a block with those that are active. The construction of a bare revm EVM and the run loop
  of a handler are parameters.
\<close>

section \<open>The wrapper\<close>

datatype 'p precompile_entry = Standard 'p | NativeMint mint_precompile

type_synonym 'p precompiles_map = "address \<Rightarrow> 'p precompile_entry option"

record ('j, 'p, 'insp) revm_evm =
  rv_ctx :: "'j evm_ctx"
  rv_limit_contract_code_size :: "nat option"
  rv_inspector :: 'insp
  rv_precompiles :: "'p precompiles_map"

record ('j, 'p, 'insp) ev_evm =
  ee_inner :: "('j, 'p, 'insp) revm_evm"
  ee_redirect :: "base_fee_redirect option"
  ee_deploy_allowlist :: "deploy_allowlist_settings option"
  ee_inspect :: bool

definition from_inner ::
    "('j, 'p, 'insp) revm_evm \<Rightarrow> base_fee_redirect option \<Rightarrow> deploy_allowlist_settings option \<Rightarrow> bool
       \<Rightarrow> ('j, 'p, 'insp) ev_evm" where
  "from_inner inner redirect allow inspect =
     \<lparr> ee_inner = inner, ee_redirect = redirect, ee_deploy_allowlist = allow, ee_inspect = inspect \<rparr>"

definition with_precompiles ::
    "'p precompiles_map \<Rightarrow> ('j, 'p, 'insp) ev_evm \<Rightarrow> ('j, 'p, 'insp) ev_evm" where
  "with_precompiles ps e = e \<lparr> ee_inner := (ee_inner e) \<lparr> rv_precompiles := ps \<rparr> \<rparr>"

definition with_inspector :: "'insp \<Rightarrow> ('j, 'p, 'insp) ev_evm \<Rightarrow> ('j, 'p, 'insp) ev_evm" where
  "with_inspector i e = e \<lparr> ee_inner := (ee_inner e) \<lparr> rv_inspector := i \<rparr> \<rparr>"

definition set_inspector_enabled :: "bool \<Rightarrow> ('j, 'p, 'insp) ev_evm \<Rightarrow> ('j, 'p, 'insp) ev_evm" where
  "set_inspector_enabled b e = e \<lparr> ee_inspect := b \<rparr>"

section \<open>Running transactions\<close>

text \<open>The provided methods \<open>run\<close>, \<open>inspect_run\<close> and their system-call forms of revm's handlers.\<close>

record ('j, 'p, 'insp, 'e, 'r) runner =
  rn_run :: "ev_handler \<Rightarrow> (('j, 'p, 'insp) revm_evm, 'e, 'r) st"
  rn_inspect_run :: "ev_handler \<Rightarrow> (('j, 'p, 'insp) revm_evm, 'e, 'r) st"
  rn_run_system_call :: "ev_handler \<Rightarrow> (('j, 'p, 'insp) revm_evm, 'e, 'r) st"
  rn_inspect_run_system_call :: "ev_handler \<Rightarrow> (('j, 'p, 'insp) revm_evm, 'e, 'r) st"

definition handler_of :: "('j, 'p, 'insp) ev_evm \<Rightarrow> ev_handler" where
  "handler_of e = ev_handler_new (ee_redirect e) (ee_deploy_allowlist e)"

definition on_inner ::
    "(('j, 'p, 'insp) revm_evm, 'e, 'r) st \<Rightarrow> (('j, 'p, 'insp) ev_evm, 'e, 'r) st" where
  "on_inner m e = (case m (ee_inner e) of (r, i) \<Rightarrow> (r, e \<lparr> ee_inner := i \<rparr>))"

definition set_tx :: "ev_tx_env \<Rightarrow> ('j, 'p, 'insp) revm_evm \<Rightarrow> ('j, 'p, 'insp) revm_evm" where
  "set_tx tx i = i \<lparr> rv_ctx := (rv_ctx i) \<lparr> ctx_tx := tx \<rparr> \<rparr>"

definition transact_one ::
    "('j, 'p, 'insp, 'e, 'r) runner \<Rightarrow> ev_tx_env \<Rightarrow> (('j, 'p, 'insp) ev_evm, 'e, 'r) st" where
  "transact_one N tx e =
     on_inner (st_then (st_modify (set_tx tx)) (rn_run N (handler_of e))) e"

definition inspect_one_tx ::
    "('j, 'p, 'insp, 'e, 'r) runner \<Rightarrow> ev_tx_env \<Rightarrow> (('j, 'p, 'insp) ev_evm, 'e, 'r) st" where
  "inspect_one_tx N tx e =
     on_inner (st_then (st_modify (set_tx tx)) (rn_inspect_run N (handler_of e))) e"

text \<open>A system transaction may panic in its builder: \<open>None\<close>.\<close>

definition system_call_one_with_caller ::
    "('j, 'p, 'insp, 'e, 'r) runner \<Rightarrow> 'eth tx_env_ops \<Rightarrow> address \<Rightarrow> address \<Rightarrow> bytes
       \<Rightarrow> ('j, 'p, 'insp) ev_evm \<Rightarrow> (('e + 'r) \<times> ('j, 'p, 'insp) ev_evm) option" where
  "system_call_one_with_caller N T caller contract data e =
     map_option (\<lambda>tx. on_inner (st_then (st_modify (set_tx tx)) (rn_run_system_call N (handler_of e))) e)
       (new_system_tx_with_caller T caller contract data)"

definition inspect_one_system_call_with_caller ::
    "('j, 'p, 'insp, 'e, 'r) runner \<Rightarrow> 'eth tx_env_ops \<Rightarrow> address \<Rightarrow> address \<Rightarrow> bytes
       \<Rightarrow> ('j, 'p, 'insp) ev_evm \<Rightarrow> (('e + 'r) \<times> ('j, 'p, 'insp) ev_evm) option" where
  "inspect_one_system_call_with_caller N T caller contract data e =
     map_option (\<lambda>tx. on_inner (st_then (st_modify (set_tx tx)) (rn_inspect_run_system_call N (handler_of e))) e)
       (new_system_tx_with_caller T caller contract data)"

section \<open>Factories\<close>

record redirect_settings =
  rs_redirect :: base_fee_redirect
  rs_activation_height :: u64

record mint_settings =
  mts_admin :: address
  mts_activation_height :: u64

record size_settings =
  ss_limit :: nat
  ss_activation_height :: u64

record ev_tx_evm_factory =
  fac_redirect :: "redirect_settings option"
  fac_mint_precompile :: "mint_settings option"
  fac_deploy_allowlist :: "deploy_allowlist_settings option"
  fac_contract_size_limit :: "size_settings option"

definition factory_new ::
    "redirect_settings option \<Rightarrow> mint_settings option \<Rightarrow> deploy_allowlist_settings option
       \<Rightarrow> size_settings option \<Rightarrow> ev_tx_evm_factory" where
  "factory_new redirect mint allow size_limit =
     \<lparr> fac_redirect = redirect, fac_mint_precompile = mint, fac_deploy_allowlist = allow,
       fac_contract_size_limit = size_limit \<rparr>"

definition factory_size_limit_for_block :: "ev_tx_evm_factory \<Rightarrow> u256 \<Rightarrow> nat option" where
  "factory_size_limit_for_block f n =
     (case fac_contract_size_limit f of
        Some s \<Rightarrow> if ucast (ss_activation_height s) \<le> n then Some (ss_limit s) else None
      | None \<Rightarrow> None)"

definition install_mint_precompile :: "ev_tx_evm_factory \<Rightarrow> u256 \<Rightarrow> 'p precompiles_map \<Rightarrow> 'p precompiles_map" where
  "install_mint_precompile f n ps =
     (case fac_mint_precompile f of
        None \<Rightarrow> ps
      | Some s \<Rightarrow>
          if n < ucast (mts_activation_height s) then ps
          else ps (MINT_PRECOMPILE_ADDR \<mapsto> NativeMint \<lparr> mp_admin = mts_admin s \<rparr>))"

definition redirect_for_block :: "ev_tx_evm_factory \<Rightarrow> u256 \<Rightarrow> base_fee_redirect option" where
  "redirect_for_block f n =
     (case fac_redirect f of
        Some s \<Rightarrow> if ucast (rs_activation_height s) \<le> n then Some (rs_redirect s) else None
      | None \<Rightarrow> None)"

record evm_env =
  fe_block :: block_env
  fe_cfg :: cfg_env
  fe_limit_contract_code_size :: "nat option"

text \<open>\<open>Journal::new\<close> with the spec set, the standard precompiles of a spec, and \<open>EvTxEnv::default\<close>.\<close>

record ('db, 'j, 'p) evm_parts =
  new_journal :: "'db \<Rightarrow> spec_id \<Rightarrow> 'j"
  standard_precompiles :: "spec_id \<Rightarrow> address \<Rightarrow> 'p option"
  default_ev_tx_env :: ev_tx_env

definition build_evm ::
    "('db, 'j, 'p) evm_parts \<Rightarrow> 'db \<Rightarrow> evm_env \<Rightarrow> 'insp \<Rightarrow> ('j, 'p, 'insp) revm_evm" where
  "build_evm B db env inspector =
     \<lparr> rv_ctx = \<lparr> ctx_block = fe_block env, ctx_cfg = fe_cfg env, ctx_tx = default_ev_tx_env B,
                 ctx_journal = new_journal B db (cfg_spec (fe_cfg env)) \<rparr>,
       rv_limit_contract_code_size = fe_limit_contract_code_size env,
       rv_inspector = inspector,
       rv_precompiles = (\<lambda>a. map_option Standard (standard_precompiles B (cfg_spec (fe_cfg env)) a)) \<rparr>"

text \<open>\<open>create_evm\<close> and \<open>create_evm_with_inspector\<close>, over the construction \<open>mk\<close> of the inner EVM.\<close>

definition apply_size_limit :: "ev_tx_evm_factory \<Rightarrow> evm_env \<Rightarrow> evm_env" where
  "apply_size_limit f env =
     (case factory_size_limit_for_block f (blk_number (fe_block env)) of
        Some limit \<Rightarrow> env \<lparr> fe_limit_contract_code_size := Some limit \<rparr>
      | None \<Rightarrow> env)"

definition create_evm_with_inspector ::
    "('db \<Rightarrow> evm_env \<Rightarrow> 'insp \<Rightarrow> ('j, 'p, 'insp) revm_evm) \<Rightarrow> ev_tx_evm_factory \<Rightarrow> 'db \<Rightarrow> evm_env \<Rightarrow> 'insp
       \<Rightarrow> bool \<Rightarrow> ('j, 'p, 'insp) ev_evm" where
  "create_evm_with_inspector mk f db env inspector inspect =
     (let n = blk_number (fe_block env);
          evm = from_inner (mk db (apply_size_limit f env) inspector) (redirect_for_block f n)
                  (fac_deploy_allowlist f) inspect in
      evm \<lparr> ee_inner := (ee_inner evm)
            \<lparr> rv_precompiles := install_mint_precompile f n (rv_precompiles (ee_inner evm)) \<rparr> \<rparr>)"

definition tx_factory_create_evm ::
    "('db, 'j, 'p) evm_parts \<Rightarrow> ev_tx_evm_factory \<Rightarrow> 'db \<Rightarrow> evm_env \<Rightarrow> ('j, 'p, unit) ev_evm" where
  "tx_factory_create_evm B f db env = create_evm_with_inspector (build_evm B) f db env () False"

definition tx_factory_create_evm_with_inspector ::
    "('db, 'j, 'p) evm_parts \<Rightarrow> ev_tx_evm_factory \<Rightarrow> 'db \<Rightarrow> evm_env \<Rightarrow> 'insp \<Rightarrow> ('j, 'p, 'insp) ev_evm" where
  "tx_factory_create_evm_with_inspector B f db env inspector =
     create_evm_with_inspector (build_evm B) f db env inspector True"

text \<open>\<open>EvEvmFactory<F>\<close>: the same features around a factory \<open>F\<close> of plain EVMs.\<close>

record 'f ev_evm_factory =
  wf_inner :: 'f
  wf_redirect :: "redirect_settings option"
  wf_mint_precompile :: "mint_settings option"
  wf_deploy_allowlist :: "deploy_allowlist_settings option"
  wf_contract_size_limit :: "size_settings option"

definition wrapped_factory_new ::
    "'f \<Rightarrow> redirect_settings option \<Rightarrow> mint_settings option \<Rightarrow> deploy_allowlist_settings option
       \<Rightarrow> size_settings option \<Rightarrow> 'f ev_evm_factory" where
  "wrapped_factory_new inner redirect mint allow size_limit =
     \<lparr> wf_inner = inner, wf_redirect = redirect, wf_mint_precompile = mint, wf_deploy_allowlist = allow,
       wf_contract_size_limit = size_limit \<rparr>"

definition wrapped_size_limit_for_block :: "'f ev_evm_factory \<Rightarrow> u256 \<Rightarrow> nat option" where
  "wrapped_size_limit_for_block w n =
     Option.bind (wf_contract_size_limit w) (\<lambda>s.
       if ucast (ss_activation_height s) \<le> n then Some (ss_limit s) else None)"

definition wrapped_install_mint_precompile ::
    "'f ev_evm_factory \<Rightarrow> 'p precompiles_map \<Rightarrow> u256 \<Rightarrow> 'p precompiles_map" where
  "wrapped_install_mint_precompile w ps n =
     (case wf_mint_precompile w of
        None \<Rightarrow> ps
      | Some s \<Rightarrow>
          if n < ucast (mts_activation_height s) then ps
          else ps (MINT_PRECOMPILE_ADDR \<mapsto> NativeMint \<lparr> mp_admin = mts_admin s \<rparr>))"

definition wrapped_redirect_for_block :: "'f ev_evm_factory \<Rightarrow> u256 \<Rightarrow> base_fee_redirect option" where
  "wrapped_redirect_for_block w n =
     Option.bind (wf_redirect w) (\<lambda>s.
       if ucast (rs_activation_height s) \<le> n then Some (rs_redirect s) else None)"

text \<open>The factory of plain Ethereum EVMs that is wrapped, with its no-op inspector.\<close>

record ('db, 'j, 'p, 'insp) eth_evm_factory =
  ef_create_evm :: "'db \<Rightarrow> evm_env \<Rightarrow> ('j, 'p, 'insp) revm_evm"
  ef_create_evm_with_inspector :: "'db \<Rightarrow> evm_env \<Rightarrow> 'insp \<Rightarrow> ('j, 'p, 'insp) revm_evm"

definition wrapped_equip ::
    "'f ev_evm_factory \<Rightarrow> (evm_env \<Rightarrow> ('j, 'p, 'insp) revm_evm) \<Rightarrow> evm_env \<Rightarrow> bool \<Rightarrow> ('j, 'p, 'insp) ev_evm" where
  "wrapped_equip w create env inspect =
     (let n = blk_number (fe_block env);
          env' = (case wrapped_size_limit_for_block w n of
                    Some limit \<Rightarrow> env \<lparr> fe_limit_contract_code_size := Some limit \<rparr>
                  | None \<Rightarrow> env);
          evm = from_inner (create env') (wrapped_redirect_for_block w n) (wf_deploy_allowlist w) inspect in
      evm \<lparr> ee_inner := (ee_inner evm)
            \<lparr> rv_precompiles := wrapped_install_mint_precompile w (rv_precompiles (ee_inner evm)) n \<rparr> \<rparr>)"

definition wrapped_create_evm ::
    "('db, 'j, 'p, 'insp) eth_evm_factory ev_evm_factory \<Rightarrow> 'db \<Rightarrow> evm_env \<Rightarrow> ('j, 'p, 'insp) ev_evm" where
  "wrapped_create_evm w db env = wrapped_equip w (ef_create_evm (wf_inner w) db) env False"

definition wrapped_create_evm_with_inspector ::
    "('db, 'j, 'p, 'insp) eth_evm_factory ev_evm_factory \<Rightarrow> 'db \<Rightarrow> evm_env \<Rightarrow> 'insp \<Rightarrow> ('j, 'p, 'insp) ev_evm" where
  "wrapped_create_evm_with_inspector w db env inspector =
     wrapped_equip w (\<lambda>env. ef_create_evm_with_inspector (wf_inner w) db env inspector) env True"

text \<open>\<open>with_ev_handler\<close> swaps the EVM factory of a configuration and keeps the rest.\<close>

record ('rb, 'spec, 'f) eth_executor_factory =
  xf_receipt_builder :: 'rb
  xf_spec :: 'spec
  xf_evm_factory :: 'f

record ('rb, 'spec, 'f, 'ba) eth_evm_config =
  ecf_executor_factory :: "('rb, 'spec, 'f) eth_executor_factory"
  ecf_block_assembler :: 'ba

definition with_ev_handler ::
    "('rb, 'spec, 'f, 'ba) eth_evm_config \<Rightarrow> redirect_settings option \<Rightarrow> mint_settings option
       \<Rightarrow> deploy_allowlist_settings option \<Rightarrow> size_settings option
       \<Rightarrow> ('rb, 'spec, 'f ev_evm_factory, 'ba) eth_evm_config" where
  "with_ev_handler config redirect mint allow size_limit =
     (let executor_factory = ecf_executor_factory config;
          wrapped_factory = wrapped_factory_new (xf_evm_factory executor_factory) redirect mint allow size_limit
      in \<lparr> ecf_executor_factory =
             \<lparr> xf_receipt_builder = xf_receipt_builder executor_factory, xf_spec = xf_spec executor_factory,
               xf_evm_factory = wrapped_factory \<rparr>,
           ecf_block_assembler = ecf_block_assembler config \<rparr>)"

section \<open>Properties\<close>

lemma ucast_height_le: "(ucast (h :: u64) :: u256) \<le> n \<longleftrightarrow> unat h \<le> unat n"
  by (simp add: word_le_nat_alt)

text \<open>The EVM of block \<open>n\<close> has exactly the features active at \<open>n\<close>: the redirect, the mint
  precompile under the configured admin and the contract size limit are present from their
  activation height on and absent before, all other precompiles and the rest of the environment
  are untouched, and the handler of the EVM carries the redirect and the allowlist.\<close>

lemma factory_activation:
  assumes "e = create_evm_with_inspector (build_evm B) f db env inspector inspect"
    and "n = unat (blk_number (fe_block env))"
  shows "(case fac_redirect f of
       None \<Rightarrow> hd_redirect (handler_of e) = None
     | Some s \<Rightarrow> hd_redirect (handler_of e) =
         (if unat (rs_activation_height s) \<le> n then Some (rs_redirect s) else None)) \<and>
    hd_deploy_allowlist (handler_of e) = fac_deploy_allowlist f \<and>
    rv_precompiles (ee_inner e) a =
      (case fac_mint_precompile f of
         Some s \<Rightarrow>
           if a = MINT_PRECOMPILE_ADDR \<and> unat (mts_activation_height s) \<le> n
           then Some (NativeMint \<lparr> mp_admin = mts_admin s \<rparr>)
           else map_option Standard (standard_precompiles B (cfg_spec (fe_cfg env)) a)
       | None \<Rightarrow> map_option Standard (standard_precompiles B (cfg_spec (fe_cfg env)) a)) \<and>
    rv_limit_contract_code_size (ee_inner e) =
      (case fac_contract_size_limit f of
         Some s \<Rightarrow> if unat (ss_activation_height s) \<le> n then Some (ss_limit s)
                   else fe_limit_contract_code_size env
       | None \<Rightarrow> fe_limit_contract_code_size env) \<and>
    ctx_block (rv_ctx (ee_inner e)) = fe_block env \<and> ctx_cfg (rv_ctx (ee_inner e)) = fe_cfg env \<and>
    ee_inspect e = inspect"
  using assms
  by (auto simp: create_evm_with_inspector_def from_inner_def handler_of_def ev_handler_new_def
      redirect_for_block_def install_mint_precompile_def apply_size_limit_def build_evm_def
      factory_size_limit_for_block_def ucast_height_le Let_def not_less
      simp flip: not_le split: option.split)

definition demo_parts :: "(nat, nat, string) evm_parts" where
  "demo_parts =
     \<lparr> new_journal = (\<lambda>db s. db), standard_precompiles = (\<lambda>s a. if a = 1 then Some ''ecrecover'' else None),
       default_ev_tx_env = ev_tx_env_new
         \<lparr> te_tx_type = 0, te_caller = 0, te_gas_limit = 0, te_gas_price = 0, te_kind = TxCreate, te_value = 0,
           te_data = [], te_nonce = 0, te_chain_id = None, te_access_list = [], te_gas_priority_fee = None,
           te_blob_hashes = [], te_max_fee_per_blob_gas = 0, te_authorization_list = [] \<rparr> \<rparr>"

definition demo_factory :: ev_tx_evm_factory where
  "demo_factory = factory_new (Some \<lparr> rs_redirect = \<lparr> fee_sink = 8 \<rparr>, rs_activation_height = 11 \<rparr>)
     (Some \<lparr> mts_admin = 1, mts_activation_height = 5 \<rparr>) None None"

definition demo_evm_env :: evm_env where
  "demo_evm_env =
     \<lparr> fe_block = \<lparr> blk_number = 10, blk_basefee = 10, blk_blob_gasprice = None, blk_beneficiary = 9,
                    blk_gas_limit = 30000000 \<rparr>,
       fe_cfg = \<lparr> cfg_spec = PRAGUE, cfg_balance_check_disabled = False, cfg_eip3607_disabled = False,
                  cfg_nonce_check_disabled = False, cfg_eip7623_disabled = False,
                  cfg_eip8037_enabled = False, cfg_tx_gas_limit_cap = 16777216 \<rparr>,
       fe_limit_contract_code_size = None \<rparr>"

text \<open>The two factories differ only in the construction of the inner EVM.\<close>

lemma wrapped_equip_eq:
  "wrapped_equip (wrapped_factory_new inner redirect mint allow size_limit) create env inspect =
     create_evm_with_inspector (\<lambda>db env i. create env) (factory_new redirect mint allow size_limit) db env i inspect"
  by (simp add: wrapped_equip_def create_evm_with_inspector_def wrapped_factory_new_def factory_new_def apply_size_limit_def
      wrapped_size_limit_for_block_def factory_size_limit_for_block_def wrapped_redirect_for_block_def
      redirect_for_block_def wrapped_install_mint_precompile_def install_mint_precompile_def Let_def
      split: option.split)

text \<open>Swapping the inspector, toggling inspection or replacing the precompiles keeps the handler.\<close>

lemma inspection_keeps_policy [simp]:
  "handler_of (with_inspector i e) = handler_of e"
  "handler_of (set_inspector_enabled b e) = handler_of e"
  "handler_of (with_precompiles ps e) = handler_of e"
  by (simp_all add: with_inspector_def set_inspector_enabled_def with_precompiles_def handler_of_def)

end
