(* ===== verification/Evolve_Config.thy ===== *)
theory Evolve_Config
  imports Prelude
begin

text \<open>
  The chain configuration of \<open>crates/node/src/config.rs\<close> and \<open>chainspec.rs\<close>: the settings read from
  the \<open>evolve\<close> block of the chain spec with their defaults, their validation, and the EIP-1559
  overrides of a custom chain spec. JSON deserialization is a parameter: the \<open>evolve\<close> block is
  given as absent, malformed, or as its fields.
\<close>

section \<open>Settings\<close>

definition DEFAULT_CONTRACT_SIZE_LIMIT :: nat where
  "DEFAULT_CONTRACT_SIZE_LIMIT = 24 * 1024"

definition MAX_DEPLOY_ALLOWLIST_LEN :: nat where
  "MAX_DEPLOY_ALLOWLIST_LEN = 1024"

record chainspec_evolve_config =
  cs_base_fee_sink :: "address option"
  cs_base_fee_redirect_activation_height :: "u64 option"
  cs_mint_admin :: "address option"
  cs_mint_precompile_activation_height :: "u64 option"
  cs_contract_size_limit :: "nat option"
  cs_contract_size_limit_activation_height :: "u64 option"
  cs_deploy_allowlist :: "address list option"
  cs_deploy_allowlist_activation_height :: "u64 option"

record evolve_config =
  base_fee_sink :: "address option"
  base_fee_redirect_activation_height :: "u64 option"
  mint_admin :: "address option"
  mint_precompile_activation_height :: "u64 option"
  contract_size_limit :: "nat option"
  contract_size_limit_activation_height :: "u64 option"
  deploy_allowlist :: "address list"
  deploy_allowlist_activation_height :: "u64 option"

datatype config_error = InvalidConfig | InvalidExtras string | InvalidDeployAllowlist string

definition evolve_config_new :: evolve_config where
  "evolve_config_new =
     \<lparr> base_fee_sink = None, base_fee_redirect_activation_height = None, mint_admin = None,
       mint_precompile_activation_height = None, contract_size_limit = None,
       contract_size_limit_activation_height = None, deploy_allowlist = [],
       deploy_allowlist_activation_height = None \<rparr>"

text \<open>\<open>get_deserialized("evolve")\<close>: absent, an error, or the fields.\<close>

definition from_extras :: "chainspec_evolve_config \<Rightarrow> evolve_config" where
  "from_extras extras =
     (let sink = cs_base_fee_sink extras;
          admin = (case cs_mint_admin extras of
                     Some a \<Rightarrow> if a = ADDRESS_ZERO then None else Some a
                   | None \<Rightarrow> None);
          redirect_height = (if sink \<noteq> None \<and> cs_base_fee_redirect_activation_height extras = None
                             then Some 0 else cs_base_fee_redirect_activation_height extras);
          mint_height = (if admin \<noteq> None \<and> cs_mint_precompile_activation_height extras = None
                         then Some 0 else cs_mint_precompile_activation_height extras) in
      \<lparr> base_fee_sink = sink, base_fee_redirect_activation_height = redirect_height,
        mint_admin = admin, mint_precompile_activation_height = mint_height,
        contract_size_limit = cs_contract_size_limit extras,
        contract_size_limit_activation_height = cs_contract_size_limit_activation_height extras,
        deploy_allowlist = (case cs_deploy_allowlist extras of Some l \<Rightarrow> l | None \<Rightarrow> []),
        deploy_allowlist_activation_height =
          (case cs_deploy_allowlist extras of
             Some l \<Rightarrow>
               if l \<noteq> [] \<and> cs_deploy_allowlist_activation_height extras = None then Some 0
               else cs_deploy_allowlist_activation_height extras
           | None \<Rightarrow> None) \<rparr>)"

definition from_chain_spec :: "(string + chainspec_evolve_config) option \<Rightarrow> config_error + evolve_config" where
  "from_chain_spec extra =
     (case extra of
        None \<Rightarrow> Inr evolve_config_new
      | Some (Inl e) \<Rightarrow> Inl (InvalidExtras e)
      | Some (Inr extras) \<Rightarrow> Inr (from_extras extras))"

definition contract_size_limit_settings :: "evolve_config \<Rightarrow> (nat \<times> u64) option" where
  "contract_size_limit_settings c =
     map_option (\<lambda>l. (l, case contract_size_limit_activation_height c of Some h \<Rightarrow> h | None \<Rightarrow> 0))
       (contract_size_limit c)"

definition contract_size_limit_for_block :: "evolve_config \<Rightarrow> u64 \<Rightarrow> nat" where
  "contract_size_limit_for_block c n =
     (case contract_size_limit_settings c of
        Some (limit, activation) \<Rightarrow> if activation \<le> n then limit else DEFAULT_CONTRACT_SIZE_LIMIT
      | None \<Rightarrow> DEFAULT_CONTRACT_SIZE_LIMIT)"

definition config_deploy_allowlist_settings :: "evolve_config \<Rightarrow> (address list \<times> u64) option" where
  "config_deploy_allowlist_settings c =
     (if deploy_allowlist c = [] then None
      else Some (deploy_allowlist c,
             case deploy_allowlist_activation_height c of Some h \<Rightarrow> h | None \<Rightarrow> 0))"

definition base_fee_redirect_settings :: "evolve_config \<Rightarrow> (address \<times> u64) option" where
  "base_fee_redirect_settings c =
     map_option (\<lambda>s. (s, case base_fee_redirect_activation_height c of Some h \<Rightarrow> h | None \<Rightarrow> 0))
       (base_fee_sink c)"

definition mint_precompile_settings :: "evolve_config \<Rightarrow> (address \<times> u64) option" where
  "mint_precompile_settings c =
     map_option (\<lambda>a. (a, case mint_precompile_activation_height c of Some h \<Rightarrow> h | None \<Rightarrow> 0))
       (mint_admin c)"

definition base_fee_sink_for_block :: "evolve_config \<Rightarrow> u64 \<Rightarrow> address option" where
  "base_fee_sink_for_block c n =
     (case base_fee_redirect_settings c of
        Some (sink, activation) \<Rightarrow> if activation \<le> n then Some sink else None
      | None \<Rightarrow> None)"

text \<open>The loop over the allowlist with the set of addresses already seen.\<close>

fun check_entries :: "address list \<Rightarrow> address set \<Rightarrow> config_error + unit" where
  "check_entries [] seen = Inr ()"
| "check_entries (a # as) seen =
     (if a = ADDRESS_ZERO then Inl (InvalidDeployAllowlist ''deployAllowlist contains zero address'')
      else if a \<in> seen then Inl (InvalidDeployAllowlist ''deployAllowlist contains duplicate entries'')
      else check_entries as (insert a seen))"

definition validate_deploy_allowlist :: "evolve_config \<Rightarrow> config_error + unit" where
  "validate_deploy_allowlist c =
     (if MAX_DEPLOY_ALLOWLIST_LEN < length (deploy_allowlist c)
      then Inl (InvalidDeployAllowlist ''deployAllowlist has too many entries'')
      else check_entries (deploy_allowlist c) {})"

definition validate_config :: "evolve_config \<Rightarrow> config_error + unit" where
  "validate_config c = validate_deploy_allowlist c"

section \<open>EIP-1559 overrides\<close>

record evolve_eip1559_config =
  ov_base_fee_max_change_denominator :: "u64 option"
  ov_base_fee_elasticity_multiplier :: "u64 option"
  ov_initial_base_fee_per_gas :: "u64 option"

text \<open>The fields of \<open>Genesis\<close> and \<open>ChainSpec\<close> that the overrides read and write.\<close>

record genesis_fees =
  gen_london_block :: "u64 option"
  gen_base_fee_per_gas :: "u128 option"
  gen_timestamp :: u64

record base_fee_params =
  max_change_denominator :: u128
  elasticity_multiplier :: u128

datatype base_fee_params_kind = Constant base_fee_params | Variable "(u64 \<times> base_fee_params) list"

record chain_spec =
  spec_genesis :: genesis_fees
  spec_base_fee_params :: base_fee_params_kind

datatype chain_spec_error = ParseGenesis string | BadExtras string | LondonNotAtGenesis
  | BaseFeeConflict u128 u128 | ZeroDenominator | ZeroElasticity

definition has_base_fee_overrides :: "evolve_eip1559_config \<Rightarrow> bool" where
  "has_base_fee_overrides ov \<longleftrightarrow>
     ov_base_fee_max_change_denominator ov \<noteq> None \<or> ov_base_fee_elasticity_multiplier ov \<noteq> None"

definition parse_eip1559_overrides ::
    "(string + evolve_eip1559_config) option \<Rightarrow> chain_spec_error + evolve_eip1559_config" where
  "parse_eip1559_overrides extra =
     (case extra of
        Some (Inr c) \<Rightarrow> Inr c
      | Some (Inl e) \<Rightarrow> Inl (BadExtras e)
      | None \<Rightarrow> Inr \<lparr> ov_base_fee_max_change_denominator = None, ov_base_fee_elasticity_multiplier = None,
                     ov_initial_base_fee_per_gas = None \<rparr>)"

definition apply_genesis_overrides ::
    "genesis_fees \<Rightarrow> evolve_eip1559_config \<Rightarrow> chain_spec_error + genesis_fees" where
  "apply_genesis_overrides g ov =
     (case ov_initial_base_fee_per_gas ov of
        None \<Rightarrow> Inr g
      | Some fee \<Rightarrow>
          if gen_london_block g \<noteq> Some 0 then Inl LondonNotAtGenesis
          else case gen_base_fee_per_gas g of
                 Some existing \<Rightarrow>
                   if existing \<noteq> ucast fee then Inl (BaseFeeConflict (ucast fee) existing)
                   else Inr (g \<lparr> gen_base_fee_per_gas := Some (ucast fee) \<rparr>)
               | None \<Rightarrow> Inr (g \<lparr> gen_base_fee_per_gas := Some (ucast fee) \<rparr>))"

text \<open>\<open>base_fee_params_at_timestamp\<close> is reth's and a parameter.\<close>

definition apply_chain_spec_overrides ::
    "(chain_spec \<Rightarrow> u64 \<Rightarrow> base_fee_params) \<Rightarrow> chain_spec \<Rightarrow> evolve_eip1559_config
       \<Rightarrow> chain_spec_error + chain_spec" where
  "apply_chain_spec_overrides params_at cs ov =
     (if ov_base_fee_max_change_denominator ov = Some 0 then Inl ZeroDenominator
      else if ov_base_fee_elasticity_multiplier ov = Some 0 then Inl ZeroElasticity
      else if \<not> has_base_fee_overrides ov then Inr cs
      else
        let params = params_at cs (gen_timestamp (spec_genesis cs));
            params1 = (case ov_base_fee_max_change_denominator ov of
                         Some d \<Rightarrow> params \<lparr> max_change_denominator := ucast d \<rparr> | None \<Rightarrow> params);
            params2 = (case ov_base_fee_elasticity_multiplier ov of
                         Some e \<Rightarrow> params1 \<lparr> elasticity_multiplier := ucast e \<rparr> | None \<Rightarrow> params1) in
        Inr (cs \<lparr> spec_base_fee_params := Constant params2 \<rparr>))"

text \<open>
  \<open>parse_genesis\<close> and the conversion of a genesis to a chain spec are reth's; the named chains are
  constants of reth.
\<close>

record chain_ops =
  parse_genesis :: "string \<Rightarrow> string + (genesis_fees \<times> (string + evolve_eip1559_config) option)"
  genesis_into_spec :: "genesis_fees \<Rightarrow> chain_spec"
  base_fee_params_at :: "chain_spec \<Rightarrow> u64 \<Rightarrow> base_fee_params"
  named_chain :: "string \<Rightarrow> chain_spec"

definition SUPPORTED_CHAINS :: "string list" where
  "SUPPORTED_CHAINS = [''mainnet'', ''sepolia'', ''holesky'', ''hoodi'', ''dev'']"

definition parse_custom_chain_spec :: "chain_ops \<Rightarrow> string \<Rightarrow> chain_spec_error + chain_spec" where
  "parse_custom_chain_spec P input =
     and_then (map_err ParseGenesis (parse_genesis P input)) (\<lambda>(g, extra).
     and_then (parse_eip1559_overrides extra) (\<lambda>ov.
     and_then (apply_genesis_overrides g ov) (\<lambda>g'.
       apply_chain_spec_overrides (base_fee_params_at P) (genesis_into_spec P g') ov)))"

definition parse_chain_spec :: "chain_ops \<Rightarrow> string \<Rightarrow> chain_spec_error + chain_spec" where
  "parse_chain_spec P s =
     (if s \<in> set SUPPORTED_CHAINS then Inr (named_chain P s) else parse_custom_chain_spec P s)"

section \<open>Lemmas\<close>

lemma check_entries_ok_iff:
  "check_entries as seen = Inr u \<longleftrightarrow> distinct as \<and> ADDRESS_ZERO \<notin> set as \<and> set as \<inter> seen = {}"
  by (induction as arbitrary: seen) auto

lemma apply_genesis_overrides_ok [ok_iff]:
  "apply_genesis_overrides g ov = Inr g' \<longleftrightarrow>
     (case ov_initial_base_fee_per_gas ov of
        None \<Rightarrow> g' = g
      | Some fee \<Rightarrow> gen_london_block g = Some 0 \<and>
          (gen_base_fee_per_gas g = None \<or> gen_base_fee_per_gas g = Some (ucast fee)) \<and>
          g' = g \<lparr> gen_base_fee_per_gas := Some (ucast fee) \<rparr>)"
  by (auto simp: apply_genesis_overrides_def split: option.split)

lemma ucast_u64_u128_nonzero: "(b :: u64) \<noteq> 0 \<Longrightarrow> (ucast b :: u128) \<noteq> 0"
  using unat_ucast_widen(1) [of b] by (metis unat_0 unat_eq_zero)

text \<open>The settings read back from the extras, one feature each.\<close>

abbreviation height_or_0 :: "u64 option \<Rightarrow> u64" where
  "height_or_0 h \<equiv> (case h of Some n \<Rightarrow> n | None \<Rightarrow> 0)"

lemma from_extras_redirect:
  "base_fee_redirect_settings (from_extras x) =
     map_option (\<lambda>s. (s, height_or_0 (cs_base_fee_redirect_activation_height x))) (cs_base_fee_sink x)"
  by (cases "cs_base_fee_sink x"; cases "cs_base_fee_redirect_activation_height x")
    (simp_all add: from_extras_def base_fee_redirect_settings_def Let_def)

lemma from_extras_mint:
  "mint_precompile_settings (from_extras x) =
     (case cs_mint_admin x of
        None \<Rightarrow> None
      | Some a \<Rightarrow> if a = ADDRESS_ZERO then None
                  else Some (a, height_or_0 (cs_mint_precompile_activation_height x)))"
  by (cases "cs_mint_admin x"; cases "cs_mint_precompile_activation_height x")
    (simp_all add: from_extras_def mint_precompile_settings_def Let_def)

lemma from_extras_allowlist:
  "config_deploy_allowlist_settings (from_extras x) =
     (case cs_deploy_allowlist x of
        None \<Rightarrow> None
      | Some l \<Rightarrow> if l = [] then None
                  else Some (l, height_or_0 (cs_deploy_allowlist_activation_height x)))"
  by (cases "cs_deploy_allowlist x"; cases "cs_deploy_allowlist_activation_height x")
    (simp_all add: from_extras_def config_deploy_allowlist_settings_def Let_def)

lemma from_extras_size:
  "contract_size_limit_for_block (from_extras x) n =
     (case cs_contract_size_limit x of
        Some l \<Rightarrow> if height_or_0 (cs_contract_size_limit_activation_height x) \<le> n
                  then l else DEFAULT_CONTRACT_SIZE_LIMIT
      | None \<Rightarrow> DEFAULT_CONTRACT_SIZE_LIMIT)"
  by (cases "cs_contract_size_limit x")
    (simp_all add: from_extras_def contract_size_limit_for_block_def contract_size_limit_settings_def Let_def)

lemma from_extras_sink:
  "base_fee_sink_for_block (from_extras x) n = Some s \<longleftrightarrow>
     cs_base_fee_sink x = Some s \<and> height_or_0 (cs_base_fee_redirect_activation_height x) \<le> n"
  by (cases "cs_base_fee_sink x") (simp_all add: base_fee_sink_for_block_def from_extras_redirect)

section \<open>Properties\<close>

text \<open>Configuration from the chain spec: every feature is off without its setting; a feature
  that is set without a height is active from block 0; a zero mint admin counts as none; and the
  per-block getters switch exactly at the activation height.\<close>

lemma config_activation:
  assumes "from_chain_spec (Some (Inr x)) = Inr c"
  shows "base_fee_redirect_settings c =
      map_option (\<lambda>s. (s, case cs_base_fee_redirect_activation_height x of Some h \<Rightarrow> h | None \<Rightarrow> 0))
        (cs_base_fee_sink x) \<and>
    mint_precompile_settings c =
      (case cs_mint_admin x of
         None \<Rightarrow> None
       | Some a \<Rightarrow> if a = ADDRESS_ZERO then None
                   else Some (a, case cs_mint_precompile_activation_height x of Some h \<Rightarrow> h | None \<Rightarrow> 0)) \<and>
    config_deploy_allowlist_settings c =
      (case cs_deploy_allowlist x of
         None \<Rightarrow> None
       | Some l \<Rightarrow> if l = [] then None
                   else Some (l, case cs_deploy_allowlist_activation_height x of Some h \<Rightarrow> h | None \<Rightarrow> 0)) \<and>
    contract_size_limit_for_block c n =
      (case cs_contract_size_limit x of
         Some l \<Rightarrow> if (case cs_contract_size_limit_activation_height x of Some h \<Rightarrow> h | None \<Rightarrow> 0) \<le> n
                   then l else DEFAULT_CONTRACT_SIZE_LIMIT
       | None \<Rightarrow> DEFAULT_CONTRACT_SIZE_LIMIT) \<and>
    (base_fee_sink_for_block c n = Some s \<longleftrightarrow>
       cs_base_fee_sink x = Some s \<and>
       (case cs_base_fee_redirect_activation_height x of Some h \<Rightarrow> h | None \<Rightarrow> 0) \<le> n)"
proof -
  have c: "c = from_extras x" using assms by (simp add: from_chain_spec_def)
  show ?thesis
    unfolding c by (intro conjI from_extras_redirect from_extras_mint from_extras_allowlist
        from_extras_size from_extras_sink)
qed

definition demo_extras :: chainspec_evolve_config where
  "demo_extras =
     \<lparr> cs_base_fee_sink = Some 8, cs_base_fee_redirect_activation_height = None,
       cs_mint_admin = Some 1, cs_mint_precompile_activation_height = Some 20,
       cs_contract_size_limit = Some 131072, cs_contract_size_limit_activation_height = Some 5,
       cs_deploy_allowlist = Some [4, 2, 9], cs_deploy_allowlist_activation_height = None \<rparr>"

lemma config_activation_witness:
  "\<exists>c. from_chain_spec (Some (Inr demo_extras)) = Inr c \<and>
     base_fee_sink_for_block c 0 = Some 8 \<and> contract_size_limit_for_block c 4 = 24576"
proof -
  obtain c where c: "from_chain_spec (Some (Inr demo_extras)) = Inr c"
    by (simp add: from_chain_spec_def)
  have "base_fee_sink_for_block c 0 = Some 8"
    using config_activation [OF c, of 0 8] by (simp add: demo_extras_def)
  moreover have "contract_size_limit_for_block c 4 = 24576"
    using config_activation [OF c, of 4 8]
    by (simp add: demo_extras_def DEFAULT_CONTRACT_SIZE_LIMIT_def)
  ultimately show ?thesis using c by blast
qed

text \<open>Validation accepts exactly the allowlists of at most 1024 distinct non-zero addresses.\<close>

lemma validate_config_correct:
  "validate_config c = Inr () \<longleftrightarrow>
     length (deploy_allowlist c) \<le> 1024 \<and> distinct (deploy_allowlist c) \<and>
     ADDRESS_ZERO \<notin> set (deploy_allowlist c)"
  by (auto simp: validate_config_def validate_deploy_allowlist_def check_entries_ok_iff
      MAX_DEPLOY_ALLOWLIST_LEN_def)

text \<open>A custom chain spec that parses has sound base-fee parameters: overridden denominators and
  elasticities are the configured non-zero values, values that are not overridden are those of
  the genesis, and an initial base fee needs London at genesis and agrees with a base fee the
  genesis already has.\<close>

lemma chain_spec_overrides_correct:
  assumes "parse_custom_chain_spec P input = Inr cs" "parse_genesis P input = Inr (g, Some (Inr ov))"
  shows "\<exists>g'. apply_genesis_overrides g ov = Inr g' \<and>
    (case ov_initial_base_fee_per_gas ov of
       None \<Rightarrow> g' = g
     | Some fee \<Rightarrow> gen_london_block g = Some 0 \<and> gen_base_fee_per_gas g' = Some (ucast fee) \<and>
         gen_base_fee_per_gas g \<in> {None, Some (ucast fee)}) \<and>
    (if has_base_fee_overrides ov then
       \<exists>p. spec_base_fee_params cs = Constant p \<and>
         (let p0 = base_fee_params_at P (genesis_into_spec P g') (gen_timestamp (spec_genesis (genesis_into_spec P g'))) in
          (case ov_base_fee_max_change_denominator ov of
             Some d \<Rightarrow> max_change_denominator p = ucast d \<and> max_change_denominator p \<noteq> 0
           | None \<Rightarrow> max_change_denominator p = max_change_denominator p0) \<and>
          (case ov_base_fee_elasticity_multiplier ov of
             Some e \<Rightarrow> elasticity_multiplier p = ucast e \<and> elasticity_multiplier p \<noteq> 0
           | None \<Rightarrow> elasticity_multiplier p = elasticity_multiplier p0))
     else cs = genesis_into_spec P g')"
proof -
  obtain g' where g': "apply_genesis_overrides g ov = Inr g'"
    and cs: "apply_chain_spec_overrides (base_fee_params_at P) (genesis_into_spec P g') ov = Inr cs"
    using assms by (auto simp: parse_custom_chain_spec_def parse_eip1559_overrides_def ok_iff)
  show ?thesis
    using g' cs
    by (intro exI [of _ g'])
      (auto simp: ok_iff apply_chain_spec_overrides_def Let_def ucast_u64_u128_nonzero has_base_fee_overrides_def
        split: option.splits if_splits)
qed

definition demo_chain_ops :: chain_ops where
  "demo_chain_ops =
     \<lparr> parse_genesis = (\<lambda>s. if s = [] then Inl ''empty'' else
         Inr (\<lparr> gen_london_block = Some 0, gen_base_fee_per_gas = None, gen_timestamp = 0 \<rparr>,
              Some (Inr \<lparr> ov_base_fee_max_change_denominator = Some 50, ov_base_fee_elasticity_multiplier = None,
                          ov_initial_base_fee_per_gas = Some 7 \<rparr>))),
       genesis_into_spec = (\<lambda>g. \<lparr> spec_genesis = g, spec_base_fee_params =
         Constant \<lparr> max_change_denominator = 8, elasticity_multiplier = 2 \<rparr> \<rparr>),
       base_fee_params_at = (\<lambda>cs t. case spec_base_fee_params cs of
         Constant p \<Rightarrow> p | Variable ps \<Rightarrow> \<lparr> max_change_denominator = 8, elasticity_multiplier = 2 \<rparr>),
       named_chain = (\<lambda>s. \<lparr> spec_genesis = \<lparr> gen_london_block = Some 0, gen_base_fee_per_gas = None,
         gen_timestamp = 0 \<rparr>, spec_base_fee_params = Variable [] \<rparr>) \<rparr>"

lemma chain_spec_overrides_correct_witness:
  "\<exists>cs p. parse_custom_chain_spec demo_chain_ops ''x'' = Inr cs \<and>
     spec_base_fee_params cs = Constant p \<and> max_change_denominator p = 50 \<and> elasticity_multiplier p = 2"
proof -
  obtain cs where cs: "parse_custom_chain_spec demo_chain_ops ''x'' = Inr cs"
    by (simp add: parse_custom_chain_spec_def parse_eip1559_overrides_def apply_genesis_overrides_def
        apply_chain_spec_overrides_def has_base_fee_overrides_def demo_chain_ops_def)
  have g: "parse_genesis demo_chain_ops ''x'' =
      Inr (\<lparr> gen_london_block = Some 0, gen_base_fee_per_gas = None, gen_timestamp = 0 \<rparr>,
           Some (Inr \<lparr> ov_base_fee_max_change_denominator = Some 50, ov_base_fee_elasticity_multiplier = None,
                       ov_initial_base_fee_per_gas = Some 7 \<rparr>))"
    by (simp add: demo_chain_ops_def)
  show ?thesis
    using cs chain_spec_overrides_correct [OF cs g]
    by (auto simp: has_base_fee_overrides_def Let_def demo_chain_ops_def)
qed

end
