(* ===== verification/Evm_Config.thy ===== *)
theory Evm_Config
  imports Evm_Factory Evolve_Config
begin

text \<open>
  The EVM configuration of \<open>crates/node/src/executor.rs\<close>: the environments built for a stored
  block, for the next block and for an engine payload, the execution contexts, the recovery of a
  payload's transactions, and the factory built from the chain spec. What reth's chain spec
  answers (fork schedule, blob parameters, base fee) is a parameter.
\<close>

section \<open>Data\<close>

record header =
  hdr_parent_hash :: b256
  hdr_ommers_hash :: b256
  hdr_state_root :: b256
  hdr_transactions_root :: b256
  hdr_receipts_root :: b256
  hdr_logs_bloom :: bytes
  hdr_number :: u64
  hdr_timestamp :: u64
  hdr_beneficiary :: address
  hdr_difficulty :: u256
  hdr_mix_hash :: b256
  hdr_gas_limit :: u64
  hdr_gas_used :: u64
  hdr_nonce :: u64
  hdr_base_fee_per_gas :: "u64 option"
  hdr_withdrawals_root :: "b256 option"
  hdr_blob_gas_used :: "u64 option"
  hdr_excess_blob_gas :: "u64 option"
  hdr_block_access_list_hash :: "b256 option"
  hdr_requests_hash :: "b256 option"
  hdr_parent_beacon_block_root :: "b256 option"
  hdr_extra_data :: bytes
  hdr_slot_number :: "u64 option"

type_synonym withdrawal = "u64 \<times> u64 \<times> address \<times> u64"

text \<open>\<open>NextBlockEnvAttributes\<close> and \<open>ExecutionData\<close>, payload and sidecar, through the accessors the code uses.\<close>

record next_block_attributes =
  nb_timestamp :: u64
  nb_suggested_fee_recipient :: address
  nb_prev_randao :: b256
  nb_gas_limit :: u64
  nb_parent_beacon_block_root :: "b256 option"
  nb_withdrawals :: "withdrawal list option"
  nb_extra_data :: bytes
  nb_slot_number :: "u64 option"

record execution_data =
  pl_parent_hash :: b256
  pl_block_hash :: b256
  pl_state_root :: b256
  pl_receipts_root :: b256
  pl_logs_bloom :: bytes
  pl_gas_used :: u64
  pl_blob_gas_used :: "u64 option"
  pl_bal_hash :: "b256 option"
  pl_requests_hash :: "b256 option"
  pl_block_number :: u64
  pl_timestamp :: u64
  pl_fee_recipient :: address
  pl_prev_randao :: b256
  pl_gas_limit :: u64
  pl_saturated_base_fee :: u64
  pl_excess_blob_gas :: "u64 option"
  pl_slot_number :: "u64 option"
  pl_extra_data :: bytes
  pl_transactions :: "bytes list"
  pl_withdrawals :: "withdrawal list option"
  pl_parent_beacon_block_root :: "b256 option"

text \<open>\<open>BlobParams\<close> are given by \<open>max_blobs_per_tx\<close> and \<open>calc_blob_fee\<close>.\<close>

record spec_ops =
  sp_chain_id :: u64
  sp_blob_params :: "u64 \<Rightarrow> (u64 \<times> (u64 \<Rightarrow> u128)) option"
  sp_spec_of_header :: "header \<Rightarrow> spec_id"
  sp_spec_at :: "u64 \<Rightarrow> u64 \<Rightarrow> spec_id"
  sp_osaka_active :: "u64 \<Rightarrow> bool"
  sp_next_block_base_fee :: "header \<Rightarrow> u64 \<Rightarrow> u64 option"
  sp_london_transitions_at :: "u64 \<Rightarrow> bool"
  sp_elasticity_multiplier_at :: "u64 \<Rightarrow> u128"
  MAX_TX_GAS_LIMIT_OSAKA :: u64
  INITIAL_BASE_FEE :: u64

record env_cfg =
  ec_chain_id :: u64
  ec_spec :: spec_id
  ec_max_blobs_per_tx :: "u64 option"
  ec_tx_gas_limit_cap :: "u64 option"

record env_block =
  eb_number :: u256
  eb_beneficiary :: address
  eb_timestamp :: u256
  eb_difficulty :: u256
  eb_prevrandao :: "b256 option"
  eb_gas_limit :: u64
  eb_basefee :: u64
  eb_blob_excess_gas_and_price :: "(u64 \<times> u128) option"
  eb_slot_num :: u64

type_synonym block_evm_env = "env_cfg \<times> env_block"

record execution_ctx =
  xc_tx_count_hint :: "nat option"
  xc_parent_hash :: b256
  xc_parent_beacon_block_root :: "b256 option"
  xc_ommers :: "header list"
  xc_withdrawals :: "withdrawal list option"
  xc_extra_data :: bytes
  xc_slot_number :: "u64 option"

section \<open>Environments\<close>

text \<open>The configuration and the blob price are computed alike in the three environments.\<close>

definition cfg_env_for :: "spec_ops \<Rightarrow> spec_id \<Rightarrow> u64 \<Rightarrow> env_cfg" where
  "cfg_env_for S spec ts =
     \<lparr> ec_chain_id = sp_chain_id S, ec_spec = spec,
       ec_max_blobs_per_tx = map_option fst (sp_blob_params S ts),
       ec_tx_gas_limit_cap = (if sp_osaka_active S ts then Some (MAX_TX_GAS_LIMIT_OSAKA S) else None) \<rparr>"

definition blob_price_for :: "spec_ops \<Rightarrow> u64 option \<Rightarrow> u64 \<Rightarrow> (u64 \<times> u128) option" where
  "blob_price_for S excess ts =
     (case (excess, sp_blob_params S ts) of
        (Some x, Some params) \<Rightarrow> Some (x, snd params x)
      | _ \<Rightarrow> None)"

definition evm_env_of :: "spec_ops \<Rightarrow> header \<Rightarrow> block_evm_env" where
  "evm_env_of S h =
     (let spec = sp_spec_of_header S h in
      (cfg_env_for S spec (hdr_timestamp h),
       \<lparr> eb_number = ucast (hdr_number h), eb_beneficiary = hdr_beneficiary h,
         eb_timestamp = ucast (hdr_timestamp h),
         eb_difficulty = (if MERGE \<le> spec then 0 else hdr_difficulty h),
         eb_prevrandao = (if MERGE \<le> spec then Some (hdr_mix_hash h) else None),
         eb_gas_limit = hdr_gas_limit h,
         eb_basefee = (case hdr_base_fee_per_gas h of Some b \<Rightarrow> b | None \<Rightarrow> 0),
         eb_blob_excess_gas_and_price = blob_price_for S (hdr_excess_blob_gas h) (hdr_timestamp h),
         eb_slot_num = 0 \<rparr>))"

definition next_evm_env :: "spec_ops \<Rightarrow> header \<Rightarrow> next_block_attributes \<Rightarrow> block_evm_env" where
  "next_evm_env S parent a =
     (let spec = sp_spec_at S (nb_timestamp a) (hdr_number parent + 1);
          london = sp_london_transitions_at S (hdr_number parent + 1);
          basefee = (if london then Some (INITIAL_BASE_FEE S)
                     else sp_next_block_base_fee S parent (nb_timestamp a));
          gas_limit = (if london
                       then nb_gas_limit a * ucast (sp_elasticity_multiplier_at S (nb_timestamp a))
                       else nb_gas_limit a) in
      (cfg_env_for S spec (nb_timestamp a),
       \<lparr> eb_number = ucast (hdr_number parent + 1), eb_beneficiary = nb_suggested_fee_recipient a,
         eb_timestamp = ucast (nb_timestamp a), eb_difficulty = 0,
         eb_prevrandao = Some (nb_prev_randao a), eb_gas_limit = gas_limit,
         eb_basefee = (case basefee of Some b \<Rightarrow> b | None \<Rightarrow> 0),
         eb_blob_excess_gas_and_price = blob_price_for S (hdr_excess_blob_gas parent) (nb_timestamp a),
         eb_slot_num = (case nb_slot_number a of Some n \<Rightarrow> n | None \<Rightarrow> 0) \<rparr>))"

definition evm_env_for_payload :: "spec_ops \<Rightarrow> execution_data \<Rightarrow> block_evm_env" where
  "evm_env_for_payload S p =
     (let spec = sp_spec_at S (pl_timestamp p) (pl_block_number p) in
      (cfg_env_for S spec (pl_timestamp p),
       \<lparr> eb_number = ucast (pl_block_number p), eb_beneficiary = pl_fee_recipient p,
         eb_timestamp = ucast (pl_timestamp p),
         eb_difficulty = (if MERGE \<le> spec then 0 else pl_prev_randao p),
         eb_prevrandao = (if MERGE \<le> spec then Some (pl_prev_randao p) else None),
         eb_gas_limit = pl_gas_limit p, eb_basefee = pl_saturated_base_fee p,
         eb_blob_excess_gas_and_price = blob_price_for S (pl_excess_blob_gas p) (pl_timestamp p),
         eb_slot_num = (case pl_slot_number p of Some n \<Rightarrow> n | None \<Rightarrow> 0) \<rparr>))"

definition context_for_block ::
    "header \<Rightarrow> 'tx list \<Rightarrow> header list \<Rightarrow> withdrawal list option \<Rightarrow> execution_ctx" where
  "context_for_block h txs ommers ws =
     \<lparr> xc_tx_count_hint = Some (length txs), xc_parent_hash = hdr_parent_hash h,
       xc_parent_beacon_block_root = hdr_parent_beacon_block_root h, xc_ommers = ommers,
       xc_withdrawals = ws,
       xc_extra_data = hdr_extra_data h, xc_slot_number = hdr_slot_number h \<rparr>"

definition context_for_next_block :: "b256 \<Rightarrow> next_block_attributes \<Rightarrow> execution_ctx" where
  "context_for_next_block parent_hash a =
     \<lparr> xc_tx_count_hint = None, xc_parent_hash = parent_hash,
       xc_parent_beacon_block_root = nb_parent_beacon_block_root a, xc_ommers = [],
       xc_withdrawals = nb_withdrawals a,
       xc_extra_data = nb_extra_data a, xc_slot_number = nb_slot_number a \<rparr>"

definition context_for_payload :: "execution_data \<Rightarrow> execution_ctx" where
  "context_for_payload p =
     \<lparr> xc_tx_count_hint = Some (length (pl_transactions p)), xc_parent_hash = pl_parent_hash p,
       xc_parent_beacon_block_root = pl_parent_beacon_block_root p, xc_ommers = [],
       xc_withdrawals = pl_withdrawals p,
       xc_extra_data = pl_extra_data p, xc_slot_number = pl_slot_number p \<rparr>"

text \<open>Each raw transaction is decoded exactly and its signer recovered, or fails.\<close>

definition convert_payload_tx ::
    "(bytes \<Rightarrow> 'e + 'tx) \<Rightarrow> ('tx \<Rightarrow> 'e + address) \<Rightarrow> bytes \<Rightarrow> 'e + ('tx \<times> address)" where
  "convert_payload_tx dec recover raw =
     and_then (dec raw) (\<lambda>tx. and_then (recover tx) (\<lambda>signer. Inr (tx, signer)))"

definition tx_iterator_for_payload ::
    "(bytes \<Rightarrow> 'e + 'tx) \<Rightarrow> ('tx \<Rightarrow> 'e + address) \<Rightarrow> execution_data \<Rightarrow> ('e + ('tx \<times> address)) list" where
  "tx_iterator_for_payload dec recover p = map (convert_payload_tx dec recover) (pl_transactions p)"

section \<open>The factory from the chain spec\<close>

definition build_evm_config ::
    "(string + chainspec_evolve_config) option \<Rightarrow> config_error + ev_tx_evm_factory" where
  "build_evm_config extra =
     and_then (from_chain_spec extra) (\<lambda>config.
     and_then (validate_config config) (\<lambda>_.
       Inr (factory_new
         (map_option (\<lambda>(sink, h). \<lparr> rs_redirect = \<lparr> fee_sink = sink \<rparr>, rs_activation_height = h \<rparr>)
            (base_fee_redirect_settings config))
         (map_option (\<lambda>(admin, h). \<lparr> mts_admin = admin, mts_activation_height = h \<rparr>)
            (mint_precompile_settings config))
         (map_option (\<lambda>(l, h). deploy_allowlist_new l h) (config_deploy_allowlist_settings config))
         (map_option (\<lambda>(l, h). \<lparr> ss_limit = l, ss_activation_height = h \<rparr>)
            (contract_size_limit_settings config)))))"

section \<open>Properties\<close>

text \<open>A header and a payload describe the same block.\<close>

definition same_block :: "header \<Rightarrow> execution_data \<Rightarrow> bool" where
  "same_block h p \<longleftrightarrow>
     hdr_number h = pl_block_number p \<and> hdr_timestamp h = pl_timestamp p \<and>
     hdr_parent_hash h = pl_parent_hash p \<and> hdr_beneficiary h = pl_fee_recipient p \<and>
     hdr_mix_hash h = pl_prev_randao p \<and> hdr_gas_limit h = pl_gas_limit p \<and>
     hdr_base_fee_per_gas h = Some (pl_saturated_base_fee p) \<and>
     hdr_excess_blob_gas h = pl_excess_blob_gas p \<and> hdr_extra_data h = pl_extra_data p \<and>
     hdr_slot_number h = pl_slot_number p \<and>
     hdr_parent_beacon_block_root h = pl_parent_beacon_block_root p"

text \<open>Executing an engine payload and re-executing the stored block use the same environment
  after the merge, up to the slot number, which the stored block always gets as 0, and, as no
  block has ommers then, the same context.\<close>

lemma payload_and_block_env_agree:
  assumes "same_block h p" "sp_spec_of_header S h = sp_spec_at S (hdr_timestamp h) (hdr_number h)"
    and "MERGE \<le> sp_spec_of_header S h" "length txs = length (pl_transactions p)"
  shows "fst (evm_env_of S h) = fst (evm_env_for_payload S p) \<and>
    snd (evm_env_of S h) = snd (evm_env_for_payload S p) \<lparr> eb_slot_num := 0 \<rparr> \<and>
    context_for_block h txs [] (pl_withdrawals p) = context_for_payload p"
  using assms
  by (simp add: evm_env_of_def evm_env_for_payload_def Let_def same_block_def context_for_block_def
      context_for_payload_def)

definition demo_spec_ops :: spec_ops where
  "demo_spec_ops =
     \<lparr> sp_chain_id = 1234, sp_blob_params = (\<lambda>t. Some (6, \<lambda>x. 1)), sp_spec_of_header = (\<lambda>h. CANCUN),
       sp_spec_at = (\<lambda>t n. CANCUN), sp_osaka_active = (\<lambda>t. False),
       sp_next_block_base_fee = (\<lambda>h t. Some 7), sp_london_transitions_at = (\<lambda>n. False),
       sp_elasticity_multiplier_at = (\<lambda>t. 2), MAX_TX_GAS_LIMIT_OSAKA = 16777216,
       INITIAL_BASE_FEE = 1000000000 \<rparr>"

definition demo_header :: header where
  "demo_header =
     \<lparr> hdr_parent_hash = 3, hdr_ommers_hash = 0, hdr_state_root = 0, hdr_transactions_root = 0,
       hdr_receipts_root = 0, hdr_logs_bloom = [], hdr_number = 5, hdr_timestamp = 100, hdr_beneficiary = 9, hdr_difficulty = 0,
       hdr_mix_hash = 77, hdr_gas_limit = 30000000, hdr_gas_used = 0, hdr_nonce = 0,
       hdr_base_fee_per_gas = Some 7,
       hdr_withdrawals_root = None, hdr_blob_gas_used = Some 0, hdr_excess_blob_gas = Some 0,
       hdr_block_access_list_hash = None, hdr_requests_hash = None, hdr_parent_beacon_block_root = Some 0, hdr_extra_data = [],
       hdr_slot_number = Some 4 \<rparr>"

definition demo_payload :: execution_data where
  "demo_payload =
     \<lparr> pl_parent_hash = 3, pl_block_hash = 0, pl_state_root = 0, pl_receipts_root = 0, pl_logs_bloom = [],
       pl_gas_used = 0, pl_blob_gas_used = Some 0, pl_bal_hash = None, pl_requests_hash = None,
       pl_block_number = 5, pl_timestamp = 100, pl_fee_recipient = 9,
       pl_prev_randao = 77, pl_gas_limit = 30000000, pl_saturated_base_fee = 7,
       pl_excess_blob_gas = Some 0, pl_slot_number = Some 4, pl_extra_data = [], pl_transactions = [],
       pl_withdrawals = Some [], pl_parent_beacon_block_root = Some 0 \<rparr>"

text \<open>C36. From chain spec to EVM: when the configuration is accepted, the EVM of block \<open>n\<close> has the
  mint precompile exactly when the chain spec names a non-zero admin whose height (0 by default)
  is reached, redirects base fees exactly when a sink is set and its height is reached, and its
  handler refuses a top-level creation exactly when a non-empty allowlist without the caller is
  active; the allowlist has at most 1024 distinct non-zero members.\<close>

theorem chain_spec_to_evm:
  assumes "build_evm_config (Some (Inr x)) = Inr f"
    and "e = tx_factory_create_evm B f db env" "n = blk_number (fe_block env)"
    and "standard_precompiles B (cfg_spec (fe_cfg env)) MINT_PRECOMPILE_ADDR = None"
  shows "(rv_precompiles (ee_inner e) MINT_PRECOMPILE_ADDR = Some (NativeMint p) \<longleftrightarrow>
       cs_mint_admin x = Some (mp_admin p) \<and> mp_admin p \<noteq> ADDRESS_ZERO \<and>
       unat (height_or_0 (cs_mint_precompile_activation_height x)) \<le> unat n) \<and>
    (hd_redirect (handler_of e) = Some r \<longleftrightarrow>
       cs_base_fee_sink x = Some (fee_sink r) \<and>
       unat (height_or_0 (cs_base_fee_redirect_activation_height x)) \<le> unat n) \<and>
    (case cs_deploy_allowlist x of
       None \<Rightarrow> hd_deploy_allowlist (handler_of e) = None
     | Some l \<Rightarrow> length l \<le> 1024 \<and> distinct l \<and> ADDRESS_ZERO \<notin> set l \<and>
         check_deploy_allowed (hd_deploy_allowlist (handler_of e)) caller True m =
           (if height_or_0 (cs_deploy_allowlist_activation_height x) \<le> m \<and> l \<noteq> [] \<and> caller \<notin> set l
            then Inl NotAllowed else Inr ()))"
proof -
  have f: "f = factory_new
         (map_option (\<lambda>(sink, h). \<lparr> rs_redirect = \<lparr> fee_sink = sink \<rparr>, rs_activation_height = h \<rparr>)
            (base_fee_redirect_settings (from_extras x)))
         (map_option (\<lambda>(admin, h). \<lparr> mts_admin = admin, mts_activation_height = h \<rparr>)
            (mint_precompile_settings (from_extras x)))
         (map_option (\<lambda>(l, h). deploy_allowlist_new l h) (config_deploy_allowlist_settings (from_extras x)))
         (map_option (\<lambda>(l, h). \<lparr> ss_limit = l, ss_activation_height = h \<rparr>)
            (contract_size_limit_settings (from_extras x)))"
    and v: "validate_config (from_extras x) = Inr ()"
    using assms(1) by (auto simp: build_evm_config_def ok_iff from_chain_spec_def)
  have allow: "deploy_allowlist (from_extras x) = (case cs_deploy_allowlist x of Some l \<Rightarrow> l | None \<Rightarrow> [])"
    by (simp add: from_extras_def Let_def)
  have mint: "rv_precompiles (ee_inner e) MINT_PRECOMPILE_ADDR = Some (NativeMint p) \<longleftrightarrow>
       cs_mint_admin x = Some (mp_admin p) \<and> mp_admin p \<noteq> ADDRESS_ZERO \<and>
       unat (height_or_0 (cs_mint_precompile_activation_height x)) \<le> unat n"
    using assms(3,4)
    by (cases "cs_mint_admin x"; cases p)
      (auto simp: assms(2) tx_factory_create_evm_def create_evm_with_inspector_def from_inner_def build_evm_def
        apply_size_limit_def install_mint_precompile_def factory_new_def f from_extras_mint
        ucast_height_le Let_def simp flip: not_le split: option.split)
  have redir: "hd_redirect (handler_of e) = Some r \<longleftrightarrow>
       cs_base_fee_sink x = Some (fee_sink r) \<and>
       unat (height_or_0 (cs_base_fee_redirect_activation_height x)) \<le> unat n"
    using assms(3)
    by (cases "cs_base_fee_sink x"; cases r)
      (auto simp: assms(2) tx_factory_create_evm_def create_evm_with_inspector_def from_inner_def handler_of_def
        ev_handler_new_def redirect_for_block_def factory_new_def f from_extras_redirect ucast_height_le Let_def)
  have hdl: "hd_deploy_allowlist (handler_of e) = fac_deploy_allowlist f"
    by (simp add: assms(2) tx_factory_create_evm_def create_evm_with_inspector_def from_inner_def handler_of_def
        ev_handler_new_def Let_def)
  show ?thesis
    using mint redir v
    by (cases "cs_deploy_allowlist x")
      (auto simp: hdl f factory_new_def from_extras_allowlist check_deploy_allowed_def is_allowed_new permits_def
        is_active_new validate_config_def validate_deploy_allowlist_def check_entries_ok_iff
        MAX_DEPLOY_ALLOWLIST_LEN_def allow split: if_splits)
qed

theorem chain_spec_to_evm_witness:
  "\<exists>f. build_evm_config (Some (Inr demo_extras)) = Inr f \<and>
     hd_redirect (handler_of (tx_factory_create_evm demo_parts f 0 demo_evm_env)) = Some \<lparr> fee_sink = 8 \<rparr> \<and>
     check_deploy_allowed (hd_deploy_allowlist (handler_of (tx_factory_create_evm demo_parts f 0 demo_evm_env)))
       5 True 10 = Inl NotAllowed"
proof -
  obtain f where f: "build_evm_config (Some (Inr demo_extras)) = Inr f"
    by (simp add: build_evm_config_def from_chain_spec_def validate_config_def validate_deploy_allowlist_def
        from_extras_def demo_extras_def MAX_DEPLOY_ALLOWLIST_LEN_def Let_def)
  have s: "standard_precompiles demo_parts (cfg_spec (fe_cfg demo_evm_env)) MINT_PRECOMPILE_ADDR = None"
    by (simp add: demo_parts_def MINT_PRECOMPILE_ADDR_def)
  show ?thesis
    using f chain_spec_to_evm [OF f refl refl s, where r = "\<lparr> fee_sink = 8 \<rparr>" and caller = 5 and m = 10 and db = 0]
    by (simp add: demo_extras_def)
qed

text \<open>C38. The lookup in an allowlist the node accepts stops quickly: the loop of the binary search over
  a configured list halves its window at most ten times, whatever the caller, and is then stuck with
  at most one candidate; comparing that candidate decides the answer, which is membership.\<close>

theorem allowlist_lookup_terminates:
  assumes "validate_config c = Inr ()" and "s = deploy_allowlist_new (deploy_allowlist c) h"
  shows "\<exists>j base sz. j \<le> 10 \<and> (search_step (allowlist s) caller ^^ j) (0, length (deploy_allowlist c)) (base, sz) \<and>
    sz \<le> 1 \<and> (\<nexists>w. search_step (allowlist s) caller (base, sz) w) \<and>
    (is_allowed s caller \<longleftrightarrow> deploy_allowlist c = [] \<or> sz = 1 \<and> allowlist s ! base = caller) \<and>
    (is_allowed s caller \<longleftrightarrow> deploy_allowlist c = [] \<or> caller \<in> set (deploy_allowlist c))"
proof -
  have "length (deploy_allowlist c) \<le> 2 ^ 10"
    using assms(1) by (simp add: validate_config_def validate_deploy_allowlist_def check_entries_ok_iff
        MAX_DEPLOY_ALLOWLIST_LEN_def split: if_splits)
  from search_terminates [OF this, of "allowlist s" caller 0] obtain j base sz where run: "j \<le> 10"
      "(search_step (allowlist s) caller ^^ j) (0, length (deploy_allowlist c)) (base, sz)" "sz \<le> 1"
      "0 < length (deploy_allowlist c) \<longrightarrow> sz = 1" "\<nexists>w. search_step (allowlist s) caller (base, sz) w"
      "search_window (allowlist s) caller 0 (length (deploy_allowlist c)) = search_window (allowlist s) caller base sz"
    by (elim exE conjE) (rule that)
  have len: "length (allowlist s) = length (deploy_allowlist c)" by (simp add: assms(2) deploy_allowlist_new_def)
  have "is_allowed s caller \<longleftrightarrow> deploy_allowlist c = [] \<or> sz = 1 \<and> allowlist s ! base = caller"
  proof (cases "deploy_allowlist c = []")
    case True
    then show ?thesis using len by (simp add: is_allowed_def)
  next
    case False
    then have sz: "sz = 1" using run(4) by simp
    have "binary_search (allowlist s) caller = search_window (allowlist s) caller base 1"
      using run(6) by (simp only: binary_search_def len sz)
    also have "\<dots> = (if allowlist s ! base = caller then Inr base
        else Inl (if allowlist s ! base < caller then base + 1 else base))"
      by (subst search_window.simps) simp
    finally have "is_ok (binary_search (allowlist s) caller) \<longleftrightarrow> allowlist s ! base = caller" by simp
    moreover have "allowlist s \<noteq> []" using False len by auto
    ultimately show ?thesis using False sz by (simp add: is_allowed_def)
  qed
  moreover have "is_allowed s caller \<longleftrightarrow> deploy_allowlist c = [] \<or> caller \<in> set (deploy_allowlist c)"
    by (simp add: assms(2) is_allowed_correct)
  ultimately show ?thesis using run(1-3,5) by blast
qed

theorem allowlist_lookup_terminates_witness:
  "\<exists>j base sz. j \<le> 10 \<and> (search_step [3, 5, 9 :: address] 5 ^^ j) (0, 3) (base, sz) \<and>
     (is_allowed (deploy_allowlist_new [5, 9, 3] 0) 5 \<longleftrightarrow> sz = 1 \<and> [3, 5, 9] ! base = (5 :: address))"
proof -
  let ?c = "evolve_config_new \<lparr> deploy_allowlist := [5, 9, 3] \<rparr>"
  have v: "validate_config ?c = Inr ()"
    by (simp add: validate_config_def validate_deploy_allowlist_def check_entries_ok_iff MAX_DEPLOY_ALLOWLIST_LEN_def)
  have c: "deploy_allowlist ?c = [5, 9, 3]" by simp
  have s: "allowlist (deploy_allowlist_new [5, 9, 3] 0) = [3, 5, 9 :: address]" "length [5, 9, 3 :: address] = 3"
    by (simp_all add: deploy_allowlist_new_def)
  from allowlist_lookup_terminates [OF v refl, of 0 5] obtain j base sz where
    "j \<le> 10" "(search_step (allowlist (deploy_allowlist_new (deploy_allowlist ?c) 0)) 5 ^^ j)
       (0, length (deploy_allowlist ?c)) (base, sz)"
    "is_allowed (deploy_allowlist_new (deploy_allowlist ?c) 0) 5 \<longleftrightarrow> deploy_allowlist ?c = [] \<or>
       sz = 1 \<and> allowlist (deploy_allowlist_new (deploy_allowlist ?c) 0) ! base = 5"
    by (elim exE conjE) (rule that)
  then have "j \<le> 10 \<and> (search_step [3, 5, 9 :: address] 5 ^^ j) (0, 3) (base, sz) \<and>
     (is_allowed (deploy_allowlist_new [5, 9, 3] 0) 5 \<longleftrightarrow> sz = 1 \<and> [3, 5, 9] ! base = (5 :: address))"
    unfolding c s by simp
  then show ?thesis by blast
qed

end
