(* ===== verification/Ev_Evm.thy ===== *)
theory Ev_Evm
  imports Evm_Factory
begin

text \<open>
  The interface of the EVM wrapper: the execution traits of \<open>crates/ev-revm/src/api/exec.rs\<close>, the
  builder of \<open>api/builder.rs\<close> and the \<open>Evm\<close> implementations of \<open>evm.rs\<close>, for \<open>EvTxEnv\<close> and for the
  plain \<open>TxEnv\<close>, which is held as the \<open>EvTxEnv\<close> converted from it.

  Parameters: the run loop of revm's handlers (\<open>runner\<close>), the journal's database and \<open>finalize\<close>
  (\<open>state_ops\<close>), the frame methods of revm's EVM (\<open>frame_ops\<close>) and the provided methods of revm's
  traits, which execute one transaction and finalize (\<open>provided_ops\<close>, locale \<open>provided_methods\<close>).
\<close>

section \<open>Accessors\<close>

definition into_inner :: "('j, 'p, 'insp) ev_evm \<Rightarrow> ('j, 'p, 'insp) revm_evm" where
  "into_inner e = ee_inner e"

definition evm_redirect :: "('j, 'p, 'insp) ev_evm \<Rightarrow> base_fee_redirect option" where
  "evm_redirect e = ee_redirect e"

definition evm_deploy_allowlist :: "('j, 'p, 'insp) ev_evm \<Rightarrow> deploy_allowlist_settings option" where
  "evm_deploy_allowlist e = ee_deploy_allowlist e"

definition inspect_enabled :: "('j, 'p, 'insp) ev_evm \<Rightarrow> bool" where
  "inspect_enabled e = ee_inspect e"

definition evm_block :: "('j, 'p, 'insp) ev_evm \<Rightarrow> block_env" where
  "evm_block e = ctx_block (rv_ctx (ee_inner e))"

definition evm_cfg_env :: "('j, 'p, 'insp) ev_evm \<Rightarrow> cfg_env" where
  "evm_cfg_env e = ctx_cfg (rv_ctx (ee_inner e))"

section \<open>Execution\<close>

record ('j, 'db, 's) state_ops =
  so_finalize :: "'j \<Rightarrow> 's \<times> 'j"
  so_database :: "'j \<Rightarrow> 'db"
  so_set_database :: "'db \<Rightarrow> 'j \<Rightarrow> 'j"
  so_commit :: "'s \<Rightarrow> 'db \<Rightarrow> 'db"

definition map_journal :: "('j \<Rightarrow> 'j) \<Rightarrow> ('j, 'p, 'insp) revm_evm \<Rightarrow> ('j, 'p, 'insp) revm_evm" where
  "map_journal f i = i \<lparr> rv_ctx := (rv_ctx i) \<lparr> ctx_journal := f (ctx_journal (rv_ctx i)) \<rparr> \<rparr>"

definition revm_finalize ::
    "('j, 'db, 's) state_ops \<Rightarrow> ('j, 'p, 'insp) revm_evm \<Rightarrow> 's \<times> ('j, 'p, 'insp) revm_evm" where
  "revm_finalize J i =
     (case so_finalize J (ctx_journal (rv_ctx i)) of (state, j) \<Rightarrow> (state, map_journal (\<lambda>_. j) i))"

definition set_block :: "block_env \<Rightarrow> ('j, 'p, 'insp) ev_evm \<Rightarrow> ('j, 'p, 'insp) ev_evm" where
  "set_block block e =
     e \<lparr> ee_inner := (ee_inner e) \<lparr> rv_ctx := (rv_ctx (ee_inner e)) \<lparr> ctx_block := block \<rparr> \<rparr> \<rparr>"

definition finalize ::
    "('j, 'db, 's) state_ops \<Rightarrow> ('j, 'p, 'insp) ev_evm \<Rightarrow> 's \<times> ('j, 'p, 'insp) ev_evm" where
  "finalize J e = (case revm_finalize J (ee_inner e) of (state, i) \<Rightarrow> (state, e \<lparr> ee_inner := i \<rparr>))"

definition replay ::
    "('j, 'p, 'insp, 'e, 'r) runner \<Rightarrow> ('j, 'db, 's) state_ops \<Rightarrow> (('j, 'p, 'insp) ev_evm, 'e, 'r \<times> 's) st" where
  "replay N J e =
     on_inner (st_bind (rn_run N (ev_handler_new (evm_redirect e) (evm_deploy_allowlist e))) (\<lambda>result i.
       case revm_finalize J i of (state, i') \<Rightarrow> (Inr (result, state), i'))) e"

definition evm_commit ::
    "('j, 'db, 's) state_ops \<Rightarrow> 's \<Rightarrow> ('j, 'p, 'insp) ev_evm \<Rightarrow> ('j, 'p, 'insp) ev_evm" where
  "evm_commit J state e =
     e \<lparr> ee_inner := map_journal (\<lambda>j. so_set_database J (so_commit J state (so_database J j)) j) (ee_inner e) \<rparr>"

definition set_inspector :: "'insp \<Rightarrow> ('j, 'p, 'insp) ev_evm \<Rightarrow> ('j, 'p, 'insp) ev_evm" where
  "set_inspector inspector e = e \<lparr> ee_inner := (ee_inner e) \<lparr> rv_inspector := inspector \<rparr> \<rparr>"

section \<open>The builder\<close>

text \<open>\<open>build_mainnet\<close> and \<open>build_mainnet_with_inspector\<close> are revm's.\<close>

definition build_ev :: "('j, 'p, 'insp) revm_evm \<Rightarrow> base_fee_redirect option \<Rightarrow> ('j, 'p, 'insp) ev_evm" where
  "build_ev mainnet redir = from_inner mainnet redir None False"

definition build_ev_with_inspector ::
    "('insp \<Rightarrow> ('j, 'p, 'insp) revm_evm) \<Rightarrow> 'insp \<Rightarrow> base_fee_redirect option \<Rightarrow> ('j, 'p, 'insp) ev_evm" where
  "build_ev_with_inspector mainnet_with inspector redir = from_inner (mainnet_with inspector) redir None True"

section \<open>Frames\<close>

record ('j, 'p, 'insp, 'd, 'fi, 'fr, 'f) frame_ops =
  fo_frame_init :: "'fi \<Rightarrow> (('j, 'p, 'insp) revm_evm, 'd, 'f + 'fr) st"
  fo_frame_run :: "(('j, 'p, 'insp) revm_evm, 'd, 'fi + 'fr) st"
  fo_frame_return_result :: "'fr \<Rightarrow> (('j, 'p, 'insp) revm_evm, 'd, 'fr option) st"

definition frame_init ::
    "('j, 'p, 'insp, 'd, 'fi, 'fr, 'f) frame_ops \<Rightarrow> 'fi \<Rightarrow> (('j, 'p, 'insp) ev_evm, 'd, 'f + 'fr) st" where
  "frame_init O' frame_input = on_inner (fo_frame_init O' frame_input)"

definition frame_run ::
    "('j, 'p, 'insp, 'd, 'fi, 'fr, 'f) frame_ops \<Rightarrow> (('j, 'p, 'insp) ev_evm, 'd, 'fi + 'fr) st" where
  "frame_run O' = on_inner (fo_frame_run O')"

definition frame_return_result ::
    "('j, 'p, 'insp, 'd, 'fi, 'fr, 'f) frame_ops \<Rightarrow> 'fr \<Rightarrow> (('j, 'p, 'insp) ev_evm, 'd, 'fr option) st" where
  "frame_return_result O' result = on_inner (fo_frame_return_result O' result)"

section \<open>The Evm implementations\<close>

text \<open>The provided methods, over the method that executes one transaction and \<open>finalize\<close>.\<close>

record ('evm, 'e, 'r, 's) provided_ops =
  pr_transact :: "('evm, 'e, 'r) st \<Rightarrow> ('evm \<Rightarrow> 's \<times> 'evm) \<Rightarrow> ('evm, 'e, 'r \<times> 's) st"
  pr_inspect_tx :: "('evm, 'e, 'r) st \<Rightarrow> ('evm \<Rightarrow> 's \<times> 'evm) \<Rightarrow> ('evm, 'e, 'r \<times> 's) st"
  pr_system_call :: "('evm, 'e, 'r) st \<Rightarrow> ('evm \<Rightarrow> 's \<times> 'evm) \<Rightarrow> ('evm, 'e, 'r \<times> 's) st"
  pr_inspect_system_call :: "('evm, 'e, 'r) st \<Rightarrow> ('evm \<Rightarrow> 's \<times> 'evm) \<Rightarrow> ('evm, 'e, 'r \<times> 's) st"

type_synonym ('j, 'p, 'insp, 'e, 'r, 's) evm_provided = "(('j, 'p, 'insp) ev_evm, 'e, 'r, 's) provided_ops"

definition transact_raw ::
    "('j, 'p, 'insp, 'e, 'r) runner \<Rightarrow> ('j, 'db, 's) state_ops \<Rightarrow> ('j, 'p, 'insp, 'e, 'r, 's) evm_provided
       \<Rightarrow> ev_tx_env \<Rightarrow> (('j, 'p, 'insp) ev_evm, 'e, 'r \<times> 's) st" where
  "transact_raw N J V tx e =
     (if ee_inspect e then pr_inspect_tx V (inspect_one_tx N tx) (finalize J) e
      else pr_transact V (transact_one N tx) (finalize J) e)"

text \<open>\<open>None\<close> is the panic of the builder of the system transaction.\<close>

definition transact_system_call ::
    "('j, 'p, 'insp, 'e, 'r) runner \<Rightarrow> ('j, 'db, 's) state_ops \<Rightarrow> ('j, 'p, 'insp, 'e, 'r, 's) evm_provided
       \<Rightarrow> 'eth tx_env_ops \<Rightarrow> address \<Rightarrow> address \<Rightarrow> bytes
       \<Rightarrow> ('j, 'p, 'insp) ev_evm \<Rightarrow> (('e + 'r \<times> 's) \<times> ('j, 'p, 'insp) ev_evm) option" where
  "transact_system_call N J V T caller contract data e =
     (if new_system_tx_with_caller T caller contract data = None then None
      else Some
       (if ee_inspect e
        then pr_inspect_system_call V
               (\<lambda>e. the (inspect_one_system_call_with_caller N T caller contract data e)) (finalize J) e
        else pr_system_call V (\<lambda>e. the (system_call_one_with_caller N T caller contract data e)) (finalize J) e))"

definition evm_finish ::
    "('j, 'db, 's) state_ops \<Rightarrow> ('j, 'p, 'insp) ev_evm \<Rightarrow> 'db \<times> evm_env" where
  "evm_finish J e =
     (let i = ee_inner e; ctx = rv_ctx i in
      (so_database J (ctx_journal ctx),
       \<lparr> fe_block = ctx_block ctx, fe_cfg = ctx_cfg ctx,
         fe_limit_contract_code_size = rv_limit_contract_code_size i \<rparr>))"

definition components ::
    "('j, 'db, 's) state_ops \<Rightarrow> ('j, 'p, 'insp) ev_evm \<Rightarrow> 'db \<times> 'insp \<times> 'p precompiles_map" where
  "components J e =
     (so_database J (ctx_journal (rv_ctx (ee_inner e))), rv_inspector (ee_inner e), rv_precompiles (ee_inner e))"

text \<open>Mutable references to the three parts: what a caller does with them is a function on them.\<close>

definition components_mut ::
    "('j, 'db, 's) state_ops \<Rightarrow> ('db \<times> 'insp \<times> 'p precompiles_map \<Rightarrow> 'db \<times> 'insp \<times> 'p precompiles_map)
       \<Rightarrow> ('j, 'p, 'insp) ev_evm \<Rightarrow> ('j, 'p, 'insp) ev_evm" where
  "components_mut J f e =
     (case f (components J e) of (db, inspector, precompiles) \<Rightarrow>
        e \<lparr> ee_inner := (map_journal (so_set_database J db) (ee_inner e))
              \<lparr> rv_inspector := inspector, rv_precompiles := precompiles \<rparr> \<rparr>)"

text \<open>The implementation for the plain \<open>TxEnv\<close>.\<close>

definition plain_transact_raw ::
    "('j, 'p, 'insp, 'e, 'r) runner \<Rightarrow> ('j, 'db, 's) state_ops \<Rightarrow> ('j, 'p, 'insp, 'e, 'r, 's) evm_provided
       \<Rightarrow> tx_env \<Rightarrow> (('j, 'p, 'insp) ev_evm, 'e, 'r \<times> 's) st" where
  "plain_transact_raw N J V tx e =
     (if ee_inspect e then pr_inspect_tx V (inspect_one_tx N (ev_tx_env_of tx)) (finalize J) e
      else pr_transact V (transact_one N (ev_tx_env_of tx)) (finalize J) e)"

text \<open>\<open>sys\<close> is revm's \<open>SystemCallTx\<close> for \<open>TxEnv\<close>.\<close>

definition plain_transact_system_call ::
    "('j, 'p, 'insp, 'e, 'r) runner \<Rightarrow> ('j, 'db, 's) state_ops \<Rightarrow> ('j, 'p, 'insp, 'e, 'r, 's) evm_provided
       \<Rightarrow> (address \<Rightarrow> address \<Rightarrow> bytes \<Rightarrow> tx_env) \<Rightarrow> address \<Rightarrow> address \<Rightarrow> bytes
       \<Rightarrow> (('j, 'p, 'insp) ev_evm, 'e, 'r \<times> 's) st" where
  "plain_transact_system_call N J V sys caller contract data e =
     (let set = st_modify (set_tx (ev_tx_env_of (sys caller contract data))) in
      if ee_inspect e
      then pr_inspect_system_call V
             (\<lambda>e. on_inner (st_then set (rn_inspect_run_system_call N (handler_of e))) e) (finalize J) e
      else pr_system_call V (\<lambda>e. on_inner (st_then set (rn_run_system_call N (handler_of e))) e) (finalize J) e)"

definition plain_finish :: "('j, 'db, 's) state_ops \<Rightarrow> ('j, 'p, 'insp) ev_evm \<Rightarrow> 'db \<times> evm_env" where
  "plain_finish J e =
     (let i = ee_inner e; ctx = rv_ctx i in
      (so_database J (ctx_journal ctx),
       \<lparr> fe_block = ctx_block ctx, fe_cfg = ctx_cfg ctx,
         fe_limit_contract_code_size = rv_limit_contract_code_size i \<rparr>))"

definition plain_set_inspector_enabled :: "bool \<Rightarrow> ('j, 'p, 'insp) ev_evm \<Rightarrow> ('j, 'p, 'insp) ev_evm" where
  "plain_set_inspector_enabled enabled e = e \<lparr> ee_inspect := enabled \<rparr>"

definition plain_components ::
    "('j, 'db, 's) state_ops \<Rightarrow> ('j, 'p, 'insp) ev_evm \<Rightarrow> 'db \<times> 'insp \<times> 'p precompiles_map" where
  "plain_components J e =
     (so_database J (ctx_journal (rv_ctx (ee_inner e))), rv_inspector (ee_inner e), rv_precompiles (ee_inner e))"

definition plain_components_mut ::
    "('j, 'db, 's) state_ops \<Rightarrow> ('db \<times> 'insp \<times> 'p precompiles_map \<Rightarrow> 'db \<times> 'insp \<times> 'p precompiles_map)
       \<Rightarrow> ('j, 'p, 'insp) ev_evm \<Rightarrow> ('j, 'p, 'insp) ev_evm" where
  "plain_components_mut J f e =
     (case f (plain_components J e) of (db, inspector, precompiles) \<Rightarrow>
        e \<lparr> ee_inner := (map_journal (so_set_database J db) (ee_inner e))
              \<lparr> rv_inspector := inspector, rv_precompiles := precompiles \<rparr> \<rparr>)"

section \<open>A stock EVM under one handler\<close>

text \<open>
  The specification of the wrapper: a plain revm EVM with an inspection flag, whose every
  transaction runs under one and the same handler \<open>h\<close>.
\<close>

definition then_finalize ::
    "('evm, 'e, 'r) st \<Rightarrow> ('evm \<Rightarrow> 's \<times> 'evm) \<Rightarrow> ('evm, 'e, 'r \<times> 's) st" where
  "then_finalize one fin e =
     (case one e of
        (Inl x, e') \<Rightarrow> (Inl x, e')
      | (Inr r, e') \<Rightarrow> (case fin e' of (state, e'') \<Rightarrow> (Inr (r, state), e'')))"

locale provided_methods =
  fixes V :: "('j, 'p, 'insp, 'e, 'r, 's) evm_provided"
  assumes transact: "pr_transact V one fin = then_finalize one fin"
    and inspect_tx: "pr_inspect_tx V one fin = then_finalize one fin"
    and system_call: "pr_system_call V one fin = then_finalize one fin"
    and inspect_system_call: "pr_inspect_system_call V one fin = then_finalize one fin"

datatype ('insp, 'p, 's) evm_op =
    SetBlock block_env | TransactOne ev_tx_env | InspectOneTx ev_tx_env | Replay | Finalize | Commit 's
  | SetInspector 'insp | SetInspectorEnabled bool | SetPrecompiles "'p precompiles_map"
  | TransactRaw ev_tx_env | TransactSystemCall address address bytes

datatype ('e, 'r, 's) evm_out =
    Done | OneResult "'e + 'r" | FullResult "'e + 'r \<times> 's" | StateOut 's | OutPanic

fun evm_exec ::
    "('j, 'p, 'insp, 'e, 'r) runner \<Rightarrow> ('j, 'db, 's) state_ops \<Rightarrow> ('j, 'p, 'insp, 'e, 'r, 's) evm_provided
       \<Rightarrow> 'eth tx_env_ops \<Rightarrow> ('insp, 'p, 's) evm_op \<Rightarrow> ('j, 'p, 'insp) ev_evm
       \<Rightarrow> ('e, 'r, 's) evm_out \<times> ('j, 'p, 'insp) ev_evm" where
  "evm_exec N J V T (SetBlock block) e = (Done, set_block block e)"
| "evm_exec N J V T (TransactOne tx) e = map_prod OneResult id (transact_one N tx e)"
| "evm_exec N J V T (InspectOneTx tx) e = map_prod OneResult id (inspect_one_tx N tx e)"
| "evm_exec N J V T Replay e = map_prod FullResult id (replay N J e)"
| "evm_exec N J V T Finalize e = map_prod StateOut id (finalize J e)"
| "evm_exec N J V T (Commit state) e = (Done, evm_commit J state e)"
| "evm_exec N J V T (SetInspector i) e = (Done, set_inspector i e)"
| "evm_exec N J V T (SetInspectorEnabled b) e = (Done, set_inspector_enabled b e)"
| "evm_exec N J V T (SetPrecompiles ps) e = (Done, with_precompiles ps e)"
| "evm_exec N J V T (TransactRaw tx) e = map_prod FullResult id (transact_raw N J V tx e)"
| "evm_exec N J V T (TransactSystemCall caller contract data) e =
     (case transact_system_call N J V T caller contract data e of
        None \<Rightarrow> (OutPanic, e)
      | Some (r, e') \<Rightarrow> (FullResult r, e'))"

fun stock_exec ::
    "('j, 'p, 'insp, 'e, 'r) runner \<Rightarrow> ('j, 'db, 's) state_ops \<Rightarrow> 'eth tx_env_ops \<Rightarrow> ev_handler
       \<Rightarrow> ('insp, 'p, 's) evm_op \<Rightarrow> ('j, 'p, 'insp) revm_evm \<times> bool
       \<Rightarrow> ('e, 'r, 's) evm_out \<times> ('j, 'p, 'insp) revm_evm \<times> bool" where
  "stock_exec N J T h (SetBlock block) (i, b) =
     (Done, i \<lparr> rv_ctx := (rv_ctx i) \<lparr> ctx_block := block \<rparr> \<rparr>, b)"
| "stock_exec N J T h (TransactOne tx) (i, b) =
     (case rn_run N h (set_tx tx i) of (r, i') \<Rightarrow> (OneResult r, i', b))"
| "stock_exec N J T h (InspectOneTx tx) (i, b) =
     (case rn_inspect_run N h (set_tx tx i) of (r, i') \<Rightarrow> (OneResult r, i', b))"
| "stock_exec N J T h Replay (i, b) =
     (case then_finalize (rn_run N h) (revm_finalize J) i of (r, i') \<Rightarrow> (FullResult r, i', b))"
| "stock_exec N J T h Finalize (i, b) = (case revm_finalize J i of (state, i') \<Rightarrow> (StateOut state, i', b))"
| "stock_exec N J T h (Commit state) (i, b) =
     (Done, map_journal (\<lambda>j. so_set_database J (so_commit J state (so_database J j)) j) i, b)"
| "stock_exec N J T h (SetInspector x) (i, b) = (Done, i \<lparr> rv_inspector := x \<rparr>, b)"
| "stock_exec N J T h (SetInspectorEnabled b') (i, b) = (Done, i, b')"
| "stock_exec N J T h (SetPrecompiles ps) (i, b) = (Done, i \<lparr> rv_precompiles := ps \<rparr>, b)"
| "stock_exec N J T h (TransactRaw tx) (i, b) =
     (case then_finalize (if b then rn_inspect_run N h else rn_run N h) (revm_finalize J) (set_tx tx i) of
        (r, i') \<Rightarrow> (FullResult r, i', b))"
| "stock_exec N J T h (TransactSystemCall caller contract data) (i, b) =
     (case new_system_tx_with_caller T caller contract data of
        None \<Rightarrow> (OutPanic, i, b)
      | Some tx \<Rightarrow>
          (case then_finalize (if b then rn_inspect_run_system_call N h else rn_run_system_call N h)
                  (revm_finalize J) (set_tx tx i) of
             (r, i') \<Rightarrow> (FullResult r, i', b)))"

fun run_ops :: "('op \<Rightarrow> 'st \<Rightarrow> ('e, 'r, 's) evm_out \<times> 'st) \<Rightarrow> 'op list \<Rightarrow> 'st \<Rightarrow> ('e, 'r, 's) evm_out list \<times> 'st" where
  "run_ops step [] st = ([], st)"
| "run_ops step (x # xs) st =
     (case step x st of
        (OutPanic, st') \<Rightarrow> ([OutPanic], st')
      | (out, st') \<Rightarrow> (case run_ops step xs st' of (outs, st'') \<Rightarrow> (out # outs, st'')))"

definition stock_view :: "('j, 'p, 'insp) ev_evm \<Rightarrow> ('j, 'p, 'insp) revm_evm \<times> bool" where
  "stock_view e = (ee_inner e, ee_inspect e)"

lemma on_inner_view:
  "on_inner m e = (r, e') \<longleftrightarrow> (\<exists>i. m (ee_inner e) = (r, i) \<and> e' = e \<lparr> ee_inner := i \<rparr>)"
  by (auto simp: on_inner_def split: prod.splits)

lemma handler_of_inner [simp]: "handler_of (e \<lparr> ee_inner := i \<rparr>) = handler_of e"
  by (simp add: handler_of_def)

lemma set_tx_then: "st_then (st_modify (set_tx tx)) m i = m (set_tx tx i)"
  by (simp add: st_then_def st_bind_def st_simps)

lemma finalize_view: "finalize J (e \<lparr> ee_inner := i \<rparr>) =
    (case revm_finalize J i of (state, i') \<Rightarrow> (state, e \<lparr> ee_inner := i' \<rparr>))"
  by (simp add: finalize_def split: prod.split)

text \<open>Executing one transaction through the wrapper and finalizing is what the stock EVM does.\<close>

lemma then_finalize_inner:
  "then_finalize (on_inner m) (finalize J) e =
     (case then_finalize m (revm_finalize J) (ee_inner e) of (r, i) \<Rightarrow> (r, e \<lparr> ee_inner := i \<rparr>))"
  by (simp add: then_finalize_def on_inner_def finalize_view split: prod.split sum.split)

lemma one_tx_inner:
  "transact_one N tx e = on_inner (\<lambda>i. rn_run N (handler_of e) (set_tx tx i)) e"
  "inspect_one_tx N tx e = on_inner (\<lambda>i. rn_inspect_run N (handler_of e) (set_tx tx i)) e"
  by (simp_all add: transact_one_def inspect_one_tx_def on_inner_def set_tx_then)

lemma then_finalize_cong:
  "one e = one' e \<Longrightarrow> then_finalize one fin e = then_finalize one' fin e"
  by (simp add: then_finalize_def)

lemma then_finalize_comp: "then_finalize (\<lambda>i. m (f i)) fin i = then_finalize m fin (f i)"
  by (simp add: then_finalize_def)

context provided_methods
begin

lemma transact_raw_view:
  "transact_raw N J V tx e =
     (case then_finalize (if ee_inspect e then rn_inspect_run N (handler_of e) else rn_run N (handler_of e))
             (revm_finalize J) (set_tx tx (ee_inner e)) of (r, i) \<Rightarrow> (r, e \<lparr> ee_inner := i \<rparr>))"
proof -
  have "transact_raw N J V tx e =
      then_finalize (on_inner (\<lambda>i. (if ee_inspect e then rn_inspect_run N (handler_of e) else rn_run N (handler_of e))
        (set_tx tx i))) (finalize J) e"
    by (auto simp: transact_raw_def transact inspect_tx one_tx_inner intro!: then_finalize_cong)
  then show ?thesis by (simp add: then_finalize_inner then_finalize_comp)
qed

lemma transact_system_call_view:
  "transact_system_call N J V T caller contract data e =
     map_option (\<lambda>tx.
       (case then_finalize (if ee_inspect e then rn_inspect_run_system_call N (handler_of e)
                            else rn_run_system_call N (handler_of e)) (revm_finalize J) (set_tx tx (ee_inner e)) of
          (r, i) \<Rightarrow> (r, e \<lparr> ee_inner := i \<rparr>))) (new_system_tx_with_caller T caller contract data)"
proof (cases "new_system_tx_with_caller T caller contract data")
  case (Some tx)
  have "transact_system_call N J V T caller contract data e = Some
      (then_finalize (on_inner (\<lambda>i. (if ee_inspect e then rn_inspect_run_system_call N (handler_of e)
         else rn_run_system_call N (handler_of e)) (set_tx tx i))) (finalize J) e)"
    by (auto simp: transact_system_call_def Some system_call inspect_system_call system_call_one_with_caller_def
        inspect_one_system_call_with_caller_def on_inner_def set_tx_then intro!: then_finalize_cong)
  then show ?thesis by (simp add: Some then_finalize_inner then_finalize_comp)
qed (simp add: transact_system_call_def)

lemma replay_view:
  "replay N J e =
     (case then_finalize (rn_run N (handler_of e)) (revm_finalize J) (ee_inner e) of
        (r, i) \<Rightarrow> (r, e \<lparr> ee_inner := i \<rparr>))"
  by (auto simp: replay_def on_inner_def st_bind_def then_finalize_def handler_of_def evm_redirect_def
      evm_deploy_allowlist_def split: prod.split sum.split)

text \<open>The simulation: one operation of the wrapper is one operation of the stock EVM.\<close>

lemma exec_simulates:
  assumes "evm_exec N J V T x e = (out, e')"
  shows "stock_exec N J T (handler_of e) x (stock_view e) = (out, stock_view e') \<and> handler_of e' = handler_of e"
proof (cases x)
  case (TransactRaw tx)
  then show ?thesis using assms by (auto simp: stock_view_def transact_raw_view split: prod.splits)
next
  case (TransactSystemCall caller contract data)
  then show ?thesis using assms
    by (auto simp: stock_view_def transact_system_call_view split: prod.splits option.splits)
next
  case Replay
  then show ?thesis using assms by (auto simp: stock_view_def replay_view split: prod.splits)
next
  case Finalize
  then show ?thesis using assms by (auto simp: stock_view_def finalize_def split: prod.splits)
qed (use assms in \<open>auto simp: stock_view_def set_block_def one_tx_inner on_inner_def evm_commit_def set_inspector_def
      set_inspector_enabled_def with_precompiles_def handler_of_def split: prod.splits\<close>)

lemma run_simulates:
  assumes "run_ops (evm_exec N J V T) xs e = (outs, e')"
  shows "run_ops (stock_exec N J T (handler_of e)) xs (stock_view e) = (outs, stock_view e') \<and>
    handler_of e' = handler_of e"
  using assms
proof (induction xs arbitrary: e e' outs)
  case (Cons x xs)
  obtain out e1 where step: "evm_exec N J V T x e = (out, e1)" by force
  note s = exec_simulates [OF step]
  obtain outs1 e2 where rest: "run_ops (evm_exec N J V T) xs e1 = (outs1, e2)" by force
  note IH = Cons.IH [OF rest]
  show ?case using Cons.prems s IH by (cases out) (auto simp: step rest)
qed simp

end

definition revm_provided :: "('j, 'p, 'insp, 'e, 'r, 's) evm_provided" where
  "revm_provided =
     \<lparr> pr_transact = then_finalize, pr_inspect_tx = then_finalize, pr_system_call = then_finalize,
       pr_inspect_system_call = then_finalize \<rparr>"

interpretation revm_provided: provided_methods revm_provided
  by unfold_locales (simp_all add: revm_provided_def)

text \<open>The plain \<open>TxEnv\<close> runs as the \<open>EvTxEnv\<close> converted from it.\<close>

lemma plain_transact_raw_eq: "plain_transact_raw N J V tx = transact_raw N J V (ev_tx_env_of tx)"
  by (simp add: fun_eq_iff plain_transact_raw_def transact_raw_def)

lemma plain_transact_system_call_eq:
  assumes "new_system_tx_with_caller T caller contract data = Some (ev_tx_env_of (sys caller contract data))"
  shows "transact_system_call N J V T caller contract data e =
    Some (plain_transact_system_call N J V sys caller contract data e)"
  by (simp add: assms transact_system_call_def plain_transact_system_call_def inspect_one_system_call_with_caller_def
      system_call_one_with_caller_def Let_def)

lemma plain_interface_eq:
  "plain_finish J e = evm_finish J e" "plain_set_inspector_enabled b e = set_inspector_enabled b e"
  "plain_components_mut J f e = components_mut J f e"
  by (simp_all add: plain_finish_def evm_finish_def plain_set_inspector_enabled_def set_inspector_enabled_def
      plain_components_mut_def components_mut_def plain_components_def components_def)

lemma frame_methods_keep_policy:
  "handler_of (snd (frame_init O' x e)) = handler_of e" "handler_of (snd (frame_run O' e)) = handler_of e"
  "handler_of (snd (frame_return_result O' y e)) = handler_of e" "handler_of (components_mut J f e) = handler_of e"
  by (simp_all add: frame_init_def frame_run_def frame_return_result_def components_mut_def on_inner_def split: prod.split)

text \<open>\<open>evm_finish\<close> gives back the environment the EVM was created with, up to the size limit of its block.\<close>

lemma evm_finish_create:
  "snd (evm_finish J (create_evm_with_inspector (build_evm B) f db env inspector inspect)) = apply_size_limit f env"
  by (simp add: evm_finish_def create_evm_with_inspector_def from_inner_def build_evm_def Let_def apply_size_limit_def
      split: option.split)

text \<open>C9. The EVM a factory creates for block \<open>n\<close> behaves, under every sequence of calls of its
  interface (transactions plain and inspected, replays, system calls, finalization, commits, changes
  of block, inspector, inspection and precompiles), as a stock EVM whose transactions all run under
  one handler: the one with the base-fee redirect exactly when the redirect is configured and \<open>n\<close> has
  reached its activation height, and with the configured deploy allowlist. Results and states agree,
  and a panic of the builder of a system transaction is the only one.\<close>

theorem ev_evm_refines:
  assumes provided: "provided_methods V"
    and created: "e = create_evm_with_inspector mk f db env inspector inspect"
    and run: "run_ops (evm_exec N J V T) xs e = (outs, e')"
  shows "run_ops (stock_exec N J T
      \<lparr> hd_redirect =
          (case fac_redirect f of
             None \<Rightarrow> None
           | Some s \<Rightarrow> if unat (rs_activation_height s) \<le> unat (blk_number (fe_block env))
                       then Some (rs_redirect s) else None),
        hd_deploy_allowlist = fac_deploy_allowlist f \<rparr>) xs (into_inner e, inspect) =
    (outs, into_inner e', inspect_enabled e')"
proof -
  have "handler_of e = \<lparr> hd_redirect =
          (case fac_redirect f of
             None \<Rightarrow> None
           | Some s \<Rightarrow> if unat (rs_activation_height s) \<le> unat (blk_number (fe_block env))
                       then Some (rs_redirect s) else None),
        hd_deploy_allowlist = fac_deploy_allowlist f \<rparr>"
    by (simp add: created create_evm_with_inspector_def from_inner_def handler_of_def ev_handler_new_def Let_def
        redirect_for_block_def ucast_height_le cong: option.case_cong)
  moreover have "ee_inspect e = inspect"
    by (simp add: created create_evm_with_inspector_def from_inner_def Let_def)
  ultimately show ?thesis
    using provided_methods.run_simulates [OF provided run]
    by (simp add: stock_view_def into_inner_def inspect_enabled_def)
qed

text \<open>A run on a journal of numbers: a transaction adds its gas limit, \<open>finalize\<close> empties the journal.\<close>

definition demo_runner :: "(nat, string, unit, unit, ev_handler) runner" where
  "demo_runner =
     (let run = (\<lambda>h i. (Inr h, map_journal (\<lambda>j. j + unat (te_gas_limit (env_inner (ctx_tx (rv_ctx i))))) i))
      in \<lparr> rn_run = run, rn_inspect_run = run, rn_run_system_call = run, rn_inspect_run_system_call = run \<rparr>)"

definition demo_state_ops :: "(nat, nat, nat) state_ops" where
  "demo_state_ops =
     \<lparr> so_finalize = (\<lambda>j. (j, 0)), so_database = (\<lambda>j. j), so_set_database = (\<lambda>d j. d), so_commit = (\<lambda>s d. d + s) \<rparr>"

definition demo_env_ops :: "unit tx_env_ops" where
  "demo_env_ops = \<lparr> default_tx_env = env_inner (default_ev_tx_env demo_parts), eth_tx_env = (\<lambda>_ _. env_inner (default_ev_tx_env demo_parts)),
     build_tx_env = (\<lambda>c d k g. None) \<rparr>"

theorem ev_evm_refines_witness:
  "\<exists>outs e'. run_ops (evm_exec demo_runner demo_state_ops revm_provided demo_env_ops)
       [TransactRaw (default_ev_tx_env demo_parts), SetInspectorEnabled True, Replay, TransactSystemCall 1 2 []]
       (create_evm_with_inspector (build_evm demo_parts) demo_factory 0 demo_evm_env () False) = (outs, e') \<and>
     outs = [FullResult (Inr (\<lparr> hd_redirect = None, hd_deploy_allowlist = None \<rparr>, 0)), Done,
             FullResult (Inr (\<lparr> hd_redirect = None, hd_deploy_allowlist = None \<rparr>, 0)), OutPanic]"
proof -
  let ?e = "create_evm_with_inspector (build_evm demo_parts) demo_factory 0 demo_evm_env () False"
  let ?xs = "[TransactRaw (default_ev_tx_env demo_parts), SetInspectorEnabled True, Replay, TransactSystemCall 1 2 []]"
  obtain outs e' where run: "run_ops (evm_exec demo_runner demo_state_ops revm_provided demo_env_ops) ?xs ?e = (outs, e')"
    by force
  have h: "(case fac_redirect demo_factory of
             None \<Rightarrow> None
           | Some s \<Rightarrow> if unat (rs_activation_height s) \<le> unat (blk_number (fe_block demo_evm_env))
                       then Some (rs_redirect s) else None) = None" "fac_deploy_allowlist demo_factory = None"
    by (simp_all add: demo_factory_def factory_new_def demo_evm_env_def)
  have j: "ctx_journal (rv_ctx (into_inner ?e)) = 0"
    by (simp add: create_evm_with_inspector_def from_inner_def build_evm_def demo_parts_def Let_def into_inner_def)
  have "fst (run_ops (stock_exec demo_runner demo_state_ops demo_env_ops
      \<lparr> hd_redirect = None, hd_deploy_allowlist = None \<rparr>) ?xs (into_inner ?e, False)) =
    [FullResult (Inr (\<lparr> hd_redirect = None, hd_deploy_allowlist = None \<rparr>, 0)), Done,
     FullResult (Inr (\<lparr> hd_redirect = None, hd_deploy_allowlist = None \<rparr>, 0)), OutPanic]"
    using j by (simp add: demo_runner_def Let_def demo_state_ops_def then_finalize_def revm_finalize_def map_journal_def set_tx_def
        demo_parts_def ev_tx_env_new_def new_system_tx_with_caller_def demo_env_ops_def)
  then show ?thesis
    using ev_evm_refines [OF revm_provided.provided_methods_axioms refl run] run unfolding h by auto
qed

end
