(* ===== verification/Txpool.thy ===== *)
theory Txpool
  imports Ev_Primitives_Correct Tx_Env Deploy_Allowlist Evolve_Config
begin

text \<open>
  The transaction pool validation of \<open>crates/node/src/txpool.rs\<close>: the pooled wrapper of an
  envelope, the EV checks on top of the base validator (deploy allowlist, batch shape, sponsor and
  sender balances), the balance override of a sponsored transaction, and the allowlist wiring of
  the pool builder. The base validator, the state provider and reth's pooled Ethereum transactions
  are parameters.
\<close>

section \<open>Pooled transactions\<close>

datatype 'b blob_sidecar = SidecarNone | SidecarMissing | SidecarPresent 'b

record ('eth, 'b) ev_pooled_transaction =
  pt_tx :: "'eth ev_tx_envelope"
  pt_signer :: address
  pt_encoded_length :: nat
  pt_cost :: u256
  pt_blob_sidecar :: "'b blob_sidecar"

text \<open>
  \<open>EthPooledTransaction::new\<close> computes the cost and the initial sidecar state; \<open>po_split_blob\<close> is
  \<open>into_parts\<close> of the blob variant.
\<close>

record ('eth, 'pooled, 'b) pooled_ops =
  po_cost :: "'eth ev_tx_envelope \<Rightarrow> u256"
  po_initial_sidecar :: "'eth ev_tx_envelope \<Rightarrow> 'b blob_sidecar"
  po_encode_2718_len :: "'pooled ev_pooled_tx_envelope \<Rightarrow> nat"
  po_split_blob :: "'pooled \<Rightarrow> ('eth \<times> 'b) option"
  po_into_eth :: "'pooled \<Rightarrow> 'eth"
  po_eth_ty :: "'eth \<Rightarrow> u8"
  po_try_into_pooled_eip4844 :: "'eth \<Rightarrow> 'b \<Rightarrow> 'pooled option"
  po_validate_blob :: "'eth \<Rightarrow> 'b \<Rightarrow> (bool + unit) option"

definition EIP1559_TX_TYPE_ID :: u8 where
  "EIP1559_TX_TYPE_ID = 2"

definition EIP4844_TX_TYPE_ID :: u8 where
  "EIP4844_TX_TYPE_ID = 3"

definition pooled_new ::
    "('eth, 'pooled, 'b) pooled_ops \<Rightarrow> 'eth ev_tx_envelope \<Rightarrow> address \<Rightarrow> nat \<Rightarrow> ('eth, 'b) ev_pooled_transaction" where
  "pooled_new P tx signer n =
     \<lparr> pt_tx = tx, pt_signer = signer, pt_encoded_length = n, pt_cost = po_cost P tx,
       pt_blob_sidecar = po_initial_sidecar P tx \<rparr>"

definition from_pooled ::
    "('eth, 'pooled, 'b) pooled_ops \<Rightarrow> 'pooled ev_pooled_tx_envelope \<Rightarrow> address
       \<Rightarrow> ('eth, 'b) ev_pooled_transaction" where
  "from_pooled P tx signer =
     (let n = po_encode_2718_len P tx in
      case tx of
        PooledEthereum p \<Rightarrow>
          (case po_split_blob P p of
             Some (e, blob) \<Rightarrow>
               (pooled_new P (Ethereum e) signer n) \<lparr> pt_blob_sidecar := SidecarPresent blob \<rparr>
           | None \<Rightarrow> pooled_new P (Ethereum (po_into_eth P p)) signer n)
      | PooledEvNode ev \<Rightarrow> pooled_new P (EvNode ev) signer n)"

definition pooled_ty :: "('eth, 'pooled, 'b) pooled_ops \<Rightarrow> ('eth, 'b) ev_pooled_transaction \<Rightarrow> u8" where
  "pooled_ty P t =
     (case pt_tx t of EvNode _ \<Rightarrow> EIP1559_TX_TYPE_ID | Ethereum e \<Rightarrow> po_eth_ty P e)"

definition take_blob ::
    "('eth, 'pooled, 'b) pooled_ops \<Rightarrow> ('eth, 'b) ev_pooled_transaction
       \<Rightarrow> 'b blob_sidecar \<times> ('eth, 'b) ev_pooled_transaction" where
  "take_blob P t =
     (if pooled_ty P t = EIP4844_TX_TYPE_ID
      then (pt_blob_sidecar t, t \<lparr> pt_blob_sidecar := SidecarMissing \<rparr>)
      else (SidecarNone, t))"

definition pool_try_into_pooled_eip4844 ::
    "('eth, 'pooled, 'b) pooled_ops \<Rightarrow> ('eth, 'b) ev_pooled_transaction \<Rightarrow> 'b
       \<Rightarrow> ('pooled ev_pooled_tx_envelope \<times> address) option" where
  "pool_try_into_pooled_eip4844 P t sidecar =
     (case pt_tx t of
        Ethereum e \<Rightarrow> map_option (\<lambda>p. (PooledEthereum p, pt_signer t)) (po_try_into_pooled_eip4844 P e sidecar)
      | EvNode _ \<Rightarrow> None)"

definition try_from_eip4844 ::
    "('eth, 'pooled, 'b) pooled_ops \<Rightarrow> 'eth ev_tx_envelope \<Rightarrow> address \<Rightarrow> 'b
       \<Rightarrow> ('eth, 'b) ev_pooled_transaction option" where
  "try_from_eip4844 P tx signer sidecar =
     (case tx of
        Ethereum e \<Rightarrow> map_option (\<lambda>p. from_pooled P (PooledEthereum p) signer) (po_try_into_pooled_eip4844 P e sidecar)
      | EvNode _ \<Rightarrow> None)"

section \<open>Validation\<close>

datatype ev_tx_pool_error = EmptyCalls | InvalidCreatePosition | InvalidSponsorSignature
  | StateProvider string | DeployNotAllowed

fun is_bad_transaction :: "ev_tx_pool_error \<Rightarrow> bool" where
  "is_bad_transaction EmptyCalls \<longleftrightarrow> True"
| "is_bad_transaction InvalidCreatePosition \<longleftrightarrow> True"
| "is_bad_transaction InvalidSponsorSignature \<longleftrightarrow> True"
| "is_bad_transaction DeployNotAllowed \<longleftrightarrow> True"
| "is_bad_transaction (StateProvider _) \<longleftrightarrow> False"

datatype invalid_pool_transaction_error = Overdraft u256 u256 | OtherPoolError ev_tx_pool_error

text \<open>The client: the best block, the latest state, and balances in a state.\<close>

record 's client_ops =
  cl_best_block_number :: "string + u64"
  cl_latest :: "string + 's"
  cl_basic_account :: "'s \<Rightarrow> address \<Rightarrow> string + u256 option"

record ev_validator =
  val_deploy_allowlist :: "deploy_allowlist_settings option"

definition check_sender_overdraft ::
    "('eth, 'b) ev_pooled_transaction \<Rightarrow> u256 \<Rightarrow> invalid_pool_transaction_error + unit" where
  "check_sender_overdraft t sender_balance =
     (if sender_balance < pt_cost t then Inl (Overdraft (pt_cost t) sender_balance) else Inr ())"

definition validate_evnode_calls :: "ev_node_transaction \<Rightarrow> invalid_pool_transaction_error + unit" where
  "validate_evnode_calls tx =
     (if tx_calls tx = [] then Inl (OtherPoolError EmptyCalls)
      else if \<exists>c \<in> set (tl (tx_calls tx)). call_to c = TxCreate then Inl (OtherPoolError InvalidCreatePosition)
      else Inr ())"

text \<open>The state provider is fetched once and kept in the caller's slot.\<close>

definition ensure_state :: "'s client_ops \<Rightarrow> ('s option, invalid_pool_transaction_error, 's) st" where
  "ensure_state L slot =
     (case slot of
        Some s \<Rightarrow> (Inr s, slot)
      | None \<Rightarrow> (case cl_latest L of
                   Inl e \<Rightarrow> (Inl (OtherPoolError (StateProvider e)), slot)
                 | Inr s \<Rightarrow> (Inr s, Some s)))"

definition validate_sponsor_balance ::
    "'s client_ops \<Rightarrow> address \<Rightarrow> u256 \<Rightarrow> ('s option, invalid_pool_transaction_error, u256) st" where
  "validate_sponsor_balance L sponsor gas_cost =
     st_bind (ensure_state L) (\<lambda>s.
     st_bind (st_lift (map_err (\<lambda>e. OtherPoolError (StateProvider e)) (cl_basic_account L s sponsor))) (\<lambda>acc.
       let balance = (case acc of Some b \<Rightarrow> b | None \<Rightarrow> 0) in
       if balance < gas_cost then st_fail (Overdraft gas_cost balance) else st_return balance))"

text \<open>\<open>ec\<close> tells whether an Ethereum transaction is a creation.\<close>

definition is_top_level_create :: "('eth \<Rightarrow> bool) \<Rightarrow> 'eth ev_tx_envelope \<Rightarrow> bool" where
  "is_top_level_create ec tx =
     (case tx of
        Ethereum e \<Rightarrow> ec e
      | EvNode ev \<Rightarrow> (case tx_calls (signed_tx ev) of c # _ \<Rightarrow> call_to c = TxCreate | [] \<Rightarrow> False))"

definition check_pool_allowlist ::
    "('eth \<Rightarrow> bool) \<Rightarrow> 's client_ops \<Rightarrow> ev_validator \<Rightarrow> ('eth, 'b) ev_pooled_transaction
       \<Rightarrow> invalid_pool_transaction_error + unit" where
  "check_pool_allowlist ec L V t =
     (case val_deploy_allowlist V of
        None \<Rightarrow> Inr ()
      | Some settings \<Rightarrow>
          and_then (map_err (\<lambda>e. OtherPoolError (StateProvider e)) (cl_best_block_number L)) (\<lambda>n.
            map_err (\<lambda>_. OtherPoolError DeployNotAllowed)
              (check_deploy_allowed (Some settings) (pt_signer t) (is_top_level_create ec (pt_tx t)) n)))"

definition validate_evnode ::
    "rlp \<Rightarrow> crypto \<Rightarrow> ('eth \<Rightarrow> bool) \<Rightarrow> 's client_ops \<Rightarrow> ev_validator \<Rightarrow> ('eth, 'b) ev_pooled_transaction \<Rightarrow> u256
       \<Rightarrow> ('s option, invalid_pool_transaction_error, u256 option) st" where
  "validate_evnode R K ec L V t sender_balance =
     st_then (st_lift (check_pool_allowlist ec L V t))
     (case pt_tx t of
        Ethereum _ \<Rightarrow> st_then (st_lift (check_sender_overdraft t sender_balance)) (st_return None)
      | EvNode ev \<Rightarrow>
          (let tx = signed_tx ev in
           st_then (st_lift (validate_evnode_calls tx))
           (case tx_fee_payer_signature tx of
              Some sig \<Rightarrow>
                st_bind (st_lift (map_err (\<lambda>_. OtherPoolError InvalidSponsorSignature)
                           (recover_sponsor R K tx (pt_signer t) sig))) (\<lambda>sponsor.
                let gas_cost = saturating_mul (ucast (tx_max_fee_per_gas tx) :: u256) (ucast (tx_gas_limit tx)) in
                st_bind (validate_sponsor_balance L sponsor gas_cost) (\<lambda>sponsor_balance.
                let call_value = tx_value tx in
                if call_value \<noteq> 0 \<and> sender_balance < call_value
                  then st_fail (Overdraft call_value sender_balance)
                  else st_return (Some sponsor_balance)))
            | None \<Rightarrow> st_then (st_lift (check_sender_overdraft t sender_balance)) (st_return None))))"

text \<open>The outcome of the base validator and of the whole validation.\<close>

datatype ('t, 'm) validation_outcome =
    ValidTx u256 't 'm
  | InvalidTx 't invalid_pool_transaction_error
  | OtherOutcome string

definition validate_transaction ::
    "rlp \<Rightarrow> crypto \<Rightarrow> ('eth \<Rightarrow> bool) \<Rightarrow> 's client_ops \<Rightarrow> ev_validator
       \<Rightarrow> (('eth, 'b) ev_pooled_transaction \<Rightarrow> 's option
             \<Rightarrow> (('eth, 'b) ev_pooled_transaction, 'm) validation_outcome \<times> 's option)
       \<Rightarrow> ('eth, 'b) ev_pooled_transaction \<Rightarrow> (('eth, 'b) ev_pooled_transaction, 'm) validation_outcome" where
  "validate_transaction R K ec L V base t =
     (case base t None of
        (ValidTx balance tx m, slot) \<Rightarrow>
          (case validate_evnode R K ec L V tx balance slot of
             (Inr override, _) \<Rightarrow> ValidTx (case override of Some b \<Rightarrow> b | None \<Rightarrow> balance) tx m
           | (Inl err, _) \<Rightarrow> InvalidTx tx err)
      | (other, _) \<Rightarrow> other)"

text \<open>The allowlist the pool builder wires in: a chain spec that does not parse gives none.\<close>

definition pool_validator :: "(string + chainspec_evolve_config) option \<Rightarrow> ev_validator" where
  "pool_validator extra =
     (let config = (case from_chain_spec extra of Inr c \<Rightarrow> c | Inl _ \<Rightarrow> evolve_config_new) in
      \<lparr> val_deploy_allowlist =
          map_option (\<lambda>(l, h). deploy_allowlist_new l h) (config_deploy_allowlist_settings config) \<rparr>)"

section \<open>Lemmas\<close>

lemma check_sender_overdraft_Inr [ok_iff]:
  "check_sender_overdraft t b = Inr u \<longleftrightarrow> pt_cost t \<le> b"
  by (auto simp: check_sender_overdraft_def)

lemma validate_evnode_calls_Inr [ok_iff]:
  "validate_evnode_calls tx = Inr u \<longleftrightarrow>
     tx_calls tx \<noteq> [] \<and> (\<forall>c \<in> set (tl (tx_calls tx)). call_to c \<noteq> TxCreate)"
  by (auto simp: validate_evnode_calls_def)

lemma validate_sponsor_balance_Inr:
  assumes "slot = Some s \<or> slot = None \<and> cl_latest L = Inr s"
  shows "(\<exists>slot'. validate_sponsor_balance L sponsor g slot = (Inr b, slot')) \<longleftrightarrow>
     (\<exists>acc. cl_basic_account L s sponsor = Inr acc \<and> b = (case acc of Some x \<Rightarrow> x | None \<Rightarrow> 0) \<and> g \<le> b)"
proof -
  have "ensure_state L slot = (Inr s, Some s)" using assms by (auto simp: ensure_state_def)
  then show ?thesis
    by (cases "cl_basic_account L s sponsor")
      (auto simp: validate_sponsor_balance_def st_bind_def st_run_simps Let_def not_less split: if_splits)
qed

text \<open>The balance of an account, absent ones being empty.\<close>

definition client_balance :: "'s client_ops \<Rightarrow> 's \<Rightarrow> address \<Rightarrow> u256 \<Rightarrow> bool" where
  "client_balance L s a b \<longleftrightarrow>
     (\<exists>acc. cl_basic_account L s a = Inr acc \<and> b = (case acc of Some x \<Rightarrow> x | None \<Rightarrow> 0))"

definition pool_gas_cost :: "ev_node_transaction \<Rightarrow> nat" where
  "pool_gas_cost tx = unat (tx_gas_limit tx) * unat (tx_max_fee_per_gas tx)"

lemma pool_gas_cost_word:
  "unat (saturating_mul (ucast (tx_max_fee_per_gas tx) :: u256) (ucast (tx_gas_limit tx))) = pool_gas_cost tx"
proof -
  have "unat (tx_max_fee_per_gas tx) < 2 ^ 128" "unat (tx_gas_limit tx) < 2 ^ 64"
    using unat_bound [of "tx_max_fee_per_gas tx"] unat_bound [of "tx_gas_limit tx"] by simp_all
  then have "unat (tx_max_fee_per_gas tx) * unat (tx_gas_limit tx) < 2 ^ 128 * 2 ^ 64"
    by (intro mult_strict_mono) simp_all
  then show ?thesis by (simp add: unat_saturating_mul pool_gas_cost_def mult.commute)
qed

lemma validate_evnode_ok:
  assumes "pt_tx t = EvNode ev" "tx = signed_tx ev"
    and "slot = Some s \<or> slot = None \<and> cl_latest L = Inr s"
  shows "(\<exists>slot'. validate_evnode R K ec L V t sender_balance slot = (Inr r, slot')) \<longleftrightarrow>
    check_pool_allowlist ec L V t = Inr () \<and>
    tx_calls tx \<noteq> [] \<and> (\<forall>c \<in> set (tl (tx_calls tx)). call_to c \<noteq> TxCreate) \<and>
    (case tx_fee_payer_signature tx of
       Some sig \<Rightarrow>
         (\<exists>sponsor b. recover_sponsor R K tx (pt_signer t) sig = Inr sponsor \<and>
            client_balance L s sponsor b \<and> pool_gas_cost tx \<le> unat b \<and>
            tx_value tx \<le> sender_balance \<and> r = Some b)
     | None \<Rightarrow> pt_cost t \<le> sender_balance \<and> r = None)"
proof (cases "tx_fee_payer_signature tx")
  case None
  then show ?thesis using assms(1,2) by (auto simp: validate_evnode_def ok_iff Let_def)
next
  case (Some sig)
  let ?g = "saturating_mul (ucast (tx_max_fee_per_gas tx) :: u256) (ucast (tx_gas_limit tx))"
  have g: "?g \<le> b \<longleftrightarrow> pool_gas_cost tx \<le> unat b" for b
    by (simp add: word_le_nat_alt pool_gas_cost_word)
  have "(\<exists>slot'. validate_evnode R K ec L V t sender_balance slot = (Inr r, slot')) \<longleftrightarrow>
    check_pool_allowlist ec L V t = Inr () \<and> validate_evnode_calls tx = Inr () \<and>
    (\<exists>sponsor b. recover_sponsor R K tx (pt_signer t) sig = Inr sponsor \<and>
       (\<exists>slot'. validate_sponsor_balance L sponsor ?g slot = (Inr b, slot')) \<and>
       tx_value tx \<le> sender_balance \<and> r = Some b)"
    using assms(1,2) Some by (fastforce simp: validate_evnode_def ok_iff Let_def not_less split: if_splits)
  then show ?thesis
    using Some by (auto simp: validate_sponsor_balance_Inr [OF assms(3)] client_balance_def g ok_iff)
qed

section \<open>Properties\<close>

text \<open>C22. The EV validation of an EvNode transaction accepts exactly when the allowlist lets the signer
  through, the batch is well formed, and the payer covers it: with a sponsor signature, the
  signature recovers, the sponsor's balance covers the gas limit at the fee cap and the sender's
  the values of the calls, and the sponsor's balance is returned; without one, the sender covers
  the whole cost and no balance is returned.\<close>

theorem validate_evnode_correct:
  assumes "pt_tx t = EvNode ev" "tx = signed_tx ev"
    and "slot = Some s \<or> slot = None \<and> cl_latest L = Inr s"
  shows "(\<exists>slot'. validate_evnode R K ec L V t sender_balance slot = (Inr r, slot')) \<longleftrightarrow>
    check_pool_allowlist ec L V t = Inr () \<and>
    tx_calls tx \<noteq> [] \<and> (\<forall>c \<in> set (tl (tx_calls tx)). call_to c \<noteq> TxCreate) \<and>
    (case tx_fee_payer_signature tx of
       Some sig \<Rightarrow>
         (\<exists>sponsor b. recover_sponsor R K tx (pt_signer t) sig = Inr sponsor \<and>
            client_balance L s sponsor b \<and> pool_gas_cost tx \<le> unat b \<and>
            tx_value tx \<le> sender_balance \<and> r = Some b)
     | None \<Rightarrow> pt_cost t \<le> sender_balance \<and> r = None)"
  by (rule validate_evnode_ok [OF assms])

definition demo_client :: "nat client_ops" where
  "demo_client =
     \<lparr> cl_best_block_number = Inr 10, cl_latest = Inr 0,
       cl_basic_account = (\<lambda>s a. if a = 0x1234 then Inr (Some 9000000) else Inr None) \<rparr>"

definition demo_crypto :: crypto where
  "demo_crypto =
     \<lparr> keccak256 = (\<lambda>bs. 0), recover_address_from_prehash = (\<lambda>s h. Inr (ucast (sig_r s))) \<rparr>"

definition demo_pooled :: "(ref_eth, unit) ev_pooled_transaction" where
  "demo_pooled =
     \<lparr> pt_tx = EvNode \<lparr> signed_tx = sample_tx, signed_signature = sample_signature \<rparr>, pt_signer = 7,
       pt_encoded_length = 100, pt_cost = 9000011, pt_blob_sidecar = SidecarNone \<rparr>"

theorem validate_evnode_correct_witness:
  "\<exists>slot'. validate_evnode ref_rlp demo_crypto (\<lambda>_. False) demo_client \<lparr> val_deploy_allowlist = None \<rparr>
     demo_pooled 11 None = (Inr (Some 9000000), slot')"
proof -
  have tx: "pt_tx demo_pooled = EvNode \<lparr> signed_tx = sample_tx, signed_signature = sample_signature \<rparr>"
    by (simp add: demo_pooled_def)
  have slot: "None = Some 0 \<or> None = None \<and> cl_latest demo_client = Inr 0" by (simp add: demo_client_def)
  show ?thesis
    using validate_evnode_correct [OF tx refl slot, of ref_rlp demo_crypto "\<lambda>_. False"
        "\<lparr> val_deploy_allowlist = None \<rparr>" 11 "Some 9000000"]
    by (simp add: check_pool_allowlist_def sample_tx_def sample_signature_def recover_sponsor_def demo_crypto_def
        client_balance_def demo_client_def pool_gas_cost_def tx_value_def saturating_add_def)
qed

text \<open>The whole validation: a transaction is valid exactly when the base validator and the EV checks
  accept it; a sponsored one is then queued under the sponsor's balance, any other one under the
  sender's; a rejection by the base validator is passed on unchanged.\<close>

lemma validate_transaction_correct:
  "validate_transaction R K ec L V base t = ValidTx balance' tx' m' \<longleftrightarrow>
     (\<exists>balance slot override slot'. base t None = (ValidTx balance tx' m', slot) \<and>
        validate_evnode R K ec L V tx' balance slot = (Inr override, slot') \<and>
        balance' = (case override of Some b \<Rightarrow> b | None \<Rightarrow> balance))"
  by (auto simp: validate_transaction_def split: prod.splits validation_outcome.splits sum.splits)

text \<open>The wrapper keeps the transaction: from its pooled form an EvNode transaction enters the pool
  with its signer, presented as a type-2 transaction without a blob; it has no blob form, and
  taking the blob of a blob transaction leaves it marked missing.\<close>

lemma pooled_wrapper_correct:
  "pt_tx (from_pooled P (PooledEvNode ev) signer) = EvNode ev \<and>
   pt_signer (from_pooled P tx signer) = signer \<and>
   pt_encoded_length (from_pooled P tx signer) = po_encode_2718_len P tx \<and>
   pt_cost (from_pooled P tx signer) = po_cost P (pt_tx (from_pooled P tx signer)) \<and>
   pooled_ty P (from_pooled P (PooledEvNode ev) signer) = EIP1559_TX_TYPE_ID \<and>
   take_blob P (from_pooled P (PooledEvNode ev) signer) =
     (SidecarNone, from_pooled P (PooledEvNode ev) signer) \<and>
   pool_try_into_pooled_eip4844 P (from_pooled P (PooledEvNode ev) signer) b = None \<and>
   try_from_eip4844 P (EvNode ev) signer b = None \<and>
   (if pooled_ty P t = EIP4844_TX_TYPE_ID
    then fst (take_blob P t) = pt_blob_sidecar t \<and> pt_blob_sidecar (snd (take_blob P t)) = SidecarMissing
    else take_blob P t = (SidecarNone, t))"
  by (auto simp: from_pooled_def pooled_new_def pooled_ty_def take_blob_def EIP1559_TX_TYPE_ID_def
      EIP4844_TX_TYPE_ID_def pool_try_into_pooled_eip4844_def try_from_eip4844_def Let_def
      split: ev_pooled_tx_envelope.split option.split)

end
