(* ===== verification/Txpool_Builder.thy ===== *)
theory Txpool_Builder
  imports Txpool Evm_Config
begin

text \<open>
  The rest of \<open>crates/node/src/txpool.rs\<close>: what the pool sees of a pooled transaction (the
  \<open>PoolTransaction\<close>, \<open>Transaction\<close> and \<open>EthPoolTransaction\<close> implementations) and
  \<open>EvolvePoolBuilder::build_pool\<close>. Parameters: reth's \<open>EthPooledTransaction\<close> and its Ethereum
  transactions (\<open>eth_pool_view\<close>), the builder context (\<open>pool_ctx\<close>) with the blob store, the KZG
  settings and the pool reth starts. The property relates the pool built for a chain spec to the
  EVM factory built for it.
\<close>

section \<open>The pooled transaction\<close>

definition pooled_transaction :: "('eth, 'b) ev_pooled_transaction \<Rightarrow> 'eth ev_tx_envelope \<times> address" where
  "pooled_transaction t = (pt_tx t, pt_signer t)"

definition consensus_ref :: "('eth, 'b) ev_pooled_transaction \<Rightarrow> 'eth ev_tx_envelope \<times> address" where
  "consensus_ref t = (pt_tx t, pt_signer t)"

definition clone_into_consensus :: "('eth, 'b) ev_pooled_transaction \<Rightarrow> 'eth ev_tx_envelope \<times> address" where
  "clone_into_consensus t = pooled_transaction t"

definition into_consensus :: "('eth, 'b) ev_pooled_transaction \<Rightarrow> 'eth ev_tx_envelope \<times> address" where
  "into_consensus t = (pt_tx t, pt_signer t)"

text \<open>The transaction with its EIP-2718 bytes.\<close>

definition into_consensus_with2718 ::
    "('eth ev_tx_envelope \<Rightarrow> bytes) \<Rightarrow> ('eth, 'b) ev_pooled_transaction
       \<Rightarrow> bytes \<times> 'eth ev_tx_envelope \<times> address" where
  "into_consensus_with2718 encode_2718 t = (encode_2718 (pt_tx t), into_consensus t)"

definition pooled_hash :: "('eth, 'pooled) eth_ops \<Rightarrow> ('eth, 'b) ev_pooled_transaction \<Rightarrow> b256" where
  "pooled_hash E t = tx_hash E (pt_tx t)"

definition pooled_sender :: "('eth, 'b) ev_pooled_transaction \<Rightarrow> address" where
  "pooled_sender t = pt_signer t"

definition pooled_cost :: "('eth, 'b) ev_pooled_transaction \<Rightarrow> u256" where
  "pooled_cost t = pt_cost t"

definition pooled_encoded_length :: "('eth, 'b) ev_pooled_transaction \<Rightarrow> nat" where
  "pooled_encoded_length t = pt_encoded_length t"

text \<open>The view of an Ethereum transaction is that of reth; an EvNode transaction shows its own.\<close>

record 'eth eth_pool_view =
  pv_view :: "'eth \<Rightarrow> transaction_view"
  pv_effective_gas_price :: "'eth \<Rightarrow> u64 option \<Rightarrow> u128"

definition pooled_view ::
    "'eth eth_pool_view \<Rightarrow> ('eth, 'pooled, 'b) pooled_ops \<Rightarrow> ('eth, 'b) ev_pooled_transaction
       \<Rightarrow> transaction_view" where
  "pooled_view W P t =
     (case pt_tx t of Ethereum e \<Rightarrow> pv_view W e | EvNode ev \<Rightarrow> evnode_view (signed_tx ev))
       \<lparr> view_ty := pooled_ty P t \<rparr>"

definition pooled_effective_gas_price ::
    "'eth eth_pool_view \<Rightarrow> ('eth, 'b) ev_pooled_transaction \<Rightarrow> u64 option \<Rightarrow> u128" where
  "pooled_effective_gas_price W t base_fee =
     (case pt_tx t of
        Ethereum e \<Rightarrow> pv_effective_gas_price W e base_fee
      | EvNode ev \<Rightarrow> effective_gas_price (signed_tx ev) base_fee)"

datatype 'e blob_validation_error = NotBlobTransaction u8 | BlobInvalid 'e

definition validate_blob ::
    "('eth, 'pooled, 'b) pooled_ops \<Rightarrow> ('eth, 'b) ev_pooled_transaction \<Rightarrow> 'b
       \<Rightarrow> bool blob_validation_error + unit" where
  "validate_blob P t sidecar =
     (case pt_tx t of
        Ethereum e \<Rightarrow>
          (case po_validate_blob P e sidecar of
             Some r \<Rightarrow> map_err BlobInvalid r
           | None \<Rightarrow> Inl (NotBlobTransaction (pooled_ty P t)))
      | EvNode _ \<Rightarrow> Inl (NotBlobTransaction (pooled_ty P t)))"

section \<open>Building the pool\<close>

definition validator_new :: "deploy_allowlist_settings option \<Rightarrow> ev_validator" where
  "validator_new settings = \<lparr> val_deploy_allowlist = settings \<rparr>"

text \<open>The settings of reth's validator; \<open>es_balance_check\<close> is cleared by \<open>disable_balance_check\<close>.\<close>

record ('kzg, 'local) eth_validator =
  es_eip4844 :: bool
  es_kzg_settings :: 'kzg
  es_max_tx_input_bytes :: nat
  es_local_transactions :: 'local
  es_tx_fee_cap :: u128
  es_max_tx_gas_limit :: "u64 option"
  es_minimum_priority_fee :: "u128 option"
  es_balance_check :: bool
  es_additional_tasks :: nat

record ('kzg, 'local, 'store, 'pool) pool_ctx =
  cx_blob_cache_size :: "u32 option"
  cx_local_transactions :: 'local
  cx_blobpool_max_count :: nat
  cx_max_tx_input_bytes :: nat
  cx_rpc_tx_fee_cap :: u128
  cx_max_tx_gas_limit :: "u64 option"
  cx_minimum_priority_fee :: "u128 option"
  cx_additional_validation_tasks :: nat
  cx_unix_time :: "string + u64"
  cx_target_blob_count_at :: "u64 \<Rightarrow> u64 option"
  cx_cancun_target_blob_count :: u64
  cx_create_blob_store :: "u32 option \<Rightarrow> string + 'store"
  cx_kzg_settings :: "string + 'kzg"
  cx_extra :: "(string + chainspec_evolve_config) option"
  cx_spawn_pool :: "('kzg, 'local) eth_validator \<times> ev_validator \<Rightarrow> 'store \<Rightarrow> string + 'pool"

definition EPOCH_SLOTS :: u64 where
  "EPOCH_SLOTS = 32"

text \<open>The product wraps at 64 bits (a build without overflow checks) and \<open>as u32\<close> keeps the low bits.\<close>

definition blob_cache_size :: "('kzg, 'local, 'store, 'pool) pool_ctx \<Rightarrow> string + u32 option" where
  "blob_cache_size X =
     (case cx_blob_cache_size X of
        Some n \<Rightarrow> Inr (Some n)
      | None \<Rightarrow>
          and_then (cx_unix_time X) (\<lambda>current_timestamp.
            let target = (case cx_target_blob_count_at X current_timestamp of
                            Some n \<Rightarrow> n | None \<Rightarrow> cx_cancun_target_blob_count X)
            in Inr (Some (ucast (target * EPOCH_SLOTS * 2)))))"

text \<open>The pool with the validator in it; the last component tells whether the KZG settings are loaded in a task.\<close>

definition build_pool ::
    "('kzg, 'local, 'store, 'pool) pool_ctx
       \<Rightarrow> string + 'pool \<times> (('kzg, 'local) eth_validator \<times> ev_validator) \<times> bool" where
  "build_pool X =
     (let blobs_disabled = (cx_blobpool_max_count X = 0) in
      and_then (blob_cache_size X) (\<lambda>cache.
      and_then (cx_create_blob_store X cache) (\<lambda>blob_store.
      and_then (cx_kzg_settings X) (\<lambda>kzg.
        let inner = \<lparr> es_eip4844 = \<not> blobs_disabled, es_kzg_settings = kzg,
                      es_max_tx_input_bytes = cx_max_tx_input_bytes X,
                      es_local_transactions = cx_local_transactions X, es_tx_fee_cap = cx_rpc_tx_fee_cap X,
                      es_max_tx_gas_limit = cx_max_tx_gas_limit X,
                      es_minimum_priority_fee = cx_minimum_priority_fee X, es_balance_check = False,
                      es_additional_tasks = cx_additional_validation_tasks X \<rparr>;
            config = (case from_chain_spec (cx_extra X) of Inr c \<Rightarrow> c | Inl _ \<Rightarrow> evolve_config_new);
            validator = (inner, validator_new
              (map_option (\<lambda>(l, h). deploy_allowlist_new l h) (config_deploy_allowlist_settings config)))
        in and_then (cx_spawn_pool X validator blob_store) (\<lambda>pool.
             Inr (pool, validator, es_eip4844 (fst validator)))))))"

section \<open>Lemmas\<close>

text \<open>The pool treats an EvNode transaction as a dynamic-fee one that never carries a blob.\<close>

lemma pooled_view_evnode:
  assumes "pt_tx t = EvNode ev"
  shows "pooled_view W P t = (evnode_view (signed_tx ev)) \<lparr> view_ty := 2 \<rparr>"
    "validate_blob P t sc = Inl (NotBlobTransaction 2)"
    "pooled_effective_gas_price W t bf \<le> tx_max_fee_per_gas (signed_tx ev)"
  using assms effective_gas_price_correct [of "signed_tx ev" bf]
  by (simp_all add: pooled_view_def validate_blob_def pooled_ty_def EIP1559_TX_TYPE_ID_def pooled_effective_gas_price_def)

text \<open>All accessors hand out the same recovered transaction, the one the constructor was given.\<close>

lemma pooled_consensus_new:
  assumes "t = pooled_new P tx signer n"
  shows "consensus_ref t = (tx, signer)" "clone_into_consensus t = (tx, signer)" "into_consensus t = (tx, signer)"
    "snd (into_consensus_with2718 enc t) = (tx, signer)" "pooled_sender t = signer" "pooled_encoded_length t = n"
    "pooled_cost t = po_cost P tx"
  by (simp_all add: assms pooled_new_def consensus_ref_def clone_into_consensus_def pooled_transaction_def
      into_consensus_def into_consensus_with2718_def pooled_sender_def pooled_encoded_length_def pooled_cost_def)

lemma build_pool_validator:
  assumes "build_pool X = Inr (pool, validator, kzg)"
  shows "snd validator = pool_validator (cx_extra X)" "\<not> es_balance_check (fst validator)"
    "es_eip4844 (fst validator) \<longleftrightarrow> cx_blobpool_max_count X \<noteq> 0" "kzg \<longleftrightarrow> cx_blobpool_max_count X \<noteq> 0"
  using assms by (auto simp: build_pool_def Let_def ok_iff pool_validator_def validator_new_def)

lemma blob_cache_size_exact:
  assumes "cx_blob_cache_size X = None" "cx_unix_time X = Inr now" "cx_target_blob_count_at X now = Some target"
    and "unat target < 2 ^ 26"
  shows "\<exists>n. blob_cache_size X = Inr (Some n) \<and> unat n = 64 * unat target"
proof -
  have "unat (target * EPOCH_SLOTS * 2) = 64 * unat target"
    using assms(4) by (simp add: EPOCH_SLOTS_def unat_word_ariths)
  then have "unat (ucast (target * EPOCH_SLOTS * 2) :: u32) = 64 * unat target"
    using assms(4) by (simp add: unsigned_ucast_eq take_bit_nat_eq_self)
  then show ?thesis using assms(1-3) by (simp add: blob_cache_size_def)
qed

lemma check_deploy_cases: "check_deploy_allowed s a create n = Inr () \<or> check_deploy_allowed s a create n = Inl NotAllowed"
  by (simp add: check_deploy_allowed_def split: option.split)

lemma pool_check_at:
  assumes "cl_best_block_number L = Inr n"
  shows "check_pool_allowlist ec L V t =
    map_err (\<lambda>_. OtherPoolError DeployNotAllowed)
      (check_deploy_allowed (val_deploy_allowlist V) (pt_signer t) (is_top_level_create ec (pt_tx t)) n)"
  using assms by (simp add: check_pool_allowlist_def check_deploy_allowed_def split: option.split)

lemma handler_check_at:
  "ensure_deploy_allowed h c =
     map_err (\<lambda>_. CustomError ''contract deployment not allowed'')
       (check_deploy_allowed (hd_deploy_allowlist h) (te_caller (env_inner (ctx_tx c)))
         (te_kind (env_inner (ctx_tx c)) = TxCreate) (block_number_u64 (blk_number (ctx_block c))))"
  by (simp add: ensure_deploy_allowed_def deploy_allowlist_for_block_def check_deploy_allowed_def Let_def
      split: option.split)

text \<open>The environment the EVM runs a pooled transaction in has the sender and the creation the pool sees.\<close>

lemma pooled_env_create:
  assumes "env = from_recovered_tx R K T (pt_tx t) (pt_signer t)"
    and "\<And>e a. te_kind (eth_tx_env T e a) = TxCreate \<longleftrightarrow> ec e" "\<And>e a. te_caller (eth_tx_env T e a) = a"
    and "\<And>ev. pt_tx t = EvNode ev \<Longrightarrow> tx_calls (signed_tx ev) \<noteq> []"
  shows "te_caller (env_inner env) = pt_signer t"
    "te_kind (env_inner env) = TxCreate \<longleftrightarrow> is_top_level_create ec (pt_tx t)"
  using assms(2-4)
  by (cases "pt_tx t"; auto simp: assms(1) is_top_level_create_def ev_tx_env_new_def from_evnode_tx_def Let_def
      split: list.split)+

section \<open>Properties\<close>

text \<open>C23. The pool and the EVM of a node agree on who may deploy. For a chain spec the EVM configuration
  is built from, take the pool built from it and the EVM its factory makes for a block that is not before
  the best block of the pool. A transaction, with at least one call when it is an EvNode transaction, that
  the pool refuses by its allowlist at the best block is refused by the handler of that EVM before any
  state change; and unless the allowlist became active between the two blocks, the pool lets a
  transaction pass exactly when the handler does. Balances are left to the EV checks: reth's own
  balance check is off.\<close>

theorem pool_deploy_policy:
  fixes J :: "('j, 'cp, 'd) journal_ops" and B :: "('db, 'j, 'p) evm_parts"
  assumes pool: "build_pool X = Inr (pool, (inner, validator), kzg)"
    and evm: "build_evm_config (cx_extra X) = Inr f" "e = tx_factory_create_evm B f db env"
    and blocks: "cl_best_block_number L = Inr n" "block_number_u64 (blk_number (fe_block env)) = m" "n \<le> m"
    and tx: "c = (rv_ctx (ee_inner e)) \<lparr> ctx_tx := from_recovered_tx R K T (pt_tx t) (pt_signer t) \<rparr>"
    and eth: "\<And>e a. te_kind (eth_tx_env T e a) = TxCreate \<longleftrightarrow> ec e" "\<And>e a. te_caller (eth_tx_env T e a) = a"
    and calls: "\<And>ev. pt_tx t = EvNode ev \<Longrightarrow> tx_calls (signed_tx ev) \<noteq> []"
  shows "(check_pool_allowlist ec L validator t = Inl (OtherPoolError DeployNotAllowed) \<longrightarrow>
      validate_against_state_and_deduct_caller J F (handler_of e) c =
        (Inl (CustomError ''contract deployment not allowed''), c)) \<and>
    ((\<forall>s. fac_deploy_allowlist f = Some s \<longrightarrow> activation_height s \<le> m \<longrightarrow> activation_height s \<le> n) \<longrightarrow>
     (check_pool_allowlist ec L validator t = Inr () \<longleftrightarrow>
      (ensure_deploy_allowed (handler_of e) c :: 'd evm_error + unit) = Inr ())) \<and>
    \<not> es_balance_check inner"
proof -
  let ?check = "check_deploy_allowed (fac_deploy_allowlist f) (pt_signer t) (is_top_level_create ec (pt_tx t))"
  have "val_deploy_allowlist validator = fac_deploy_allowlist f"
    using build_pool_validator(1) [OF pool] evm(1)
    by (auto simp: pool_validator_def build_evm_config_def ok_iff factory_new_def)
  then have in_pool: "check_pool_allowlist ec L validator t = map_err (\<lambda>_. OtherPoolError DeployNotAllowed) (?check n)"
    unfolding pool_check_at [OF blocks(1)] by simp
  have made: "hd_deploy_allowlist (handler_of e) = fac_deploy_allowlist f" "ctx_block (rv_ctx (ee_inner e)) = fe_block env"
    using factory_activation [OF evm(2) [unfolded tx_factory_create_evm_def] refl] by simp_all
  note pooled = pooled_env_create [where t = t and R = R and K = K, OF refl eth calls]
  have in_evm: "(ensure_deploy_allowed (handler_of e) c :: 'd evm_error + unit) =
      map_err (\<lambda>_. CustomError ''contract deployment not allowed'') (?check m)"
    unfolding handler_check_at using made pooled blocks(2) by (simp add: tx)
  have refused: "?check m = Inl NotAllowed" if "?check n = Inl NotAllowed"
    using that blocks(3) by (auto simp: check_deploy_allowed_def is_active_def split: option.splits if_splits)
  have same: "?check m = ?check n"
    if "\<forall>s. fac_deploy_allowlist f = Some s \<longrightarrow> activation_height s \<le> m \<longrightarrow> activation_height s \<le> n"
    using that blocks(3) by (auto simp: check_deploy_allowed_def is_active_def split: option.splits)
  have "check_pool_allowlist ec L validator t = Inl (OtherPoolError DeployNotAllowed) \<Longrightarrow>
      validate_against_state_and_deduct_caller J F (handler_of e) c =
        (Inl (CustomError ''contract deployment not allowed''), c)"
    using check_deploy_cases [of "fac_deploy_allowlist f" "pt_signer t" "is_top_level_create ec (pt_tx t)" n] in_evm
    by (auto simp: in_pool refused validate_against_state_and_deduct_caller_def st_bind_def st_then_def st_run_simps)
  moreover have "check_pool_allowlist ec L validator t = Inr () \<longleftrightarrow>
      (ensure_deploy_allowed (handler_of e) c :: 'd evm_error + unit) = Inr ()"
    if "\<forall>s. fac_deploy_allowlist f = Some s \<longrightarrow> activation_height s \<le> m \<longrightarrow> activation_height s \<le> n"
    unfolding in_pool in_evm same [OF that] by (cases "?check n") simp_all
  ultimately show ?thesis using build_pool_validator(2) [OF pool] by auto
qed

definition demo_pool_ctx :: "(unit, unit, unit, unit) pool_ctx" where
  "demo_pool_ctx =
     \<lparr> cx_blob_cache_size = None, cx_local_transactions = (), cx_blobpool_max_count = 0, cx_max_tx_input_bytes = 131072,
       cx_rpc_tx_fee_cap = 1, cx_max_tx_gas_limit = None, cx_minimum_priority_fee = None,
       cx_additional_validation_tasks = 1, cx_unix_time = Inr 1700000000, cx_target_blob_count_at = (\<lambda>_. Some 6),
       cx_cancun_target_blob_count = 3, cx_create_blob_store = (\<lambda>_. Inr ()), cx_kzg_settings = Inr (),
       cx_extra = Some (Inr demo_extras), cx_spawn_pool = (\<lambda>_ _. Inr ()) \<rparr>"

definition demo_deploy :: "(ref_eth, unit) ev_pooled_transaction" where
  "demo_deploy =
     \<lparr> pt_tx = EvNode \<lparr> signed_tx = sample_tx \<lparr> tx_calls := [\<lparr> call_to = TxCreate, call_value = 0, call_input = [1] \<rparr>] \<rparr>,
                        signed_signature = sample_signature \<rparr>,
       pt_signer = 7, pt_encoded_length = 100, pt_cost = 0, pt_blob_sidecar = SidecarNone \<rparr>"

text \<open>A deployment by account 7, which is not on the allowlist of the sample settings: block 12 refuses it.\<close>

definition demo_ref_parts :: "(ref_journal, ref_journal, string) evm_parts" where
  "demo_ref_parts =
     \<lparr> new_journal = (\<lambda>db s. db), standard_precompiles = standard_precompiles demo_parts,
       default_ev_tx_env = default_ev_tx_env demo_parts \<rparr>"

definition demo_db :: ref_journal where
  "demo_db = \<lparr> rj_accounts = (\<lambda>_. \<lparr> ai_balance = 0, ai_nonce = 0, ai_code = None \<rparr>), rj_stack = [], rj_broken = [] \<rparr>"

definition demo_env_ops :: "ref_eth tx_env_ops" where
  "demo_env_ops =
     (let inner = env_inner (default_ev_tx_env demo_parts) \<lparr> te_kind := TxCall 0 \<rparr> in
      \<lparr> default_tx_env = inner, eth_tx_env = (\<lambda>e a. inner \<lparr> te_caller := a \<rparr>), build_tx_env = (\<lambda>a d k g. Some inner) \<rparr>)"

definition demo_block12 :: evm_env where
  "demo_block12 = demo_evm_env \<lparr> fe_block := (fe_block demo_evm_env) \<lparr> blk_number := 12 \<rparr> \<rparr>"

theorem pool_deploy_policy_witness:
  "\<exists>f pool v kzg c'. build_pool demo_pool_ctx = Inr (pool, v, kzg) \<and> build_evm_config (cx_extra demo_pool_ctx) = Inr f \<and>
     check_pool_allowlist (\<lambda>_. False) demo_client (snd v) demo_deploy = Inl (OtherPoolError DeployNotAllowed) \<and>
     validate_against_state_and_deduct_caller ref_journal_ops ref_fees
       (handler_of (tx_factory_create_evm demo_ref_parts f demo_db demo_block12)) c' =
       (Inl (CustomError ''contract deployment not allowed''), c')"
proof -
  obtain pool inner validator kzg where pool: "build_pool demo_pool_ctx = Inr (pool, (inner, validator), kzg)"
    by (auto simp: build_pool_def demo_pool_ctx_def blob_cache_size_def Let_def)
  have v: "validate_config (from_extras demo_extras) = Inr ()"
    by (simp add: validate_config_def validate_deploy_allowlist_def from_extras_def demo_extras_def Let_def
        check_entries_ok_iff MAX_DEPLOY_ALLOWLIST_LEN_def)
  have evm: "\<exists>f. build_evm_config (cx_extra demo_pool_ctx) = Inr f \<and>
      fac_deploy_allowlist f = Some (deploy_allowlist_new [4, 2, 9] 0)"
    by (simp add: build_evm_config_def demo_pool_ctx_def from_chain_spec_def v factory_new_def from_extras_allowlist)
      (simp add: demo_extras_def)
  then obtain f where f: "build_evm_config (cx_extra demo_pool_ctx) = Inr f"
      "fac_deploy_allowlist f = Some (deploy_allowlist_new [4, 2, 9] 0)" by blast
  let ?e = "tx_factory_create_evm demo_ref_parts f demo_db demo_block12"
  let ?c = "(rv_ctx (ee_inner ?e)) \<lparr> ctx_tx := from_recovered_tx ref_rlp demo_crypto demo_env_ops (pt_tx demo_deploy)
    (pt_signer demo_deploy) \<rparr>"
  have b: "cl_best_block_number demo_client = Inr 10" "block_number_u64 (blk_number (fe_block demo_block12)) = 12"
      "(10 :: u64) \<le> 12"
    by (simp_all add: demo_client_def demo_block12_def block_number_u64_def)
  have "snd (inner, validator) = validator_new (Some (deploy_allowlist_new [4, 2, 9] 0))"
    using build_pool_validator(1) [OF pool] f
    by (auto simp: pool_validator_def build_evm_config_def ok_iff factory_new_def validator_new_def)
  then have r: "check_pool_allowlist (\<lambda>_. False) demo_client validator demo_deploy = Inl (OtherPoolError DeployNotAllowed)"
    by (simp add: pool_check_at [OF b(1)] validator_new_def demo_deploy_def is_top_level_create_def
        check_deploy_allowed_def is_active_new is_allowed_new permits_def)
  have eth: "te_kind (eth_tx_env demo_env_ops e a) = TxCreate \<longleftrightarrow> (\<lambda>_. False) e" "te_caller (eth_tx_env demo_env_ops e a) = a"
    for e a by (simp_all add: demo_env_ops_def Let_def)
  have calls: "tx_calls (signed_tx ev) \<noteq> []" if "pt_tx demo_deploy = EvNode ev" for ev
    using that by (auto simp: demo_deploy_def)
  have "validate_against_state_and_deduct_caller ref_journal_ops ref_fees (handler_of ?e) ?c =
      (Inl (CustomError ''contract deployment not allowed''), ?c)"
    by (rule mp [OF conjunct1 [OF pool_deploy_policy [OF pool f(1) refl b refl eth calls]] r])
  then show ?thesis using pool f(1) r
    by - (rule exI [of _ f], rule exI [of _ pool], rule exI [of _ "(inner, validator)"], rule exI [of _ kzg],
      rule exI [of _ ?c], simp)
qed

end
