(* ===== verification/Txpool_Rpc.thy ===== *)
theory Txpool_Rpc
  imports Prelude
begin

text \<open>
  Transaction selection for the sequencer: \<open>crates/evolve/src/rpc/txpool.rs\<close> and
  \<open>crates/evolve/src/config.rs\<close>. \<open>get_txs\<close> takes pool transactions in priority order until the byte
  or the gas cap would be exceeded; the gas cap is a global that the payload builder sets. The
  pool's best-first iterator is the list argument. Sums are 64-bit and wrap as in the source; the
  properties assume the pool's total fits.
\<close>

section \<open>Configuration\<close>

definition DEFAULT_MAX_TXPOOL_BYTES :: u64 where
  "DEFAULT_MAX_TXPOOL_BYTES = 1939865"

definition DEFAULT_MAX_TXPOOL_GAS :: u64 where
  "DEFAULT_MAX_TXPOOL_GAS = 30000000"

record evolve_rpc_config =
  max_txpool_bytes :: u64
  max_txpool_gas :: u64

definition rpc_config_default :: evolve_rpc_config where
  "rpc_config_default =
     \<lparr> max_txpool_bytes = DEFAULT_MAX_TXPOOL_BYTES, max_txpool_gas = DEFAULT_MAX_TXPOOL_GAS \<rparr>"

definition rpc_config_new :: "u64 \<Rightarrow> evolve_rpc_config" where
  "rpc_config_new b = \<lparr> max_txpool_bytes = b, max_txpool_gas = DEFAULT_MAX_TXPOOL_GAS \<rparr>"

definition rpc_config_new_with_gas :: "u64 \<Rightarrow> u64 \<Rightarrow> evolve_rpc_config" where
  "rpc_config_new_with_gas b g = \<lparr> max_txpool_bytes = b, max_txpool_gas = g \<rparr>"

text \<open>\<open>CURRENT_BLOCK_GAS_LIMIT\<close>, the only state shared between the builder and the RPC.\<close>

record globals =
  CURRENT_BLOCK_GAS_LIMIT :: u64

definition initial_globals :: globals where
  "initial_globals = \<lparr> CURRENT_BLOCK_GAS_LIMIT = DEFAULT_MAX_TXPOOL_GAS \<rparr>"

definition set_current_block_gas_limit :: "u64 \<Rightarrow> globals \<Rightarrow> globals" where
  "set_current_block_gas_limit g s = s \<lparr> CURRENT_BLOCK_GAS_LIMIT := g \<rparr>"

definition current_block_gas_limit :: "globals \<Rightarrow> u64" where
  "current_block_gas_limit s = CURRENT_BLOCK_GAS_LIMIT s"

section \<open>Selection\<close>

record pool_entry =
  pe_encoded :: bytes
  pe_encoded_length :: nat
  pe_gas_limit :: u64

fun select_txs :: "u64 \<Rightarrow> u64 \<Rightarrow> u64 \<Rightarrow> u64 \<Rightarrow> pool_entry list \<Rightarrow> bytes list" where
  "select_txs max_bytes gas_cap total_bytes total_gas [] = []"
| "select_txs max_bytes gas_cap total_bytes total_gas (t # ts) =
     (let sz = of_nat (pe_encoded_length t); gas = pe_gas_limit t in
      if 0 < max_bytes \<and> max_bytes < total_bytes + sz then []
      else if 0 < gas_cap \<and> gas_cap < total_gas + gas then []
      else pe_encoded t # select_txs max_bytes gas_cap (total_bytes + sz) (total_gas + gas) ts)"

definition get_txs :: "u64 \<Rightarrow> pool_entry list \<Rightarrow> globals \<Rightarrow> bytes list" where
  "get_txs max_bytes best s = select_txs max_bytes (current_block_gas_limit s) 0 0 best"

section \<open>Specification\<close>

definition bytes_of :: "pool_entry list \<Rightarrow> nat" where
  "bytes_of ts = (\<Sum>t\<leftarrow>ts. pe_encoded_length t)"

definition gas_of :: "pool_entry list \<Rightarrow> nat" where
  "gas_of ts = (\<Sum>t\<leftarrow>ts. unat (pe_gas_limit t))"

definition within :: "nat \<Rightarrow> nat \<Rightarrow> pool_entry list \<Rightarrow> bool" where
  "within max_bytes gas_cap ts \<longleftrightarrow>
     (max_bytes = 0 \<or> bytes_of ts \<le> max_bytes) \<and> (gas_cap = 0 \<or> gas_of ts \<le> gas_cap)"

definition pool_fits :: "pool_entry list \<Rightarrow> bool" where
  "pool_fits ts \<longleftrightarrow> bytes_of ts < 2 ^ 64 \<and> gas_of ts < 2 ^ 64"

text \<open>The longest prefix within the caps.\<close>

definition best_prefix :: "nat \<Rightarrow> nat \<Rightarrow> pool_entry list \<Rightarrow> pool_entry list \<Rightarrow> bool" where
  "best_prefix max_bytes gas_cap ts out \<longleftrightarrow>
     (\<exists>k. out = take k ts \<and> k \<le> length ts \<and> within max_bytes gas_cap (take k ts) \<and>
        (k < length ts \<longrightarrow> \<not> within max_bytes gas_cap (take (Suc k) ts)))"

lemma bytes_gas_append [simp]:
  "bytes_of (xs @ ys) = bytes_of xs + bytes_of ys" "gas_of (xs @ ys) = gas_of xs + gas_of ys"
  "bytes_of (t # ts) = pe_encoded_length t + bytes_of ts" "gas_of (t # ts) = unat (pe_gas_limit t) + gas_of ts"
  "bytes_of [] = 0" "gas_of [] = 0"
  by (simp_all add: bytes_of_def gas_of_def)

lemma select_txs_prefix:
  assumes "pool_fits (pre @ ts)" "within (unat mb) (unat gc) pre"
    and "unat tb = bytes_of pre" "unat tg = gas_of pre"
  shows "\<exists>k. select_txs mb gc tb tg ts = map pe_encoded (take k ts) \<and> k \<le> length ts \<and>
    within (unat mb) (unat gc) (pre @ take k ts) \<and>
    (k < length ts \<longrightarrow> \<not> within (unat mb) (unat gc) (pre @ take (Suc k) ts))"
  using assms
proof (induction ts arbitrary: pre tb tg)
  case Nil
  then show ?case by simp
next
  case (Cons t ts)
  let ?sz = "of_nat (pe_encoded_length t) :: u64"
  have sz: "unat ?sz = pe_encoded_length t"
    using Cons.prems(1) by (simp add: pool_fits_def unat_of_nat)
  have tb: "unat (tb + ?sz) = bytes_of (pre @ [t])"
    using Cons.prems(1,3) sz by (simp add: pool_fits_def unat_add_exact)
  have tg: "unat (tg + pe_gas_limit t) = gas_of (pre @ [t])"
    using Cons.prems(1,4) by (simp add: pool_fits_def unat_add_exact)
  have stop: "(0 < mb \<and> mb < tb + ?sz) \<or> (0 < gc \<and> gc < tg + pe_gas_limit t) \<longleftrightarrow>
      \<not> within (unat mb) (unat gc) (pre @ [t])"
    using tb tg by (auto simp: within_def word_less_nat_alt not_le)
  show ?case
  proof (cases "within (unat mb) (unat gc) (pre @ [t])")
    case True
    then obtain k where "select_txs mb gc (tb + ?sz) (tg + pe_gas_limit t) ts = map pe_encoded (take k ts)"
      "k \<le> length ts" "within (unat mb) (unat gc) ((pre @ [t]) @ take k ts)"
      "k < length ts \<longrightarrow> \<not> within (unat mb) (unat gc) ((pre @ [t]) @ take (Suc k) ts)"
      using Cons.IH [of "pre @ [t]" "tb + ?sz" "tg + pe_gas_limit t"] Cons.prems(1) tb tg by auto
    then show ?thesis using True stop by (intro exI [of _ "Suc k"]) (auto simp: Let_def)
  next
    case False
    then show ?thesis using stop Cons.prems(2) by (intro exI [of _ 0]) (auto simp: Let_def)
  qed
qed

lemma get_txs_best_prefix:
  assumes "pool_fits best"
  shows "\<exists>out. best_prefix (unat mb) (unat (CURRENT_BLOCK_GAS_LIMIT s)) best out \<and>
    get_txs mb best s = map pe_encoded out"
proof -
  obtain k where "select_txs mb (CURRENT_BLOCK_GAS_LIMIT s) 0 0 best = map pe_encoded (take k best)"
    "k \<le> length best" "within (unat mb) (unat (CURRENT_BLOCK_GAS_LIMIT s)) (take k best)"
    "k < length best \<longrightarrow> \<not> within (unat mb) (unat (CURRENT_BLOCK_GAS_LIMIT s)) (take (Suc k) best)"
    using select_txs_prefix [of "[]" best mb "CURRENT_BLOCK_GAS_LIMIT s" 0 0] assms
    by (auto simp: within_def)
  then show ?thesis
    by (intro exI [of _ "take k best"]) (auto simp: get_txs_def current_block_gas_limit_def best_prefix_def)
qed

section \<open>Properties\<close>

text \<open>C39. \<open>get_txs\<close> returns the longest prefix of the best transactions whose encoded size and gas stay
  within the configured caps, a cap of 0 meaning none: it takes transactions in priority order,
  skips none, and stops only at one that would exceed a cap.\<close>

theorem get_txs_longest_prefix:
  assumes "pool_fits best"
  shows "\<exists>out. get_txs mb best s = map pe_encoded out \<and>
    best_prefix (unat mb) (unat (current_block_gas_limit s)) best out"
  using get_txs_best_prefix [OF assms, of mb s] by (auto simp: current_block_gas_limit_def)

definition demo_best :: "pool_entry list" where
  "demo_best = [\<lparr> pe_encoded = [1], pe_encoded_length = 100, pe_gas_limit = 21000 \<rparr>,
                \<lparr> pe_encoded = [2], pe_encoded_length = 100, pe_gas_limit = 40000000 \<rparr>,
                \<lparr> pe_encoded = [3], pe_encoded_length = 100, pe_gas_limit = 21000 \<rparr>]"

theorem get_txs_longest_prefix_witness:
  "get_txs 1000 demo_best initial_globals = [[1]] \<and>
   (\<exists>out. get_txs 1000 demo_best initial_globals = map pe_encoded out \<and>
     best_prefix 1000 30000000 demo_best out)"
proof -
  have "pool_fits demo_best" by (simp add: pool_fits_def demo_best_def)
  from get_txs_longest_prefix [OF this, of 1000 initial_globals] show ?thesis
    by (simp add: get_txs_def demo_best_def initial_globals_def current_block_gas_limit_def
        DEFAULT_MAX_TXPOOL_GAS_def)
qed

end
