(* ===== verification/Consensus.thy ===== *)
theory Consensus
  imports Evm_Config
begin

text \<open>
  The consensus rules of \<open>crates/evolve/src/consensus.rs\<close>. \<open>EvolveConsensus\<close> wraps reth's beacon
  consensus and replaces the check of a header against its parent by one that lets two blocks
  share a timestamp. The checks of reth it calls are the parameter \<open>consensus_ops\<close>; the locale
  \<open>parent_checks\<close> states what reth documents of the check of hash and number.
\<close>

section \<open>Data and operations\<close>

record sealed_header =
  sh_header :: header
  sh_hash :: b256

datatype consensus_error = TimestampIsInPast u64 u64 | RethConsensusError string

record ('body, 'block, 'result, 'bloom) consensus_ops =
  against_parent_hash_number :: "header \<Rightarrow> sealed_header \<Rightarrow> consensus_error + unit"
  against_parent_gas_limit :: "sealed_header \<Rightarrow> sealed_header \<Rightarrow> consensus_error + unit"
  against_parent_eip1559_base_fee :: "header \<Rightarrow> header \<Rightarrow> consensus_error + unit"
  body_against_header :: "'body \<Rightarrow> header \<Rightarrow> consensus_error + unit"
  inner_validate_header :: "sealed_header \<Rightarrow> consensus_error + unit"
  inner_pre_execution :: "'block \<Rightarrow> consensus_error + unit"
  inner_post_execution :: "'block \<Rightarrow> 'result \<Rightarrow> 'bloom option \<Rightarrow> consensus_error + unit"

definition validate_header ::
    "('body, 'block, 'result, 'bloom) consensus_ops \<Rightarrow> sealed_header \<Rightarrow> consensus_error + unit" where
  "validate_header V h = inner_validate_header V h"

definition validate_header_against_parent ::
    "('body, 'block, 'result, 'bloom) consensus_ops \<Rightarrow> sealed_header \<Rightarrow> sealed_header
       \<Rightarrow> consensus_error + unit" where
  "validate_header_against_parent V child parent =
     and_then (against_parent_hash_number V (sh_header child) parent) (\<lambda>_.
     (let h = sh_header child; ph = sh_header parent in
      if hdr_timestamp h < hdr_timestamp ph
        then Inl (TimestampIsInPast (hdr_timestamp ph) (hdr_timestamp h))
        else
          and_then (against_parent_gas_limit V child parent) (\<lambda>_.
          and_then (against_parent_eip1559_base_fee V h ph) (\<lambda>_. Inr ()))))"

definition validate_body_against_header ::
    "('body, 'block, 'result, 'bloom) consensus_ops \<Rightarrow> 'body \<Rightarrow> sealed_header \<Rightarrow> consensus_error + unit" where
  "validate_body_against_header V body h = body_against_header V body (sh_header h)"

definition validate_block_pre_execution ::
    "('body, 'block, 'result, 'bloom) consensus_ops \<Rightarrow> 'block \<Rightarrow> consensus_error + unit" where
  "validate_block_pre_execution V block = inner_pre_execution V block"

definition validate_block_post_execution ::
    "('body, 'block, 'result, 'bloom) consensus_ops \<Rightarrow> 'block \<Rightarrow> 'result \<Rightarrow> 'bloom option
       \<Rightarrow> consensus_error + unit" where
  "validate_block_post_execution V block result bloom = inner_post_execution V block result bloom"

section \<open>Chains of accepted headers\<close>

text \<open>
  The headers a node may hold above a trusted header: each new head is accepted alone and
  against the head before it. The newest header is first.
\<close>

inductive accepted_chain ::
    "('body, 'block, 'result, 'bloom) consensus_ops \<Rightarrow> sealed_header \<Rightarrow> sealed_header list \<Rightarrow> bool"
  for V g where
  genesis: "accepted_chain V g [g]"
| extend: "accepted_chain V g (p # ps) \<Longrightarrow> validate_header V h = Inr () \<Longrightarrow>
    validate_header_against_parent V h p = Inr () \<Longrightarrow> accepted_chain V g (h # p # ps)"

inductive_cases accepted_chain_ConsE: "accepted_chain V g (h # p # ps)"

lemma validate_header_against_parent_ok [ok_iff]:
  "validate_header_against_parent V h p = Inr () \<longleftrightarrow>
     against_parent_hash_number V (sh_header h) p = Inr () \<and>
     hdr_timestamp (sh_header p) \<le> hdr_timestamp (sh_header h) \<and>
     against_parent_gas_limit V h p = Inr () \<and>
     against_parent_eip1559_base_fee V (sh_header h) (sh_header p) = Inr ()"
  by (auto simp: validate_header_against_parent_def Let_def ok_iff not_less split: if_splits)

locale parent_checks =
  fixes V :: "('body, 'block, 'result, 'bloom) consensus_ops"
  assumes hash_number: "against_parent_hash_number V h p = Inr () \<longleftrightarrow>
      hdr_number h = hdr_number (sh_header p) + 1 \<and> hdr_parent_hash h = sh_hash p"
begin

lemma chain_links:
  "accepted_chain V g hs \<Longrightarrow> Suc i < length hs \<Longrightarrow>
     hdr_number (sh_header (hs ! i)) = hdr_number (sh_header (hs ! Suc i)) + 1 \<and>
     hdr_parent_hash (sh_header (hs ! i)) = sh_hash (hs ! Suc i) \<and>
     hdr_timestamp (sh_header (hs ! Suc i)) \<le> hdr_timestamp (sh_header (hs ! i))"
proof (induction arbitrary: i rule: accepted_chain.induct)
  case genesis
  then show ?case by simp
next
  case (extend p ps h)
  then show ?case by (cases i) (auto simp: ok_iff hash_number)
qed

lemma chain_numbers_and_times:
  "accepted_chain V g hs \<Longrightarrow> i \<le> j \<Longrightarrow> j < length hs \<Longrightarrow>
     hdr_number (sh_header (hs ! i)) = hdr_number (sh_header (hs ! j)) + of_nat (j - i) \<and>
     hdr_timestamp (sh_header (hs ! j)) \<le> hdr_timestamp (sh_header (hs ! i))"
proof (induction "j - i" arbitrary: j)
  case 0
  then show ?case by simp
next
  case (Suc d)
  then obtain k where k: "j = Suc k" "i \<le> k" by (cases j) auto
  have "hdr_number (sh_header (hs ! i)) = hdr_number (sh_header (hs ! k)) + of_nat (k - i) \<and>
      hdr_timestamp (sh_header (hs ! k)) \<le> hdr_timestamp (sh_header (hs ! i))"
    using Suc k by (intro Suc.hyps(1)) auto
  with chain_links [OF Suc.prems(1), of k] Suc.prems(3) k show ?case
    by (auto simp: Suc_diff_le)
qed

end

text \<open>Reth's checks of hash and number, and a gas limit and base fee that always pass.\<close>

definition plain_consensus_ops :: "(unit, unit, unit, unit) consensus_ops" where
  "plain_consensus_ops =
     \<lparr> against_parent_hash_number = (\<lambda>h p.
         if hdr_number h \<noteq> hdr_number (sh_header p) + 1 then Inl (RethConsensusError ''ParentBlockNumberMismatch'')
         else if hdr_parent_hash h \<noteq> sh_hash p then Inl (RethConsensusError ''ParentHashMismatch'')
         else Inr ()),
       against_parent_gas_limit = (\<lambda>h p. Inr ()),
       against_parent_eip1559_base_fee = (\<lambda>h p. Inr ()),
       body_against_header = (\<lambda>b h. Inr ()),
       inner_validate_header = (\<lambda>h. if hdr_gas_limit (sh_header h) < hdr_gas_used (sh_header h)
                                    then Inl (RethConsensusError ''HeaderGasUsedExceedsGasLimit'') else Inr ()),
       inner_pre_execution = (\<lambda>b. Inr ()),
       inner_post_execution = (\<lambda>b r x. Inr ()) \<rparr>"

interpretation plain: parent_checks plain_consensus_ops
  by unfold_locales (simp add: plain_consensus_ops_def)

section \<open>Properties\<close>

text \<open>C24. Along a chain of accepted headers the block numbers are consecutive, every header names the
  hash of its predecessor and timestamps never decrease; and nothing more is asked of timestamps:
  a header with its parent's timestamp is accepted whenever the other checks of reth accept it,
  while an earlier one is refused once hash and number match.\<close>

theorem accepted_chain_ordered:
  fixes V :: "('body, 'block, 'result, 'bloom) consensus_ops"
  assumes "parent_checks V" "accepted_chain V g hs" "i \<le> j" "j < length hs"
  shows "hdr_number (sh_header (hs ! i)) = hdr_number (sh_header (hs ! j)) + of_nat (j - i) \<and>
    hdr_timestamp (sh_header (hs ! j)) \<le> hdr_timestamp (sh_header (hs ! i)) \<and>
    (if i < j then hdr_parent_hash (sh_header (hs ! i)) = sh_hash (hs ! Suc i) else True) \<and>
    (if against_parent_hash_number V (sh_header h) (hs ! 0) = Inr () then
       (if hdr_timestamp (sh_header (hs ! 0)) \<le> hdr_timestamp (sh_header h)
        then (accepted_chain V g (h # hs) \<longleftrightarrow>
                validate_header V h = Inr () \<and> against_parent_gas_limit V h (hs ! 0) = Inr () \<and>
                against_parent_eip1559_base_fee V (sh_header h) (sh_header (hs ! 0)) = Inr ())
        else validate_header_against_parent V h (hs ! 0) =
               Inl (TimestampIsInPast (hdr_timestamp (sh_header (hs ! 0))) (hdr_timestamp (sh_header h))))
     else \<not> accepted_chain V g (h # hs))"
proof -
  obtain p ps where hs: "hs = p # ps" using assms(2) by (cases rule: accepted_chain.cases) auto
  have ext: "accepted_chain V g (h # p # ps) \<longleftrightarrow>
      validate_header V h = Inr () \<and> validate_header_against_parent V h p = Inr ()"
    using assms(2) by (auto simp: hs elim: accepted_chain_ConsE intro: accepted_chain.extend)
  show ?thesis
    using assms parent_checks.chain_numbers_and_times [OF assms]
      parent_checks.chain_links [OF assms(1,2), of i]
    by (cases "i < j") (simp_all add: ext hs ok_iff, simp_all add: validate_header_against_parent_def Let_def not_le)
qed

definition demo_sealed :: "u64 \<Rightarrow> u64 \<Rightarrow> sealed_header" where
  "demo_sealed n t =
     \<lparr> sh_header = demo_header \<lparr> hdr_number := n, hdr_timestamp := t, hdr_parent_hash := ucast n \<rparr>,
       sh_hash = ucast (n + 1) \<rparr>"

theorem accepted_chain_ordered_witness:
  "accepted_chain plain_consensus_ops (demo_sealed 1 10) [demo_sealed 3 12, demo_sealed 2 10, demo_sealed 1 10] \<and>
   hdr_number (sh_header (demo_sealed 3 12)) = hdr_number (sh_header (demo_sealed 1 10)) + of_nat (2 - 0) \<and>
   validate_header_against_parent plain_consensus_ops (demo_sealed 4 11) (demo_sealed 3 12) =
     Inl (TimestampIsInPast 12 11)"
proof -
  let ?hs = "[demo_sealed 3 12, demo_sealed 2 10, demo_sealed 1 10]"
  have c: "accepted_chain plain_consensus_ops (demo_sealed 1 10) ?hs"
    by (intro accepted_chain.intros)
      (simp_all add: ok_iff plain_consensus_ops_def demo_sealed_def demo_header_def validate_header_def)
  have "parent_checks plain_consensus_ops" by (rule plain.parent_checks_axioms)
  from accepted_chain_ordered [OF this c, of 0 2 "demo_sealed 4 11"] c show ?thesis
    by (simp add: plain_consensus_ops_def demo_sealed_def demo_header_def)
qed

end
