(* ===== verification/Block_Executor.thy ===== *)
theory Block_Executor
  imports Evm_Config
begin

text \<open>
  The block executor of \<open>crates/node/src/evm_executor.rs\<close>: system calls before a block, one
  transaction at a time (run, then commit), and what is done at the end of a block. The EVM with
  its database, the fork schedule and alloy's helpers are parameters: \<open>evm_ops\<close> and \<open>block_ops\<close>.
  The state hook is an observer; the notifications it receives are kept as a list.
\<close>

section \<open>Data\<close>

text \<open>\<open>ResultGas\<close>, the execution result, and \<open>EvTxResult\<close> with the state changes \<open>'st\<close>.\<close>

record result_gas =
  rg_tx_gas_used :: u64
  rg_block_regular_gas_used :: u64
  rg_block_state_gas_used :: u64

record 'log exec_result =
  er_success :: bool
  er_logs :: "'log list"
  er_gas :: result_gas

record ('log, 'st) ev_tx_result =
  tr_result :: "'log exec_result"
  tr_state :: 'st
  tr_blob_gas_used :: u64
  tr_tx_type :: ev_tx_type

record 'log receipt =
  rc_tx_type :: ev_tx_type
  rc_success :: bool
  rc_cumulative_gas_used :: u64
  rc_logs :: "'log list"

text \<open>What is read of a transaction: its gas limit, blob gas, type and hash.\<close>

record 'env executable_tx =
  xt_env :: 'env
  xt_gas_limit :: u64
  xt_blob_gas_used :: "u64 option"
  xt_tx_type :: ev_tx_type
  xt_trie_hash :: b256

datatype 'err block_execution_error =
    TransactionGasLimitMoreThanAvailableBlockGas u64 u64
  | EvmFailure 'err b256
  | IncrementBalanceFailed
  | SystemCallFailed 'err

datatype state_change_source = SourceTransaction nat | PostBlockBalanceIncrements | SystemSource string

type_synonym balance_increments = "address \<Rightarrow> u128 option"

type_synonym requests = "(u8 \<times> bytes) list"

record ('evm, 'env, 'log, 'st, 'err) evm_ops =
  ev_block :: "'evm \<Rightarrow> env_block"
  ev_enable_amsterdam_eip8037 :: "'evm \<Rightarrow> bool"
  ev_tx_gas_limit_cap :: "'evm \<Rightarrow> u64 option"
  ev_transact :: "'env \<Rightarrow> ('evm, 'err, 'log exec_result \<times> 'st) st"
  ev_commit :: "'st \<Rightarrow> 'evm \<Rightarrow> 'evm"
  ev_drain_dao_balances :: "('evm, 'err, u128 list) st"
  ev_increment_balances :: "balance_increments \<Rightarrow> ('evm, 'err, unit) st"
  ev_balance_increment_state :: "balance_increments \<Rightarrow> ('evm, 'err, 'st) st"

record ('evm, 'log, 'err) block_ops =
  bo_cancun_at :: "u64 \<Rightarrow> bool"
  bo_prague_at :: "u64 \<Rightarrow> bool"
  bo_dao_transitions_at :: "u64 \<Rightarrow> bool"
  bo_blockhashes_contract_call :: "b256 \<Rightarrow> ('evm, 'err, unit) st"
  bo_beacon_root_contract_call :: "b256 option \<Rightarrow> ('evm, 'err, unit) st"
  bo_parse_deposits :: "'log receipt list \<Rightarrow> 'err + bytes"
  bo_append_post_execution_changes :: "requests \<Rightarrow> ('evm, 'err, requests) st"
  bo_post_block_balance_increments :: "env_block \<Rightarrow> header list \<Rightarrow> withdrawal list option \<Rightarrow> balance_increments"
  bo_deposit_request_type :: u8
  bo_dao_beneficiary :: address

record ('evm, 'log, 'st) ev_block_executor =
  bx_ctx :: execution_ctx
  bx_evm :: 'evm
  bx_hook :: bool
  bx_observed :: "(state_change_source \<times> 'st) list"
  bx_receipts :: "'log receipt list"
  bx_cumulative_tx_gas_used :: u64
  bx_block_regular_gas_used :: u64
  bx_block_state_gas_used :: u64
  bx_blob_gas_used :: u64

record 'log block_execution_result =
  ber_receipts :: "'log receipt list"
  ber_requests :: requests
  ber_gas_used :: u64
  ber_blob_gas_used :: u64

section \<open>Operations\<close>

definition build_receipt :: "ev_tx_type \<Rightarrow> 'log exec_result \<Rightarrow> u64 \<Rightarrow> 'log receipt" where
  "build_receipt ty result cumulative =
     \<lparr> rc_tx_type = ty, rc_success = er_success result, rc_cumulative_gas_used = cumulative,
       rc_logs = er_logs result \<rparr>"

definition block_executor_new :: "'evm \<Rightarrow> execution_ctx \<Rightarrow> ('evm, 'log, 'st) ev_block_executor" where
  "block_executor_new evm ctx =
     \<lparr> bx_ctx = ctx, bx_evm = evm, bx_hook = False, bx_observed = [], bx_receipts = [],
       bx_cumulative_tx_gas_used = 0, bx_block_regular_gas_used = 0, bx_block_state_gas_used = 0,
       bx_blob_gas_used = 0 \<rparr>"

definition max_block_gas_used :: "('evm, 'log, 'st) ev_block_executor \<Rightarrow> u64" where
  "max_block_gas_used x =
     (if bx_block_state_gas_used x < bx_block_regular_gas_used x then bx_block_regular_gas_used x
      else bx_block_state_gas_used x)"

definition set_state_hook :: "bool \<Rightarrow> ('evm, 'log, 'st) ev_block_executor \<Rightarrow> ('evm, 'log, 'st) ev_block_executor" where
  "set_state_hook h x = x \<lparr> bx_hook := h \<rparr>"

definition on_state ::
    "state_change_source \<Rightarrow> 'st \<Rightarrow> ('evm, 'log, 'st) ev_block_executor \<Rightarrow> ('evm, 'log, 'st) ev_block_executor" where
  "on_state src st x = (if bx_hook x then x \<lparr> bx_observed := bx_observed x @ [(src, st)] \<rparr> else x)"

text \<open>A method of the EVM, run on the executor's EVM.\<close>

definition on_evm ::
    "('evm, 'err, 'a) st \<Rightarrow> (('evm, 'log, 'st) ev_block_executor, 'err, 'a) st" where
  "on_evm m = (\<lambda>x. case m (bx_evm x) of (r, evm) \<Rightarrow> (r, x \<lparr> bx_evm := evm \<rparr>))"

definition apply_pre_execution_changes ::
    "('evm, 'log, 'err) block_ops \<Rightarrow> (('evm, 'log, 'st) ev_block_executor, 'err block_execution_error, unit) st" where
  "apply_pre_execution_changes P = (\<lambda>x.
     st_map_err SystemCallFailed
       (st_then (on_evm (bo_blockhashes_contract_call P (xc_parent_hash (bx_ctx x))))
         (on_evm (bo_beacon_root_contract_call P (xc_parent_beacon_block_root (bx_ctx x))))) x)"

definition max_tx_gas_usage :: "u64 option \<Rightarrow> u64 \<Rightarrow> u64" where
  "max_tx_gas_usage cap limit = (case cap of Some c \<Rightarrow> min limit c | None \<Rightarrow> limit)"

definition metered_gas_used ::
    "('evm, 'env, 'log, 'st, 'err) evm_ops \<Rightarrow> ('evm, 'log, 'st) ev_block_executor \<Rightarrow> u64" where
  "metered_gas_used E x =
     (if ev_enable_amsterdam_eip8037 E (bx_evm x) then bx_block_regular_gas_used x
      else bx_cumulative_tx_gas_used x)"

definition execute_transaction_without_commit ::
    "('evm, 'env, 'log, 'st, 'err) evm_ops \<Rightarrow> 'env executable_tx
       \<Rightarrow> (('evm, 'log, 'st) ev_block_executor, 'err block_execution_error, ('log, 'st) ev_tx_result) st" where
  "execute_transaction_without_commit E tx = (\<lambda>x.
     (let block_available_gas = eb_gas_limit (ev_block E (bx_evm x)) - metered_gas_used E x;
          usage = max_tx_gas_usage (ev_tx_gas_limit_cap E (bx_evm x)) (xt_gas_limit tx) in
      if block_available_gas < usage
        then (Inl (TransactionGasLimitMoreThanAvailableBlockGas usage block_available_gas), x)
        else
          st_bind (st_map_err (\<lambda>e. EvmFailure e (xt_trie_hash tx)) (on_evm (ev_transact E (xt_env tx)))) (\<lambda>(r, st).
            st_return \<lparr> tr_result = r, tr_state = st,
                        tr_blob_gas_used = (case xt_blob_gas_used tx of Some g \<Rightarrow> g | None \<Rightarrow> 0),
                        tr_tx_type = xt_tx_type tx \<rparr>) x))"

text \<open>\<open>saturating_to::<u64>\<close> of a \<open>U256\<close>.\<close>

definition saturating_to_u64 :: "u256 \<Rightarrow> u64" where
  "saturating_to_u64 w = (if unat w < 2 ^ 64 then ucast w else - 1)"

definition commit_transaction ::
    "('evm, 'env, 'log, 'st, 'err) evm_ops \<Rightarrow> ('evm, 'log, 'err) block_ops \<Rightarrow> ('log, 'st) ev_tx_result
       \<Rightarrow> ('evm, 'log, 'st) ev_block_executor \<Rightarrow> (u64 \<times> u64) \<times> ('evm, 'log, 'st) ev_block_executor" where
  "commit_transaction E P out x =
     (let gas = er_gas (tr_result out);
          x1 = on_state (SourceTransaction (length (bx_receipts x))) (tr_state out) x;
          x2 = x1 \<lparr> bx_block_regular_gas_used := bx_block_regular_gas_used x1 + rg_block_regular_gas_used gas,
                    bx_block_state_gas_used := bx_block_state_gas_used x1 + rg_block_state_gas_used gas,
                    bx_cumulative_tx_gas_used := bx_cumulative_tx_gas_used x1 + rg_tx_gas_used gas \<rparr>;
          x3 = (if bo_cancun_at P (saturating_to_u64 (eb_timestamp (ev_block E (bx_evm x2))))
                then x2 \<lparr> bx_blob_gas_used := saturating_add (bx_blob_gas_used x2) (tr_blob_gas_used out) \<rparr>
                else x2);
          x4 = x3 \<lparr> bx_receipts := bx_receipts x3 @
                      [build_receipt (tr_tx_type out) (tr_result out) (bx_cumulative_tx_gas_used x3)] \<rparr>
      in ((rg_tx_gas_used gas, rg_block_state_gas_used gas),
          x4 \<lparr> bx_evm := ev_commit E (tr_state out) (bx_evm x4) \<rparr>))"

text \<open>\<open>finish\<close>: the requests since Prague, the balance increments, and the result.\<close>

definition collect_requests ::
    "('evm, 'env, 'log, 'st, 'err) evm_ops \<Rightarrow> ('evm, 'log, 'err) block_ops
       \<Rightarrow> (('evm, 'log, 'st) ev_block_executor, 'err block_execution_error, requests) st" where
  "collect_requests E P = (\<lambda>x.
     if bo_prague_at P (saturating_to_u64 (eb_timestamp (ev_block E (bx_evm x)))) then
       st_map_err SystemCallFailed
         (st_bind (st_lift (bo_parse_deposits P (bx_receipts x))) (\<lambda>deposits.
            on_evm (bo_append_post_execution_changes P
              (if deposits \<noteq> [] then [(bo_deposit_request_type P, deposits)] else [])))) x
     else (Inr [], x))"

definition drain_dao ::
    "('evm, 'env, 'log, 'st, 'err) evm_ops \<Rightarrow> ('evm, 'log, 'err) block_ops \<Rightarrow> balance_increments
       \<Rightarrow> (('evm, 'log, 'st) ev_block_executor, 'err block_execution_error, balance_increments) st" where
  "drain_dao E P incs = (\<lambda>x.
     if bo_dao_transitions_at P (saturating_to_u64 (eb_number (ev_block E (bx_evm x)))) then
       st_bind (st_map_err (\<lambda>_. IncrementBalanceFailed) (on_evm (ev_drain_dao_balances E))) (\<lambda>drained.
         st_return (incs (bo_dao_beneficiary P \<mapsto>
           (case incs (bo_dao_beneficiary P) of Some b \<Rightarrow> b | None \<Rightarrow> 0) + sum_list drained))) x
     else (Inr incs, x))"

definition notify_increments ::
    "('evm, 'env, 'log, 'st, 'err) evm_ops \<Rightarrow> balance_increments
       \<Rightarrow> (('evm, 'log, 'st) ev_block_executor, 'err block_execution_error, unit) st" where
  "notify_increments E incs = (\<lambda>x.
     if bx_hook x then
       st_bind (st_map_err SystemCallFailed (on_evm (ev_balance_increment_state E incs))) (\<lambda>st.
         st_modify (on_state PostBlockBalanceIncrements st)) x
     else (Inr (), x))"

definition block_gas_used ::
    "('evm, 'env, 'log, 'st, 'err) evm_ops \<Rightarrow> ('evm, 'log, 'st) ev_block_executor \<Rightarrow> u64" where
  "block_gas_used E x =
     (if ev_enable_amsterdam_eip8037 E (bx_evm x) then max_block_gas_used x else bx_cumulative_tx_gas_used x)"

definition finish ::
    "('evm, 'env, 'log, 'st, 'err) evm_ops \<Rightarrow> ('evm, 'log, 'err) block_ops
       \<Rightarrow> (('evm, 'log, 'st) ev_block_executor, 'err block_execution_error, 'log block_execution_result) st" where
  "finish E P =
     st_bind (collect_requests E P) (\<lambda>reqs.
     st_bind (\<lambda>x. drain_dao E P (bo_post_block_balance_increments P (ev_block E (bx_evm x))
                 (xc_ommers (bx_ctx x)) (xc_withdrawals (bx_ctx x))) x) (\<lambda>incs.
     st_then (st_map_err (\<lambda>_. IncrementBalanceFailed) (on_evm (ev_increment_balances E incs)))
     (st_then (notify_increments E incs)
     (st_get (\<lambda>x. \<lparr> ber_receipts = bx_receipts x, ber_requests = reqs, ber_gas_used = block_gas_used E x,
                    ber_blob_gas_used = bx_blob_gas_used x \<rparr>)))))"

text \<open>One transaction of a block: run, and committed when it ran.\<close>

definition execute_transaction ::
    "('evm, 'env, 'log, 'st, 'err) evm_ops \<Rightarrow> ('evm, 'log, 'err) block_ops \<Rightarrow> 'env executable_tx
       \<Rightarrow> (('evm, 'log, 'st) ev_block_executor, 'err block_execution_error, u64 \<times> u64) st" where
  "execute_transaction E P tx =
     st_bind (execute_transaction_without_commit E tx) (\<lambda>out x.
       case commit_transaction E P out x of (g, x') \<Rightarrow> (Inr g, x'))"

section \<open>Runs of a block\<close>

text \<open>
  What may happen between the start of a block and \<open>finish\<close>: a transaction is refused or fails, it
  is run and dropped, or it is run and committed. \<open>G\<close> gives the gas limit a transaction environment
  was built with; \<open>outs\<close> are the committed results in order.
\<close>

inductive block_run ::
    "('evm, 'env, 'log, 'st, 'err) evm_ops \<Rightarrow> ('evm, 'log, 'err) block_ops \<Rightarrow> ('env \<Rightarrow> u64)
       \<Rightarrow> ('evm, 'log, 'st) ev_block_executor \<Rightarrow> ('log, 'st) ev_tx_result list
       \<Rightarrow> ('evm, 'log, 'st) ev_block_executor \<Rightarrow> bool"
  for E P G x0 where
  start: "block_run E P G x0 [] x0"
| not_committed: "block_run E P G x0 outs x \<Longrightarrow>
    execute_transaction_without_commit E tx x = (r, x') \<Longrightarrow> block_run E P G x0 outs x'"
| committed: "block_run E P G x0 outs x \<Longrightarrow> xt_gas_limit tx = G (xt_env tx) \<Longrightarrow>
    execute_transaction_without_commit E tx x = (Inr out, x') \<Longrightarrow>
    commit_transaction E P out x' = (g, x'') \<Longrightarrow> block_run E P G x0 (outs @ [out]) x''"

text \<open>Running a list of transactions one after the other, leaving out those that fail, is such a run.\<close>

fun execute_all ::
    "('evm, 'env, 'log, 'st, 'err) evm_ops \<Rightarrow> ('evm, 'log, 'err) block_ops \<Rightarrow> 'env executable_tx list
       \<Rightarrow> ('evm, 'log, 'st) ev_block_executor
       \<Rightarrow> ('log, 'st) ev_tx_result list \<times> ('evm, 'log, 'st) ev_block_executor" where
  "execute_all E P [] x = ([], x)"
| "execute_all E P (tx # txs) x =
     (case execute_transaction_without_commit E tx x of
        (Inl e, x') \<Rightarrow> execute_all E P txs x'
      | (Inr out, x') \<Rightarrow>
          (case execute_all E P txs (snd (commit_transaction E P out x')) of (outs, x'') \<Rightarrow> (out # outs, x'')))"

lemma execute_all_run:
  "execute_all E P txs y = (outs', x) \<Longrightarrow> list_all (\<lambda>tx. xt_gas_limit tx = G (xt_env tx)) txs \<Longrightarrow>
     block_run E P G x0 outs y \<Longrightarrow> block_run E P G x0 (outs @ outs') x"
proof (induction txs arbitrary: y outs outs')
  case (Cons tx txs)
  obtain r y' where y': "execute_transaction_without_commit E tx y = (r, y')" by fastforce
  show ?case
  proof (cases r)
    case (Inl e)
    with Cons y' block_run.not_committed [OF Cons.prems(3) y'] show ?thesis by simp
  next
    case (Inr out)
    obtain g z where z: "commit_transaction E P out y' = (g, z)" by fastforce
    have "block_run E P G x0 (outs @ [out]) z"
      using Cons.prems(2) y' Inr by (intro block_run.committed [OF Cons.prems(3) _ _ z, of tx]) simp_all
    with Cons.IH [of z _ "outs @ [out]"] Cons.prems y' Inr z show ?thesis
      by (auto split: prod.splits)
  qed
qed simp

text \<open>The receipts of a list of results, from the gas used before them.\<close>

fun receipts_of :: "u64 \<Rightarrow> ('log, 'st) ev_tx_result list \<Rightarrow> 'log receipt list" where
  "receipts_of c [] = []"
| "receipts_of c (out # outs) =
     (let c' = c + rg_tx_gas_used (er_gas (tr_result out)) in
      build_receipt (tr_tx_type out) (tr_result out) c' # receipts_of c' outs)"

abbreviation tx_gas_of :: "('log, 'st) ev_tx_result \<Rightarrow> u64" where
  "tx_gas_of out \<equiv> rg_tx_gas_used (er_gas (tr_result out))"

abbreviation regular_gas_of :: "('log, 'st) ev_tx_result \<Rightarrow> u64" where
  "regular_gas_of out \<equiv> rg_block_regular_gas_used (er_gas (tr_result out))"

abbreviation state_gas_of :: "('log, 'st) ev_tx_result \<Rightarrow> u64" where
  "state_gas_of out \<equiv> rg_block_state_gas_used (er_gas (tr_result out))"

lemma receipts_of_append:
  "receipts_of c (outs @ [out]) = receipts_of c outs @
     [build_receipt (tr_tx_type out) (tr_result out) (c + sum_list (map tx_gas_of outs) + tx_gas_of out)]"
  by (induction outs arbitrary: c) (simp_all add: Let_def algebra_simps)

lemma length_receipts_of [simp]: "length (receipts_of c outs) = length outs"
  by (induction outs arbitrary: c) (simp_all add: Let_def)

lemma receipts_of_nth:
  "i < length outs \<Longrightarrow> receipts_of c outs ! i =
     build_receipt (tr_tx_type (outs ! i)) (tr_result (outs ! i)) (c + sum_list (map tx_gas_of (take (Suc i) outs)))"
  by (induction outs arbitrary: c i) (auto simp: Let_def nth_Cons algebra_simps split: nat.split)

lemma unat_sum_list_le:
  "(\<Sum>x\<leftarrow>xs. unat (f x)) < 2 ^ LENGTH('a) \<Longrightarrow>
     unat (sum_list (map (f :: 'b \<Rightarrow> 'a::len word) xs)) = (\<Sum>x\<leftarrow>xs. unat (f x))"
  by (induction xs) (simp_all add: unat_add_exact)

lemma sum_list_take_le: "(\<Sum>x\<leftarrow>take n xs. f x) \<le> (\<Sum>x\<leftarrow>xs. f x :: nat)"
  by (induction xs arbitrary: n) (auto simp: take_Cons split: nat.split)

lemma execute_keeps:
  assumes "execute_transaction_without_commit E tx x = (r, x')"
  shows "bx_ctx x' = bx_ctx x" "bx_hook x' = bx_hook x" "bx_observed x' = bx_observed x"
    "bx_receipts x' = bx_receipts x" "bx_cumulative_tx_gas_used x' = bx_cumulative_tx_gas_used x"
    "bx_block_regular_gas_used x' = bx_block_regular_gas_used x"
    "bx_block_state_gas_used x' = bx_block_state_gas_used x" "bx_blob_gas_used x' = bx_blob_gas_used x"
  using assms
  by (auto simp: execute_transaction_without_commit_def Let_def st_bind_def st_map_err_def on_evm_def
      st_return_def split: if_splits prod.splits sum.splits)

lemmas commit_transaction_defs = commit_transaction_def on_state_def Let_def

lemma commit_blob_gas:
  "commit_transaction E P out x = (g, x') \<Longrightarrow>
     bx_blob_gas_used x' =
       (if bo_cancun_at P (saturating_to_u64 (eb_timestamp (ev_block E (bx_evm x))))
        then saturating_add (bx_blob_gas_used x) (tr_blob_gas_used out) else bx_blob_gas_used x)"
  by (auto simp: commit_transaction_defs)

lemma on_evm_run: "on_evm m x = (fst (m (bx_evm x)), x \<lparr> bx_evm := snd (m (bx_evm x)) \<rparr>)"
  by (simp add: on_evm_def split: prod.split)

lemma block_run_counters:
  "block_run E P G x0 outs x \<Longrightarrow> bx_receipts x0 = [] \<Longrightarrow> bx_cumulative_tx_gas_used x0 = 0 \<Longrightarrow>
    bx_block_regular_gas_used x0 = 0 \<Longrightarrow> bx_block_state_gas_used x0 = 0 \<Longrightarrow>
    bx_receipts x = receipts_of 0 outs \<and>
    bx_cumulative_tx_gas_used x = sum_list (map tx_gas_of outs) \<and>
    bx_block_regular_gas_used x = sum_list (map regular_gas_of outs) \<and>
    bx_block_state_gas_used x = sum_list (map state_gas_of outs) \<and> bx_ctx x = bx_ctx x0"
proof (induction rule: block_run.induct)
  case (not_committed outs x tx r x')
  then show ?case using execute_keeps [OF not_committed.hyps(2)] by simp
next
  case (committed outs x tx out x' g x'')
  then show ?case using execute_keeps [OF committed.hyps(3)]
    by (auto simp: commit_transaction_defs receipts_of_append split: if_splits)
qed simp

text \<open>
  What is relied on of the EVM: a transaction uses at most the gas limit it was built with, and at
  most the cap, where under EIP-8037 only its regular gas is bounded this way; running and committing transactions and the system calls change neither the block
  nor the configuration.
\<close>

definition same_settings :: "('evm, 'env, 'log, 'st, 'err) evm_ops \<Rightarrow> 'evm \<Rightarrow> 'evm \<Rightarrow> bool" where
  "same_settings E evm evm' \<longleftrightarrow> ev_block E evm' = ev_block E evm \<and>
     ev_enable_amsterdam_eip8037 E evm' = ev_enable_amsterdam_eip8037 E evm \<and>
     ev_tx_gas_limit_cap E evm' = ev_tx_gas_limit_cap E evm"

lemma same_settings_trans [trans]:
  "same_settings E a b \<Longrightarrow> same_settings E b c \<Longrightarrow> same_settings E a c"
  by (simp add: same_settings_def)

lemma same_settings_refl [simp, intro]: "same_settings E a a"
  by (simp add: same_settings_def)

definition keeps_settings :: "('evm, 'env, 'log, 'st, 'err) evm_ops \<Rightarrow> ('evm, 'e, 'a) st \<Rightarrow> bool" where
  "keeps_settings E m \<longleftrightarrow> (\<forall>evm. same_settings E evm (snd (m evm)))"

text \<open>The gas of a committed transaction that is metered against the block gas limit.\<close>

definition metered_of :: "('evm, 'env, 'log, 'st, 'err) evm_ops \<Rightarrow> 'evm \<Rightarrow> ('log, 'st) ev_tx_result \<Rightarrow> u64" where
  "metered_of E evm out = (if ev_enable_amsterdam_eip8037 E evm then regular_gas_of out else tx_gas_of out)"

definition cancun_active ::
    "('evm, 'env, 'log, 'st, 'err) evm_ops \<Rightarrow> ('evm, 'log, 'err) block_ops \<Rightarrow> 'evm \<Rightarrow> bool" where
  "cancun_active E P evm \<longleftrightarrow> bo_cancun_at P (saturating_to_u64 (eb_timestamp (ev_block E evm)))"

definition same_counters :: "('evm, 'log, 'st) ev_block_executor \<Rightarrow> ('evm, 'log, 'st) ev_block_executor \<Rightarrow> bool" where
  "same_counters x x' \<longleftrightarrow> bx_ctx x' = bx_ctx x \<and> bx_receipts x' = bx_receipts x \<and>
     bx_cumulative_tx_gas_used x' = bx_cumulative_tx_gas_used x \<and>
     bx_block_regular_gas_used x' = bx_block_regular_gas_used x \<and>
     bx_block_state_gas_used x' = bx_block_state_gas_used x \<and> bx_blob_gas_used x' = bx_blob_gas_used x"

locale block_evm =
  fixes E :: "('evm, 'env, 'log, 'st, 'err) evm_ops"
    and P :: "('evm, 'log, 'err) block_ops"
    and G :: "'env \<Rightarrow> u64"
  assumes transact_gas: "ev_transact E env evm = (Inr (r, ch), evm') \<Longrightarrow>
      (if ev_enable_amsterdam_eip8037 E evm then rg_block_regular_gas_used (er_gas r) else rg_tx_gas_used (er_gas r))
        \<le> max_tx_gas_usage (ev_tx_gas_limit_cap E evm) (G env)"
    and transact_settings: "keeps_settings E (ev_transact E env)"
    and commit_settings: "same_settings E evm (ev_commit E ch evm)"
    and system_settings: "keeps_settings E (bo_blockhashes_contract_call P h)"
      "keeps_settings E (bo_beacon_root_contract_call P root)"
      "keeps_settings E (bo_append_post_execution_changes P reqs)"
    and balance_settings: "keeps_settings E (ev_drain_dao_balances E)"
      "keeps_settings E (ev_increment_balances E incs)"
      "keeps_settings E (ev_balance_increment_state E incs)"
begin

lemma on_evm_settings:
  "keeps_settings E m \<Longrightarrow> on_evm m x = (r, x') \<Longrightarrow> same_settings E (bx_evm x) (bx_evm x')"
  by (auto simp: on_evm_def keeps_settings_def split: prod.splits) (metis snd_conv)

lemma execute_settings:
  assumes "execute_transaction_without_commit E tx x = (r, x')"
  shows "same_settings E (bx_evm x) (bx_evm x')"
proof (cases "on_evm (ev_transact E (xt_env tx)) x")
  case (Pair res y)
  note on_evm_settings [OF transact_settings Pair]
  with assms Pair show ?thesis
    by (auto simp: execute_transaction_without_commit_def Let_def st_bind_def st_map_err_def st_return_def
        split: if_splits sum.splits)
qed

lemma execute_ok:
  assumes "execute_transaction_without_commit E tx x = (Inr out, x')" "xt_gas_limit tx = G (xt_env tx)"
    and "unat (metered_gas_used E x) \<le> unat (eb_gas_limit (ev_block E (bx_evm x)))"
  shows "unat (metered_gas_used E x) + unat (metered_of E (bx_evm x) out) \<le> unat (eb_gas_limit (ev_block E (bx_evm x)))"
proof -
  let ?usage = "max_tx_gas_usage (ev_tx_gas_limit_cap E (bx_evm x)) (xt_gas_limit tx)"
  let ?limit = "eb_gas_limit (ev_block E (bx_evm x))"
  have u: "?usage \<le> ?limit - metered_gas_used E x"
    and "\<exists>ch evm'. ev_transact E (xt_env tx) (bx_evm x) = (Inr (tr_result out, ch), evm')"
    using assms(1)
    by (auto simp: execute_transaction_without_commit_def Let_def ok_iff on_evm_def not_less
        split: if_splits prod.splits)
  then have "metered_of E (bx_evm x) out \<le> ?usage"
    using transact_gas [of "xt_env tx" "bx_evm x"] assms(2) by (auto simp: metered_of_def)
  moreover have "unat (?limit - metered_gas_used E x) = unat ?limit - unat (metered_gas_used E x)"
    using assms(3) by (simp add: unat_sub_exact word_le_nat_alt)
  ultimately show ?thesis using u assms(3) by (auto simp: word_le_nat_alt)
qed

lemma block_run_invariant:
  "block_run E P G x0 outs x \<Longrightarrow> bx_receipts x0 = [] \<Longrightarrow> bx_cumulative_tx_gas_used x0 = 0 \<Longrightarrow>
    bx_block_regular_gas_used x0 = 0 \<Longrightarrow> bx_block_state_gas_used x0 = 0 \<Longrightarrow>
    same_settings E (bx_evm x0) (bx_evm x) \<and>
    unat (metered_gas_used E x) = (\<Sum>out\<leftarrow>outs. unat (metered_of E (bx_evm x0) out)) \<and>
    unat (metered_gas_used E x) \<le> unat (eb_gas_limit (ev_block E (bx_evm x0)))"
proof (induction rule: block_run.induct)
  case start
  then show ?case by (simp add: metered_gas_used_def)
next
  case (not_committed outs x tx r x')
  then show ?case
    using execute_settings [OF not_committed.hyps(2)] execute_keeps [OF not_committed.hyps(2)]
    by (auto simp: metered_gas_used_def same_settings_def)
next
  case (committed outs x tx out x' g x'')
  let ?lim = "unat (eb_gas_limit (ev_block E (bx_evm x0)))"
  have ih: "same_settings E (bx_evm x0) (bx_evm x)"
    "unat (metered_gas_used E x) = (\<Sum>out\<leftarrow>outs. unat (metered_of E (bx_evm x0) out))"
    "unat (metered_gas_used E x) \<le> ?lim"
    using committed by auto
  have le: "unat (metered_gas_used E x) + unat (metered_of E (bx_evm x0) out) \<le> ?lim"
    using execute_ok [OF committed.hyps(3,2)] ih by (simp add: same_settings_def metered_of_def)
  have s: "same_settings E (bx_evm x0) (bx_evm x'')"
    using ih(1) execute_settings [OF committed.hyps(3)] committed.hyps(4) commit_settings
    by (auto simp: commit_transaction_defs same_settings_def split: if_splits)
  have "metered_gas_used E x'' = metered_gas_used E x + metered_of E (bx_evm x0) out"
    using s ih(1) committed.hyps(4) execute_keeps [OF committed.hyps(3)]
    by (auto simp: commit_transaction_defs metered_gas_used_def metered_of_def same_settings_def split: if_splits)
  moreover have "?lim < 2 ^ 64" using unat_bound by (rule order.strict_trans2) simp
  ultimately show ?case using s le ih(2) by (simp add: unat_add_exact)
qed

lemma block_run_blob_gas:
  "block_run E P G x0 outs x \<Longrightarrow> bx_receipts x0 = [] \<Longrightarrow> bx_cumulative_tx_gas_used x0 = 0 \<Longrightarrow>
    bx_block_regular_gas_used x0 = 0 \<Longrightarrow> bx_block_state_gas_used x0 = 0 \<Longrightarrow> bx_blob_gas_used x0 = 0 \<Longrightarrow>
    bx_blob_gas_used x = (if cancun_active E P (bx_evm x0)
      then foldl (\<lambda>acc out. saturating_add acc (tr_blob_gas_used out)) 0 outs else 0)"
proof (induction rule: block_run.induct)
  case (not_committed outs x tx r x')
  then show ?case using execute_keeps [OF not_committed.hyps(2)] by simp
next
  case (committed outs x tx out x' g x'')
  have "same_settings E (bx_evm x0) (bx_evm x')"
    using block_run_invariant [OF committed.hyps(1)] committed.prems(1-4)
    by (auto intro: same_settings_trans [OF _ execute_settings [OF committed.hyps(3)]])
  then have "cancun_active E P (bx_evm x') = cancun_active E P (bx_evm x0)"
    by (simp add: cancun_active_def same_settings_def)
  then show ?case
    using committed.IH committed.prems commit_blob_gas [OF committed.hyps(4)] execute_keeps(8) [OF committed.hyps(3)]
    by (simp add: cancun_active_def)
qed simp

lemma keeps_settingsD: "keeps_settings E m \<Longrightarrow> same_settings E evm (snd (m evm))"
  by (simp add: keeps_settings_def)

lemma pre_execution_start:
  assumes "apply_pre_execution_changes P (block_executor_new evm ctx) = (r, x0)"
  shows "same_settings E evm (bx_evm x0) \<and> x0 = (block_executor_new evm ctx) \<lparr> bx_evm := bx_evm x0 \<rparr>"
proof -
  let ?e1 = "snd (bo_blockhashes_contract_call P (xc_parent_hash ctx) evm)"
  let ?e2 = "snd (bo_beacon_root_contract_call P (xc_parent_beacon_block_root ctx) ?e1)"
  have s: "same_settings E evm ?e1" by (rule keeps_settingsD [OF system_settings(1)])
  then have s': "same_settings E evm ?e2"
    by (rule same_settings_trans) (rule keeps_settingsD [OF system_settings(2)])
  have "x0 = (block_executor_new evm ctx) \<lparr> bx_evm := ?e1 \<rparr> \<or>
      x0 = (block_executor_new evm ctx) \<lparr> bx_evm := ?e2 \<rparr>"
    using assms
    by (auto simp: apply_pre_execution_changes_def st_map_err_def st_then_def st_bind_def on_evm_run
        block_executor_new_def split: sum.splits)
  with s s' show ?thesis by auto
qed

lemma refused_iff:
  assumes "unat (metered_gas_used E x) \<le> unat (eb_gas_limit (ev_block E (bx_evm x)))"
  shows "(\<exists>u a. execute_transaction_without_commit E tx x =
      (Inl (TransactionGasLimitMoreThanAvailableBlockGas u a), x)) \<longleftrightarrow>
    unat (eb_gas_limit (ev_block E (bx_evm x))) - unat (metered_gas_used E x)
      < unat (max_tx_gas_usage (ev_tx_gas_limit_cap E (bx_evm x)) (xt_gas_limit tx))"
  using assms
  by (auto simp: execute_transaction_without_commit_def Let_def err_iff word_less_nat_alt unat_sub_exact
      word_le_nat_alt split: prod.splits)

lemma run_from_start:
  assumes "apply_pre_execution_changes P (block_executor_new evm ctx) = (r, x0)" "block_run E P G x0 outs x"
  shows "same_settings E evm (bx_evm x) \<and> bx_receipts x = receipts_of 0 outs \<and>
    bx_cumulative_tx_gas_used x = sum_list (map tx_gas_of outs) \<and>
    unat (metered_gas_used E x) = (\<Sum>out\<leftarrow>outs. unat (metered_of E evm out)) \<and>
    unat (metered_gas_used E x) \<le> unat (eb_gas_limit (ev_block E evm)) \<and>
    bx_blob_gas_used x = (if cancun_active E P evm
      then foldl (\<lambda>acc out. saturating_add acc (tr_blob_gas_used out)) 0 outs else 0)"
proof -
  note st = pre_execution_start [OF assms(1)]
  have z: "bx_receipts x0 = []" "bx_cumulative_tx_gas_used x0 = 0" "bx_block_regular_gas_used x0 = 0"
    "bx_block_state_gas_used x0 = 0" "bx_blob_gas_used x0 = 0"
    using conjunct2 [OF st] by (simp_all add: block_executor_new_def) (metis ev_block_executor.select_convs)+
  show ?thesis
    using conjunct1 [OF st] block_run_invariant [OF assms(2) z(1-4)] block_run_counters [OF assms(2) z(1-4)]
      block_run_blob_gas [OF assms(2) z]
    by (simp add: same_settings_def metered_of_def cancun_active_def)
qed

text \<open>\<open>finish\<close> only works on the EVM, keeps its settings, and reports the counters.\<close>

lemma collect_requests_ok:
  assumes "collect_requests E P x = (Inr reqs, x')"
  shows "same_settings E (bx_evm x) (bx_evm x') \<and> same_counters x x' \<and>
    (if bo_prague_at P (saturating_to_u64 (eb_timestamp (ev_block E (bx_evm x)))) then True else reqs = [])"
  using assms keeps_settingsD [OF system_settings(3)]
  by (auto simp: collect_requests_def ok_iff on_evm_run same_counters_def split: if_splits)

lemma drain_dao_ok:
  assumes "drain_dao E P incs x = (Inr incs', x')"
  shows "same_settings E (bx_evm x) (bx_evm x') \<and> same_counters x x' \<and>
    (if bo_dao_transitions_at P (saturating_to_u64 (eb_number (ev_block E (bx_evm x)))) then True
     else incs' = incs \<and> x' = x)"
  using assms keeps_settingsD [OF balance_settings(1)]
  by (auto simp: drain_dao_def ok_iff on_evm_run same_counters_def split: if_splits)

lemma increment_ok:
  assumes "st_map_err h (on_evm (ev_increment_balances E incs)) x = (Inr u, x')"
  shows "same_settings E (bx_evm x) (bx_evm x') \<and> same_counters x x' \<and>
    ev_increment_balances E incs (bx_evm x) = (Inr (), bx_evm x')"
  using assms keeps_settingsD [OF balance_settings(2) [of incs], of "bx_evm x"]
  by (auto simp: ok_iff on_evm_run same_counters_def) (metis prod.collapse)

lemma notify_ok:
  assumes "notify_increments E incs x = (Inr u, x')"
  shows "same_settings E (bx_evm x) (bx_evm x') \<and>
    same_counters x x' \<and> (if bx_hook x then True else x' = x)"
  using assms keeps_settingsD [OF balance_settings(3) [of incs], of "bx_evm x"]
  by (auto simp: notify_increments_def ok_iff on_evm_run on_state_def same_counters_def split: if_splits)

lemma finish_ok:
  assumes "finish E P x = (Inr res, x')"
  shows "same_settings E (bx_evm x) (bx_evm x')" "ber_receipts res = bx_receipts x"
    "ber_gas_used res = block_gas_used E x" "ber_blob_gas_used res = bx_blob_gas_used x"
    "if bo_prague_at P (saturating_to_u64 (eb_timestamp (ev_block E (bx_evm x)))) then True
     else ber_requests res = []"
proof -
  let ?incs = "\<lambda>y. bo_post_block_balance_increments P (ev_block E (bx_evm y)) (xc_ommers (bx_ctx y))
    (xc_withdrawals (bx_ctx y))"
  obtain reqs y1 incs y2 y3 where
    a: "collect_requests E P x = (Inr reqs, y1)" and b: "drain_dao E P (?incs y1) y1 = (Inr incs, y2)" and
    c: "st_map_err (\<lambda>_. IncrementBalanceFailed :: 'err block_execution_error) (on_evm (ev_increment_balances E incs)) y2 = (Inr (), y3)" and
    d: "notify_increments E incs y3 = (Inr (), x')" and
    res: "res = \<lparr> ber_receipts = bx_receipts x', ber_requests = reqs, ber_gas_used = block_gas_used E x',
                  ber_blob_gas_used = bx_blob_gas_used x' \<rparr>"
    using assms unfolding finish_def st_bind_Inr_iff st_then_Inr_iff st_basic_Inr_iff by auto
  note oks = collect_requests_ok [OF a] drain_dao_ok [OF b] increment_ok [OF c] notify_ok [OF d]
  show s: "same_settings E (bx_evm x) (bx_evm x')" using oks by (simp add: same_settings_def)
  have f: "same_counters x x'" using oks by (simp add: same_counters_def)
  show "ber_receipts res = bx_receipts x" "ber_blob_gas_used res = bx_blob_gas_used x"
    using f by (simp_all add: res same_counters_def)
  show "ber_gas_used res = block_gas_used E x"
    using s f by (simp add: res block_gas_used_def max_block_gas_used_def same_settings_def same_counters_def)
  show "if bo_prague_at P (saturating_to_u64 (eb_timestamp (ev_block E (bx_evm x)))) then True
     else ber_requests res = []"
    using oks by (simp add: res)
qed

end

section \<open>A reference EVM\<close>

text \<open>An EVM that only moves value between accounts, at 21000 gas each.\<close>

record ref_evm =
  re_block :: env_block
  re_amsterdam :: bool
  re_cap :: "u64 option"
  re_balance :: "address \<Rightarrow> u256"

record transfer =
  tf_from :: address
  tf_to :: address
  tf_value :: u256
  tf_gas_limit :: u64

definition ref_transact ::
    "transfer \<Rightarrow> (ref_evm, string, unit exec_result \<times> (address \<Rightarrow> u256)) st" where
  "ref_transact t = (\<lambda>evm.
     if tf_gas_limit t < 21000 then (Inl ''CallGasCostMoreThanGasLimit'', evm)
     else if (case re_cap evm of Some c \<Rightarrow> c < tf_gas_limit t | None \<Rightarrow> False)
       then (Inl ''TxGasLimitGreaterThanCap'', evm)
     else if re_balance evm (tf_from t) < tf_value t then (Inl ''LackOfFundForMaxFee'', evm)
     else
       (let b = (re_balance evm) (tf_from t := re_balance evm (tf_from t) - tf_value t) in
        (Inr (\<lparr> er_success = True, er_logs = [],
                er_gas = \<lparr> rg_tx_gas_used = 21000, rg_block_regular_gas_used = 21000,
                           rg_block_state_gas_used = 0 \<rparr> \<rparr>,
              b (tf_to t := b (tf_to t) + tf_value t)), evm)))"

definition ref_evm_ops :: "(ref_evm, transfer, unit, address \<Rightarrow> u256, string) evm_ops" where
  "ref_evm_ops =
     \<lparr> ev_block = re_block, ev_enable_amsterdam_eip8037 = re_amsterdam, ev_tx_gas_limit_cap = re_cap,
       ev_transact = ref_transact,
       ev_commit = (\<lambda>b evm. evm \<lparr> re_balance := b \<rparr>),
       ev_drain_dao_balances = (\<lambda>evm. (Inr [], evm)),
       ev_increment_balances = (\<lambda>incs evm. (Inr (), evm \<lparr> re_balance := \<lambda>a.
         re_balance evm a + (case incs a of Some v \<Rightarrow> ucast v | None \<Rightarrow> 0) \<rparr>)),
       ev_balance_increment_state = (\<lambda>incs evm. (Inr (re_balance evm), evm)) \<rparr>"

definition ref_block_ops :: "(ref_evm, unit, string) block_ops" where
  "ref_block_ops =
     \<lparr> bo_cancun_at = (\<lambda>t. True), bo_prague_at = (\<lambda>t. False), bo_dao_transitions_at = (\<lambda>n. False),
       bo_blockhashes_contract_call = (\<lambda>h evm. (Inr (), evm)),
       bo_beacon_root_contract_call = (\<lambda>r evm. (Inr (), evm)),
       bo_parse_deposits = (\<lambda>rs. Inr []),
       bo_append_post_execution_changes = (\<lambda>reqs evm. (Inr reqs, evm)),
       bo_post_block_balance_increments = (\<lambda>b ommers ws a.
         case ws of None \<Rightarrow> None
         | Some l \<Rightarrow> (case filter (\<lambda>(_, _, x, _). x = a) l of [] \<Rightarrow> None
                     | ms \<Rightarrow> Some (sum_list (map (\<lambda>(_, _, _, gwei). ucast gwei * 1000000000) ms)))),
       bo_deposit_request_type = 0, bo_dao_beneficiary = 0 \<rparr>"

interpretation ref_block: block_evm ref_evm_ops ref_block_ops tf_gas_limit
  by unfold_locales
    (auto simp: ref_evm_ops_def ref_block_ops_def ref_transact_def keeps_settings_def same_settings_def
      max_tx_gas_usage_def Let_def not_less split: if_splits option.splits)

section \<open>Properties\<close>

text \<open>C8. From the start of a block, whatever transactions are refused, dropped or committed: the gas
  metered is the exact sum over the committed transactions and at most the block gas limit, so the
  gas left is never computed below zero; a transaction is refused for lack of block gas exactly when
  the most it may use exceeds what is left; and there is one receipt per committed transaction, in
  order, with its type, status and logs and the gas used up to it.\<close>

theorem block_execution_invariant:
  fixes E :: "('evm, 'env, 'log, 'st, 'err) evm_ops"
  assumes "block_evm E P G" "apply_pre_execution_changes P (block_executor_new evm ctx) = (Inr (), x0)"
    and "block_run E P G x0 outs x"
  shows "unat (metered_gas_used E x) = (\<Sum>out\<leftarrow>outs. unat (metered_of E evm out)) \<and>
    unat (metered_gas_used E x) \<le> unat (eb_gas_limit (ev_block E evm)) \<and>
    ((\<exists>u a. execute_transaction_without_commit E tx x =
        (Inl (TransactionGasLimitMoreThanAvailableBlockGas u a), x)) \<longleftrightarrow>
      unat (eb_gas_limit (ev_block E evm)) - (\<Sum>out\<leftarrow>outs. unat (metered_of E evm out))
        < unat (max_tx_gas_usage (ev_tx_gas_limit_cap E evm) (xt_gas_limit tx))) \<and>
    length (bx_receipts x) = length outs \<and>
    (if i < length outs
     then bx_receipts x ! i = build_receipt (tr_tx_type (outs ! i)) (tr_result (outs ! i))
            (sum_list (map tx_gas_of (take (Suc i) outs))) \<and>
          (if ev_enable_amsterdam_eip8037 E evm then True
           else unat (rc_cumulative_gas_used (bx_receipts x ! i)) = (\<Sum>out\<leftarrow>take (Suc i) outs. unat (tx_gas_of out)) \<and>
                unat (rc_cumulative_gas_used (bx_receipts x ! i)) \<le> unat (eb_gas_limit (ev_block E evm)))
     else True)"
proof -
  note run = block_evm.run_from_start [OF assms]
  have lim: "unat (metered_gas_used E x) \<le> unat (eb_gas_limit (ev_block E (bx_evm x)))"
    using run by (simp add: same_settings_def)
  have ref: "(\<exists>u a. execute_transaction_without_commit E tx x =
        (Inl (TransactionGasLimitMoreThanAvailableBlockGas u a), x)) \<longleftrightarrow>
      unat (eb_gas_limit (ev_block E evm)) - (\<Sum>out\<leftarrow>outs. unat (metered_of E evm out))
        < unat (max_tx_gas_usage (ev_tx_gas_limit_cap E evm) (xt_gas_limit tx))"
    using run block_evm.refused_iff [OF assms(1) lim] by (simp add: same_settings_def)
  have cum: "unat (sum_list (map tx_gas_of (take (Suc i) outs))) = (\<Sum>out\<leftarrow>take (Suc i) outs. unat (tx_gas_of out)) \<and>
      (\<Sum>out\<leftarrow>take (Suc i) outs. unat (tx_gas_of out)) \<le> unat (eb_gas_limit (ev_block E evm))"
    if "\<not> ev_enable_amsterdam_eip8037 E evm"
  proof -
    have le: "(\<Sum>out\<leftarrow>take (Suc i) outs. unat (tx_gas_of out)) \<le> unat (eb_gas_limit (ev_block E evm))"
      using run that sum_list_take_le [of "\<lambda>out. unat (tx_gas_of out)" "Suc i" outs]
      by (simp add: metered_of_def)
    moreover have "unat (eb_gas_limit (ev_block E evm)) < 2 ^ LENGTH(64)" by (rule unat_bound)
    ultimately show ?thesis by (intro conjI unat_sum_list_le) simp_all
  qed
  show ?thesis
    using run ref cum receipts_of_nth [of i outs 0] by (simp add: build_receipt_def)
qed

text \<open>C25. When \<open>finish\<close> succeeds after such a block, the result carries the receipts of the committed
  transactions; before Amsterdam its gas used is the exact sum of their gas and at most the block gas
  limit; its blob gas is the capped sum of theirs once Cancun is active and 0 before; and it has no
  requests before Prague.\<close>

theorem block_result_correct:
  fixes E :: "('evm, 'env, 'log, 'st, 'err) evm_ops"
  assumes "block_evm E P G" "apply_pre_execution_changes P (block_executor_new evm ctx) = (Inr (), x0)"
    and "block_run E P G x0 outs x" "finish E P x = (Inr res, x')"
  shows "ber_receipts res = receipts_of 0 outs \<and>
    (if ev_enable_amsterdam_eip8037 E evm
     then ber_gas_used res = max (bx_block_regular_gas_used x) (bx_block_state_gas_used x)
     else unat (ber_gas_used res) = (\<Sum>out\<leftarrow>outs. unat (tx_gas_of out)) \<and>
          unat (ber_gas_used res) \<le> unat (eb_gas_limit (ev_block E evm))) \<and>
    unat (ber_blob_gas_used res) =
      (if cancun_active E P evm then min (\<Sum>out\<leftarrow>outs. unat (tr_blob_gas_used out)) (2 ^ 64 - 1) else 0) \<and>
    (if bo_prague_at P (saturating_to_u64 (eb_timestamp (ev_block E evm))) then True else ber_requests res = [])"
  using block_evm.run_from_start [OF assms(1-3)] block_evm.finish_ok [OF assms(1,4)]
  by (auto simp: same_settings_def block_gas_used_def max_block_gas_used_def metered_gas_used_def metered_of_def
      sat_simps max_def split: if_splits)

text \<open>A block of two transfers, whose third transaction no longer fits.\<close>

definition demo_block_env :: env_block where
  "demo_block_env =
     \<lparr> eb_number = 5, eb_beneficiary = 9, eb_timestamp = 100, eb_difficulty = 0, eb_prevrandao = Some 0,
       eb_gas_limit = 60000, eb_basefee = 7, eb_blob_excess_gas_and_price = None, eb_slot_num = 0 \<rparr>"

definition demo_ref_evm :: ref_evm where
  "demo_ref_evm = \<lparr> re_block = demo_block_env, re_amsterdam = False, re_cap = None, re_balance = (\<lambda>a. 100) \<rparr>"

definition demo_exec_ctx :: execution_ctx where
  "demo_exec_ctx = \<lparr> xc_tx_count_hint = None, xc_parent_hash = 3, xc_parent_beacon_block_root = None, xc_ommers = [],
     xc_withdrawals = Some [(0, 0, 2, 1)], xc_extra_data = [], xc_slot_number = None \<rparr>"

definition demo_transfer :: "u256 \<Rightarrow> transfer executable_tx" where
  "demo_transfer v =
     \<lparr> xt_env = \<lparr> tf_from = 1, tf_to = 2, tf_value = v, tf_gas_limit = 25000 \<rparr>, xt_gas_limit = 25000,
       xt_blob_gas_used = None, xt_tx_type = TyEvNode, xt_trie_hash = 0 \<rparr>"

abbreviation demo_executor :: "(ref_evm, unit, address \<Rightarrow> u256) ev_block_executor" where
  "demo_executor \<equiv> block_executor_new demo_ref_evm demo_exec_ctx"

lemma demo_pre: "apply_pre_execution_changes ref_block_ops demo_executor = (Inr (), demo_executor)"
  by (simp add: apply_pre_execution_changes_def ref_block_ops_def on_evm_def st_map_err_def st_then_def
      st_bind_def block_executor_new_def)

lemma demo_run:
  "\<exists>outs x. block_run ref_evm_ops ref_block_ops tf_gas_limit demo_executor outs x \<and> length outs = 2 \<and>
     (\<exists>res x'. finish ref_evm_ops ref_block_ops x = (Inr res, x'))"
proof -
  let ?txs = "[demo_transfer 10, demo_transfer 20, demo_transfer 30]"
  let ?r = "execute_all ref_evm_ops ref_block_ops ?txs demo_executor"
  have "block_run ref_evm_ops ref_block_ops tf_gas_limit demo_executor ([] @ fst ?r) (snd ?r)"
    by (rule execute_all_run [of _ _ ?txs, OF _ _ block_run.start])
      (simp_all add: demo_transfer_def)
  moreover have "length (fst ?r) = 2"
    by (simp add: execute_transaction_without_commit_def commit_transaction_defs Let_def ref_evm_ops_def
        ref_block_ops_def ref_transact_def on_evm_def st_map_err_def st_bind_def st_return_def demo_transfer_def
        max_tx_gas_usage_def metered_gas_used_def block_executor_new_def demo_ref_evm_def demo_block_env_def
        build_receipt_def)
  moreover have "\<exists>res x'. finish ref_evm_ops ref_block_ops (snd ?r) = (Inr res, x')"
    by (simp add: finish_def collect_requests_def drain_dao_def notify_increments_def st_bind_def st_then_def
        st_map_err_def on_evm_def st_get_def ref_evm_ops_def ref_block_ops_def st_modify_def)
  ultimately show ?thesis by auto
qed

theorem block_execution_invariant_witness:
  "\<exists>outs x. block_run ref_evm_ops ref_block_ops tf_gas_limit demo_executor outs x \<and> length outs = 2 \<and>
     length (bx_receipts x) = 2 \<and> unat (metered_gas_used ref_evm_ops x) \<le> 60000"
proof -
  obtain outs x where r: "block_run ref_evm_ops ref_block_ops tf_gas_limit demo_executor outs x" "length outs = 2"
    using demo_run by blast
  from block_execution_invariant [OF ref_block.block_evm_axioms demo_pre r(1)] r show ?thesis
    by (auto simp: ref_evm_ops_def demo_ref_evm_def demo_block_env_def)
qed

theorem block_result_correct_witness:
  "\<exists>outs x res x'. block_run ref_evm_ops ref_block_ops tf_gas_limit demo_executor outs x \<and> length outs = 2 \<and>
     finish ref_evm_ops ref_block_ops x = (Inr res, x') \<and> length (ber_receipts res) = 2 \<and> ber_requests res = []"
proof -
  obtain outs x res x' where r: "block_run ref_evm_ops ref_block_ops tf_gas_limit demo_executor outs x"
    "length outs = 2" "finish ref_evm_ops ref_block_ops x = (Inr res, x')"
    using demo_run by blast
  from block_result_correct [OF ref_block.block_evm_axioms demo_pre r(1,3)]
  have "ber_receipts res = receipts_of 0 outs" "ber_requests res = []"
    by (simp_all add: ref_block_ops_def)
  with r show ?thesis by fastforce
qed

end
