(* ===== verification/Payload_Builder.thy ===== *)
theory Payload_Builder
  imports Consensus Block_Executor Txpool_Rpc "HOL-Library.Sublist"
begin

text \<open>
  Payload building: the attributes of \<open>crates/evolve/src/types.rs\<close> and
  \<open>crates/node/src/attributes.rs\<close>, \<open>build_payload\<close> of \<open>crates/node/src/builder.rs\<close>, and the service
  of \<open>crates/node/src/payload_service.rs\<close> that turns engine attributes into payloads and publishes
  the block gas limit read by the transaction RPC. The client and reth's block builder are
  parameters; the locale \<open>block_builder\<close> states the builder's contract, and it is met by the
  builder over the block executor of this development.
\<close>

section \<open>Attributes\<close>

record 'tx evolve_payload_attributes =
  ea_transactions :: "'tx list"
  ea_gas_limit :: "u64 option"
  ea_timestamp :: u64
  ea_prev_randao :: b256
  ea_suggested_fee_recipient :: address
  ea_parent_hash :: b256
  ea_block_number :: u64
  ea_slot_number :: "u64 option"

datatype payload_attributes_error = EmptyTransactions | InvalidGasLimit | TransactionValidation string

definition payload_attributes_new ::
    "'tx list \<Rightarrow> u64 option \<Rightarrow> u64 \<Rightarrow> b256 \<Rightarrow> address \<Rightarrow> b256 \<Rightarrow> u64 \<Rightarrow> 'tx evolve_payload_attributes" where
  "payload_attributes_new txs gas_limit ts randao recipient parent n =
     \<lparr> ea_transactions = txs, ea_gas_limit = gas_limit, ea_timestamp = ts, ea_prev_randao = randao,
       ea_suggested_fee_recipient = recipient, ea_parent_hash = parent, ea_block_number = n,
       ea_slot_number = None \<rparr>"

definition with_slot_number :: "u64 option \<Rightarrow> 'tx evolve_payload_attributes \<Rightarrow> 'tx evolve_payload_attributes" where
  "with_slot_number n a = a \<lparr> ea_slot_number := n \<rparr>"

definition validate_attributes :: "'tx evolve_payload_attributes \<Rightarrow> payload_attributes_error + unit" where
  "validate_attributes a = (case ea_gas_limit a of Some g \<Rightarrow> ensure (g \<noteq> 0) InvalidGasLimit | None \<Rightarrow> Inr ())"

text \<open>The engine API attributes: reth's \<open>PayloadAttributes\<close>, the raw transactions and the gas limit.\<close>

record rpc_payload_attributes =
  ra_timestamp :: u64
  ra_prev_randao :: b256
  ra_suggested_fee_recipient :: address
  ra_withdrawals :: "withdrawal list option"
  ra_parent_beacon_block_root :: "b256 option"
  ra_slot_number :: "u64 option"

record engine_payload_attributes =
  en_inner :: rpc_payload_attributes
  en_transactions :: "bytes list option"
  en_gas_limit :: "u64 option"

definition from_rpc_attributes :: "rpc_payload_attributes \<Rightarrow> engine_payload_attributes" where
  "from_rpc_attributes inner = \<lparr> en_inner = inner, en_transactions = None, en_gas_limit = None \<rparr>"

text \<open>
  The local (dev) attributes: \<open>now\<close> is the clock, \<open>r1\<close>, \<open>r2\<close>, \<open>r3\<close> the random values drawn; the
  three functions are the forks of the chain spec by timestamp.
\<close>

definition local_attributes ::
    "(u64 \<Rightarrow> bool) \<Rightarrow> (u64 \<Rightarrow> bool) \<Rightarrow> (u64 \<Rightarrow> bool) \<Rightarrow> u64 \<Rightarrow> b256 \<Rightarrow> address \<Rightarrow> b256 \<Rightarrow> header
       \<Rightarrow> engine_payload_attributes" where
  "local_attributes shanghai cancun amsterdam now r1 r2 r3 parent =
     (let ts = max (saturating_add (hdr_timestamp parent) 1) now in
      from_rpc_attributes
        \<lparr> ra_timestamp = ts, ra_prev_randao = r1, ra_suggested_fee_recipient = r2,
          ra_withdrawals = (if shanghai ts then Some [] else None),
          ra_parent_beacon_block_root = (if cancun ts then Some r3 else None),
          ra_slot_number = (if amsterdam ts then Some 0 else None) \<rparr>)"

section \<open>Building a block\<close>

datatype payload_builder_error =
    InvalidAttributes payload_attributes_error
  | ParentHeaderNotFound
  | GasLimitRequired
  | RecoverTransactionFailed
  | BuilderError string

text \<open>
  The client (latest state, headers by hash), the signature recovery and reth's block builder:
  \<open>builder_for_next_block\<close>, its steps, and the sealed block it assembles.
\<close>

record ('s, 'tx, 'bld, 'blk) builder_ops =
  bl_latest :: "string + 's"
  bl_header :: "b256 \<Rightarrow> string + header option"
  bl_recover :: "'tx \<Rightarrow> address option"
  bl_builder_for_next_block :: "'s \<Rightarrow> sealed_header \<Rightarrow> next_block_attributes \<Rightarrow> string + 'bld"
  bl_apply_pre_execution_changes :: "('bld, string, unit) st"
  bl_execute_transaction :: "'tx \<times> address \<Rightarrow> ('bld, string, u64) st"
  bl_finish :: "'s \<Rightarrow> 'bld \<Rightarrow> string + 'blk"

definition default_fee_recipient :: "evolve_config \<Rightarrow> u64 \<Rightarrow> address \<Rightarrow> address" where
  "default_fee_recipient config n suggested =
     (if suggested = ADDRESS_ZERO
      then (case base_fee_sink_for_block config n of Some sink \<Rightarrow> sink | None \<Rightarrow> suggested)
      else suggested)"

definition next_block_attrs ::
    "evolve_config \<Rightarrow> u64 \<Rightarrow> u64 \<Rightarrow> 'tx evolve_payload_attributes \<Rightarrow> next_block_attributes" where
  "next_block_attrs config n gas_limit a =
     \<lparr> nb_timestamp = ea_timestamp a,
       nb_suggested_fee_recipient = default_fee_recipient config n (ea_suggested_fee_recipient a),
       nb_prev_randao = ea_prev_randao a, nb_gas_limit = gas_limit,
       nb_parent_beacon_block_root = Some 0, nb_withdrawals = Some [], nb_extra_data = [],
       nb_slot_number = ea_slot_number a \<rparr>"

text \<open>A transaction whose execution fails is left out; an unrecoverable signer stops the build.\<close>

fun execute_transactions ::
    "('s, 'tx, 'bld, 'blk) builder_ops \<Rightarrow> 'tx list \<Rightarrow> ('bld, payload_builder_error, unit) st" where
  "execute_transactions B [] b = (Inr (), b)"
| "execute_transactions B (tx # txs) b =
     (case bl_recover B tx of
        None \<Rightarrow> (Inl RecoverTransactionFailed, b)
      | Some signer \<Rightarrow> execute_transactions B txs (snd (bl_execute_transaction B (tx, signer) b)))"

definition build_payload ::
    "('s, 'tx, 'bld, 'blk) builder_ops \<Rightarrow> evolve_config \<Rightarrow> 'tx evolve_payload_attributes
       \<Rightarrow> payload_builder_error + 'blk" where
  "build_payload B config a =
     and_then (map_err InvalidAttributes (validate_attributes a)) (\<lambda>_.
     and_then (map_err BuilderError (bl_latest B)) (\<lambda>s.
     and_then (map_err BuilderError (bl_header B (ea_parent_hash a))) (\<lambda>found.
     and_then (ok_or ParentHeaderNotFound found) (\<lambda>parent.
     (let block_number = hdr_number parent + 1;
          sealed_parent = \<lparr> sh_header = parent, sh_hash = ea_parent_hash a \<rparr> in
     and_then (ok_or GasLimitRequired (ea_gas_limit a)) (\<lambda>gas_limit.
     and_then (map_err BuilderError
        (bl_builder_for_next_block B s sealed_parent (next_block_attrs config block_number gas_limit a))) (\<lambda>b0.
       fst (st_then (st_map_err BuilderError (bl_apply_pre_execution_changes B))
            (st_then (execute_transactions B (ea_transactions a))
              (\<lambda>b. (map_err BuilderError (bl_finish B s b), b))) b0))))))))"

section \<open>The payload service\<close>

text \<open>
  \<open>build_payload_builder\<close>: the chain spec's configuration, with what the service was given
  overriding its fields, validated.
\<close>

definition override_config :: "evolve_config \<Rightarrow> evolve_config \<Rightarrow> evolve_config" where
  "override_config given config =
     (let c1 = (if base_fee_sink given \<noteq> None then config \<lparr> base_fee_sink := base_fee_sink given \<rparr> else config);
          c2 = (if base_fee_redirect_activation_height given \<noteq> None
                then c1 \<lparr> base_fee_redirect_activation_height := base_fee_redirect_activation_height given \<rparr> else c1);
          c3 = (if mint_admin given \<noteq> None then c2 \<lparr> mint_admin := mint_admin given \<rparr> else c2) in
      if mint_precompile_activation_height given \<noteq> None
      then c3 \<lparr> mint_precompile_activation_height := mint_precompile_activation_height given \<rparr> else c3)"

definition build_payload_builder ::
    "evolve_config \<Rightarrow> (string + chainspec_evolve_config) option \<Rightarrow> config_error + evolve_config" where
  "build_payload_builder given extra =
     and_then (from_chain_spec extra) (\<lambda>c.
       (let config = override_config given c in and_then (validate_config config) (\<lambda>_. Inr config)))"

text \<open>\<open>EvolvePayloadBuilderBuilder::new\<close> has nothing to override.\<close>

definition payload_builder_builder_new :: evolve_config where
  "payload_builder_builder_new = evolve_config_new"

text \<open>\<open>create_payload_builder_service\<close>: no builder without a valid configuration.\<close>

definition create_payload_builder_service :: "(string + chainspec_evolve_config) option \<Rightarrow> evolve_config option" where
  "create_payload_builder_service extra =
     (case from_chain_spec extra of
        Inl _ \<Rightarrow> None
      | Inr config \<Rightarrow> (case validate_config config of Inl _ \<Rightarrow> None | Inr _ \<Rightarrow> Some config))"

definition resolve_fee_recipient :: "evolve_config \<Rightarrow> address \<Rightarrow> u64 \<Rightarrow> address" where
  "resolve_fee_recipient config suggested n =
     (if suggested \<noteq> ADDRESS_ZERO then suggested
      else (case base_fee_sink_for_block config n of Some sink \<Rightarrow> sink | None \<Rightarrow> suggested))"

text \<open>A payload built: identifier, block, the value reported as fees, and no requests or sidecars.\<close>

datatype blob_sidecars = SidecarsEmpty | SidecarsEip4844 "bytes list" | SidecarsEip7594 "bytes list"

record ('id, 'blk) ev_built_payload =
  bp_id :: 'id
  bp_block :: 'blk
  bp_fees :: u256
  bp_sidecars :: blob_sidecars
  bp_requests :: "requests option"

definition built_payload_new :: "'id \<Rightarrow> 'blk \<Rightarrow> u256 \<Rightarrow> requests option \<Rightarrow> ('id, 'blk) ev_built_payload" where
  "built_payload_new i blk fees reqs =
     \<lparr> bp_id = i, bp_block = blk, bp_fees = fees, bp_sidecars = SidecarsEmpty, bp_requests = reqs \<rparr>"

definition with_sidecars :: "blob_sidecars \<Rightarrow> ('id, 'blk) ev_built_payload \<Rightarrow> ('id, 'blk) ev_built_payload" where
  "with_sidecars sc p = p \<lparr> bp_sidecars := sc \<rparr>"

record ('tx, 'blk) service =
  sv_config :: evolve_config
  sv_dev_mode :: bool
  sv_pending :: "'tx list"
  sv_decode_2718_exact :: "bytes \<Rightarrow> string + 'tx"
  sv_block_gas_used :: "'blk \<Rightarrow> u64"

definition payload_transactions :: "('tx, 'blk) service \<Rightarrow> engine_payload_attributes \<Rightarrow> 'tx list" where
  "payload_transactions V a =
     (if sv_dev_mode V then sv_pending V
      else List.map_filter (\<lambda>raw. ok_option (sv_decode_2718_exact V raw))
             (case en_transactions a of Some l \<Rightarrow> l | None \<Rightarrow> []))"

definition effective_gas_limit :: "sealed_header \<Rightarrow> engine_payload_attributes \<Rightarrow> u64" where
  "effective_gas_limit parent a =
     (case en_gas_limit a of Some g \<Rightarrow> g | None \<Rightarrow> hdr_gas_limit (sh_header parent))"

definition service_attributes ::
    "('tx, 'blk) service \<Rightarrow> sealed_header \<Rightarrow> engine_payload_attributes \<Rightarrow> 'tx list \<Rightarrow> 'tx evolve_payload_attributes" where
  "service_attributes V parent a txs =
     (let n = hdr_number (sh_header parent) + 1 in
      with_slot_number (ra_slot_number (en_inner a))
        (payload_attributes_new txs (Some (effective_gas_limit parent a)) (ra_timestamp (en_inner a)) (ra_prev_randao (en_inner a))
          (resolve_fee_recipient (sv_config V) (ra_suggested_fee_recipient (en_inner a)) n)
          (sh_hash parent) n))"

definition try_build ::
    "('s, 'tx, 'bld, 'blk) builder_ops \<Rightarrow> ('tx, 'blk) service \<Rightarrow> 'id \<Rightarrow> sealed_header \<Rightarrow> engine_payload_attributes
       \<Rightarrow> (globals, payload_builder_error, ('id, 'blk) ev_built_payload) st" where
  "try_build B V i parent a = (\<lambda>g.
     (map_ok (\<lambda>blk. built_payload_new i blk (ucast (sv_block_gas_used V blk)) None)
        (build_payload B (sv_config V) (service_attributes V parent a (payload_transactions V a))),
      set_current_block_gas_limit (effective_gas_limit parent a) g))"

definition build_empty_payload ::
    "('s, 'tx, 'bld, 'blk) builder_ops \<Rightarrow> ('tx, 'blk) service \<Rightarrow> 'id \<Rightarrow> sealed_header \<Rightarrow> engine_payload_attributes
       \<Rightarrow> (globals, payload_builder_error, ('id, 'blk) ev_built_payload) st" where
  "build_empty_payload B V i parent a = (\<lambda>g.
     (map_ok (\<lambda>blk. built_payload_new i blk (ucast (sv_block_gas_used V blk)) None)
        (build_payload B (sv_config V) (service_attributes V parent a [])),
      set_current_block_gas_limit (effective_gas_limit parent a) g))"

section \<open>The contract of the block builder\<close>

text \<open>The transactions whose execution succeeds, in order.\<close>

fun executed :: "('s, 'tx, 'bld, 'blk) builder_ops \<Rightarrow> 'tx list \<Rightarrow> 'bld \<Rightarrow> 'tx list" where
  "executed B [] b = []"
| "executed B (tx # txs) b =
     (case bl_recover B tx of
        None \<Rightarrow> []
      | Some signer \<Rightarrow>
          (case bl_execute_transaction B (tx, signer) b of
             (Inr _, b') \<Rightarrow> tx # executed B txs b'
           | (Inl _, b') \<Rightarrow> executed B txs b'))"

lemma fst_ok_iff: "fst (m s) = Inr a \<longleftrightarrow> (\<exists>s'. m s = (Inr a, s'))"
  by (cases "m s") auto

lemma subseq_executed: "subseq (executed B txs b) txs"
  by (induction B txs b rule: executed.induct) (auto split: option.split prod.split sum.split)

lemma execute_transactions_ok_iff:
  "(\<exists>b'. execute_transactions B txs b = (Inr (), b')) \<longleftrightarrow> (\<forall>tx \<in> set txs. bl_recover B tx \<noteq> None)"
  by (induction B txs b rule: execute_transactions.induct) (auto split: option.split)

locale block_builder =
  fixes B :: "('s, 'tx, 'bld, 'blk) builder_ops"
    and included :: "'bld \<Rightarrow> 'tx list"
    and env_of :: "'bld \<Rightarrow> sealed_header \<times> next_block_attributes"
    and txs_of :: "'blk \<Rightarrow> 'tx list"
    and header_of :: "'blk \<Rightarrow> header"
  assumes new_builder: "bl_builder_for_next_block B s p at = Inr b \<Longrightarrow> included b = [] \<and> env_of b = (p, at)"
    and pre_execution: "bl_apply_pre_execution_changes B b = (r, b') \<Longrightarrow>
      included b' = included b \<and> env_of b' = env_of b"
    and executes: "bl_execute_transaction B (tx, a) b = (r', b') \<Longrightarrow> env_of b' = env_of b \<and>
      included b' = (case r' of Inr _ \<Rightarrow> included b @ [tx] | Inl _ \<Rightarrow> included b)"
    and finished: "bl_finish B s b = Inr blk \<Longrightarrow> env_of b = (p, at) \<Longrightarrow> txs_of blk = included b \<and>
      hdr_number (header_of blk) = hdr_number (sh_header p) + 1 \<and> hdr_parent_hash (header_of blk) = sh_hash p \<and>
      hdr_timestamp (header_of blk) = nb_timestamp at \<and>
      hdr_beneficiary (header_of blk) = nb_suggested_fee_recipient at \<and>
      hdr_mix_hash (header_of blk) = nb_prev_randao at"
begin

lemma execute_transactions_included:
  "execute_transactions B txs b = (Inr (), b') \<Longrightarrow>
     included b' = included b @ executed B txs b \<and> env_of b' = env_of b"
proof (induction txs arbitrary: b)
  case (Cons tx txs)
  then obtain a where a: "bl_recover B tx = Some a" by (auto split: option.splits)
  obtain r b1 where b1: "bl_execute_transaction B (tx, a) b = (r, b1)" by fastforce
  with Cons.prems a have "execute_transactions B txs b1 = (Inr (), b')" by simp
  from Cons.IH [OF this] executes [OF b1] a b1 show ?case by (cases r) simp_all
qed simp

lemma build_payload_ok:
  assumes "build_payload B config a = Inr blk"
  obtains s parent g b0 b1 where
    "ea_gas_limit a = Some g" "g \<noteq> 0" "bl_latest B = Inr s" "bl_header B (ea_parent_hash a) = Inr (Some parent)"
    "bl_builder_for_next_block B s \<lparr> sh_header = parent, sh_hash = ea_parent_hash a \<rparr>
       (next_block_attrs config (hdr_number parent + 1) g a) = Inr b0"
    "bl_apply_pre_execution_changes B b0 = (Inr (), b1)"
    "\<forall>tx \<in> set (ea_transactions a). bl_recover B tx \<noteq> None"
    "txs_of blk = executed B (ea_transactions a) b1"
    "hdr_number (header_of blk) = hdr_number parent + 1" "hdr_parent_hash (header_of blk) = ea_parent_hash a"
    "hdr_timestamp (header_of blk) = ea_timestamp a"
    "hdr_beneficiary (header_of blk) =
       default_fee_recipient config (hdr_number parent + 1) (ea_suggested_fee_recipient a)"
    "hdr_mix_hash (header_of blk) = ea_prev_randao a"
proof -
  obtain s parent g b0 b1 b2 where
    a: "ea_gas_limit a = Some g" "g \<noteq> 0" "bl_latest B = Inr s"
      "bl_header B (ea_parent_hash a) = Inr (Some parent)"
    and b0: "bl_builder_for_next_block B s \<lparr> sh_header = parent, sh_hash = ea_parent_hash a \<rparr>
       (next_block_attrs config (hdr_number parent + 1) g a) = Inr b0"
    and b1: "bl_apply_pre_execution_changes B b0 = (Inr (), b1)"
    and b2: "execute_transactions B (ea_transactions a) b1 = (Inr (), b2)"
    and fin: "bl_finish B s b2 = Inr blk"
    using assms
    by (auto simp: build_payload_def Let_def ok_iff fst_ok_iff validate_attributes_def)
  have env: "env_of b2 = (\<lparr> sh_header = parent, sh_hash = ea_parent_hash a \<rparr>,
      next_block_attrs config (hdr_number parent + 1) g a)" "included b2 = executed B (ea_transactions a) b1"
    using new_builder [OF b0] pre_execution [OF b1] execute_transactions_included [OF b2] by simp_all
  have "\<forall>tx \<in> set (ea_transactions a). bl_recover B tx \<noteq> None"
    using execute_transactions_ok_iff [of B "ea_transactions a" b1] b2 by blast
  with that [OF a b0 b1] finished [OF fin env(1)] env(2) show ?thesis
    by (simp add: next_block_attrs_def)
qed

end

section \<open>The builder over the block executor\<close>

text \<open>
  Reth's basic block builder over \<open>EvBlockExecutor\<close>: a transaction that runs is committed and
  recorded; the header is assembled from the attributes and the execution result. \<open>mk\<close> builds the EVM
  of an environment over a state, \<open>xt\<close> the executable form of a recovered transaction.
\<close>

record ('evm, 'log, 'st, 'tx) exec_builder =
  rb_exec :: "('evm, 'log, 'st) ev_block_executor"
  rb_txs :: "'tx list"
  rb_env :: "sealed_header \<times> next_block_attributes"

record ('log, 'tx) built_block =
  bb_header :: header
  bb_txs :: "'tx list"
  bb_result :: "'log block_execution_result"

definition assemble_header :: "env_block \<Rightarrow> sealed_header \<times> next_block_attributes \<Rightarrow> 'log block_execution_result \<Rightarrow> header" where
  "assemble_header blk env res =
     (case env of (p, at) \<Rightarrow>
       \<lparr> hdr_parent_hash = sh_hash p, hdr_ommers_hash = 0, hdr_state_root = 0, hdr_transactions_root = 0,
         hdr_receipts_root = 0, hdr_logs_bloom = [], hdr_number = hdr_number (sh_header p) + 1,
         hdr_timestamp = nb_timestamp at, hdr_beneficiary = nb_suggested_fee_recipient at, hdr_difficulty = 0,
         hdr_mix_hash = nb_prev_randao at, hdr_gas_limit = eb_gas_limit blk, hdr_gas_used = ber_gas_used res,
         hdr_nonce = 0, hdr_base_fee_per_gas = Some (eb_basefee blk), hdr_withdrawals_root = Some 0,
         hdr_blob_gas_used = Some (ber_blob_gas_used res), hdr_excess_blob_gas = Some 0,
         hdr_block_access_list_hash = None, hdr_requests_hash = None,
         hdr_parent_beacon_block_root = nb_parent_beacon_block_root at, hdr_extra_data = nb_extra_data at,
         hdr_slot_number = nb_slot_number at \<rparr>)"

definition run_exec ::
    "(('evm, 'log, 'st) ev_block_executor, 'e, 'a) st \<Rightarrow> (('evm, 'log, 'st, 'tx) exec_builder, string, 'a) st" where
  "run_exec m = (\<lambda>b. case m (rb_exec b) of (r, x) \<Rightarrow> (map_err (\<lambda>_. ''execution failed'') r, b \<lparr> rb_exec := x \<rparr>))"

definition executor_builder_ops ::
    "('evm, 'env, 'log, 'st, 'err) evm_ops \<Rightarrow> ('evm, 'log, 'err) block_ops \<Rightarrow> spec_ops
       \<Rightarrow> (block_evm_env \<Rightarrow> 's \<Rightarrow> 'evm) \<Rightarrow> ('tx \<times> address \<Rightarrow> 'env executable_tx) \<Rightarrow> string + 's
       \<Rightarrow> (b256 \<Rightarrow> string + header option) \<Rightarrow> ('tx \<Rightarrow> address option)
       \<Rightarrow> ('s, 'tx, ('evm, 'log, 'st, 'tx) exec_builder, ('log, 'tx) built_block) builder_ops" where
  "executor_builder_ops E P S mk xt latest hdrs rec =
     \<lparr> bl_latest = latest, bl_header = hdrs, bl_recover = rec,
       bl_builder_for_next_block = (\<lambda>s p at.
         Inr \<lparr> rb_exec = block_executor_new (mk (next_evm_env S (sh_header p) at) s)
                           (context_for_next_block (sh_hash p) at),
               rb_txs = [], rb_env = (p, at) \<rparr>),
       bl_apply_pre_execution_changes = run_exec (apply_pre_execution_changes P),
       bl_execute_transaction = (\<lambda>t b.
         case run_exec (execute_transaction E P (xt t)) b of
           (Inl e, b') \<Rightarrow> (Inl e, b')
         | (Inr g, b') \<Rightarrow> (Inr (fst g), b' \<lparr> rb_txs := rb_txs b' @ [fst t] \<rparr>)),
       bl_finish = (\<lambda>s b.
         case run_exec (finish E P) b of
           (Inl e, _) \<Rightarrow> Inl e
         | (Inr res, b') \<Rightarrow>
             Inr \<lparr> bb_header = assemble_header (ev_block E (bx_evm (rb_exec b'))) (rb_env b) res,
                   bb_txs = rb_txs b', bb_result = res \<rparr>) \<rparr>"

interpretation exec_builder: block_builder "executor_builder_ops E P S mk xt latest hdrs rec" rb_txs rb_env bb_txs bb_header
  for E P S mk xt latest hdrs rec
  by unfold_locales
    (auto simp: executor_builder_ops_def run_exec_def assemble_header_def split: prod.splits sum.splits)

text \<open>A build over the executor is a run of the block.\<close>

lemma execute_transaction_run:
  assumes "execute_transaction E P tx x = (r, x')" "xt_gas_limit tx = G (xt_env tx)" "block_run E P G x0 outs x"
  shows "\<exists>outs'. block_run E P G x0 outs' x'"
proof -
  obtain q y where y: "execute_transaction_without_commit E tx x = (q, y)" by fastforce
  show ?thesis
  proof (cases q)
    case (Inl e)
    with assms y show ?thesis
      by (auto simp: execute_transaction_def st_bind_def intro: block_run.not_committed)
  next
    case (Inr out)
    with assms y have "commit_transaction E P out y = (fst (commit_transaction E P out y), x')"
      by (auto simp: execute_transaction_def st_bind_def split: prod.splits)
    from block_run.committed [OF assms(3,2) y [unfolded Inr] this] show ?thesis by blast
  qed
qed

lemma execute_transactions_run:
  assumes "\<And>t. xt_gas_limit (xt t) = G (xt_env (xt t))" "B = executor_builder_ops E P S mk xt latest hdrs rec"
  shows "execute_transactions B txs b = (r, b') \<Longrightarrow> block_run E P G x0 outs (rb_exec b) \<Longrightarrow>
     \<exists>outs'. block_run E P G x0 outs' (rb_exec b')"
proof (induction txs arbitrary: b outs)
  case (Cons tx txs)
  show ?case
  proof (cases "rec tx")
    case None
    with Cons show ?thesis by (auto simp: assms(2) executor_builder_ops_def)
  next
    case (Some a)
    obtain q b1 where b1: "bl_execute_transaction B (tx, a) b = (q, b1)" by fastforce
    then obtain r' where "execute_transaction E P (xt (tx, a)) (rb_exec b) = (r', rb_exec b1)"
      by (auto simp: assms(2) executor_builder_ops_def run_exec_def split: prod.splits sum.splits)
    from execute_transaction_run [OF this assms(1) Cons.prems(2)]
    obtain outs1 where "block_run E P G x0 outs1 (rb_exec b1)" by blast
    moreover have "execute_transactions B txs b1 = (r, b')"
      using Cons.prems(1) Some b1 by (simp add: assms(2) executor_builder_ops_def)
    ultimately show ?thesis by (intro Cons.IH)
  qed
qed auto

lemma executor_build_gas:
  fixes E :: "('evm, 'env, 'log, 'st, 'err) evm_ops"
  assumes "block_evm E P G" "\<And>t. xt_gas_limit (xt t) = G (xt_env (xt t))"
    and mk: "\<And>env s. ev_block E (mk env s) = snd env \<and> \<not> ev_enable_amsterdam_eip8037 E (mk env s)"
    and B: "B = executor_builder_ops E P S mk xt latest hdrs rec"
    and "build_payload B config a = Inr blk" "hdrs (ea_parent_hash a) = Inr (Some parent)"
    and "ea_gas_limit a = Some g" "\<not> sp_london_transitions_at S (hdr_number parent + 1)"
  shows "hdr_gas_used (bb_header blk) = ber_gas_used (bb_result blk) \<and>
    unat (hdr_gas_used (bb_header blk)) \<le> unat g \<and> hdr_gas_limit (bb_header blk) = g"
proof -
  let ?at = "next_block_attrs config (hdr_number parent + 1) g a"
  let ?env = "next_evm_env S parent ?at"
  obtain s b0 b1 b2 where
    b0: "bl_builder_for_next_block B s \<lparr> sh_header = parent, sh_hash = ea_parent_hash a \<rparr> ?at = Inr b0"
    and b1: "bl_apply_pre_execution_changes B b0 = (Inr (), b1)"
    and b2: "execute_transactions B (ea_transactions a) b1 = (Inr (), b2)"
    and fin: "bl_finish B s b2 = Inr blk"
    using assms(5-7)
    by (auto simp: build_payload_def Let_def ok_iff fst_ok_iff B executor_builder_ops_def)
  have pre: "apply_pre_execution_changes P (block_executor_new (mk ?env s)
      (context_for_next_block (ea_parent_hash a) ?at)) = (Inr (), rb_exec b1)"
    using b0 b1 by (auto simp: B executor_builder_ops_def run_exec_def ok_iff split: prod.splits)
  obtain outs where run: "block_run E P G (rb_exec b1) outs (rb_exec b2)"
    using execute_transactions_run [OF assms(2) B b2 block_run.start] by blast
  obtain x' where f: "finish E P (rb_exec b2) = (Inr (bb_result blk), x')"
    and h: "bb_header blk = assemble_header (ev_block E (bx_evm x')) (rb_env b2) (bb_result blk)"
    using fin by (auto simp: B executor_builder_ops_def run_exec_def ok_iff split: prod.splits sum.splits)
  have lim: "eb_gas_limit (snd ?env) = g"
    using assms(8) by (simp add: next_evm_env_def Let_def next_block_attrs_def)
  show ?thesis
    using block_evm.run_from_start [OF assms(1) pre run] block_evm.finish_ok [OF assms(1) f] mk [of ?env s] lim
    by (auto simp: h assemble_header_def same_settings_def block_gas_used_def metered_gas_used_def
        split: prod.splits)
qed

section \<open>Properties\<close>

text \<open>C15. A payload that is built holds exactly the transactions whose execution succeeded, in the given
  order; it is only built when every signer is recovered, a non-zero gas limit is given and the parent
  is known; and its header extends that parent with the timestamp, randomness and fee recipient of the
  attributes, where a zero recipient becomes the base-fee sink if the redirect is active at the block.\<close>

theorem build_payload_correct:
  assumes "block_builder B included env_of txs_of header_of" "build_payload B config a = Inr blk"
  shows "\<exists>s parent g b0 b1. ea_gas_limit a = Some g \<and> g \<noteq> 0 \<and> bl_latest B = Inr s \<and>
    bl_header B (ea_parent_hash a) = Inr (Some parent) \<and>
    bl_builder_for_next_block B s \<lparr> sh_header = parent, sh_hash = ea_parent_hash a \<rparr>
       (next_block_attrs config (hdr_number parent + 1) g a) = Inr b0 \<and>
    bl_apply_pre_execution_changes B b0 = (Inr (), b1) \<and>
    None \<notin> bl_recover B ` set (ea_transactions a) \<and>
    txs_of blk = executed B (ea_transactions a) b1 \<and> subseq (txs_of blk) (ea_transactions a) \<and>
    hdr_number (header_of blk) = hdr_number parent + 1 \<and> hdr_parent_hash (header_of blk) = ea_parent_hash a \<and>
    hdr_timestamp (header_of blk) = ea_timestamp a \<and> hdr_mix_hash (header_of blk) = ea_prev_randao a \<and>
    hdr_beneficiary (header_of blk) =
      (if ea_suggested_fee_recipient a \<noteq> ADDRESS_ZERO then ea_suggested_fee_recipient a
       else case base_fee_redirect_settings config of
              Some (sink, h) \<Rightarrow> if h \<le> hdr_number parent + 1 then sink else ADDRESS_ZERO
            | None \<Rightarrow> ADDRESS_ZERO)"
proof -
  have recip: "default_fee_recipient config n r =
      (if r \<noteq> ADDRESS_ZERO then r
       else case base_fee_redirect_settings config of
              Some (sink, h) \<Rightarrow> if h \<le> n then sink else ADDRESS_ZERO | None \<Rightarrow> ADDRESS_ZERO)" for n r
    by (auto simp: default_fee_recipient_def base_fee_sink_for_block_def split: option.split prod.split)
  show ?thesis
    by (rule block_builder.build_payload_ok [OF assms])
      (auto simp: recip subseq_executed image_iff intro!: exI)
qed

text \<open>C17. The service publishes the effective gas limit (the attributes', else the parent's) for the
  transaction RPC whether or not the build succeeds. A payload it returns carries the identifier and
  the block's gas used as its value, and includes only the attributes' decodable transactions, or the
  pool's pending ones in dev mode, in order; the empty payload includes none.\<close>

theorem payload_service_correct:
  assumes "block_builder B included env_of txs_of header_of"
  shows "current_block_gas_limit (snd (try_build B V i parent a g)) =
      (case en_gas_limit a of Some l \<Rightarrow> l | None \<Rightarrow> hdr_gas_limit (sh_header parent)) \<and>
    current_block_gas_limit (snd (build_empty_payload B V i parent a g)) =
      (case en_gas_limit a of Some l \<Rightarrow> l | None \<Rightarrow> hdr_gas_limit (sh_header parent)) \<and>
    (case fst (try_build B V i parent a g) of
       Inl e \<Rightarrow> True
     | Inr p \<Rightarrow> bp_id p = i \<and> bp_fees p = ucast (sv_block_gas_used V (bp_block p)) \<and> bp_requests p = None \<and>
         bp_sidecars p = SidecarsEmpty \<and> hdr_parent_hash (header_of (bp_block p)) = sh_hash parent \<and>
         hdr_timestamp (header_of (bp_block p)) = ra_timestamp (en_inner a) \<and>
         effective_gas_limit parent a \<noteq> 0 \<and>
         subseq (txs_of (bp_block p))
           (if sv_dev_mode V then sv_pending V
            else case en_transactions a of
                   None \<Rightarrow> []
                 | Some l \<Rightarrow> [tx . raw \<leftarrow> l, Inr tx \<leftarrow> [sv_decode_2718_exact V raw]])) \<and>
    (case fst (build_empty_payload B V i parent a g) of
       Inl e \<Rightarrow> True | Inr p \<Rightarrow> txs_of (bp_block p) = [] \<and> hdr_parent_hash (header_of (bp_block p)) = sh_hash parent)"
proof -
  have dec: "List.map_filter (\<lambda>raw. ok_option (f raw)) l = [tx . raw \<leftarrow> l, Inr tx \<leftarrow> [f raw]]"
    for f :: "bytes \<Rightarrow> string + 'b" and l
    by (induction l) (auto simp: map_filter_simps split: sum.split option.split)
  have attrs: "ea_gas_limit (service_attributes V parent a txs) = Some (effective_gas_limit parent a)"
    "ea_parent_hash (service_attributes V parent a txs) = sh_hash parent"
    "ea_timestamp (service_attributes V parent a txs) = ra_timestamp (en_inner a)"
    "ea_transactions (service_attributes V parent a txs) = txs" for txs
    by (simp_all add: service_attributes_def with_slot_number_def payload_attributes_new_def Let_def)
  have ok: "effective_gas_limit parent a \<noteq> 0 \<and> subseq (txs_of blk) txs \<and>
      hdr_parent_hash (header_of blk) = sh_hash parent \<and> hdr_timestamp (header_of blk) = ra_timestamp (en_inner a)"
    if "build_payload B (sv_config V) (service_attributes V parent a txs) = Inr blk" for txs blk
    by (rule block_builder.build_payload_ok [OF assms that]) (auto simp: attrs subseq_executed)
  show ?thesis
    by (auto simp: try_build_def build_empty_payload_def effective_gas_limit_def current_block_gas_limit_def
        set_current_block_gas_limit_def built_payload_new_def payload_transactions_def dec ok_iff
        dest!: ok split: sum.split option.split)
qed

text \<open>C16. With the block executor as the builder, whatever transactions the attributes carry, a block the
  service builds (before Amsterdam and away from the London transition) has the effective gas limit as
  its gas limit and uses at most that much gas.\<close>

theorem built_block_gas_bounded:
  fixes E :: "('evm, 'env, 'log, 'st, 'err) evm_ops"
  assumes "block_evm E P G" "\<And>t. xt_gas_limit (xt t) = G (xt_env (xt t))"
    and "\<And>env s. ev_block E (mk env s) = snd env \<and> \<not> ev_enable_amsterdam_eip8037 E (mk env s)"
    and "B = executor_builder_ops E P S mk xt latest hdrs rec"
    and "hdrs (sh_hash parent) = Inr (Some (sh_header parent))"
    and "\<not> sp_london_transitions_at S (hdr_number (sh_header parent) + 1)"
    and "try_build B V i parent a g = (Inr p, g')"
    and "limit = (case en_gas_limit a of Some l \<Rightarrow> l | None \<Rightarrow> hdr_gas_limit (sh_header parent))"
  shows "hdr_gas_limit (bb_header (bp_block p)) = limit \<and>
    unat (hdr_gas_used (bb_header (bp_block p))) \<le> unat limit \<and>
    current_block_gas_limit g' = hdr_gas_limit (bb_header (bp_block p))"
proof -
  have limit: "limit = effective_gas_limit parent a" by (simp add: assms(8) effective_gas_limit_def)
  let ?a = "service_attributes V parent a (payload_transactions V a)"
  have "build_payload B (sv_config V) ?a = Inr (bp_block p)"
    and g': "g' = set_current_block_gas_limit (effective_gas_limit parent a) g"
    using assms(7) by (auto simp: try_build_def ok_iff built_payload_new_def)
  moreover have "ea_parent_hash ?a = sh_hash parent" "ea_gas_limit ?a = Some (effective_gas_limit parent a)"
    by (simp_all add: service_attributes_def with_slot_number_def payload_attributes_new_def Let_def)
  ultimately show ?thesis
    using executor_build_gas [OF assms(1-4), of "sv_config V" ?a "bp_block p" "sh_header parent"
        "effective_gas_limit parent a"] assms(5,6)
    by (auto simp: limit current_block_gas_limit_def set_current_block_gas_limit_def)
qed

text \<open>A service over the reference EVM that builds a block of two transfers, the third not fitting.\<close>

definition demo_builder ::
    "(address \<Rightarrow> u256, transfer, (ref_evm, unit, address \<Rightarrow> u256, transfer) exec_builder, (unit, transfer) built_block) builder_ops" where
  "demo_builder =
     executor_builder_ops ref_evm_ops ref_block_ops demo_spec_ops
       (\<lambda>env s. \<lparr> re_block = snd env, re_amsterdam = False, re_cap = None, re_balance = s \<rparr>)
       (\<lambda>(t, a). \<lparr> xt_env = t, xt_gas_limit = tf_gas_limit t, xt_blob_gas_used = None,
                    xt_tx_type = TyEvNode, xt_trie_hash = 0 \<rparr>)
       (Inr (\<lambda>a. 100)) (\<lambda>h. Inr (if h = 9 then Some demo_header else None)) (\<lambda>t. Some (tf_from t))"

definition demo_tx :: "u256 \<Rightarrow> transfer" where
  "demo_tx v = \<lparr> tf_from = 1, tf_to = 2, tf_value = v, tf_gas_limit = 25000 \<rparr>"

definition demo_service :: "(transfer, (unit, transfer) built_block) service" where
  "demo_service =
     \<lparr> sv_config = evolve_config_new, sv_dev_mode = False, sv_pending = [],
       sv_decode_2718_exact = (\<lambda>raw. case raw of [v] \<Rightarrow> Inr (demo_tx (ucast v)) | _ \<Rightarrow> Inl ''bad''),
       sv_block_gas_used = (\<lambda>b. hdr_gas_used (bb_header b)) \<rparr>"

definition demo_engine_attrs :: engine_payload_attributes where
  "demo_engine_attrs =
     \<lparr> en_inner = \<lparr> ra_timestamp = 101, ra_prev_randao = 5, ra_suggested_fee_recipient = 7, ra_withdrawals = None,
                    ra_parent_beacon_block_root = None, ra_slot_number = None \<rparr>,
       en_transactions = Some [[10], [], [20], [30]], en_gas_limit = Some 60000 \<rparr>"

definition demo_parent :: sealed_header where
  "demo_parent = \<lparr> sh_header = demo_header, sh_hash = 9 \<rparr>"

lemma demo_xt_gas:
  "xt_gas_limit (case t of (t, a) \<Rightarrow> \<lparr> xt_env = t, xt_gas_limit = tf_gas_limit t, xt_blob_gas_used = None,
      xt_tx_type = TyEvNode, xt_trie_hash = 0 \<rparr>) = tf_gas_limit (xt_env (case t of (t, a) \<Rightarrow>
      \<lparr> xt_env = t, xt_gas_limit = tf_gas_limit t, xt_blob_gas_used = None, xt_tx_type = TyEvNode,
        xt_trie_hash = 0 \<rparr>))"
  by (cases t) simp

lemma ref_finish: "\<exists>res x'. finish ref_evm_ops ref_block_ops x = (Inr res, x')"
  by (simp add: finish_def collect_requests_def drain_dao_def notify_increments_def st_bind_def st_then_def
      st_map_err_def on_evm_def st_get_def ref_evm_ops_def ref_block_ops_def st_modify_def)

lemma demo_builds:
  assumes "ea_gas_limit a = Some g" "g \<noteq> 0" "ea_parent_hash a = 9"
  shows "\<exists>blk. build_payload demo_builder config a = Inr blk"
proof -
  have ops: "bl_latest demo_builder = Inr (\<lambda>a. 100)" "bl_header demo_builder 9 = Inr (Some demo_header)"
    by (simp_all add: demo_builder_def executor_builder_ops_def)
  obtain s where s: "bl_latest demo_builder = Inr s" using ops by blast
  obtain b0 where b0: "bl_builder_for_next_block demo_builder s \<lparr> sh_header = demo_header, sh_hash = 9 \<rparr>
      (next_block_attrs config (hdr_number demo_header + 1) g a) = Inr b0"
    by (simp add: demo_builder_def executor_builder_ops_def)
  have pre: "\<exists>b1. bl_apply_pre_execution_changes demo_builder b = (Inr (), b1)" for b
    by (simp add: demo_builder_def executor_builder_ops_def run_exec_def apply_pre_execution_changes_def
        ref_block_ops_def st_map_err_def st_then_def st_bind_def on_evm_def)
  obtain b1 where b1: "bl_apply_pre_execution_changes demo_builder b0 = (Inr (), b1)" using pre by blast
  obtain b2 where b2: "execute_transactions demo_builder (ea_transactions a) b1 = (Inr (), b2)"
    using execute_transactions_ok_iff [of demo_builder "ea_transactions a" b1]
    by (auto simp: demo_builder_def executor_builder_ops_def)
  obtain res x' where "finish ref_evm_ops ref_block_ops (rb_exec b2) = (Inr res, x')" using ref_finish by blast
  then have "\<exists>blk. bl_finish demo_builder s b2 = Inr blk"
    by (simp add: demo_builder_def executor_builder_ops_def run_exec_def)
  then obtain blk where "bl_finish demo_builder s b2 = Inr blk" by blast
  with assms s b0 b1 b2 ops(2) show ?thesis
    by (simp add: build_payload_def validate_attributes_def ensure_def Let_def st_simps)
qed

lemma demo_block_builder: "block_builder demo_builder rb_txs rb_env bb_txs bb_header"
  unfolding demo_builder_def by (rule exec_builder.block_builder_axioms)

definition demo_attrs :: "transfer evolve_payload_attributes" where
  "demo_attrs = service_attributes demo_service demo_parent demo_engine_attrs
     (payload_transactions demo_service demo_engine_attrs)"

lemma demo_attrs_simps:
  "ea_gas_limit demo_attrs = Some 60000" "ea_parent_hash demo_attrs = 9"
  "ea_transactions demo_attrs = [demo_tx 10, demo_tx 20, demo_tx 30]" "ea_timestamp demo_attrs = 101"
  by (simp_all add: demo_attrs_def service_attributes_def with_slot_number_def payload_attributes_new_def
      effective_gas_limit_def payload_transactions_def demo_service_def demo_engine_attrs_def demo_parent_def
      map_filter_simps Let_def)

theorem build_payload_correct_witness:
  "\<exists>blk. build_payload demo_builder evolve_config_new demo_attrs = Inr blk \<and>
     subseq (bb_txs blk) [demo_tx 10, demo_tx 20, demo_tx 30] \<and> hdr_timestamp (bb_header blk) = 101"
proof -
  obtain blk where b: "build_payload demo_builder evolve_config_new demo_attrs = Inr blk"
    using demo_builds [of demo_attrs 60000] demo_attrs_simps by auto
  from build_payload_correct [OF demo_block_builder b] b show ?thesis
    by (auto simp: demo_attrs_simps)
qed

lemma demo_try_build:
  "\<exists>p g'. try_build demo_builder demo_service (0 :: nat) demo_parent demo_engine_attrs initial_globals = (Inr p, g')"
proof -
  obtain blk where "build_payload demo_builder evolve_config_new demo_attrs = Inr blk"
    using demo_builds [of demo_attrs 60000] demo_attrs_simps by auto
  then show ?thesis by (simp add: try_build_def demo_attrs_def demo_service_def)
qed

theorem payload_service_correct_witness:
  "\<exists>p. fst (try_build demo_builder demo_service (0 :: nat) demo_parent demo_engine_attrs initial_globals) = Inr p \<and>
     subseq (bb_txs (bp_block p)) [demo_tx 10, demo_tx 20, demo_tx 30] \<and>
     current_block_gas_limit (snd (try_build demo_builder demo_service (0 :: nat) demo_parent demo_engine_attrs
       initial_globals)) = 60000"
proof -
  obtain p g' where p: "try_build demo_builder demo_service (0 :: nat) demo_parent demo_engine_attrs initial_globals = (Inr p, g')"
    using demo_try_build by blast
  from payload_service_correct [OF demo_block_builder, of demo_service "0 :: nat" demo_parent demo_engine_attrs
      initial_globals] p show ?thesis
    by (auto simp: demo_service_def demo_engine_attrs_def)
qed

theorem built_block_gas_bounded_witness:
  "\<exists>p g'. try_build demo_builder demo_service (0 :: nat) demo_parent demo_engine_attrs initial_globals = (Inr p, g') \<and>
     unat (hdr_gas_used (bb_header (bp_block p))) \<le> 60000"
proof -
  obtain p g' where p: "try_build demo_builder demo_service (0 :: nat) demo_parent demo_engine_attrs initial_globals = (Inr p, g')"
    using demo_try_build by blast
  have "unat (hdr_gas_used (bb_header (bp_block p))) \<le>
      unat (case en_gas_limit demo_engine_attrs of Some l \<Rightarrow> l | None \<Rightarrow> hdr_gas_limit (sh_header demo_parent))"
    by (rule conjunct1 [OF conjunct2 [OF built_block_gas_bounded [OF ref_block.block_evm_axioms demo_xt_gas _
        demo_builder_def _ _ p refl]]])
      (simp_all add: ref_evm_ops_def demo_parent_def demo_spec_ops_def)
  with p show ?thesis by (auto simp: demo_engine_attrs_def)
qed

end
