(* ===== verification/Payload_Selection.thy ===== *)
theory Payload_Selection
  imports Payload_Builder
begin

text \<open>
  Selection and building together: \<open>getTxs\<close> (\<open>crates/evolve/src/rpc/txpool.rs\<close>) caps its answer by the gas
  limit the payload service published (\<open>crates/node/src/payload_service.rs\<close>), and the block executor
  (\<open>crates/node/src/evm_executor.rs\<close>) refuses a transaction that may use more gas than the block has left.
  The property is that the three fit: an answer fits into one block.
\<close>

section \<open>Refusals\<close>

fun refused_for_gas :: "('err block_execution_error + 'a) \<times> 'x \<Rightarrow> bool" where
  "refused_for_gas (Inl (TransactionGasLimitMoreThanAvailableBlockGas u a), x) = True"
| "refused_for_gas (_, x) = False"

text \<open>The transactions of a build that the executor refuses for lack of block gas.\<close>

fun gas_refusals ::
    "('evm, 'env, 'log, 'st, 'err) evm_ops \<Rightarrow> ('tx \<times> address \<Rightarrow> 'env executable_tx)
       \<Rightarrow> ('s, 'tx, ('evm, 'log, 'st, 'tx) exec_builder, 'blk) builder_ops \<Rightarrow> 'tx list
       \<Rightarrow> ('evm, 'log, 'st, 'tx) exec_builder \<Rightarrow> 'tx list" where
  "gas_refusals E xt B [] b = []"
| "gas_refusals E xt B (tx # txs) b =
     (case bl_recover B tx of
        None \<Rightarrow> []
      | Some a \<Rightarrow>
          (if refused_for_gas (execute_transaction_without_commit E (xt (tx, a)) (rb_exec b)) then [tx] else [])
          @ gas_refusals E xt B txs (snd (bl_execute_transaction B (tx, a) b)))"

section \<open>Gas along a build\<close>

lemma max_tx_gas_usage_le: "max_tx_gas_usage cap limit \<le> limit"
  by (simp add: max_tx_gas_usage_def split: option.split)

lemma refused_for_gas_iff:
  "refused_for_gas (execute_transaction_without_commit E tx x) \<longleftrightarrow>
     (\<exists>u a. execute_transaction_without_commit E tx x = (Inl (TransactionGasLimitMoreThanAvailableBlockGas u a), x))"
proof (cases "ev_transact E (xt_env tx) (bx_evm x)")
  case (Pair r evm')
  then show ?thesis
    by (cases r) (auto simp: execute_transaction_without_commit_def Let_def st_bind_def st_map_err_def st_return_def
      on_evm_def)
qed

context block_evm
begin

text \<open>A transaction whose gas limit fits what is left is not refused and takes at most its limit.\<close>

lemma execute_fits:
  assumes run: "execute_transaction E P tx x = (r, x')" and G: "xt_gas_limit tx = G (xt_env tx)"
    and fits: "unat (metered_gas_used E x) + unat (xt_gas_limit tx) \<le> unat (eb_gas_limit (ev_block E (bx_evm x)))"
  shows "\<not> refused_for_gas (execute_transaction_without_commit E tx x)" "same_settings E (bx_evm x) (bx_evm x')"
    "unat (metered_gas_used E x') \<le> unat (metered_gas_used E x) + unat (xt_gas_limit tx)"
proof -
  let ?usage = "max_tx_gas_usage (ev_tx_gas_limit_cap E (bx_evm x)) (xt_gas_limit tx)"
  have usage: "unat ?usage \<le> unat (xt_gas_limit tx)" using max_tx_gas_usage_le by (simp add: word_le_nat_alt)
  have lim: "unat (metered_gas_used E x) \<le> unat (eb_gas_limit (ev_block E (bx_evm x)))" using fits by simp
  show "\<not> refused_for_gas (execute_transaction_without_commit E tx x)"
    unfolding refused_for_gas_iff refused_iff [OF lim] using fits usage by linarith
  obtain q y where y: "execute_transaction_without_commit E tx x = (q, y)" by fastforce
  note keeps = execute_keeps [OF y] and settings = execute_settings [OF y]
  have my: "metered_gas_used E y = metered_gas_used E x"
    using keeps settings by (simp add: metered_gas_used_def same_settings_def)
  have "same_settings E (bx_evm x) (bx_evm x') \<and>
      unat (metered_gas_used E x') \<le> unat (metered_gas_used E x) + unat (xt_gas_limit tx)"
  proof (cases q)
    case (Inl e)
    then have "x' = y" using run y by (simp add: execute_transaction_def st_bind_def)
    then show ?thesis using settings my by simp
  next
    case (Inr out)
    then obtain g where c: "commit_transaction E P out y = (g, x')"
      using run y by (auto simp: execute_transaction_def st_bind_def split: prod.splits)
    have s: "same_settings E (bx_evm x) (bx_evm x')"
      using settings c commit_settings by (auto simp: commit_transaction_defs same_settings_def split: if_splits)
    have m: "metered_gas_used E x' = metered_gas_used E x + metered_of E (bx_evm x) out"
      using s settings c keeps
      by (auto simp: commit_transaction_defs metered_gas_used_def metered_of_def same_settings_def split: if_splits)
    obtain ch evm' where t: "ev_transact E (xt_env tx) (bx_evm x) = (Inr (tr_result out, ch), evm')"
      using y Inr by (auto simp: execute_transaction_without_commit_def Let_def ok_iff on_evm_def split: if_splits prod.splits)
    have "unat (metered_of E (bx_evm x) out) \<le> unat (xt_gas_limit tx)"
      using transact_gas [OF t] usage G by (simp add: metered_of_def word_le_nat_alt)
    then show ?thesis using s m by (simp add: unat_word_ariths)
  qed
  then show "same_settings E (bx_evm x) (bx_evm x')"
    "unat (metered_gas_used E x') \<le> unat (metered_gas_used E x) + unat (xt_gas_limit tx)" by simp_all
qed

text \<open>Transactions whose gas limits together fit what is left are all given to the EVM.\<close>

lemma none_refused:
  assumes G: "\<And>t. xt_gas_limit (xt t) = G (xt_env (xt t))"
    and B: "B = executor_builder_ops E P S mk xt latest hdrs rec"
  shows "list_all (\<lambda>(tx, l). \<forall>a. xt_gas_limit (xt (tx, a)) = l) (zip txs limits) \<Longrightarrow> length limits = length txs \<Longrightarrow>
    unat (metered_gas_used E (rb_exec b)) + (\<Sum>l\<leftarrow>limits. unat l) \<le> unat (eb_gas_limit (ev_block E (bx_evm (rb_exec b)))) \<Longrightarrow>
    gas_refusals E xt B txs b = []"
proof (induction txs arbitrary: limits b)
  case (Cons tx txs)
  obtain l ls where l: "limits = l # ls" using Cons.prems(2) by (cases limits) auto
  show ?case
  proof (cases "bl_recover B tx")
    case (Some a)
    let ?x = "rb_exec b" and ?b = "snd (bl_execute_transaction B (tx, a) b)"
    have lim: "xt_gas_limit (xt (tx, a)) = l" using Cons.prems(1) by (simp add: l)
    have fits: "unat (metered_gas_used E ?x) + unat (xt_gas_limit (xt (tx, a))) \<le> unat (eb_gas_limit (ev_block E (bx_evm ?x)))"
      using Cons.prems(3) by (simp add: l lim)
    obtain r where r: "execute_transaction E P (xt (tx, a)) ?x = (r, rb_exec ?b)"
      by (cases "execute_transaction E P (xt (tx, a)) ?x")
        (auto simp: B executor_builder_ops_def run_exec_def split: sum.splits)
    note e = execute_fits [OF r G fits]
    have "gas_refusals E xt B txs ?b = []"
      by (rule Cons.IH [of ls]) (use Cons.prems e(2,3) lim in \<open>auto simp: l same_settings_def\<close>)
    then show ?thesis using e(1) Some by simp
  qed simp
qed simp

end

section \<open>Properties\<close>

text \<open>C40. What \<open>getTxs\<close> answers fits into one block. After an attempt to build a payload, whether it
  succeeded or not, \<open>getTxs\<close> returns transactions of the pool that are all given to the EVM when they are
  built, in that order, into a block with the same gas limit: the block executor refuses none of them
  for lack of block gas, so the block holds every one of them that the EVM itself does not refuse. The
  pool entries are those of transactions that decode and carry the gas limit of the entry, their sizes
  and gas do not overflow 64 bits, and the block is before Amsterdam and away from the London
  transition.\<close>

theorem selected_transactions_fit:
  fixes E :: "('evm, 'env, 'log, 'st, 'err) evm_ops"
  assumes "block_evm E P G" "\<And>t. xt_gas_limit (xt t) = G (xt_env (xt t))"
    and mk: "\<And>env s. ev_block E (mk env s) = snd env \<and> \<not> ev_enable_amsterdam_eip8037 E (mk env s)"
    and B: "B = executor_builder_ops E P S mk xt latest hdrs rec"
    and published: "g1 = snd (try_build B' V' i' parent' a' g0)"
    and answer: "raws = get_txs max_bytes best g1" "pool_fits best"
    and entries: "\<And>t. t \<in> set best \<Longrightarrow> sv_decode_2718_exact V (pe_encoded t) = Inr (dec t)"
      "\<And>t s. t \<in> set best \<Longrightarrow> xt_gas_limit (xt (dec t, s)) = pe_gas_limit t"
    and attrs: "en_transactions a = Some raws" "\<not> sv_dev_mode V"
      "effective_gas_limit parent a = effective_gas_limit parent' a'"
    and parent: "hdrs (sh_hash parent) = Inr (Some (sh_header parent))"
      "\<not> sp_london_transitions_at S (hdr_number (sh_header parent) + 1)"
    and built: "try_build B V i parent a g1 = (Inr p, g2)"
  shows "\<exists>k s b0 b1. raws = map pe_encoded (take k best) \<and> bl_latest B = Inr s \<and>
    bl_builder_for_next_block B s parent
      (next_block_attrs (sv_config V) (hdr_number (sh_header parent) + 1) (effective_gas_limit parent a)
        (service_attributes V parent a (map dec (take k best)))) = Inr b0 \<and>
    bl_apply_pre_execution_changes B b0 = (Inr (), b1) \<and>
    gas_refusals E xt B (map dec (take k best)) b1 = [] \<and>
    bb_txs (bp_block p) = executed B (map dec (take k best)) b1"
proof -
  let ?l = "effective_gas_limit parent a"
  have g1: "current_block_gas_limit g1 = ?l"
    by (simp add: published attrs(3) try_build_def current_block_gas_limit_def set_current_block_gas_limit_def)
  obtain out where out: "raws = map pe_encoded out" "best_prefix (unat max_bytes) (unat ?l) best out"
    using get_txs_best_prefix [OF answer(2), of max_bytes g1] answer(1) g1
    by (auto simp: current_block_gas_limit_def)
  then obtain k where k: "out = take k best" and w: "within (unat max_bytes) (unat ?l) (take k best)"
    by (auto simp: best_prefix_def)
  let ?txs = "map dec (take k best)"
  have sub: "t \<in> set best" if "t \<in> set (take k best)" for t using that by (rule in_set_takeD)
  have "List.map_filter (\<lambda>raw. ok_option (sv_decode_2718_exact V raw)) (map pe_encoded ts) = map dec ts"
    if "set ts \<subseteq> set best" for ts using that by (induction ts) (auto simp: map_filter_simps entries(1))
  then have txs: "payload_transactions V a = ?txs"
    using sub attrs(1,2) by (simp add: payload_transactions_def out(1) k subset_iff)
  let ?a = "service_attributes V parent a ?txs"
  have a: "ea_parent_hash ?a = sh_hash parent" "ea_gas_limit ?a = Some ?l" "ea_transactions ?a = ?txs"
    by (simp_all add: service_attributes_def with_slot_number_def payload_attributes_new_def Let_def)
  have "build_payload B (sv_config V) ?a = Inr (bp_block p)"
    using built by (auto simp: try_build_def ok_iff built_payload_new_def txs)
  then obtain s parent1 b0 b1 where latest: "bl_latest B = Inr s" and hd: "bl_header B (sh_hash parent) = Inr (Some parent1)" and l: "?l \<noteq> 0"
    and b0: "bl_builder_for_next_block B s \<lparr> sh_header = parent1, sh_hash = sh_hash parent \<rparr>
        (next_block_attrs (sv_config V) (hdr_number parent1 + 1) ?l ?a) = Inr b0"
    and b1: "bl_apply_pre_execution_changes B b0 = (Inr (), b1)" and ex: "bb_txs (bp_block p) = executed B ?txs b1"
    by (rule exec_builder.build_payload_ok [of E P S mk xt latest hdrs rec, folded B])
      (use a in auto)
  have p1: "parent1 = sh_header parent" using hd parent(1) by (simp add: B executor_builder_ops_def)
  let ?at = "next_block_attrs (sv_config V) (hdr_number (sh_header parent) + 1) ?l ?a"
  let ?env = "next_evm_env S (sh_header parent) ?at"
  have pre: "apply_pre_execution_changes P (block_executor_new (mk ?env s)
      (context_for_next_block (sh_hash parent) ?at)) = (Inr (), rb_exec b1)"
    using b0 b1 by (auto simp: B p1 executor_builder_ops_def run_exec_def ok_iff split: prod.splits)
  note start = block_evm.pre_execution_start [OF assms(1) pre]
  have lim: "eb_gas_limit (snd ?env) = ?l"
    using parent(2) by (simp add: next_evm_env_def Let_def next_block_attrs_def)
  have block: "eb_gas_limit (ev_block E (bx_evm (rb_exec b1))) = ?l"
    using conjunct1 [OF start] mk [of ?env s] lim by (simp add: same_settings_def)
  have zero: "metered_gas_used E (rb_exec b1) = 0"
    by (subst conjunct2 [OF start]) (simp add: metered_gas_used_def block_executor_new_def)
  have fit: "(\<Sum>t\<leftarrow>take k best. unat (pe_gas_limit t)) \<le> unat ?l"
    using w l by (simp add: within_def gas_of_def unat_eq_zero)
  have "gas_refusals E xt B ?txs b1 = []"
    by (rule block_evm.none_refused [OF assms(1,2) B, of _ "map pe_gas_limit (take k best)"])
      (use sub fit entries(2) in \<open>auto simp: zero block list_all_length comp_def set_conv_nth\<close>)
  moreover have "bl_builder_for_next_block B s parent ?at = Inr b0" using b0 p1 by (cases parent) simp
  ultimately show ?thesis using latest b1 ex out(1) unfolding k by blast
qed

text \<open>Three pool transactions of which two fit the published limit of 60000, and a block built of the answer.\<close>

definition demo_pool :: "pool_entry list" where
  "demo_pool = map (\<lambda>v. \<lparr> pe_encoded = [v], pe_encoded_length = 1, pe_gas_limit = 25000 \<rparr>) [10, 20, 30]"

definition demo_published :: globals where
  "demo_published = snd (try_build demo_builder demo_service (0 :: nat) demo_parent demo_engine_attrs initial_globals)"

definition demo_answer_attrs :: engine_payload_attributes where
  "demo_answer_attrs = demo_engine_attrs \<lparr> en_transactions := Some (get_txs 1000 demo_pool demo_published) \<rparr>"

lemma demo_answer: "get_txs 1000 demo_pool demo_published = [[10], [20]]"
  by (simp add: get_txs_def demo_pool_def demo_published_def try_build_def effective_gas_limit_def
      demo_engine_attrs_def current_block_gas_limit_def set_current_block_gas_limit_def)

lemma demo_answer_builds:
  "\<exists>p g. try_build demo_builder demo_service (1 :: nat) demo_parent demo_answer_attrs demo_published = (Inr p, g)"
proof -
  let ?a = "service_attributes demo_service demo_parent demo_answer_attrs
    (payload_transactions demo_service demo_answer_attrs)"
  have "ea_gas_limit ?a = Some 60000" "ea_parent_hash ?a = 9"
    by (simp_all add: service_attributes_def with_slot_number_def payload_attributes_new_def Let_def
        effective_gas_limit_def demo_answer_attrs_def demo_engine_attrs_def demo_parent_def)
  then obtain blk where "build_payload demo_builder (sv_config demo_service) ?a = Inr blk"
    using demo_builds [of ?a 60000] by auto
  then show ?thesis by (simp add: try_build_def)
qed

theorem selected_transactions_fit_witness:
  "get_txs 1000 demo_pool demo_published = [[10], [20]] \<and>
   (\<exists>p g b1. try_build demo_builder demo_service (1 :: nat) demo_parent demo_answer_attrs demo_published = (Inr p, g) \<and>
     bb_txs (bp_block p) = executed demo_builder [demo_tx 10, demo_tx 20] b1)"
proof -
  let ?dec = "\<lambda>t. demo_tx (ucast (hd (pe_encoded t)))"
  obtain p g where p: "try_build demo_builder demo_service (1 :: nat) demo_parent demo_answer_attrs demo_published = (Inr p, g)"
    using demo_answer_builds by blast
  have mk: "ev_block ref_evm_ops \<lparr> re_block = snd env, re_amsterdam = False, re_cap = None, re_balance = s \<rparr> = snd env \<and>
      \<not> ev_enable_amsterdam_eip8037 ref_evm_ops \<lparr> re_block = snd env, re_amsterdam = False, re_cap = None, re_balance = s \<rparr>"
    for env :: block_evm_env and s by (simp add: ref_evm_ops_def)
  have pool: "pool_fits demo_pool" by (simp add: pool_fits_def demo_pool_def)
  have entries: "sv_decode_2718_exact demo_service (pe_encoded t) = Inr (?dec t)" "tf_gas_limit (?dec t) = pe_gas_limit t"
    if "t \<in> set demo_pool" for t using that by (auto simp: demo_pool_def demo_service_def demo_tx_def)
  have attrs: "en_transactions demo_answer_attrs = Some (get_txs 1000 demo_pool demo_published)"
    "\<not> sv_dev_mode demo_service"
    "effective_gas_limit demo_parent demo_answer_attrs = effective_gas_limit demo_parent demo_engine_attrs"
    by (simp_all add: demo_answer_attrs_def demo_service_def effective_gas_limit_def)
  obtain k b1 where k: "get_txs 1000 demo_pool demo_published = map pe_encoded (take k demo_pool)"
    and ex: "bb_txs (bp_block p) = executed demo_builder (map ?dec (take k demo_pool)) b1"
    using selected_transactions_fit [OF ref_block.block_evm_axioms demo_xt_gas mk demo_builder_def demo_published_def refl pool
        entries(1) _ attrs _ _ p] entries(2)
    by (auto simp: demo_parent_def demo_spec_ops_def)
  have "map ?dec (take k demo_pool) = map (\<lambda>raw. demo_tx (ucast (hd raw))) (map pe_encoded (take k demo_pool))"
    by simp
  then have "map ?dec (take k demo_pool) = [demo_tx 10, demo_tx 20]" by (simp only: k [symmetric] demo_answer) simp
  with p ex demo_answer show ?thesis by metis
qed

end
