(* ===== verification/Engine_Api.thy ===== *)
theory Engine_Api
  imports Payload_Builder Ev_Primitives_Correct
begin

text \<open>
  The engine API side of the node: the payload validator of \<open>crates/node/src/validator.rs\<close>, which
  falls back to its own parsing when reth's validator does not know the EvNode transaction type or
  computes another block hash, and the conversions of a built payload into the engine envelopes of
  \<open>crates/node/src/payload_types.rs\<close>. Reth's payload validator, the trie roots, the header hash and
  the transaction decoder are the parameter \<open>validator_ops\<close>.
\<close>

section \<open>Payload validation\<close>

record 'tx block =
  bk_header :: header
  bk_txs :: "'tx list"
  bk_ommers :: "header list"
  bk_withdrawals :: "withdrawal list option"

record 'tx sealed_block =
  sb_block :: "'tx block"
  sb_hash :: b256

text \<open>\<open>PayloadError\<close>: a hash mismatch, a decoding error with its text, or another error.\<close>

datatype payload_error = PayloadBlockHash b256 b256 | PayloadDecode string | PayloadOtherError string

text \<open>\<open>NewPayloadError::Other\<close> boxes any error: here a text, or a payload error.\<close>

datatype new_payload_error =
  NewPayloadEth payload_error | NewPayloadOther string | NewPayloadBoxed payload_error

record ('eth, 'eblk) validator_ops =
  vo_inner_well_formed :: "execution_data \<Rightarrow> payload_error + 'eth sealed_block"
  vo_inner_as_ev_block :: "execution_data \<Rightarrow> payload_error + 'eblk"
  vo_decode_2718 :: "bytes \<Rightarrow> string + 'eth ev_tx_envelope \<times> bytes"
  vo_transaction_root :: "'eth ev_tx_envelope list \<Rightarrow> b256"
  vo_withdrawals_root :: "withdrawal list \<Rightarrow> b256"
  vo_hash_slow :: "header \<Rightarrow> b256"
  vo_recover_signer :: "'eth ev_tx_envelope \<Rightarrow> address option"
  vo_empty_ommer_root :: b256

definition UNKNOWN_TX_TYPE_ERROR_MSG :: string where
  "UNKNOWN_TX_TYPE_ERROR_MSG = ''unexpected tx type''"

fun contains :: "string \<Rightarrow> string \<Rightarrow> bool" where
  "contains pat [] \<longleftrightarrow> pat = []"
| "contains pat (c # cs) \<longleftrightarrow> prefix pat (c # cs) \<or> contains pat cs"

fun is_unknown_tx_type_error :: "payload_error \<Rightarrow> bool" where
  "is_unknown_tx_type_error (PayloadDecode msg) \<longleftrightarrow> contains UNKNOWN_TX_TYPE_ERROR_MSG msg"
| "is_unknown_tx_type_error _ \<longleftrightarrow> False"

definition should_bypass :: "payload_error \<Rightarrow> bool" where
  "should_bypass err \<longleftrightarrow> (case err of PayloadBlockHash _ _ \<Rightarrow> True | _ \<Rightarrow> is_unknown_tx_type_error err)"

definition convert_sealed_block :: "'eth sealed_block \<Rightarrow> 'eth ev_tx_envelope sealed_block" where
  "convert_sealed_block s =
     \<lparr> sb_block = \<lparr> bk_header = bk_header (sb_block s), bk_txs = map Ethereum (bk_txs (sb_block s)),
                    bk_ommers = bk_ommers (sb_block s), bk_withdrawals = bk_withdrawals (sb_block s) \<rparr>,
       sb_hash = sb_hash s \<rparr>"

text \<open>\<open>decode_2718\<close> reads one transaction from the front of the bytes; what follows is not looked at.\<close>

fun decode_all :: "(bytes \<Rightarrow> string + 'tx \<times> bytes) \<Rightarrow> bytes list \<Rightarrow> new_payload_error + 'tx list" where
  "decode_all d [] = Inr []"
| "decode_all d (raw # raws) =
     and_then (map_err NewPayloadOther (d raw)) (\<lambda>(tx, _).
     and_then (decode_all d raws) (\<lambda>txs. Inr (tx # txs)))"

definition parsed_header ::
    "('eth, 'eblk) validator_ops \<Rightarrow> execution_data \<Rightarrow> 'eth ev_tx_envelope list \<Rightarrow> header" where
  "parsed_header V p txs =
     \<lparr> hdr_parent_hash = pl_parent_hash p, hdr_ommers_hash = vo_empty_ommer_root V,
       hdr_state_root = pl_state_root p, hdr_transactions_root = vo_transaction_root V txs,
       hdr_receipts_root = pl_receipts_root p, hdr_logs_bloom = pl_logs_bloom p,
       hdr_number = pl_block_number p, hdr_timestamp = pl_timestamp p, hdr_beneficiary = pl_fee_recipient p,
       hdr_difficulty = 0, hdr_mix_hash = pl_prev_randao p, hdr_gas_limit = pl_gas_limit p,
       hdr_gas_used = pl_gas_used p, hdr_nonce = 0, hdr_base_fee_per_gas = Some (pl_saturated_base_fee p),
       hdr_withdrawals_root = map_option (vo_withdrawals_root V) (pl_withdrawals p),
       hdr_blob_gas_used = pl_blob_gas_used p, hdr_excess_blob_gas = pl_excess_blob_gas p,
       hdr_block_access_list_hash = pl_bal_hash p, hdr_requests_hash = pl_requests_hash p,
       hdr_parent_beacon_block_root = pl_parent_beacon_block_root p, hdr_extra_data = pl_extra_data p,
       hdr_slot_number = pl_slot_number p \<rparr>"

definition parse_evolve_payload ::
    "('eth, 'eblk) validator_ops \<Rightarrow> execution_data \<Rightarrow> new_payload_error + 'eth ev_tx_envelope sealed_block" where
  "parse_evolve_payload V p =
     and_then (decode_all (vo_decode_2718 V) (pl_transactions p)) (\<lambda>txs.
       (let h = parsed_header V p txs in
        Inr \<lparr> sb_block = \<lparr> bk_header = h, bk_txs = txs, bk_ommers = [], bk_withdrawals = pl_withdrawals p \<rparr>,
              sb_hash = vo_hash_slow V h \<rparr>))"

text \<open>\<open>try_recover\<close>: a recovered block has the signer of every transaction.\<close>

fun recover_all :: "('tx \<Rightarrow> address option) \<Rightarrow> 'tx list \<Rightarrow> address list option" where
  "recover_all r [] = Some []"
| "recover_all r (tx # txs) =
     (case r tx of
        None \<Rightarrow> None
      | Some a \<Rightarrow> map_option ((#) a) (recover_all r txs))"

definition try_recover ::
    "('eth, 'eblk) validator_ops \<Rightarrow> 'eth ev_tx_envelope sealed_block
       \<Rightarrow> new_payload_error + 'eth ev_tx_envelope sealed_block \<times> address list" where
  "try_recover V b =
     map_ok (\<lambda>signers. (b, signers))
       (ok_or (NewPayloadOther ''failed to recover'') (recover_all (vo_recover_signer V) (bk_txs (sb_block b))))"

definition ensure_well_formed_payload ::
    "('eth, 'eblk) validator_ops \<Rightarrow> execution_data
       \<Rightarrow> new_payload_error + 'eth ev_tx_envelope sealed_block \<times> address list" where
  "ensure_well_formed_payload V p =
     (case vo_inner_well_formed V p of
        Inr sealed \<Rightarrow> try_recover V (convert_sealed_block sealed)
      | Inl err \<Rightarrow>
          if should_bypass err then and_then (parse_evolve_payload V p) (try_recover V)
          else Inl (NewPayloadEth err))"

definition convert_payload_to_block ::
    "('eth, 'eblk) validator_ops \<Rightarrow> execution_data \<Rightarrow> new_payload_error + 'eblk" where
  "convert_payload_to_block V p = map_err NewPayloadBoxed (vo_inner_as_ev_block V p)"

definition validate_payload_attributes_against_header ::
    "engine_payload_attributes \<Rightarrow> header \<Rightarrow> string + unit" where
  "validate_payload_attributes_against_header a h = Inr ()"

text \<open>\<open>vf\<close> is reth's check of the fields an engine version requires or forbids.\<close>

definition ensure_well_formed_attributes ::
    "('v \<Rightarrow> engine_payload_attributes \<Rightarrow> 'e + unit) \<Rightarrow> 'v \<Rightarrow> engine_payload_attributes \<Rightarrow> 'e + unit" where
  "ensure_well_formed_attributes vf version a = and_then (vf version a) (\<lambda>_. Inr ())"

section \<open>Engine envelopes\<close>

datatype conversion_error = UnexpectedEip7594Sidecars | UnexpectedEip4844Sidecars

text \<open>
  The conversions use alloy's payloads from a block: V1, the V2 field and V3, and the header's
  access list hash and slot number for V6.
\<close>

record ('blk, 'p1, 'p2, 'p3) envelope_ops =
  eo_v1 :: "'blk \<Rightarrow> 'p1"
  eo_field_v2 :: "'blk \<Rightarrow> 'p2"
  eo_v3 :: "'blk \<Rightarrow> 'p3"
  eo_block_access_list_hash :: "'blk \<Rightarrow> b256 option"
  eo_slot_number :: "'blk \<Rightarrow> u64 option"
  eo_empty_block_access_list_hash :: b256

record 'p2 envelope_v2 =
  e2_block_value :: u256
  e2_payload :: 'p2

record 'p3 envelope_v3 =
  e3_payload :: 'p3
  e3_block_value :: u256
  e3_should_override_builder :: bool
  e3_blobs :: "bytes list"

record 'p3 envelope_v4 =
  e4_requests :: requests
  e4_inner :: "'p3 envelope_v3"

record 'p3 envelope_v5 =
  e5_payload :: 'p3
  e5_block_value :: u256
  e5_should_override_builder :: bool
  e5_blobs :: "bytes list"
  e5_requests :: requests

record 'p3 payload_v4 =
  p4_inner :: 'p3
  p4_block_access_list :: bytes
  p4_slot_number :: u64

definition into_v1 :: "('blk, 'p1, 'p2, 'p3) envelope_ops \<Rightarrow> ('id, 'blk) ev_built_payload \<Rightarrow> 'p1" where
  "into_v1 O1 p = eo_v1 O1 (bp_block p)"

definition into_v2 :: "('blk, 'p1, 'p2, 'p3) envelope_ops \<Rightarrow> ('id, 'blk) ev_built_payload \<Rightarrow> 'p2 envelope_v2" where
  "into_v2 O1 p = \<lparr> e2_block_value = bp_fees p, e2_payload = eo_field_v2 O1 (bp_block p) \<rparr>"

definition blobs_v1 :: "blob_sidecars \<Rightarrow> conversion_error + bytes list" where
  "blobs_v1 sc = (case sc of SidecarsEmpty \<Rightarrow> Inr [] | SidecarsEip4844 l \<Rightarrow> Inr l
                  | SidecarsEip7594 _ \<Rightarrow> Inl UnexpectedEip7594Sidecars)"

definition blobs_v2 :: "blob_sidecars \<Rightarrow> conversion_error + bytes list" where
  "blobs_v2 sc = (case sc of SidecarsEmpty \<Rightarrow> Inr [] | SidecarsEip7594 l \<Rightarrow> Inr l
                  | SidecarsEip4844 _ \<Rightarrow> Inl UnexpectedEip4844Sidecars)"

definition try_into_v3 ::
    "('blk, 'p1, 'p2, 'p3) envelope_ops \<Rightarrow> ('id, 'blk) ev_built_payload \<Rightarrow> conversion_error + 'p3 envelope_v3" where
  "try_into_v3 O1 p =
     and_then (blobs_v1 (bp_sidecars p)) (\<lambda>blobs.
       Inr \<lparr> e3_payload = eo_v3 O1 (bp_block p), e3_block_value = bp_fees p,
             e3_should_override_builder = False, e3_blobs = blobs \<rparr>)"

definition requests_or_default :: "requests option \<Rightarrow> requests" where
  "requests_or_default r = (case r of Some l \<Rightarrow> l | None \<Rightarrow> [])"

definition try_into_v4 ::
    "('blk, 'p1, 'p2, 'p3) envelope_ops \<Rightarrow> ('id, 'blk) ev_built_payload \<Rightarrow> conversion_error + 'p3 envelope_v4" where
  "try_into_v4 O1 p =
     map_ok (\<lambda>inner. \<lparr> e4_requests = requests_or_default (bp_requests p), e4_inner = inner \<rparr>) (try_into_v3 O1 p)"

definition try_into_v5 ::
    "('blk, 'p1, 'p2, 'p3) envelope_ops \<Rightarrow> ('id, 'blk) ev_built_payload \<Rightarrow> conversion_error + 'p3 envelope_v5" where
  "try_into_v5 O1 p =
     and_then (blobs_v2 (bp_sidecars p)) (\<lambda>blobs.
       Inr \<lparr> e5_payload = eo_v3 O1 (bp_block p), e5_block_value = bp_fees p,
             e5_should_override_builder = False, e5_blobs = blobs,
             e5_requests = requests_or_default (bp_requests p) \<rparr>)"

definition try_into_v6 ::
    "('blk, 'p1, 'p2, 'p3) envelope_ops \<Rightarrow> ('id, 'blk) ev_built_payload
       \<Rightarrow> conversion_error + 'p3 payload_v4 envelope_v5" where
  "try_into_v6 O1 p =
     and_then (blobs_v2 (bp_sidecars p)) (\<lambda>blobs.
       (let bal = (case eo_block_access_list_hash O1 (bp_block p) of
                     None \<Rightarrow> word256_bytes (eo_empty_block_access_list_hash O1)
                   | Some h \<Rightarrow> word256_bytes h) in
        Inr \<lparr> e5_payload = \<lparr> p4_inner = eo_v3 O1 (bp_block p), p4_block_access_list = bal,
                             p4_slot_number = (case eo_slot_number O1 (bp_block p) of Some n \<Rightarrow> n | None \<Rightarrow> 0) \<rparr>,
              e5_block_value = bp_fees p, e5_should_override_builder = False, e5_blobs = blobs,
              e5_requests = requests_or_default (bp_requests p) \<rparr>))"

section \<open>What reth's validator guarantees\<close>

text \<open>A block it accepts has the hash the payload names, which is the hash of its header, and the payload's fields.\<close>

locale inner_validator =
  fixes V :: "('eth, 'eblk) validator_ops"
  assumes accepted: "vo_inner_well_formed V p = Inr s \<Longrightarrow>
      sb_hash s = pl_block_hash p \<and> sb_hash s = vo_hash_slow V (bk_header (sb_block s)) \<and>
      same_block (bk_header (sb_block s)) p \<and> length (bk_txs (sb_block s)) = length (pl_transactions p)"

lemma contains_iff: "contains pat s \<longleftrightarrow> sublist pat s"
  by (induction pat s rule: contains.induct) (auto simp: sublist_Cons_right)

lemma should_bypass_iff:
  "should_bypass err \<longleftrightarrow> (\<exists>h h'. err = PayloadBlockHash h h') \<or>
     (\<exists>m. err = PayloadDecode m \<and> sublist ''unexpected tx type'' m)"
  by (cases err) (simp_all add: should_bypass_def UNKNOWN_TX_TYPE_ERROR_MSG_def contains_iff)

lemma decode_all_ok:
  "decode_all d raws = Inr txs \<longleftrightarrow> list_all2 (\<lambda>raw tx. \<exists>rest. d raw = Inr (tx, rest)) raws txs"
  by (induction raws arbitrary: txs) (auto simp: ok_iff list_all2_Cons1)

lemma recover_all_ok: "recover_all r txs = Some as \<longleftrightarrow> map r txs = map Some as"
  by (induction txs arbitrary: as) (auto simp: Cons_eq_map_conv split: option.split)

lemma recover_all_None: "recover_all r txs = None \<longleftrightarrow> None \<in> r ` set txs"
  by (induction txs) (auto simp: image_iff split: option.split)

lemma try_recover_ok:
  "try_recover V b = Inr (b', signers) \<longleftrightarrow>
     b' = b \<and> map (vo_recover_signer V) (bk_txs (sb_block b)) = map Some signers"
  by (auto simp: try_recover_def ok_iff recover_all_ok)

text \<open>A small validator: it accepts payloads without transactions under the right hash.\<close>

definition ref_hash :: "header \<Rightarrow> b256" where
  "ref_hash h = hdr_parent_hash h + hdr_state_root h + ucast (hdr_number h) + hdr_transactions_root h"

definition ref_validator :: "(unit, unit) validator_ops" where
  "ref_validator =
     (let base = \<lparr> vo_inner_well_formed = (\<lambda>p. Inl (PayloadOtherError [])), vo_inner_as_ev_block = (\<lambda>p. Inr ()),
            vo_decode_2718 = (\<lambda>raw. case raw of
                [] \<Rightarrow> Inl ''input too short''
              | t # rest \<Rightarrow> if t = EVNODE_TX_TYPE_ID
                            then Inr (EvNode \<lparr> signed_tx = sample_tx, signed_signature = sample_signature \<rparr>, rest)
                            else Inr (Ethereum (), rest)),
            vo_transaction_root = (\<lambda>txs. of_nat (length txs)), vo_withdrawals_root = (\<lambda>ws. of_nat (length ws)),
            vo_hash_slow = ref_hash, vo_recover_signer = (\<lambda>tx. Some 1), vo_empty_ommer_root = 0 \<rparr> in
      base \<lparr> vo_inner_well_formed := (\<lambda>p.
        if pl_transactions p \<noteq> [] then Inl (PayloadDecode ''unexpected tx type'')
        else if ref_hash (parsed_header base p []) \<noteq> pl_block_hash p
          then Inl (PayloadBlockHash (ref_hash (parsed_header base p [])) (pl_block_hash p))
          else Inr \<lparr> sb_block = \<lparr> bk_header = parsed_header base p [], bk_txs = [], bk_ommers = [],
                                  bk_withdrawals = pl_withdrawals p \<rparr>,
                     sb_hash = pl_block_hash p \<rparr>) \<rparr>)"

lemma parsed_header_same_block: "same_block (parsed_header V p txs) p"
  by (simp add: parsed_header_def same_block_def)

interpretation ref_val: inner_validator ref_validator
  by unfold_locales (auto simp: ref_validator_def Let_def parsed_header_same_block split: if_splits)

lemma well_formed_ok:
  assumes "ensure_well_formed_payload V p = Inr (b, signers)"
  shows "map (vo_recover_signer V) (bk_txs (sb_block b)) = map Some signers \<and>
    (case vo_inner_well_formed V p of
       Inr s \<Rightarrow> b = convert_sealed_block s
     | Inl err \<Rightarrow> should_bypass err \<and> bk_withdrawals (sb_block b) = pl_withdrawals p \<and>
         list_all2 (\<lambda>raw tx. \<exists>rest. vo_decode_2718 V raw = Inr (tx, rest)) (pl_transactions p) (bk_txs (sb_block b)) \<and>
         length (bk_txs (sb_block b)) = length (pl_transactions p) \<and>
         same_block (bk_header (sb_block b)) p \<and> sb_hash b = vo_hash_slow V (bk_header (sb_block b)))"
proof (cases "vo_inner_well_formed V p")
  case (Inl err)
  with assms show ?thesis
    by (auto simp: ensure_well_formed_payload_def try_recover_ok ok_iff parse_evolve_payload_def Let_def
        decode_all_ok parsed_header_same_block dest: list_all2_lengthD split: if_splits)
qed (use assms in \<open>simp add: ensure_well_formed_payload_def try_recover_ok\<close>)

lemma well_formed_error:
  assumes "ensure_well_formed_payload V p = Inl e"
  shows "case vo_inner_well_formed V p of
      Inl err \<Rightarrow> should_bypass err \<or> e = NewPayloadEth err
    | Inr s \<Rightarrow> None \<in> vo_recover_signer V ` Ethereum ` set (bk_txs (sb_block s))"
proof (cases "vo_inner_well_formed V p")
  case (Inr s)
  then have "recover_all (vo_recover_signer V) (map Ethereum (bk_txs (sb_block s))) = None"
    using assms by (cases "recover_all (vo_recover_signer V) (map Ethereum (bk_txs (sb_block s)))")
      (auto simp: ensure_well_formed_payload_def try_recover_def convert_sealed_block_def)
  with Inr show ?thesis by (simp add: recover_all_None)
qed (use assms in \<open>auto simp: ensure_well_formed_payload_def split: if_splits\<close>)

section \<open>Properties\<close>

text \<open>C18. A payload accepted by the engine gives a block that describes the payload's block, carries one
  recovered transaction per raw transaction, and is sealed under the hash of its own header. When
  reth's validator accepts, that is the hash the payload names and all transactions are Ethereum ones;
  otherwise its error was a hash mismatch or the unknown transaction type, every raw transaction
  decodes, and the hash the payload names is not looked at. Any other error is returned.\<close>

theorem engine_payload_correct:
  assumes "inner_validator V"
  shows "case ensure_well_formed_payload V p of
      Inr (b, signers) \<Rightarrow>
        same_block (bk_header (sb_block b)) p \<and> sb_hash b = vo_hash_slow V (bk_header (sb_block b)) \<and>
        length (bk_txs (sb_block b)) = length (pl_transactions p) \<and>
        map (vo_recover_signer V) (bk_txs (sb_block b)) = map Some signers \<and>
        (case vo_inner_well_formed V p of
           Inr s \<Rightarrow> sb_hash b = pl_block_hash p \<and> bk_txs (sb_block b) = map Ethereum (bk_txs (sb_block s))
         | Inl err \<Rightarrow> ((\<exists>h h'. err = PayloadBlockHash h h') \<or>
               (\<exists>m. err = PayloadDecode m \<and> sublist ''unexpected tx type'' m)) \<and> bk_withdrawals (sb_block b) = pl_withdrawals p \<and>
             list_all2 (\<lambda>raw tx. \<exists>rest. vo_decode_2718 V raw = Inr (tx, rest)) (pl_transactions p) (bk_txs (sb_block b)))
    | Inl e \<Rightarrow> (case vo_inner_well_formed V p of
         Inl err \<Rightarrow> e = NewPayloadEth err \<or> (\<exists>h h'. err = PayloadBlockHash h h') \<or>
           (\<exists>m. err = PayloadDecode m \<and> sublist ''unexpected tx type'' m)
       | Inr s \<Rightarrow> None \<in> vo_recover_signer V ` Ethereum ` set (bk_txs (sb_block s)))"
proof (cases "ensure_well_formed_payload V p")
  case (Inl e)
  with well_formed_error [OF Inl] show ?thesis
    by (cases "vo_inner_well_formed V p") (auto simp: should_bypass_iff)
next
  case (Inr r)
  obtain b signers where r: "r = (b, signers)" by fastforce
  show ?thesis
    using Inr well_formed_ok [OF Inr [unfolded r]] inner_validator.accepted [OF assms, of p]
    by (cases "vo_inner_well_formed V p") (auto simp: r convert_sealed_block_def should_bypass_iff)
qed

definition demo_ev_payload :: execution_data where
  "demo_ev_payload = demo_payload \<lparr> pl_transactions := [[0x76, 1], [2]], pl_block_hash := 99 \<rparr>"

theorem engine_payload_correct_witness:
  "\<exists>b signers. ensure_well_formed_payload ref_validator demo_ev_payload = Inr (b, signers) \<and>
     length (bk_txs (sb_block b)) = 2 \<and> same_block (bk_header (sb_block b)) demo_ev_payload"
proof -
  have "\<exists>b signers. ensure_well_formed_payload ref_validator demo_ev_payload = Inr (b, signers)"
    by (simp add: ensure_well_formed_payload_def ref_validator_def demo_ev_payload_def demo_payload_def
        parse_evolve_payload_def try_recover_def should_bypass_def UNKNOWN_TX_TYPE_ERROR_MSG_def Let_def
        EVNODE_TX_TYPE_ID_def)
  then obtain b signers where b: "ensure_well_formed_payload ref_validator demo_ev_payload = Inr (b, signers)"
    by blast
  with engine_payload_correct [OF ref_val.inner_validator_axioms, of demo_ev_payload] show ?thesis
    by (auto simp: demo_ev_payload_def)
qed

text \<open>A payload of the service converts to every engine version with the service's value and without blobs.\<close>

lemma service_payload_envelopes:
  assumes "p = built_payload_new i blk fees None"
  shows "into_v1 O1 p = eo_v1 O1 blk" "e2_block_value (into_v2 O1 p) = fees"
    "\<exists>v. try_into_v3 O1 p = Inr v \<and> e3_block_value v = fees \<and> e3_blobs v = [] \<and> e3_payload v = eo_v3 O1 blk"
    "\<exists>v. try_into_v4 O1 p = Inr v \<and> e4_requests v = [] \<and> e3_block_value (e4_inner v) = fees"
    "\<exists>v. try_into_v5 O1 p = Inr v \<and> e5_requests v = [] \<and> e5_block_value v = fees \<and> e5_blobs v = []"
    "\<exists>v. try_into_v6 O1 p = Inr v \<and> e5_block_value v = fees \<and> length (p4_block_access_list (e5_payload v)) = 32"
  by (simp_all add: assms built_payload_new_def into_v1_def into_v2_def try_into_v3_def try_into_v4_def
      try_into_v5_def try_into_v6_def blobs_v1_def blobs_v2_def requests_or_default_def Let_def split: option.split)

text \<open>Each sidecar format fits exactly the versions that carry it.\<close>

lemma envelope_errors:
  "try_into_v3 O1 (with_sidecars (SidecarsEip7594 l) p) = Inl UnexpectedEip7594Sidecars"
  "try_into_v4 O1 (with_sidecars (SidecarsEip7594 l) p) = Inl UnexpectedEip7594Sidecars"
  "try_into_v5 O1 (with_sidecars (SidecarsEip4844 l) p) = Inl UnexpectedEip4844Sidecars"
  "try_into_v6 O1 (with_sidecars (SidecarsEip4844 l) p) = Inl UnexpectedEip4844Sidecars"
  by (simp_all add: with_sidecars_def try_into_v3_def try_into_v4_def try_into_v5_def try_into_v6_def
      blobs_v1_def blobs_v2_def)

end
