(* ===== verification/Node_Assembly.thy ===== *)
theory Node_Assembly
  imports Engine_Api Ev_Evm
begin

text \<open>
  The wiring of the node (\<open>crates/node/src/node.rs\<close>, the constructors of \<open>executor.rs\<close> and
  \<open>evm_executor.rs\<close>, the accessors of \<open>attributes.rs\<close> and \<open>payload_types.rs\<close>): a sealed block as an
  engine payload, a block read over RPC, the EVM configuration with its executor factory, and the
  identifier of a payload job. Parameters: alloy's payload of a block (\<open>payload_codec\<close>), the RPC
  block conversion and reth's \<open>payload_id\<close>.
\<close>

section \<open>Engine types\<close>

record 'tx payload_codec =
  pc_from_block_unchecked :: "b256 \<Rightarrow> 'tx block \<Rightarrow> execution_data"
  pc_encode_2718 :: "'tx \<Rightarrow> bytes"

definition block_to_payload :: "'tx payload_codec \<Rightarrow> 'tx sealed_block \<Rightarrow> execution_data" where
  "block_to_payload C block = pc_from_block_unchecked C (sb_hash block) (sb_block block)"

definition rpc_to_primitive_block ::
    "('rpc \<Rightarrow> 'eth block) \<Rightarrow> 'rpc \<Rightarrow> 'eth ev_tx_envelope block" where
  "rpc_to_primitive_block into_consensus rpc_block =
     (let eth_block = into_consensus rpc_block in
      \<lparr> bk_header = bk_header eth_block, bk_txs = map Ethereum (bk_txs eth_block),
        bk_ommers = bk_ommers eth_block, bk_withdrawals = bk_withdrawals eth_block \<rparr>)"

section \<open>Payload attributes and built payloads\<close>

definition attributes_payload_id ::
    "(b256 \<Rightarrow> rpc_payload_attributes \<Rightarrow> 'id) \<Rightarrow> engine_payload_attributes \<Rightarrow> b256 \<Rightarrow> 'id" where
  "attributes_payload_id payload_id a parent_hash = payload_id parent_hash (en_inner a)"

definition attributes_timestamp :: "engine_payload_attributes \<Rightarrow> u64" where
  "attributes_timestamp a = ra_timestamp (en_inner a)"

definition attributes_withdrawals :: "engine_payload_attributes \<Rightarrow> withdrawal list option" where
  "attributes_withdrawals a = ra_withdrawals (en_inner a)"

definition attributes_parent_beacon_block_root :: "engine_payload_attributes \<Rightarrow> b256 option" where
  "attributes_parent_beacon_block_root a = ra_parent_beacon_block_root (en_inner a)"

definition attributes_slot_number :: "engine_payload_attributes \<Rightarrow> u64 option" where
  "attributes_slot_number a = ra_slot_number (en_inner a)"

section \<open>The EVM configuration\<close>

record ('rb, 'spec, 'f) ev_block_executor_factory =
  bf_receipt_builder :: 'rb
  bf_spec :: 'spec
  bf_evm_factory :: 'f

definition block_executor_factory_new :: "'rb \<Rightarrow> 'spec \<Rightarrow> 'f \<Rightarrow> ('rb, 'spec, 'f) ev_block_executor_factory" where
  "block_executor_factory_new receipt_builder spec evm_factory =
     \<lparr> bf_receipt_builder = receipt_builder, bf_spec = spec, bf_evm_factory = evm_factory \<rparr>"

text \<open>The receipt builder and the spec an executor carries are parameters of its operations.\<close>

definition create_executor ::
    "('rb, 'spec, 'f) ev_block_executor_factory \<Rightarrow> 'evm \<Rightarrow> execution_ctx
       \<Rightarrow> ('evm, 'log, 'st) ev_block_executor \<times> 'spec \<times> 'rb" where
  "create_executor f evm ctx = (block_executor_new evm ctx, bf_spec f, bf_receipt_builder f)"

record ('spec, 'f) ev_evm_config =
  vc_executor_factory :: "(unit, 'spec, 'f) ev_block_executor_factory"
  vc_block_assembler :: 'spec
  vc_extra_data :: bytes

definition new_with_evm_factory :: "'spec \<Rightarrow> 'f \<Rightarrow> ('spec, 'f) ev_evm_config" where
  "new_with_evm_factory chain_spec evm_factory =
     \<lparr> vc_executor_factory = block_executor_factory_new () chain_spec evm_factory,
       vc_block_assembler = chain_spec, vc_extra_data = [] \<rparr>"

definition factory_default :: ev_tx_evm_factory where
  "factory_default =
     \<lparr> fac_redirect = None, fac_mint_precompile = None, fac_deploy_allowlist = None,
       fac_contract_size_limit = None \<rparr>"

definition evm_config_new :: "'spec \<Rightarrow> ('spec, ev_tx_evm_factory) ev_evm_config" where
  "evm_config_new chain_spec = new_with_evm_factory chain_spec factory_default"

definition config_chain_spec :: "('spec, 'f) ev_evm_config \<Rightarrow> 'spec" where
  "config_chain_spec c = bf_spec (vc_executor_factory c)"

definition with_extra_data :: "bytes \<Rightarrow> ('spec, 'f) ev_evm_config \<Rightarrow> ('spec, 'f) ev_evm_config" where
  "with_extra_data extra_data c = c \<lparr> vc_extra_data := extra_data \<rparr>"

section \<open>Blocks through the engine\<close>

text \<open>The blocks the node makes: after the merge, in the fields of Cancun to Osaka, roots computed from the body.\<close>

definition engine_block :: "('eth, 'eblk) validator_ops \<Rightarrow> 'eth ev_tx_envelope block \<Rightarrow> bool" where
  "engine_block V b \<longleftrightarrow>
     (let h = bk_header b in
      bk_ommers b = [] \<and> hdr_ommers_hash h = vo_empty_ommer_root V \<and> hdr_difficulty h = 0 \<and> hdr_nonce h = 0 \<and>
      hdr_transactions_root h = vo_transaction_root V (bk_txs b) \<and>
      hdr_withdrawals_root h = map_option (vo_withdrawals_root V) (bk_withdrawals b) \<and>
      bk_withdrawals b \<noteq> None \<and> hdr_base_fee_per_gas h \<noteq> None \<and> hdr_blob_gas_used h \<noteq> None \<and>
      hdr_excess_blob_gas h \<noteq> None \<and> hdr_parent_beacon_block_root h \<noteq> None \<and>
      hdr_block_access_list_hash h = None \<and> hdr_slot_number h = None)"

text \<open>What the accessors of a payload answer for a block of this kind.\<close>

definition payload_of_block :: "'tx payload_codec \<Rightarrow> b256 \<Rightarrow> 'tx block \<Rightarrow> execution_data \<Rightarrow> bool" where
  "payload_of_block C hash b p \<longleftrightarrow>
     (let h = bk_header b in
      pl_block_hash p = hash \<and> pl_parent_hash p = hdr_parent_hash h \<and> pl_state_root p = hdr_state_root h \<and>
      pl_receipts_root p = hdr_receipts_root h \<and> pl_logs_bloom p = hdr_logs_bloom h \<and>
      pl_gas_used p = hdr_gas_used h \<and> pl_blob_gas_used p = hdr_blob_gas_used h \<and>
      pl_bal_hash p = hdr_block_access_list_hash h \<and> pl_requests_hash p = hdr_requests_hash h \<and>
      pl_block_number p = hdr_number h \<and> pl_timestamp p = hdr_timestamp h \<and>
      pl_fee_recipient p = hdr_beneficiary h \<and> pl_prev_randao p = hdr_mix_hash h \<and>
      pl_gas_limit p = hdr_gas_limit h \<and> Some (pl_saturated_base_fee p) = hdr_base_fee_per_gas h \<and>
      pl_excess_blob_gas p = hdr_excess_blob_gas h \<and> pl_slot_number p = hdr_slot_number h \<and>
      pl_extra_data p = hdr_extra_data h \<and> pl_transactions p = map (pc_encode_2718 C) (bk_txs b) \<and>
      pl_withdrawals p = bk_withdrawals b \<and> pl_parent_beacon_block_root p = hdr_parent_beacon_block_root h)"

text \<open>
  The engine the node talks through: alloy's payload of a block carries its fields, and a block
  reth's validator accepts is the one rebuilt from the payload with the Ethereum decoder.
\<close>

locale engine_link = inner_validator V
  for V :: "('eth, 'eblk) validator_ops" +
  fixes C :: "'eth ev_tx_envelope payload_codec"
  assumes carries: "engine_block V b \<Longrightarrow> payload_of_block C hash b (pc_from_block_unchecked C hash b)"
    and rebuilt: "vo_inner_well_formed V p = Inr s \<Longrightarrow>
      bk_header (sb_block s) = parsed_header V p (map Ethereum (bk_txs (sb_block s))) \<and>
      bk_ommers (sb_block s) = [] \<and> bk_withdrawals (sb_block s) = pl_withdrawals p \<and>
      list_all2 (\<lambda>raw tx. \<exists>rest. vo_decode_2718 V raw = Inr (Ethereum tx, rest)) (pl_transactions p) (bk_txs (sb_block s))"
begin

lemma parsed_header_back:
  assumes "engine_block V b" and "payload_of_block C hash b p"
  shows "parsed_header V p (bk_txs b) = bk_header b"
  using assms by (auto simp: engine_block_def payload_of_block_def parsed_header_def Let_def intro: header.equality)

lemma decode_back:
  assumes "\<forall>tx \<in> set txs. vo_decode_2718 V (pc_encode_2718 C tx) = Inr (tx, [])"
  shows "decode_all (vo_decode_2718 V) (map (pc_encode_2718 C) txs) = Inr txs"
  using assms by (induction txs) auto

lemma decode_unique:
  assumes "\<forall>tx \<in> set txs. vo_decode_2718 V (pc_encode_2718 C tx) = Inr (tx, [])"
    and "list_all2 (\<lambda>raw tx. \<exists>rest. vo_decode_2718 V raw = Inr (Ethereum tx, rest)) (map (pc_encode_2718 C) txs) es"
  shows "map Ethereum es = txs"
  using assms by (induction txs arbitrary: es) (auto simp: list_all2_Cons1)

lemma block_round_trip:
  assumes b: "engine_block V (sb_block b)" "sb_hash b = vo_hash_slow V (bk_header (sb_block b))"
    and dec: "\<forall>tx \<in> set (bk_txs (sb_block b)). vo_decode_2718 V (pc_encode_2718 C tx) = Inr (tx, [])"
    and signers: "map (vo_recover_signer V) (bk_txs (sb_block b)) = map Some signers"
    and bypass: "\<And>err. vo_inner_well_formed V (block_to_payload C b) = Inl err \<Longrightarrow> should_bypass err"
  shows "ensure_well_formed_payload V (block_to_payload C b) = Inr (b, signers)"
proof -
  let ?p = "block_to_payload C b"
  have p: "payload_of_block C (sb_hash b) (sb_block b) ?p" unfolding block_to_payload_def by (rule carries [OF b(1)])
  have txs: "pl_transactions ?p = map (pc_encode_2718 C) (bk_txs (sb_block b))"
    "pl_withdrawals ?p = bk_withdrawals (sb_block b)" "pl_block_hash ?p = sb_hash b" "bk_ommers (sb_block b) = []"
    using p b(1) by (simp_all add: payload_of_block_def engine_block_def Let_def)
  note hd = parsed_header_back [OF b(1) p]
  have recovered: "try_recover V b = Inr (b, signers)" by (simp add: try_recover_ok signers)
  show ?thesis
  proof (cases "vo_inner_well_formed V ?p")
    case (Inl err)
    have "parse_evolve_payload V ?p = Inr b"
      using decode_back [OF dec] b(2) by (simp add: parse_evolve_payload_def txs hd Let_def)
    then show ?thesis using Inl bypass [OF Inl] recovered by (simp add: ensure_well_formed_payload_def)
  next
    case (Inr s)
    note r = rebuilt [OF Inr]
    have e: "map Ethereum (bk_txs (sb_block s)) = bk_txs (sb_block b)"
      using decode_unique [OF dec] r by (simp add: txs)
    have "bk_header (sb_block s) = bk_header (sb_block b)" "sb_hash s = sb_hash b"
      using r accepted [OF Inr] by (simp_all add: e hd txs)
    then have "convert_sealed_block s = b"
      using r by (intro sealed_block.equality block.equality) (simp_all add: convert_sealed_block_def e txs)
    then show ?thesis using Inr recovered by (simp add: ensure_well_formed_payload_def)
  qed
qed

end

text \<open>The small validator's engine: an Ethereum transaction is the byte 2, the sample EvNode transaction 0x76.\<close>

definition ref_codec :: "unit ev_tx_envelope payload_codec" where
  "ref_codec =
     (let enc = (\<lambda>tx. case tx of Ethereum _ \<Rightarrow> [2] | EvNode _ \<Rightarrow> [EVNODE_TX_TYPE_ID]) in
      \<lparr> pc_from_block_unchecked = (\<lambda>hash b. (let h = bk_header b in
          \<lparr> pl_parent_hash = hdr_parent_hash h, pl_block_hash = hash, pl_state_root = hdr_state_root h,
            pl_receipts_root = hdr_receipts_root h, pl_logs_bloom = hdr_logs_bloom h, pl_gas_used = hdr_gas_used h,
            pl_blob_gas_used = hdr_blob_gas_used h, pl_bal_hash = hdr_block_access_list_hash h,
            pl_requests_hash = hdr_requests_hash h, pl_block_number = hdr_number h, pl_timestamp = hdr_timestamp h,
            pl_fee_recipient = hdr_beneficiary h, pl_prev_randao = hdr_mix_hash h, pl_gas_limit = hdr_gas_limit h,
            pl_saturated_base_fee = (case hdr_base_fee_per_gas h of Some f \<Rightarrow> f | None \<Rightarrow> 0),
            pl_excess_blob_gas = hdr_excess_blob_gas h, pl_slot_number = hdr_slot_number h,
            pl_extra_data = hdr_extra_data h, pl_transactions = map enc (bk_txs b),
            pl_withdrawals = bk_withdrawals b, pl_parent_beacon_block_root = hdr_parent_beacon_block_root h \<rparr>)),
        pc_encode_2718 = enc \<rparr>)"

interpretation ref_link: engine_link ref_validator ref_codec
proof unfold_locales
  fix b and hash :: b256
  assume "engine_block ref_validator b"
  then show "payload_of_block ref_codec hash b (pc_from_block_unchecked ref_codec hash b)"
    by (auto simp: engine_block_def payload_of_block_def ref_codec_def Let_def)
next
  fix p and s :: "unit sealed_block"
  assume "vo_inner_well_formed ref_validator p = Inr s"
  then show "bk_header (sb_block s) = parsed_header ref_validator p (map Ethereum (bk_txs (sb_block s))) \<and>
      bk_ommers (sb_block s) = [] \<and> bk_withdrawals (sb_block s) = pl_withdrawals p \<and>
      list_all2 (\<lambda>raw tx. \<exists>rest. vo_decode_2718 ref_validator raw = Inr (Ethereum tx, rest)) (pl_transactions p)
        (bk_txs (sb_block s))"
    by (auto simp: ref_validator_def Let_def parsed_header_def split: if_splits)
qed

section \<open>Properties\<close>

text \<open>C19. A block the node makes, turned into an engine payload by \<open>block_to_payload\<close> and sent back
  through the engine, is validated to the same block with the signers of its transactions: whether
  reth's validator accepts the payload or reports the hash mismatch or unknown transaction type an
  EvNode transaction causes, the header, the transactions, the withdrawals and the hash are those of
  the block. The transactions have to decode from their own encoding and their signers recover.\<close>

theorem engine_block_round_trip:
  assumes "engine_link V C" and "engine_block V (sb_block b)"
    and "sb_hash b = vo_hash_slow V (bk_header (sb_block b))"
    and "\<forall>tx \<in> set (bk_txs (sb_block b)). vo_decode_2718 V (pc_encode_2718 C tx) = Inr (tx, [])"
    and "map (vo_recover_signer V) (bk_txs (sb_block b)) = map Some signers"
    and "\<And>err. vo_inner_well_formed V (block_to_payload C b) = Inl err \<Longrightarrow>
      (\<exists>h h'. err = PayloadBlockHash h h') \<or> (\<exists>m. err = PayloadDecode m \<and> sublist ''unexpected tx type'' m)"
  shows "ensure_well_formed_payload V (block_to_payload C b) = Inr (b, signers)"
  using engine_link.block_round_trip [OF assms(1-5)] assms(6) unfolding should_bypass_iff by blast

definition demo_engine_header :: header where
  "demo_engine_header =
     parsed_header ref_validator (demo_payload \<lparr> pl_slot_number := None \<rparr>)
       [EvNode \<lparr> signed_tx = sample_tx, signed_signature = sample_signature \<rparr>, Ethereum ()]"

definition demo_engine_block :: "unit ev_tx_envelope sealed_block" where
  "demo_engine_block =
     \<lparr> sb_block = \<lparr> bk_header = demo_engine_header,
         bk_txs = [EvNode \<lparr> signed_tx = sample_tx, signed_signature = sample_signature \<rparr>, Ethereum ()],
         bk_ommers = [], bk_withdrawals = Some [] \<rparr>,
       sb_hash = ref_hash demo_engine_header \<rparr>"

theorem engine_block_round_trip_witness:
  "ensure_well_formed_payload ref_validator (block_to_payload ref_codec demo_engine_block) =
     Inr (demo_engine_block, [1, 1])"
proof (rule engine_block_round_trip [OF ref_link.engine_link_axioms])
  show "engine_block ref_validator (sb_block demo_engine_block)"
    by (simp add: engine_block_def demo_engine_block_def demo_engine_header_def parsed_header_def ref_validator_def
        demo_payload_def Let_def)
  show "sb_hash demo_engine_block = vo_hash_slow ref_validator (bk_header (sb_block demo_engine_block))"
    by (simp add: demo_engine_block_def ref_validator_def Let_def)
  show "\<forall>tx \<in> set (bk_txs (sb_block demo_engine_block)).
      vo_decode_2718 ref_validator (pc_encode_2718 ref_codec tx) = Inr (tx, [])"
    by (simp add: demo_engine_block_def ref_validator_def ref_codec_def EVNODE_TX_TYPE_ID_def Let_def)
  show "map (vo_recover_signer ref_validator) (bk_txs (sb_block demo_engine_block)) = map Some [1, 1]"
    by (simp add: demo_engine_block_def ref_validator_def Let_def)
  fix err
  assume "vo_inner_well_formed ref_validator (block_to_payload ref_codec demo_engine_block) = Inl err"
  then show "(\<exists>h h'. err = PayloadBlockHash h h') \<or> (\<exists>m. err = PayloadDecode m \<and> sublist ''unexpected tx type'' m)"
    by (auto simp: block_to_payload_def demo_engine_block_def ref_validator_def ref_codec_def Let_def)
qed

text \<open>
  The identifier of a payload job is that of the RPC attributes alone: requests that differ in the
  transactions or the gas limit get the same one.
\<close>

lemma payload_id_ignores_transactions:
  "attributes_payload_id f (a \<lparr> en_transactions := txs, en_gas_limit := g \<rparr>) parent = attributes_payload_id f a parent"
  by (simp add: attributes_payload_id_def)

text \<open>A block read over RPC carries Ethereum transactions only and keeps everything else.\<close>

lemma rpc_block_ethereum:
  "bk_txs (rpc_to_primitive_block f r) = map Ethereum (bk_txs (f r))"
  "bk_header (rpc_to_primitive_block f r) = bk_header (f r)"
  by (simp_all add: rpc_to_primitive_block_def Let_def)

text \<open>The configuration's executor and assembler share its chain spec; the extra data changes nothing else.\<close>

lemma config_spec_shared:
  "config_chain_spec (with_extra_data x (new_with_evm_factory spec f)) = spec"
  "vc_block_assembler (with_extra_data x (new_with_evm_factory spec f)) = spec"
  "fst (snd (create_executor (vc_executor_factory (new_with_evm_factory spec f)) evm ctx)) = spec"
  by (simp_all add: config_chain_spec_def with_extra_data_def new_with_evm_factory_def block_executor_factory_new_def
      create_executor_def)

text \<open>The default factory is the stock EVM: no redirect, no mint precompile, no allowlist, no size limit.\<close>

lemma default_config_is_stock:
  "redirect_for_block (bf_evm_factory (vc_executor_factory (evm_config_new spec))) n = None"
  by (simp add: evm_config_new_def new_with_evm_factory_def block_executor_factory_new_def factory_default_def
      redirect_for_block_def)

end
