(* ===== verification/Rpc_Convert.thy ===== *)
theory Rpc_Convert
  imports Tx_Env Block_Executor Ev_Primitives_Correct Handler_Samples
begin

text \<open>
  The JSON-RPC layer of \<open>crates/node/src/rpc.rs\<close>: transaction and receipt responses with the fee
  payer, and the conversions of transaction requests. Parameters are alloy's response types with
  their accessors (\<open>alloy_rpc\<close>), the receipt builder of reth, which calls back with the receipt, the
  index of its first log and the position of the transaction (\<open>receipt_builder\<close>), and the request
  conversions of reth. The builder that assembles the converters is in \<open>Node_Components\<close>.
\<close>

section \<open>Responses\<close>

record tx_info =
  ti_hash :: "b256 option"
  ti_index :: "u64 option"
  ti_block_hash :: "b256 option"
  ti_block_number :: "u64 option"
  ti_base_fee :: "u64 option"

record ('eth, 'rtx) alloy_rpc =
  ar_from_transaction :: "'eth ev_tx_envelope \<Rightarrow> address \<Rightarrow> tx_info \<Rightarrow> 'rtx"
  ar_view :: "'rtx \<Rightarrow> transaction_view"
  ar_effective_gas_price :: "'rtx \<Rightarrow> u64 option \<Rightarrow> u128"
  ar_tx_hash :: "'rtx \<Rightarrow> b256"
  ar_block_hash :: "'rtx \<Rightarrow> b256 option"
  ar_block_number :: "'rtx \<Rightarrow> u64 option"
  ar_transaction_index :: "'rtx \<Rightarrow> u64 option"
  ar_from :: "'rtx \<Rightarrow> address"

record 'rtx ev_rpc_transaction =
  ert_inner :: 'rtx
  ert_fee_payer :: "address option"

definition ev_rpc_transaction_new :: "'rtx \<Rightarrow> address option \<Rightarrow> 'rtx ev_rpc_transaction" where
  "ev_rpc_transaction_new inner fee_payer = \<lparr> ert_inner = inner, ert_fee_payer = fee_payer \<rparr>"

text \<open>The \<open>Transaction\<close> and \<open>TransactionResponse\<close> impls hand every accessor to the inner response.\<close>

definition rpc_tx_view :: "('eth, 'rtx) alloy_rpc \<Rightarrow> 'rtx ev_rpc_transaction \<Rightarrow> transaction_view" where
  "rpc_tx_view A t =
     (let v = ar_view A (ert_inner t) in
      \<lparr> view_chain_id = view_chain_id v, view_nonce = view_nonce v, view_gas_limit = view_gas_limit v,
        view_gas_price = view_gas_price v, view_max_fee_per_gas = view_max_fee_per_gas v,
        view_max_priority_fee_per_gas = view_max_priority_fee_per_gas v,
        view_max_fee_per_blob_gas = view_max_fee_per_blob_gas v,
        view_priority_fee_or_price = view_priority_fee_or_price v,
        view_is_dynamic_fee = view_is_dynamic_fee v, view_kind = view_kind v,
        view_is_create = view_is_create v, view_value = view_value v, view_input = view_input v,
        view_access_list = view_access_list v,
        view_blob_versioned_hashes = view_blob_versioned_hashes v,
        view_authorization_list = view_authorization_list v, view_ty = view_ty v \<rparr>)"

definition rpc_tx_effective_gas_price ::
  "('eth, 'rtx) alloy_rpc \<Rightarrow> 'rtx ev_rpc_transaction \<Rightarrow> u64 option \<Rightarrow> u128" where
  "rpc_tx_effective_gas_price A t base_fee = ar_effective_gas_price A (ert_inner t) base_fee"

record tx_response_view =
  tr_view_hash :: b256
  tr_view_block_hash :: "b256 option"
  tr_view_block_number :: "u64 option"
  tr_view_index :: "u64 option"
  tr_view_from :: address

definition rpc_tx_response :: "('eth, 'rtx) alloy_rpc \<Rightarrow> 'rtx ev_rpc_transaction \<Rightarrow> tx_response_view" where
  "rpc_tx_response A t =
     \<lparr> tr_view_hash = ar_tx_hash A (ert_inner t), tr_view_block_hash = ar_block_hash A (ert_inner t),
       tr_view_block_number = ar_block_number A (ert_inner t),
       tr_view_index = ar_transaction_index A (ert_inner t), tr_view_from = ar_from A (ert_inner t) \<rparr>"

text \<open>The sponsor both converters report: recovered for the signer, nothing when that fails.\<close>

fun rpc_fee_payer :: "rlp \<Rightarrow> crypto \<Rightarrow> 'eth ev_tx_envelope \<Rightarrow> address \<Rightarrow> address option" where
  "rpc_fee_payer R K (EvNode ev) signer =
     Option.bind (tx_fee_payer_signature (signed_tx ev))
       (\<lambda>s. ok_option (recover_sponsor R K (signed_tx ev) signer s))"
| "rpc_fee_payer R K (Ethereum _) signer = None"

definition convert_rpc_tx ::
  "rlp \<Rightarrow> crypto \<Rightarrow> ('eth, 'rtx) alloy_rpc \<Rightarrow> 'eth ev_tx_envelope \<Rightarrow> address \<Rightarrow> tx_info
    \<Rightarrow> 'e + 'rtx ev_rpc_transaction" where
  "convert_rpc_tx R K A tx signer info =
     (let fee_payer = rpc_fee_payer R K tx signer in
      Inr (ev_rpc_transaction_new (ar_from_transaction A tx signer info) fee_payer))"

section \<open>Receipts\<close>

record tx_meta =
  tm_tx_hash :: b256
  tm_index :: u64
  tm_block_hash :: b256
  tm_block_number :: u64
  tm_timestamp :: u64

record 'log rpc_log =
  rl_inner :: 'log
  rl_block_hash :: "b256 option"
  rl_block_number :: "u64 option"
  rl_block_timestamp :: "u64 option"
  rl_transaction_hash :: "b256 option"
  rl_transaction_index :: "u64 option"
  rl_log_index :: "u64 option"
  rl_removed :: bool

record ('log, 'bloom) any_receipt_envelope =
  are_success :: bool
  are_cumulative_gas_used :: u64
  are_logs :: "'log rpc_log list"
  are_bloom :: 'bloom
  are_type :: u8

record ('eth, 'log) convert_receipt_input =
  cri_tx :: "'eth ev_tx_envelope"
  cri_signer :: address
  cri_receipt :: "'log receipt"
  cri_gas_used :: u64
  cri_next_log_index :: nat
  cri_meta :: tx_meta

record 'rcpt ev_rpc_receipt =
  err_inner :: 'rcpt
  err_fee_payer :: "address option"

text \<open>
  What reth and the chain spec give: the blob parameters at a time, the bloom filter of the logs,
  the receipt builder, and the byte of a transaction type.
\<close>

record ('eth, 'log, 'bloom, 'blob, 'rcpt) receipt_builder =
  rb_blob_params_at_timestamp :: "u64 \<Rightarrow> 'blob option"
  rb_bloom :: "'log rpc_log list \<Rightarrow> 'bloom"
  rb_build_receipt :: "('eth, 'log) convert_receipt_input \<Rightarrow> 'blob option \<Rightarrow>
     ('log receipt \<Rightarrow> nat \<Rightarrow> tx_meta \<Rightarrow> ('log, 'bloom) any_receipt_envelope) \<Rightarrow> 'rcpt"
  rb_tx_type_byte :: "ev_tx_type \<Rightarrow> u8"

definition rpc_log_of :: "tx_meta \<Rightarrow> 'log \<Rightarrow> nat \<Rightarrow> 'log rpc_log" where
  "rpc_log_of meta log idx =
     \<lparr> rl_inner = log, rl_block_hash = Some (tm_block_hash meta), rl_block_number = Some (tm_block_number meta),
       rl_block_timestamp = Some (tm_timestamp meta), rl_transaction_hash = Some (tm_tx_hash meta),
       rl_transaction_index = Some (tm_index meta), rl_log_index = Some (of_nat idx), rl_removed = False \<rparr>"

text \<open>\<open>map_logs\<close> with the counter the closure carries from log to log.\<close>

fun map_logs :: "tx_meta \<Rightarrow> nat \<Rightarrow> 'log list \<Rightarrow> 'log rpc_log list" where
  "map_logs meta log_index [] = []"
| "map_logs meta log_index (log # logs) = rpc_log_of meta log log_index # map_logs meta (Suc log_index) logs"

definition rpc_receipt_envelope ::
  "('eth, 'log, 'bloom, 'blob, 'rcpt) receipt_builder \<Rightarrow> 'log receipt \<Rightarrow> nat \<Rightarrow> tx_meta
    \<Rightarrow> ('log, 'bloom) any_receipt_envelope" where
  "rpc_receipt_envelope B rcpt next_log_index meta =
     (let mapped = map_logs meta next_log_index (rc_logs rcpt) in
      \<lparr> are_success = rc_success rcpt, are_cumulative_gas_used = rc_cumulative_gas_used rcpt,
        are_logs = mapped, are_bloom = rb_bloom B mapped, are_type = rb_tx_type_byte B (rc_tx_type rcpt) \<rparr>)"

fun convert_receipts ::
  "rlp \<Rightarrow> crypto \<Rightarrow> ('eth, 'log, 'bloom, 'blob, 'rcpt) receipt_builder
    \<Rightarrow> ('eth, 'log) convert_receipt_input list \<Rightarrow> 'e + 'rcpt ev_rpc_receipt list" where
  "convert_receipts R K B [] = Inr []"
| "convert_receipts R K B (input # inputs) =
     (let blob_params = rb_blob_params_at_timestamp B (tm_timestamp (cri_meta input));
          fee_payer = rpc_fee_payer R K (cri_tx input) (cri_signer input);
          rcpt = rb_build_receipt B input blob_params (rpc_receipt_envelope B)
      in map_ok (\<lambda>rs. \<lparr> err_inner = rcpt, err_fee_payer = fee_payer \<rparr> # rs) (convert_receipts R K B inputs))"

text \<open>The \<open>ReceiptResponse\<close> impl, on the accessors of the inner receipt.\<close>

record receipt_view =
  rv_contract_address :: "address option"
  rv_status :: bool
  rv_block_hash :: "b256 option"
  rv_block_number :: "u64 option"
  rv_transaction_hash :: b256
  rv_transaction_index :: "u64 option"
  rv_gas_used :: u64
  rv_effective_gas_price :: u128
  rv_blob_gas_used :: "u64 option"
  rv_blob_gas_price :: "u128 option"
  rv_from :: address
  rv_to :: "address option"
  rv_cumulative_gas_used :: u64
  rv_state_root :: "b256 option"

definition rpc_receipt_view :: "('rcpt \<Rightarrow> receipt_view) \<Rightarrow> 'rcpt ev_rpc_receipt \<Rightarrow> receipt_view" where
  "rpc_receipt_view V r =
     (let v = V (err_inner r) in
      \<lparr> rv_contract_address = rv_contract_address v, rv_status = rv_status v, rv_block_hash = rv_block_hash v,
        rv_block_number = rv_block_number v, rv_transaction_hash = rv_transaction_hash v,
        rv_transaction_index = rv_transaction_index v, rv_gas_used = rv_gas_used v,
        rv_effective_gas_price = rv_effective_gas_price v, rv_blob_gas_used = rv_blob_gas_used v,
        rv_blob_gas_price = rv_blob_gas_price v, rv_from = rv_from v, rv_to = rv_to v,
        rv_cumulative_gas_used = rv_cumulative_gas_used v, rv_state_root = rv_state_root v \<rparr>)"

section \<open>Requests\<close>

datatype sign_tx_request_error = InvalidTransactionRequest | SignerError

text \<open>The request type is a wrapper of alloy's \<open>'req\<close>.\<close>

datatype 'req ev_transaction_request = EvTransactionRequest (inner_request: 'req)

record ('req, 'typed, 'eth, 'env) request_ops =
  rq_build_typed_tx :: "'req \<Rightarrow> 'req + 'typed"
  rq_sign_transaction :: "'typed \<Rightarrow> sign_tx_request_error + signature \<times> 'typed"
  rq_into_signed :: "'typed \<Rightarrow> signature \<Rightarrow> 'eth"
  rq_try_into_sim_tx :: "'req \<Rightarrow> 'req + 'eth"
  rq_try_into_tx_env :: "'req \<Rightarrow> 'env \<Rightarrow> string + tx_env"

text \<open>The signer may set fields of the transaction before it signs it.\<close>

definition try_build_and_sign ::
  "('req, 'typed, 'eth, 'env) request_ops \<Rightarrow> 'req ev_transaction_request \<Rightarrow> sign_tx_request_error + 'eth ev_tx_envelope" where
  "try_build_and_sign Q req =
     and_then (map_err (\<lambda>_. InvalidTransactionRequest) (rq_build_typed_tx Q (inner_request req))) (\<lambda>tx.
     and_then (rq_sign_transaction Q tx) (\<lambda>(sig, tx').
     Inr (Ethereum (rq_into_signed Q tx' sig))))"

definition try_into_sim_tx ::
  "('req, 'typed, 'eth, 'env) request_ops \<Rightarrow> 'req ev_transaction_request
    \<Rightarrow> 'req ev_transaction_request + 'eth ev_tx_envelope" where
  "try_into_sim_tx Q req = map_err EvTransactionRequest (map_ok Ethereum (rq_try_into_sim_tx Q (inner_request req)))"

definition convert_sim_tx ::
  "('req, 'typed, 'eth, 'env) request_ops \<Rightarrow> 'req ev_transaction_request
    \<Rightarrow> 'req ev_transaction_request + 'eth ev_tx_envelope" where
  "convert_sim_tx Q req = map_err EvTransactionRequest (map_ok Ethereum (rq_try_into_sim_tx Q (inner_request req)))"

definition try_into_tx_env ::
  "('req, 'typed, 'eth, 'env) request_ops \<Rightarrow> 'req ev_transaction_request \<Rightarrow> 'env \<Rightarrow> string + ev_tx_env" where
  "try_into_tx_env Q req evm_env = map_ok ev_tx_env_new (rq_try_into_tx_env Q (inner_request req) evm_env)"

definition convert_tx_env ::
  "('req, 'typed, 'eth, 'env) request_ops \<Rightarrow> 'req ev_transaction_request \<Rightarrow> 'env \<Rightarrow> string + ev_tx_env" where
  "convert_tx_env Q req evm_env = map_ok ev_tx_env_new (rq_try_into_tx_env Q (inner_request req) evm_env)"

section \<open>Correctness\<close>

lemma rpc_tx_view_inner: "rpc_tx_view A t = ar_view A (ert_inner t)"
  by (simp add: rpc_tx_view_def Let_def)

lemma rpc_receipt_view_inner: "rpc_receipt_view V r = V (err_inner r)"
  by (simp add: rpc_receipt_view_def Let_def)

text \<open>A request is never turned into an EvNode transaction, and a simulated call has no sponsor and no batch.\<close>

lemma requests_are_ethereum:
  "try_build_and_sign Q req = Inr tx \<Longrightarrow> \<exists>e. tx = Ethereum e"
  "try_into_sim_tx Q req = Inr tx' \<Longrightarrow> \<exists>e. tx' = Ethereum e"
  "convert_tx_env Q req evm_env = Inr env \<Longrightarrow> env_sponsor env = None \<and> batch_calls env = None"
  by (auto simp: try_build_and_sign_def try_into_sim_tx_def convert_tx_env_def ok_iff ev_tx_env_new_def batch_calls_def)

text \<open>The reported fee payer is the account the handler charges.\<close>

lemma rpc_fee_payer_sponsor: "rpc_fee_payer R K tx signer = env_sponsor (from_recovered_tx R K T tx signer)"
  by (cases tx)
    (auto simp: from_evnode_tx_def sponsor_of_tx_def ev_tx_env_new_def Let_def split: option.split sum.split)

lemma map_logs_nth:
  "i < length logs \<Longrightarrow> map_logs meta n logs ! i = rpc_log_of meta (logs ! i) (n + i)"
  by (induction logs arbitrary: n i) (auto simp: nth_Cons split: nat.split)

lemma length_map_logs [simp]: "length (map_logs meta n logs) = length logs"
  by (induction logs arbitrary: n) auto

lemma map_log_index: "map rl_log_index (map_logs meta n logs) = map (\<lambda>i. Some (of_nat i)) [n..<n + length logs]"
proof (induction logs arbitrary: n)
  case (Cons log logs)
  then show ?case using Cons.IH [of "Suc n"] by (simp add: rpc_log_of_def upt_conv_Cons del: upt_Suc)
qed simp

lemma convert_receipts_eq:
  "convert_receipts R K B inputs = Inr (map (\<lambda>input.
     \<lparr> err_inner = rb_build_receipt B input (rb_blob_params_at_timestamp B (tm_timestamp (cri_meta input)))
         (rpc_receipt_envelope B),
       err_fee_payer = rpc_fee_payer R K (cri_tx input) (cri_signer input) \<rparr>) inputs)"
  by (induction inputs) (simp_all add: Let_def)

text \<open>
  The log counter of a block: each receipt starts where the one before it ended.
\<close>

fun log_indices_from :: "nat \<Rightarrow> ('eth, 'log) convert_receipt_input list \<Rightarrow> bool" where
  "log_indices_from n [] = True"
| "log_indices_from n (input # inputs) \<longleftrightarrow>
     cri_next_log_index input = n \<and> log_indices_from (n + length (rc_logs (cri_receipt input))) inputs"

lemma block_log_indices:
  "log_indices_from n inputs \<Longrightarrow>
   concat (map (\<lambda>input. map rl_log_index (are_logs (rpc_receipt_envelope B (cri_receipt input)
     (cri_next_log_index input) (cri_meta input)))) inputs) =
   map (\<lambda>i. Some (of_nat i)) [n..<n + (\<Sum>input\<leftarrow>inputs. length (rc_logs (cri_receipt input)))]"
proof (induction inputs arbitrary: n)
  case (Cons input inputs)
  let ?l = "length (rc_logs (cri_receipt input))"
  have "[n..<n + (?l + s)] = [n..<n + ?l] @ [n + ?l..<n + ?l + s]" for s
    using upt_add_eq_append [of n "n + ?l" s] by (simp add: add.assoc)
  then show ?case using Cons.IH [of "n + ?l"] Cons.prems
    by (simp add: rpc_receipt_envelope_def Let_def map_log_index add.assoc)
qed simp

text \<open>What is relied on of the receipt builder: the receipt it returns holds the envelope the callback made.\<close>

locale receipt_callback =
  fixes B :: "('eth, 'log, 'bloom, 'blob, 'rcpt) receipt_builder"
    and envelope_of :: "'rcpt \<Rightarrow> ('log, 'bloom) any_receipt_envelope"
  assumes callback: "envelope_of (rb_build_receipt B input blob f) =
    f (cri_receipt input) (cri_next_log_index input) (cri_meta input)"
begin

lemma converted_nth:
  assumes "convert_receipts R K B inputs = Inr rs" and "i < length inputs"
  shows "err_fee_payer (rs ! i) = rpc_fee_payer R K (cri_tx (inputs ! i)) (cri_signer (inputs ! i))"
    and "envelope_of (err_inner (rs ! i)) = rpc_receipt_envelope B (cri_receipt (inputs ! i))
      (cri_next_log_index (inputs ! i)) (cri_meta (inputs ! i))"
  using assms by (auto simp: convert_receipts_eq callback)

lemma converted_log_indices:
  assumes "log_indices_from 0 inputs" and "convert_receipts R K B inputs = Inr rs"
  shows "concat (map (\<lambda>r. map rl_log_index (are_logs (envelope_of (err_inner r)))) rs) =
    map (\<lambda>i. Some (of_nat i)) [0..<(\<Sum>input\<leftarrow>inputs. length (rc_logs (cri_receipt input)))]"
  using block_log_indices [OF assms(1), of B] assms(2) by (auto simp: convert_receipts_eq callback comp_def)

end

lemma distinct_u64_indices: "n \<le> 2 ^ 64 \<Longrightarrow> distinct (map (\<lambda>i. Some (of_nat i :: u64)) [0..<n])"
  by (auto simp: distinct_map inj_on_def unat_of_nat dest!: arg_cong [where f = unat])

text \<open>C32. What the RPC reports of a block. Every receipt is converted, none is refused. The fee payer
  of a receipt, and of the transaction response of the same transaction, is the sponsor the EVM
  charges for it (none for an Ethereum transaction, an unsponsored one or an invalid sponsor
  signature). The logs of a receipt are its logs in order, tagged with the position of their
  transaction, and over the block the log indices count up from zero without gaps or repetitions.\<close>

theorem rpc_conversion_correct:
  fixes B :: "('eth, 'log, 'bloom, 'blob, 'rcpt) receipt_builder"
  assumes "receipt_callback B envelope_of" and "log_indices_from 0 inputs"
    and "(\<Sum>input\<leftarrow>inputs. length (rc_logs (cri_receipt input))) \<le> 2 ^ 64"
  shows "\<exists>rs. convert_receipts R K B inputs = (Inr rs :: 'e + _) \<and> length rs = length inputs \<and>
    (let indices = concat (map (\<lambda>r. map rl_log_index (are_logs (envelope_of (err_inner r)))) rs)
     in indices = map (\<lambda>i. Some (of_nat i)) [0..<(\<Sum>input\<leftarrow>inputs. length (rc_logs (cri_receipt input)))] \<and>
        distinct indices) \<and>
    (\<forall>i < length inputs.
       let sponsor = env_sponsor (from_recovered_tx R K T (cri_tx (inputs ! i)) (cri_signer (inputs ! i)));
           envelope = envelope_of (err_inner (rs ! i)); rcpt = cri_receipt (inputs ! i)
       in err_fee_payer (rs ! i) = sponsor \<and>
          map_ok ert_fee_payer (convert_rpc_tx R K A (cri_tx (inputs ! i)) (cri_signer (inputs ! i)) info) =
            (Inr sponsor :: 'e + _) \<and>
          map rl_inner (are_logs envelope) = rc_logs rcpt \<and> are_success envelope = rc_success rcpt \<and>
          are_cumulative_gas_used envelope = rc_cumulative_gas_used rcpt \<and>
          (\<forall>l \<in> set (are_logs envelope). rl_transaction_hash l = Some (tm_tx_hash (cri_meta (inputs ! i))) \<and>
             rl_block_hash l = Some (tm_block_hash (cri_meta (inputs ! i))) \<and> \<not> rl_removed l))"
proof -
  obtain rs where rs: "convert_receipts R K B inputs = (Inr rs :: 'e + _)" by (simp add: convert_receipts_eq)
  note nth = receipt_callback.converted_nth [OF assms(1) rs]
  note indices = receipt_callback.converted_log_indices [OF assms(1,2) rs]
  have len: "length rs = length inputs" using rs by (auto simp: convert_receipts_eq)
  have logs: "map rl_inner (map_logs m n ls) = ls \<and> (\<forall>l \<in> set (map_logs m n ls).
      rl_transaction_hash l = Some (tm_tx_hash m) \<and> rl_block_hash l = Some (tm_block_hash m) \<and> \<not> rl_removed l)"
    for m n and ls :: "'log list"
    by (induction ls arbitrary: n) (auto simp: rpc_log_of_def)
  show ?thesis
    using rs len indices distinct_u64_indices [OF assms(3)] logs
    by (intro exI [of _ rs])
      (simp add: Let_def nth rpc_fee_payer_sponsor [of _ _ _ _ T] convert_rpc_tx_def ev_rpc_transaction_new_def
        rpc_receipt_envelope_def)
qed

text \<open>A builder that keeps the envelope beside the gas used.\<close>

definition ref_receipt_builder :: "(unit, nat, nat, unit, (nat, nat) any_receipt_envelope \<times> u64) receipt_builder" where
  "ref_receipt_builder =
     \<lparr> rb_blob_params_at_timestamp = (\<lambda>_. None), rb_bloom = length,
       rb_build_receipt = (\<lambda>input blob f. (f (cri_receipt input) (cri_next_log_index input) (cri_meta input), cri_gas_used input)),
       rb_tx_type_byte = (\<lambda>ty. case ty of TyEvNode \<Rightarrow> EVNODE_TX_TYPE_ID | _ \<Rightarrow> 2) \<rparr>"

interpretation ref_receipts: receipt_callback ref_receipt_builder fst
  by unfold_locales (simp add: ref_receipt_builder_def)

definition demo_meta :: "nat \<Rightarrow> tx_meta" where
  "demo_meta i = \<lparr> tm_tx_hash = of_nat (100 + i), tm_index = of_nat i, tm_block_hash = 9, tm_block_number = 5, tm_timestamp = 50 \<rparr>"

definition demo_inputs :: "(unit, nat) convert_receipt_input list" where
  "demo_inputs =
     [\<lparr> cri_tx = Ethereum (), cri_signer = 1,
        cri_receipt = \<lparr> rc_tx_type = TyEthereum Eip1559, rc_success = True, rc_cumulative_gas_used = 21000, rc_logs = [7, 8] \<rparr>,
        cri_gas_used = 21000, cri_next_log_index = 0, cri_meta = demo_meta 0 \<rparr>,
      \<lparr> cri_tx = EvNode \<lparr> signed_tx = sample_tx, signed_signature = sample_signature \<rparr>, cri_signer = 2,
        cri_receipt = \<lparr> rc_tx_type = TyEvNode, rc_success = True, rc_cumulative_gas_used = 42000, rc_logs = [9] \<rparr>,
        cri_gas_used = 21000, cri_next_log_index = 2, cri_meta = demo_meta 1 \<rparr>]"

definition rpc_crypto :: crypto where
  "rpc_crypto =
     \<lparr> keccak256 = (\<lambda>bs. 0), recover_address_from_prehash = (\<lambda>s h. Inr (ucast (sig_r s))) \<rparr>"

definition rpc_env_ops :: "unit tx_env_ops" where
  "rpc_env_ops =
     \<lparr> default_tx_env = demo_inner, eth_tx_env = (\<lambda>e a. demo_inner \<lparr> te_caller := a \<rparr>),
       build_tx_env = (\<lambda>a d k g. Some demo_inner) \<rparr>"

definition rpc_alloy :: "(unit, address \<times> tx_info) alloy_rpc" where
  "rpc_alloy =
     \<lparr> ar_from_transaction = (\<lambda>tx a info. (a, info)), ar_view = (\<lambda>_. evnode_view sample_tx),
       ar_effective_gas_price = (\<lambda>_ _. 0), ar_tx_hash = (\<lambda>_. 0),
       ar_block_hash = (\<lambda>t. ti_block_hash (snd t)), ar_block_number = (\<lambda>t. ti_block_number (snd t)),
       ar_transaction_index = (\<lambda>t. ti_index (snd t)), ar_from = fst \<rparr>"

definition demo_info :: tx_info where
  "demo_info = \<lparr> ti_hash = None, ti_index = Some 1, ti_block_hash = Some 9, ti_block_number = Some 5, ti_base_fee = None \<rparr>"

text \<open>A plain and a sponsored transaction: log indices 0, 1, 2 and the recovered sponsor.\<close>

theorem rpc_conversion_correct_witness:
  "\<exists>rs. convert_receipts ref_rlp rpc_crypto ref_receipt_builder demo_inputs = (Inr rs :: unit + _) \<and>
     concat (map (\<lambda>r. map rl_log_index (are_logs (fst (err_inner r)))) rs) = [Some 0, Some 1, Some 2] \<and>
     err_fee_payer (rs ! 1) = Some (ucast (sig_r sample_signature))"
proof -
  have idx: "log_indices_from 0 demo_inputs" by (simp add: demo_inputs_def)
  have sum: "(\<Sum>input\<leftarrow>demo_inputs. length (rc_logs (cri_receipt input))) = 3" by (simp add: demo_inputs_def)
  then have le: "(\<Sum>input\<leftarrow>demo_inputs. length (rc_logs (cri_receipt input))) \<le> 2 ^ 64" by simp
  have one: "1 < length demo_inputs" by (simp add: demo_inputs_def)
  have sponsor: "env_sponsor (from_recovered_tx ref_rlp rpc_crypto rpc_env_ops (cri_tx (demo_inputs ! 1))
      (cri_signer (demo_inputs ! 1))) = Some (ucast (sig_r sample_signature))"
    by (simp add: demo_inputs_def from_evnode_tx_def sponsor_of_tx_def Let_def sample_tx_def recover_sponsor_def rpc_crypto_def)
  have upt: "map (\<lambda>i. Some (of_nat i :: u64)) [0..<3] = [Some 0, Some 1, Some 2]" by (simp add: upt_rec)
  from rpc_conversion_correct [OF ref_receipts.receipt_callback_axioms idx le, of ref_rlp rpc_crypto rpc_env_ops rpc_alloy demo_info,
      where 'e = unit]
  obtain rs where "convert_receipts ref_rlp rpc_crypto ref_receipt_builder demo_inputs = (Inr rs :: unit + _)"
    "concat (map (\<lambda>r. map rl_log_index (are_logs (fst (err_inner r)))) rs) = map (\<lambda>i. Some (of_nat i)) [0..<3]"
    "\<forall>i < length demo_inputs. err_fee_payer (rs ! i) =
       env_sponsor (from_recovered_tx ref_rlp rpc_crypto rpc_env_ops (cri_tx (demo_inputs ! i)) (cri_signer (demo_inputs ! i)))"
    unfolding Let_def sum by blast
  with one sponsor upt show ?thesis by metis
qed

end
