(* ===== verification/Node_Components.thy ===== *)
theory Node_Components
  imports Node_Assembly Txpool_Builder Consensus Rpc_Convert
begin

text \<open>
  The components of the node (\<open>crates/node/src/node.rs\<close>): the builders \<open>EvolveNode\<close> selects for the
  pool, the EVM, the payload service and the consensus, with its add-ons for the RPC and the engine
  validation, and what each builder makes of the context of the node. reth's \<open>ComponentsBuilder\<close>,
  which runs them, its network builder and its RPC builder are parameters; the locale
  \<open>component_launcher\<close> states that a node is made of what the builders return. The property says
  that all components of a node follow one chain spec.
\<close>

section \<open>The context of the node\<close>

text \<open>The settings of the pool hold the \<open>evolve\<close> extras of the chain spec.\<close>

record ('spec, 'prov, 'kzg, 'local, 'store, 'pool) node_ctx =
  nx_chain_spec :: 'spec
  nx_provider :: 'prov
  nx_pool_ctx :: "('kzg, 'local, 'store, 'pool) pool_ctx"
  nx_is_dev :: bool
  nx_extra_data :: bytes

datatype node_error = ConfigError config_error | PoolError string | OtherError string

section \<open>Builders\<close>

definition executor_build_evm ::
    "('spec, 'prov, 'kzg, 'local, 'store, 'pool) node_ctx
       \<Rightarrow> node_error + ('spec, ev_tx_evm_factory) ev_evm_config" where
  "executor_build_evm X =
     map_err ConfigError (and_then (build_evm_config (cx_extra (nx_pool_ctx X))) (\<lambda>factory.
       Inr (with_extra_data (nx_extra_data X) (new_with_evm_factory (nx_chain_spec X) factory))))"

record ('prov, 'evm) evolve_payload_builder =
  eb_client :: 'prov
  eb_evm_config :: 'evm
  eb_config :: evolve_config

definition evolve_payload_builder_new ::
    "'prov \<Rightarrow> 'evm \<Rightarrow> evolve_config \<Rightarrow> ('prov, 'evm) evolve_payload_builder" where
  "evolve_payload_builder_new client evm_config config =
     \<lparr> eb_client = client, eb_evm_config = evm_config, eb_config = config \<rparr>"

record ('prov, 'evm, 'pool) engine_payload_builder =
  ep_evolve_builder :: "('prov, 'evm) evolve_payload_builder"
  ep_config :: evolve_config
  ep_pool :: 'pool
  ep_dev_mode :: bool

text \<open>\<open>given\<close> is the configuration the builder itself carries.\<close>

definition service_build ::
    "evolve_config \<Rightarrow> ('spec, 'prov, 'kzg, 'local, 'store, 'q) node_ctx \<Rightarrow> 'pool \<Rightarrow> 'evm
       \<Rightarrow> node_error + ('prov, 'evm, 'pool) engine_payload_builder" where
  "service_build given X pool evm_config =
     and_then (map_err ConfigError (build_payload_builder given (cx_extra (nx_pool_ctx X)))) (\<lambda>config.
       Inr \<lparr> ep_evolve_builder = evolve_payload_builder_new (nx_provider X) evm_config config,
             ep_config = config, ep_pool = pool, ep_dev_mode = nx_is_dev X \<rparr>)"

datatype missing_payload_behaviour = AwaitInProgress | RaceEmptyPayload

definition on_missing_payload :: "'args \<Rightarrow> missing_payload_behaviour" where
  "on_missing_payload args = AwaitInProgress"

text \<open>The inner consensus and the inner validator of reth are those of their chain spec.\<close>

record 'spec evolve_consensus =
  ec_inner :: 'spec

definition consensus_new :: "'spec \<Rightarrow> 'spec evolve_consensus" where
  "consensus_new chain_spec = \<lparr> ec_inner = chain_spec \<rparr>"

definition consensus_builder_build :: "'spec \<Rightarrow> 'spec evolve_consensus" where
  "consensus_builder_build chain_spec = consensus_new chain_spec"

definition build_consensus ::
    "('spec, 'prov, 'kzg, 'local, 'store, 'pool) node_ctx \<Rightarrow> node_error + 'spec evolve_consensus" where
  "build_consensus X = Inr (consensus_new (nx_chain_spec X))"

record 'spec engine_validator =
  gv_inner :: 'spec

definition engine_validator_new :: "'spec \<Rightarrow> 'spec engine_validator" where
  "engine_validator_new chain_spec = \<lparr> gv_inner = chain_spec \<rparr>"

definition engine_validator_chain_spec :: "'spec engine_validator \<Rightarrow> 'spec" where
  "engine_validator_chain_spec v = gv_inner v"

definition engine_validate_version_specific_fields ::
    "('spec \<Rightarrow> 'ver \<Rightarrow> 'p \<Rightarrow> 'e + unit) \<Rightarrow> 'spec engine_validator \<Rightarrow> 'ver \<Rightarrow> 'p \<Rightarrow> 'e + unit" where
  "engine_validate_version_specific_fields check v version payload_or_attrs =
     check (engine_validator_chain_spec v) version payload_or_attrs"

definition validator_builder_build ::
    "('spec, 'prov, 'kzg, 'local, 'store, 'pool) node_ctx \<Rightarrow> node_error + 'spec engine_validator" where
  "validator_builder_build X = Inr (engine_validator_new (nx_chain_spec X))"

section \<open>The RPC\<close>

record 'spec ev_receipt_converter =
  er_chain_spec :: 'spec

definition receipt_converter_new :: "'spec \<Rightarrow> 'spec ev_receipt_converter" where
  "receipt_converter_new chain_spec = \<lparr> er_chain_spec = chain_spec \<rparr>"

datatype sim_tx_converter = PlainSimTxConverter | EvSimTxConverter
datatype rpc_tx_converter = PlainRpcTxConverter | EvRpcTxConverter
datatype tx_env_converter = PlainTxEnvConverter | EvTxEnvConverter

text \<open>\<open>rpc_new\<close> is reth's \<open>RpcConverter::new\<close>, \<open>build\<close> its API builder; the converters not set are reth's own.\<close>

record 'spec rpc_converter =
  cv_receipt :: "'spec ev_receipt_converter"
  cv_sim_tx :: sim_tx_converter
  cv_rpc_tx :: rpc_tx_converter
  cv_tx_env :: tx_env_converter

definition build_eth_api ::
    "('spec ev_receipt_converter \<Rightarrow> 'spec rpc_converter) \<Rightarrow> ('spec rpc_converter \<Rightarrow> 'api)
       \<Rightarrow> ('spec, 'prov, 'kzg, 'local, 'store, 'pool) node_ctx \<Rightarrow> node_error + 'api" where
  "build_eth_api rpc_new build X =
     (let conv = rpc_new (receipt_converter_new (nx_chain_spec X));
          conv1 = conv \<lparr> cv_sim_tx := EvSimTxConverter, cv_rpc_tx := EvRpcTxConverter \<rparr>;
          conv2 = conv1 \<lparr> cv_tx_env := EvTxEnvConverter \<rparr>
      in Inr (build conv2))"

record 'pool txpool_api =
  ta_pool :: 'pool
  ta_max_bytes :: u64

definition create_evolve_txpool_module :: "'pool \<Rightarrow> u64 \<Rightarrow> 'pool txpool_api" where
  "create_evolve_txpool_module pool max_bytes = \<lparr> ta_pool = pool, ta_max_bytes = max_bytes \<rparr>"

section \<open>The node\<close>

type_synonym ('kzg, 'local, 'pool) node_pool = "'pool \<times> (('kzg, 'local) eth_validator \<times> ev_validator) \<times> bool"

record ('ctx, 'evm, 'pool, 'net, 'payload, 'cons) node_builders =
  cb_pool :: "'ctx \<Rightarrow> 'evm \<Rightarrow> node_error + 'pool"
  cb_executor :: "'ctx \<Rightarrow> node_error + 'evm"
  cb_payload :: "'ctx \<Rightarrow> 'pool \<Rightarrow> 'evm \<Rightarrow> node_error + 'payload"
  cb_network :: "'ctx \<Rightarrow> 'pool \<Rightarrow> node_error + 'net"
  cb_consensus :: "'ctx \<Rightarrow> node_error + 'cons"

type_synonym ('spec, 'prov, 'kzg, 'local, 'store, 'pool, 'net) evolve_builders =
  "(('spec, 'prov, 'kzg, 'local, 'store, 'pool) node_ctx, ('spec, ev_tx_evm_factory) ev_evm_config,
    ('kzg, 'local, 'pool) node_pool, 'net,
    ('prov, ('spec, ev_tx_evm_factory) ev_evm_config, ('kzg, 'local, 'pool) node_pool) engine_payload_builder,
    'spec evolve_consensus) node_builders"

definition components_builder ::
    "(('spec, 'prov, 'kzg, 'local, 'store, 'pool) node_ctx \<Rightarrow> ('kzg, 'local, 'pool) node_pool \<Rightarrow> node_error + 'net)
       \<Rightarrow> ('spec, 'prov, 'kzg, 'local, 'store, 'pool, 'net) evolve_builders" where
  "components_builder network =
     \<lparr> cb_pool = (\<lambda>X evm. map_err PoolError (build_pool (nx_pool_ctx X))),
       cb_executor = executor_build_evm,
       cb_payload = service_build payload_builder_builder_new,
       cb_network = network,
       cb_consensus = build_consensus \<rparr>"

record ('ctx, 'api, 'val) node_add_ons =
  ao_eth_api :: "'ctx \<Rightarrow> node_error + 'api"
  ao_validator :: "'ctx \<Rightarrow> node_error + 'val"

definition add_ons ::
    "('spec ev_receipt_converter \<Rightarrow> 'spec rpc_converter) \<Rightarrow> ('spec rpc_converter \<Rightarrow> 'api)
       \<Rightarrow> (('spec, 'prov, 'kzg, 'local, 'store, 'pool) node_ctx, 'api, 'spec engine_validator) node_add_ons" where
  "add_ons rpc_new build = \<lparr> ao_eth_api = build_eth_api rpc_new build, ao_validator = validator_builder_build \<rparr>"

record ('evm, 'pool, 'net, 'payload, 'cons) node_components =
  nd_evm_config :: 'evm
  nd_pool :: 'pool
  nd_network :: 'net
  nd_payload :: 'payload
  nd_consensus :: 'cons

text \<open>Every component is what its builder made of the context and the components before it.\<close>

definition assembled ::
    "('ctx, 'evm, 'pool, 'net, 'payload, 'cons) node_builders \<Rightarrow> 'ctx
       \<Rightarrow> ('evm, 'pool, 'net, 'payload, 'cons) node_components \<Rightarrow> bool" where
  "assembled B X N \<longleftrightarrow>
     cb_executor B X = Inr (nd_evm_config N) \<and>
     cb_pool B X (nd_evm_config N) = Inr (nd_pool N) \<and>
     cb_network B X (nd_pool N) = Inr (nd_network N) \<and>
     cb_payload B X (nd_pool N) (nd_evm_config N) = Inr (nd_payload N) \<and>
     cb_consensus B X = Inr (nd_consensus N)"

locale component_launcher =
  fixes build_components :: "('ctx, 'evm, 'pool, 'net, 'payload, 'cons) node_builders \<Rightarrow> 'ctx
      \<Rightarrow> node_error + ('evm, 'pool, 'net, 'payload, 'cons) node_components"
  assumes built_iff: "build_components B X = Inr N \<longleftrightarrow> assembled B X N"

text \<open>The order of reth: EVM, pool, network, payload service, consensus.\<close>

definition ref_build_components ::
    "('ctx, 'evm, 'pool, 'net, 'payload, 'cons) node_builders \<Rightarrow> 'ctx
       \<Rightarrow> node_error + ('evm, 'pool, 'net, 'payload, 'cons) node_components" where
  "ref_build_components B X =
     and_then (cb_executor B X) (\<lambda>evm.
     and_then (cb_pool B X evm) (\<lambda>pool.
     and_then (cb_network B X pool) (\<lambda>net.
     and_then (cb_payload B X pool evm) (\<lambda>payload.
     and_then (cb_consensus B X) (\<lambda>cons.
       Inr \<lparr> nd_evm_config = evm, nd_pool = pool, nd_network = net, nd_payload = payload, nd_consensus = cons \<rparr>)))))"

interpretation ref_launcher: component_launcher ref_build_components
proof
  fix B :: "('ctx, 'evm, 'pool, 'net, 'payload, 'cons) node_builders" and X N
  show "ref_build_components B X = Inr N \<longleftrightarrow> assembled B X N"
    by (cases N) (auto simp: ref_build_components_def assembled_def ok_iff)
qed

section \<open>Lemmas\<close>

text \<open>The payload builder carries nothing of its own, so its configuration is that of the chain spec.\<close>

lemma build_payload_builder_default:
  "build_payload_builder payload_builder_builder_new extra = Inr c \<longleftrightarrow>
     from_chain_spec extra = Inr c \<and> validate_config c = Inr ()"
  by (auto simp: build_payload_builder_def payload_builder_builder_new_def override_config_def evolve_config_new_def
      ok_iff Let_def)

text \<open>The block number of the EVM is a 256-bit word, that of a payload a 64-bit one.\<close>

lemma ucast_le_iff: "(ucast (a :: u64) :: u256) \<le> ucast b \<longleftrightarrow> a \<le> b"
  by (simp add: word_le_nat_alt unat_ucast_up)

lemma sink_is_redirect:
  assumes "from_chain_spec extra = Inr c" "build_evm_config extra = Inr f"
  shows "base_fee_sink_for_block c n = map_option fee_sink (redirect_for_block f (ucast n))"
  using assms
  by (auto simp: build_evm_config_def ok_iff factory_new_def base_fee_sink_for_block_def redirect_for_block_def
      ucast_le_iff split: option.splits)

text \<open>
  The RPC of a node converts with the EV converters, keeping what reth's constructor makes of the
  receipt converter; the engine validator checks versions against the chain spec of the node.
\<close>

lemma add_ons_follow_spec:
  "ao_eth_api (add_ons rpc_new build) X = Inr (build ((rpc_new (receipt_converter_new (nx_chain_spec X)))
     \<lparr> cv_sim_tx := EvSimTxConverter, cv_rpc_tx := EvRpcTxConverter, cv_tx_env := EvTxEnvConverter \<rparr>))"
  "ao_validator (add_ons rpc_new build) X = Inr v \<Longrightarrow>
     engine_validate_version_specific_fields check v version p = check (nx_chain_spec X) version p"
  by (auto simp: add_ons_def build_eth_api_def Let_def validator_builder_build_def engine_validator_new_def
      engine_validate_version_specific_fields_def engine_validator_chain_spec_def)

lemma assembled_evolve:
  assumes "assembled (components_builder network) X N"
  obtains c f pool inner validator kzg where
    "from_chain_spec (cx_extra (nx_pool_ctx X)) = Inr c" "validate_config c = Inr ()"
    "build_evm_config (cx_extra (nx_pool_ctx X)) = Inr f"
    "nd_evm_config N = with_extra_data (nx_extra_data X) (new_with_evm_factory (nx_chain_spec X) f)"
    "build_pool (nx_pool_ctx X) = Inr (pool, (inner, validator), kzg)" "nd_pool N = (pool, (inner, validator), kzg)"
    "nd_payload N = \<lparr> ep_evolve_builder = evolve_payload_builder_new (nx_provider X) (nd_evm_config N) c,
       ep_config = c, ep_pool = nd_pool N, ep_dev_mode = nx_is_dev X \<rparr>"
    "nd_consensus N = consensus_new (nx_chain_spec X)"
proof -
  obtain pool inner validator kzg where n: "nd_pool N = (pool, (inner, validator), kzg)" by (metis prod.exhaust)
  have a: "executor_build_evm X = Inr (nd_evm_config N)" "map_err PoolError (build_pool (nx_pool_ctx X)) = Inr (nd_pool N)"
    "service_build payload_builder_builder_new X (nd_pool N) (nd_evm_config N) = Inr (nd_payload N)"
    "build_consensus X = Inr (nd_consensus N)"
    using assms by (simp_all add: assembled_def components_builder_def)
  obtain f where f: "build_evm_config (cx_extra (nx_pool_ctx X)) = Inr f"
      "nd_evm_config N = with_extra_data (nx_extra_data X) (new_with_evm_factory (nx_chain_spec X) f)"
    using a(1) by (auto simp: executor_build_evm_def ok_iff)
  obtain c where c: "build_payload_builder payload_builder_builder_new (cx_extra (nx_pool_ctx X)) = Inr c"
      "nd_payload N = \<lparr> ep_evolve_builder = evolve_payload_builder_new (nx_provider X) (nd_evm_config N) c,
         ep_config = c, ep_pool = nd_pool N, ep_dev_mode = nx_is_dev X \<rparr>"
    using a(3) by (auto simp: service_build_def ok_iff)
  show thesis
    using that [OF _ _ f _ n c(2)] c(1) a(2,4) by (simp add: build_payload_builder_default ok_iff n build_consensus_def)
qed

section \<open>Properties\<close>

text \<open>C20. A node that starts follows one chain spec in all its components. Its \<open>evolve\<close> settings are
  valid; the pool refuses deployments by the allowlist of the EVM; at every block the default fee
  recipient of the payload builder is the sink the EVM redirects base fees to, if any; payloads are
  built with the EVM configuration of the node, on its pool; executor, block assembler and consensus
  check against the same chain spec. A node whose settings do not parse or validate does not start,
  although its pool builder alone would go on without an allowlist.\<close>

theorem node_components_agree:
  assumes "component_launcher build_components"
    and "build_components (components_builder network) X = Inr N"
  defines "f \<equiv> bf_evm_factory (vc_executor_factory (nd_evm_config N))"
    and "V \<equiv> snd (fst (snd (nd_pool N)))" and "P \<equiv> nd_payload N"
  shows "(\<exists>c. from_chain_spec (cx_extra (nx_pool_ctx X)) = Inr c \<and> validate_config c = Inr () \<and> ep_config P = c) \<and>
    val_deploy_allowlist V = fac_deploy_allowlist f \<and>
    (\<forall>n suggested. resolve_fee_recipient (ep_config P) suggested n =
       (if suggested \<noteq> ADDRESS_ZERO then suggested
        else case redirect_for_block f (ucast n) of Some r \<Rightarrow> fee_sink r | None \<Rightarrow> ADDRESS_ZERO)) \<and>
    eb_evm_config (ep_evolve_builder P) = nd_evm_config N \<and> eb_config (ep_evolve_builder P) = ep_config P \<and>
    ep_pool P = nd_pool N \<and> ep_dev_mode P = nx_is_dev X \<and>
    config_chain_spec (nd_evm_config N) = nx_chain_spec X \<and> vc_block_assembler (nd_evm_config N) = nx_chain_spec X \<and>
    vc_extra_data (nd_evm_config N) = nx_extra_data X \<and> ec_inner (nd_consensus N) = nx_chain_spec X"
proof -
  obtain c f' pool inner validator kzg where n: "from_chain_spec (cx_extra (nx_pool_ctx X)) = Inr c" "validate_config c = Inr ()"
    "build_evm_config (cx_extra (nx_pool_ctx X)) = Inr f'"
    "nd_evm_config N = with_extra_data (nx_extra_data X) (new_with_evm_factory (nx_chain_spec X) f')"
    "build_pool (nx_pool_ctx X) = Inr (pool, (inner, validator), kzg)" "nd_pool N = (pool, (inner, validator), kzg)"
    "nd_payload N = \<lparr> ep_evolve_builder = evolve_payload_builder_new (nx_provider X) (nd_evm_config N) c,
       ep_config = c, ep_pool = nd_pool N, ep_dev_mode = nx_is_dev X \<rparr>"
    "nd_consensus N = consensus_new (nx_chain_spec X)"
    using assembled_evolve [OF component_launcher.built_iff [OF assms(1), THEN iffD1, OF assms(2)]] by blast
  have f: "f = f'"
    by (simp add: f_def n(4) with_extra_data_def new_with_evm_factory_def block_executor_factory_new_def)
  have V: "val_deploy_allowlist V = fac_deploy_allowlist f"
    using build_pool_validator(1) [OF n(5)] n(1,3)
    by (auto simp: V_def f n(6) pool_validator_def build_evm_config_def ok_iff factory_new_def)
  have sink: "base_fee_sink_for_block c k = map_option fee_sink (redirect_for_block f (ucast k))" for k
    unfolding f by (rule sink_is_redirect [OF n(1,3)])
  have r: "resolve_fee_recipient c suggested k = (if suggested \<noteq> ADDRESS_ZERO then suggested
        else case redirect_for_block f (ucast k) of Some r \<Rightarrow> fee_sink r | None \<Rightarrow> ADDRESS_ZERO)" for suggested k
    by (simp add: resolve_fee_recipient_def sink split: option.split)
  show ?thesis
    using n(1,2) V r
    by (simp add: P_def n(4,7,8) config_spec_shared evolve_payload_builder_new_def consensus_new_def)
      (simp add: with_extra_data_def)
qed

text \<open>A dev node on the sample settings: base fees go to account 8, which is its default fee recipient.\<close>

definition demo_node_ctx :: "(string, unit, unit, unit, unit, unit) node_ctx" where
  "demo_node_ctx =
     \<lparr> nx_chain_spec = ''ev'', nx_provider = (), nx_pool_ctx = demo_pool_ctx, nx_is_dev = True, nx_extra_data = [1] \<rparr>"

theorem node_components_agree_witness:
  "\<exists>N. ref_build_components (components_builder (\<lambda>X pool. Inr ())) demo_node_ctx = Inr N \<and>
     resolve_fee_recipient (ep_config (nd_payload N)) 0 7 = 8 \<and>
     redirect_for_block (bf_evm_factory (vc_executor_factory (nd_evm_config N))) 7 = Some \<lparr> fee_sink = 8 \<rparr> \<and>
     val_deploy_allowlist (snd (fst (snd (nd_pool N)))) = Some (deploy_allowlist_new [4, 2, 9] 0) \<and>
     ec_inner (nd_consensus N) = ''ev''"
proof -
  let ?B = "components_builder (\<lambda>X pool. Inr ())"
  have v: "validate_config (from_extras demo_extras) = Inr ()"
    by (simp add: validate_config_def validate_deploy_allowlist_def from_extras_def demo_extras_def Let_def
        check_entries_ok_iff MAX_DEPLOY_ALLOWLIST_LEN_def)
  have x: "cx_extra (nx_pool_ctx demo_node_ctx) = Some (Inr demo_extras)" "nx_chain_spec demo_node_ctx = ''ev''"
    by (simp_all add: demo_node_ctx_def demo_pool_ctx_def)
  obtain f where f: "build_evm_config (cx_extra (nx_pool_ctx demo_node_ctx)) = Inr f"
      "fac_deploy_allowlist f = Some (deploy_allowlist_new [4, 2, 9] 0)"
      "redirect_for_block f 7 = Some \<lparr> fee_sink = 8 \<rparr>"
    by (simp add: x build_evm_config_def from_chain_spec_def v factory_new_def from_extras_allowlist redirect_for_block_def)
      (simp add: demo_extras_def from_extras_def base_fee_redirect_settings_def Let_def)
  have c: "build_payload_builder payload_builder_builder_new (cx_extra (nx_pool_ctx demo_node_ctx)) =
      Inr (from_extras demo_extras)"
    by (simp add: build_payload_builder_default x from_chain_spec_def v)
  have p: "\<exists>pool. build_pool demo_pool_ctx = Inr pool"
    by (auto simp: build_pool_def demo_pool_ctx_def blob_cache_size_def Let_def)
  have "\<exists>N. ref_build_components ?B demo_node_ctx = Inr N"
    using p f(1) c
    by (auto simp: ref_build_components_def components_builder_def executor_build_evm_def service_build_def
        build_consensus_def demo_node_ctx_def)
  then obtain N where n: "ref_build_components ?B demo_node_ctx = Inr N" ..
  then have "nd_evm_config N = with_extra_data [1] (new_with_evm_factory ''ev'' f)"
    using f(1) by (simp add: ref_launcher.built_iff assembled_def components_builder_def executor_build_evm_def)
      (simp add: demo_node_ctx_def)
  then have e: "bf_evm_factory (vc_executor_factory (nd_evm_config N)) = f"
    by (simp add: with_extra_data_def new_with_evm_factory_def block_executor_factory_new_def)
  show ?thesis
    using node_components_agree [OF ref_launcher.component_launcher_axioms n] n f(2,3)
    by (intro exI [of _ N]) (simp add: e x)
qed

end
