(* ===== verification/Base_Fee_Config.thy ===== *)
theory Base_Fee_Config
  imports Prelude
begin

text \<open>
  The base-fee sink read from an environment variable (\<open>crates/ev-revm/src/config.rs\<close>). Parameters:
  the process environment, which has no entry for a variable that is unset or not Unicode, and
  alloy's reader of an address with the text of its errors. Trimming removes ASCII white space.
\<close>

record base_fee_config =
  bfc_fee_receiver :: address

datatype base_fee_config_error =
    MissingEnv string | EmptyEnv string | InvalidAddress string

definition is_white :: "char \<Rightarrow> bool" where
  "is_white c \<longleftrightarrow> (let n = (of_char c :: nat) in n = 32 \<or> 9 \<le> n \<and> n \<le> 13)"

definition trim :: "string \<Rightarrow> string" where
  "trim s = rev (dropWhile is_white (rev (dropWhile is_white s)))"

definition parse_sink_address ::
  "(string \<Rightarrow> string + address) \<Rightarrow> string \<Rightarrow> base_fee_config_error + address" where
  "parse_sink_address from_str v = map_err InvalidAddress (from_str v)"

definition base_fee_config_from_str ::
  "(string \<Rightarrow> string + address) \<Rightarrow> string \<Rightarrow> base_fee_config_error + base_fee_config" where
  "base_fee_config_from_str from_str v =
     map_ok (\<lambda>a. \<lparr> bfc_fee_receiver = a \<rparr>) (parse_sink_address from_str v)"

definition base_fee_config_from_env ::
  "(string \<Rightarrow> string + address) \<Rightarrow> (string \<Rightarrow> string option) \<Rightarrow> string
    \<Rightarrow> base_fee_config_error + base_fee_config" where
  "base_fee_config_from_env from_str env var =
     and_then (ok_or (MissingEnv var) (env var)) (\<lambda>raw.
       if trim raw = [] then Inl (EmptyEnv var) else base_fee_config_from_str from_str (trim raw))"

section \<open>The three errors and the answer\<close>

lemma trim_empty_iff: "trim s = [] \<longleftrightarrow> list_all is_white s"
proof -
  have "dropWhile is_white (rev (dropWhile is_white s)) = [] \<longleftrightarrow> (\<forall>c \<in> set (dropWhile is_white s). is_white c)"
    by simp
  also have "\<dots> \<longleftrightarrow> dropWhile is_white s = []"
    using hd_dropWhile [of is_white s] by (metis hd_in_set list.set(1) empty_iff)
  finally show ?thesis by (simp add: trim_def list_all_iff)
qed

lemma trim_pad:
  assumes "list_all is_white l" and "list_all is_white r" and "s \<noteq> []" and "\<not> is_white (hd s)" and "\<not> is_white (last s)"
  shows "trim (l @ s @ r) = s"
proof -
  obtain c cs where s: "s = c # cs" using assms(3) by (cases s) auto
  have "dropWhile is_white (l @ s @ r) = s @ r"
    using assms(1,4) by (simp add: s dropWhile_append3 list_all_iff)
  moreover have "dropWhile is_white (rev r @ rev s) = rev s"
    using assms(2,3,5) by (cases s rule: rev_cases) (simp_all add: list_all_iff dropWhile_append3)
  ultimately show ?thesis by (simp add: trim_def)
qed

lemma base_fee_config_from_env_cases:
  "base_fee_config_from_env from_str env var =
     (case env var of
        None \<Rightarrow> Inl (MissingEnv var)
      | Some raw \<Rightarrow>
          if list_all is_white raw then Inl (EmptyEnv var)
          else (case from_str (trim raw) of Inl e \<Rightarrow> Inl (InvalidAddress e) | Inr a \<Rightarrow> Inr \<lparr> bfc_fee_receiver = a \<rparr>))"
  by (auto simp: base_fee_config_from_env_def base_fee_config_from_str_def parse_sink_address_def trim_empty_iff
      split: option.split sum.split)

lemma base_fee_config_padded:
  assumes "env var = Some (l @ s @ r)" and "list_all is_white l" and "list_all is_white r"
    and "s \<noteq> []" and "\<not> is_white (hd s)" and "\<not> is_white (last s)"
  shows "base_fee_config_from_env from_str env var = base_fee_config_from_str from_str s"
  using assms by (simp add: base_fee_config_from_env_def trim_pad)

end
