(* ===== verification/Deployer_Config.thy ===== *)
theory Deployer_Config
  imports Prelude
begin

text \<open>
  The deploy configuration of \<open>bin/ev-deployer\<close> (\<open>config.rs\<close>): the chain id and the optional
  contracts, the checks made when a file is loaded and the further ones of genesis mode. The
  errors of the whole tool are gathered here, one constructor per message, with the values the
  message prints; \<open>Panicked\<close> is a panic of the process.

  Text is a \<open>string\<close> read as UTF-8 bytes. The TOML reader is a parameter.
\<close>

section \<open>Data\<close>

datatype deploy_error =
    OwnerZero | Permit2AddressZero | DeterministicDeployerAddressZero
  | DuplicateAddress address
  | AddressRequired string
  | MissingAlloc | AddressCollision string
  | ChainIdMismatch u64 u64
  | DeterministicDeployerNotFound
  | UnexpectedBytecode address nat nat
  | TxReverted string b256
  | BytecodeMismatch address nat nat
  | UnsupportedVersion u32
  | ChainIdChanged u64 u64 | Permit2Removed
  | NotConfigured string | UnknownContract string
  | IoError | ParseError string | RpcError
  | Panicked string

record admin_proxy_config =
  ap_address :: "address option"
  ap_owner :: address

record permit2_config =
  p2_address :: "address option"

record deterministic_deployer_config =
  dd_address :: "address option"

record contracts_config =
  admin_proxy :: "admin_proxy_config option"
  permit2 :: "permit2_config option"
  deterministic_deployer :: "deterministic_deployer_config option"

record deploy_chain_config =
  chain_chain_id :: u64

record deploy_config =
  cfg_chain :: deploy_chain_config
  cfg_contracts :: contracts_config

abbreviation cfg_chain_id :: "deploy_config \<Rightarrow> u64" where
  "cfg_chain_id c \<equiv> chain_chain_id (cfg_chain c)"

abbreviation cfg_admin_proxy :: "deploy_config \<Rightarrow> admin_proxy_config option" where
  "cfg_admin_proxy c \<equiv> admin_proxy (cfg_contracts c)"

abbreviation cfg_permit2 :: "deploy_config \<Rightarrow> permit2_config option" where
  "cfg_permit2 c \<equiv> permit2 (cfg_contracts c)"

abbreviation cfg_deployer :: "deploy_config \<Rightarrow> deterministic_deployer_config option" where
  "cfg_deployer c \<equiv> deterministic_deployer (cfg_contracts c)"

section \<open>Operations\<close>

text \<open>\<open>if let Some(addr) = ... { addrs.push(addr) }\<close>, once per contract, in this order.\<close>

fun push_some :: "'a option \<Rightarrow> 'a list \<Rightarrow> 'a list" where
  "push_some None xs = xs"
| "push_some (Some a) xs = xs @ [a]"

definition all_addresses :: "contracts_config \<Rightarrow> address list" where
  "all_addresses c =
     push_some (Option.bind (deterministic_deployer c) dd_address)
       (push_some (Option.bind (permit2 c) p2_address)
         (push_some (Option.bind (admin_proxy c) ap_address) []))"

fun check_duplicates :: "address set \<Rightarrow> address list \<Rightarrow> deploy_error + unit" where
  "check_duplicates seen [] = Inr ()"
| "check_duplicates seen (a # as) =
     (if a \<in> seen then Inl (DuplicateAddress a) else check_duplicates (insert a seen) as)"

fun if_some :: "'a option \<Rightarrow> ('a \<Rightarrow> 'e + unit) \<Rightarrow> 'e + unit" where
  "if_some None f = Inr ()"
| "if_some (Some a) f = f a"

definition validate_deploy_config :: "deploy_config \<Rightarrow> deploy_error + unit" where
  "validate_deploy_config cfg =
     and_then (if_some (cfg_admin_proxy cfg) (\<lambda>ap. ensure (ap_owner ap \<noteq> 0) OwnerZero)) (\<lambda>_.
     and_then (if_some (cfg_permit2 cfg) (\<lambda>p2.
         if_some (p2_address p2) (\<lambda>a. ensure (a \<noteq> 0) Permit2AddressZero))) (\<lambda>_.
     and_then (if_some (cfg_deployer cfg) (\<lambda>dd.
         if_some (dd_address dd) (\<lambda>a. ensure (a \<noteq> 0) DeterministicDeployerAddressZero))) (\<lambda>_.
     check_duplicates {} (all_addresses (cfg_contracts cfg)))))"

definition validate_for_genesis :: "deploy_config \<Rightarrow> deploy_error + unit" where
  "validate_for_genesis cfg =
     and_then (if_some (cfg_admin_proxy cfg) (\<lambda>ap.
         ensure (ap_address ap \<noteq> None) (AddressRequired ''admin_proxy''))) (\<lambda>_.
     and_then (if_some (cfg_permit2 cfg) (\<lambda>p2.
         ensure (p2_address p2 \<noteq> None) (AddressRequired ''permit2''))) (\<lambda>_.
     if_some (cfg_deployer cfg) (\<lambda>dd.
         ensure (dd_address dd \<noteq> None) (AddressRequired ''deterministic_deployer''))))"

text \<open>\<open>DeployConfig::load\<close> on the text of the file, with the TOML reader as a parameter.\<close>

definition load_deploy_config ::
  "(string \<Rightarrow> deploy_error + deploy_config) \<Rightarrow> string \<Rightarrow> deploy_error + deploy_config" where
  "load_deploy_config from_toml content =
     and_then (from_toml content) (\<lambda>cfg. and_then (validate_deploy_config cfg) (\<lambda>_. Inr cfg))"

section \<open>What the checks establish\<close>

lemma if_some_Inr_iff [ok_iff]: "if_some x f = Inr u \<longleftrightarrow> (\<forall>a. x = Some a \<longrightarrow> f a = Inr u)"
  by (cases x) (auto intro: unit_eq)

lemma if_some_Inl_iff [err_iff]: "if_some x f = Inl e \<longleftrightarrow> (\<exists>a. x = Some a \<and> f a = Inl e)"
  by (cases x) auto

lemma set_push_some [simp]: "set (push_some x xs) = set_option x \<union> set xs"
  by (cases x) auto

lemma distinct_push_some [simp]:
  "distinct (push_some x xs) \<longleftrightarrow> distinct xs \<and> set_option x \<inter> set xs = {}"
  by (cases x) auto

lemma check_duplicates_Inr_iff [ok_iff]:
  "check_duplicates seen as = Inr u \<longleftrightarrow> distinct as \<and> set as \<inter> seen = {}"
  by (induction as arbitrary: seen) auto

lemma check_duplicates_Inl:
  "check_duplicates seen as = Inl e \<Longrightarrow> \<exists>a \<in> set as. e = DuplicateAddress a"
  by (induction as arbitrary: seen) (auto split: if_splits)

text \<open>The contracts that are present with an address, by the names the tool uses.\<close>

definition configured_addresses :: "deploy_config \<Rightarrow> (string \<times> address) list" where
  "configured_addresses cfg =
     push_some (map_option (Pair ''deterministic_deployer'') (Option.bind (cfg_deployer cfg) dd_address))
       (push_some (map_option (Pair ''permit2'') (Option.bind (cfg_permit2 cfg) p2_address))
         (push_some (map_option (Pair ''admin_proxy'') (Option.bind (cfg_admin_proxy cfg) ap_address)) []))"

lemma map_push_some: "map f (push_some x xs) = push_some (map_option f x) (map f xs)"
  by (cases x) auto

lemma all_addresses_configured: "all_addresses (cfg_contracts cfg) = map snd (configured_addresses cfg)"
  by (simp add: all_addresses_def configured_addresses_def map_push_some option.map_comp comp_def
      option.map_ident)

lemma distinct_configured_names: "distinct (map fst (configured_addresses cfg))"
  by (auto simp: configured_addresses_def map_push_some option.set_map)

definition valid_config :: "deploy_config \<Rightarrow> bool" where
  "valid_config cfg \<longleftrightarrow>
     (case cfg_admin_proxy cfg of None \<Rightarrow> True | Some ap \<Rightarrow> ap_owner ap \<noteq> 0) \<and>
     (case cfg_permit2 cfg of None \<Rightarrow> True | Some p2 \<Rightarrow> p2_address p2 \<noteq> Some 0) \<and>
     (case cfg_deployer cfg of None \<Rightarrow> True | Some dd \<Rightarrow> dd_address dd \<noteq> Some 0) \<and>
     distinct (map snd (configured_addresses cfg))"

definition genesis_config :: "deploy_config \<Rightarrow> bool" where
  "genesis_config cfg \<longleftrightarrow>
     (case cfg_admin_proxy cfg of None \<Rightarrow> True | Some ap \<Rightarrow> ap_address ap \<noteq> None) \<and>
     (case cfg_permit2 cfg of None \<Rightarrow> True | Some p2 \<Rightarrow> p2_address p2 \<noteq> None) \<and>
     (case cfg_deployer cfg of None \<Rightarrow> True | Some dd \<Rightarrow> dd_address dd \<noteq> None)"

lemma validate_deploy_config_Inr_iff [ok_iff]: "validate_deploy_config cfg = Inr u \<longleftrightarrow> valid_config cfg"
  by (auto simp: validate_deploy_config_def valid_config_def ok_iff all_addresses_configured
      split: option.splits)

lemma validate_for_genesis_Inr_iff [ok_iff]: "validate_for_genesis cfg = Inr u \<longleftrightarrow> genesis_config cfg"
  by (auto simp: validate_for_genesis_def genesis_config_def ok_iff split: option.splits)

lemma load_deploy_config_Inr_iff [ok_iff]:
  "load_deploy_config from_toml content = Inr cfg \<longleftrightarrow> from_toml content = Inr cfg \<and> valid_config cfg"
  by (auto simp: load_deploy_config_def ok_iff)

end
