(* ===== verification/Deployer_Genesis.thy ===== *)
theory Deployer_Genesis
  imports Deployer_Config "HOL-Library.AList" "HOL-Library.List_Lexorder" "HOL-Library.Char_ord"
begin

text \<open>
  The genesis generator of \<open>bin/ev-deployer\<close>: the patching of Solidity immutables
  (\<open>contracts/immutables.rs\<close>), the three contract builders (\<open>contracts/*.rs\<close>), the alloc
  object with its merge into an existing genesis (\<open>genesis.rs\<close>) and the address manifest
  (\<open>output.rs\<close>).

  Parameters: the compiled contract artefacts (the long byte literals of \<open>contracts/*.rs\<close>, solc
  output), Keccak-256, the textual forms of alloy's types (locale \<open>alloy_display\<close>) and the
  object map of \<open>serde_json\<close>, whose key order depends on a cargo feature (locale \<open>json_object\<close>).
  The keys of a JSON object are compared after ASCII lower-casing.
\<close>

section \<open>JSON values and text\<close>

datatype json =
    JNull | JBool bool | JNumber string | JString string
  | JArray "json list" | JObject "(string \<times> json) list"

type_synonym json_entries = "(string \<times> json) list"

record json_map =
  jm_insert :: "string \<Rightarrow> json \<Rightarrow> json_entries \<Rightarrow> json_entries"
  jm_remove :: "string \<Rightarrow> json_entries \<Rightarrow> json_entries"

record alloy_fmt =
  fmt_address :: "address \<Rightarrow> string"
  fmt_b256 :: "b256 \<Rightarrow> string"
  hex_encode :: "bytes \<Rightarrow> string"

definition to_lowercase :: "string \<Rightarrow> string" where
  "to_lowercase s =
     map (\<lambda>c. let n = (of_char c :: nat) in if 65 \<le> n \<and> n \<le> 90 then char_of (n + 32) else c) s"

definition strip_0x :: "string \<Rightarrow> string" where
  "strip_0x s = (if take 2 s = ''0x'' then drop 2 s else s)"

definition normalize_addr :: "string \<Rightarrow> string" where
  "normalize_addr addr = to_lowercase (strip_0x addr)"

section \<open>Immutables\<close>

record immutable_ref =
  ir_start :: nat
  ir_length :: nat

fun patch_bytes :: "bytes \<Rightarrow> immutable_ref list \<Rightarrow> bytes \<Rightarrow> deploy_error + bytes" where
  "patch_bytes bytecode [] v = Inr bytecode"
| "patch_bytes bytecode (r # rs) v =
     (if \<not> ir_start r + ir_length r \<le> length bytecode
      then Inl (Panicked ''immutable ref out of bounds'')
      else if ir_length r \<noteq> length v then Inl (Panicked ''copy_from_slice'')
      else patch_bytes
        (take (ir_start r) bytecode @ v @ drop (ir_start r + ir_length r) bytecode) rs v)"

definition patch_u256 :: "bytes \<Rightarrow> immutable_ref list \<Rightarrow> u256 \<Rightarrow> deploy_error + bytes" where
  "patch_u256 bytecode refs val = patch_bytes bytecode refs (word256_bytes val)"

section \<open>The contracts\<close>

record genesis_contract =
  gc_address :: address
  gc_code :: bytes
  gc_storage :: "(b256 \<times> b256) list"

record artifacts =
  ADMIN_PROXY_BYTECODE :: bytes
  PERMIT2_BYTECODE :: bytes
  PERMIT2_INITCODE :: bytes

definition DETERMINISTIC_DEPLOYER_BYTECODE :: bytes where
  "DETERMINISTIC_DEPLOYER_BYTECODE =
     be_bytes 68 0x7fffffffffffffffffffffffffffffffffffffffffffffffffffffffffffffffe03601600081602082378035828234f58015156039578182fd5b80825250506014600cf3"

fun expect_address :: "address option \<Rightarrow> deploy_error + address" where
  "expect_address None = Inl (Panicked ''address required for genesis'')"
| "expect_address (Some a) = Inr a"

definition admin_proxy_build :: "artifacts \<Rightarrow> admin_proxy_config \<Rightarrow> deploy_error + genesis_contract" where
  "admin_proxy_build A config =
     and_then (expect_address (ap_address config)) (\<lambda>a. Inr
       \<lparr> gc_address = a, gc_code = ADMIN_PROXY_BYTECODE A,
         gc_storage = [(0, ucast (ap_owner config))] \<rparr>)"

definition CACHED_CHAIN_ID_REFS :: "immutable_ref list" where
  "CACHED_CHAIN_ID_REFS = [\<lparr> ir_start = 6945, ir_length = 32 \<rparr>]"

definition CACHED_DOMAIN_SEPARATOR_REFS :: "immutable_ref list" where
  "CACHED_DOMAIN_SEPARATOR_REFS = [\<lparr> ir_start = 6983, ir_length = 32 \<rparr>]"

definition EIP712_TYPE_HASH :: b256 where
  "EIP712_TYPE_HASH = 0x8cad95687ba82c2ce50e74f7b754645e5117c3a5bec8151c0726d5857980a866"

definition HASHED_NAME :: b256 where
  "HASHED_NAME = 0x9ac997416e8ff9d2ff6bebeb7149f65cdae5e32e2b90440b566bb3044041d36a"

definition permit2_domain :: "u64 \<Rightarrow> address \<Rightarrow> bytes" where
  "permit2_domain chain_id a =
     word256_bytes EIP712_TYPE_HASH @ word256_bytes HASHED_NAME @
     word256_bytes (ucast chain_id) @ word256_bytes (ucast a)"

definition expected_runtime_bytecode ::
  "artifacts \<Rightarrow> (bytes \<Rightarrow> b256) \<Rightarrow> u64 \<Rightarrow> address \<Rightarrow> deploy_error + bytes" where
  "expected_runtime_bytecode A keccak chain_id a =
     and_then (patch_u256 (PERMIT2_BYTECODE A) CACHED_CHAIN_ID_REFS (ucast chain_id)) (\<lambda>bytecode.
       patch_bytes bytecode CACHED_DOMAIN_SEPARATOR_REFS
         (word256_bytes (keccak (permit2_domain chain_id a))))"

definition permit2_build ::
  "artifacts \<Rightarrow> (bytes \<Rightarrow> b256) \<Rightarrow> permit2_config \<Rightarrow> u64 \<Rightarrow> deploy_error + genesis_contract" where
  "permit2_build A keccak config chain_id =
     and_then (expect_address (p2_address config)) (\<lambda>a.
     and_then (expected_runtime_bytecode A keccak chain_id a) (\<lambda>bytecode. Inr
       \<lparr> gc_address = a, gc_code = bytecode, gc_storage = [] \<rparr>))"

definition deterministic_deployer_build ::
  "deterministic_deployer_config \<Rightarrow> deploy_error + genesis_contract" where
  "deterministic_deployer_build config =
     and_then (expect_address (dd_address config)) (\<lambda>a. Inr
       \<lparr> gc_address = a, gc_code = DETERMINISTIC_DEPLOYER_BYTECODE, gc_storage = [] \<rparr>)"

section \<open>The alloc object\<close>

definition format_slot_key :: "alloy_fmt \<Rightarrow> b256 \<Rightarrow> string" where
  "format_slot_key F slot = fmt_b256 F slot"

definition insert_contract ::
  "json_map \<Rightarrow> alloy_fmt \<Rightarrow> json_entries \<Rightarrow> genesis_contract \<Rightarrow> json_entries" where
  "insert_contract M F alloc contract =
     (let addr_key = normalize_addr (fmt_address F (gc_address contract));
          storage_map = foldl (\<lambda>m (slot, v). jm_insert M (format_slot_key F slot) (JString (fmt_b256 F v)) m)
            [] (gc_storage contract);
          entry = jm_insert M ''storage'' (JObject storage_map)
            (jm_insert M ''code'' (JString (''0x'' @ hex_encode F (gc_code contract)))
              (jm_insert M ''balance'' (JString ''0x0'') []))
      in jm_insert M addr_key (JObject entry) alloc)"

fun insert_built ::
  "json_map \<Rightarrow> alloy_fmt \<Rightarrow> (deploy_error + genesis_contract) option \<Rightarrow> json_entries
    \<Rightarrow> deploy_error + json_entries" where
  "insert_built M F None alloc = Inr alloc"
| "insert_built M F (Some built) alloc =
     and_then built (\<lambda>contract. Inr (insert_contract M F alloc contract))"

definition build_alloc ::
  "artifacts \<Rightarrow> (bytes \<Rightarrow> b256) \<Rightarrow> json_map \<Rightarrow> alloy_fmt \<Rightarrow> deploy_config
    \<Rightarrow> deploy_error + json_entries" where
  "build_alloc A keccak M F config =
     and_then (insert_built M F (map_option (admin_proxy_build A) (cfg_admin_proxy config)) []) (\<lambda>a1.
     and_then (insert_built M F
        (map_option (\<lambda>p2. permit2_build A keccak p2 (cfg_chain_id config)) (cfg_permit2 config)) a1) (\<lambda>a2.
     insert_built M F (map_option deterministic_deployer_build (cfg_deployer config)) a2))"

fun merge_entries ::
  "json_map \<Rightarrow> bool \<Rightarrow> json_entries \<Rightarrow> (json_entries, deploy_error, unit) st" where
  "merge_entries M force [] genesis_alloc = (Inr (), genesis_alloc)"
| "merge_entries M force ((addr, entry) # new_alloc) genesis_alloc =
     (let canonical = normalize_addr addr;
          existing_key = find (\<lambda>k. normalize_addr k = canonical) (map fst genesis_alloc)
      in if existing_key \<noteq> None \<and> \<not> force then (Inl (AddressCollision addr), genesis_alloc)
         else merge_entries M force new_alloc
           (jm_insert M canonical entry
             (case existing_key of None \<Rightarrow> genesis_alloc | Some key \<Rightarrow> jm_remove M key genesis_alloc)))"

fun json_object_at :: "string \<Rightarrow> json \<Rightarrow> json_entries option" where
  "json_object_at k (JObject m) = (case map_of m k of Some (JObject m') \<Rightarrow> Some m' | _ \<Rightarrow> None)"
| "json_object_at k _ = None"

fun json_set_object :: "string \<Rightarrow> json_entries \<Rightarrow> json \<Rightarrow> json" where
  "json_set_object k m' (JObject m) = JObject (map (\<lambda>(i, v). (i, if i = k then JObject m' else v)) m)"
| "json_set_object k m' j = j"

text \<open>\<open>merge_alloc\<close> writes through a reference: an error keeps the entries merged before it.\<close>

definition merge_alloc ::
  "artifacts \<Rightarrow> (bytes \<Rightarrow> b256) \<Rightarrow> json_map \<Rightarrow> alloy_fmt \<Rightarrow> deploy_config \<Rightarrow> bool
    \<Rightarrow> (json, deploy_error, unit) st" where
  "merge_alloc A keccak M F config force genesis =
     (case build_alloc A keccak M F config of
        Inl e \<Rightarrow> (Inl e, genesis)
      | Inr new_alloc \<Rightarrow>
          (case json_object_at ''alloc'' genesis of
             None \<Rightarrow> (Inl MissingAlloc, genesis)
           | Some genesis_alloc \<Rightarrow>
               (case merge_entries M force new_alloc genesis_alloc of
                  (r, merged) \<Rightarrow> (r, json_set_object ''alloc'' merged genesis))))"

text \<open>\<open>merge_into\<close> on the text of the genesis file; the JSON reader is a parameter.\<close>

definition merge_into ::
  "artifacts \<Rightarrow> (bytes \<Rightarrow> b256) \<Rightarrow> json_map \<Rightarrow> alloy_fmt \<Rightarrow> (string \<Rightarrow> deploy_error + json)
    \<Rightarrow> deploy_config \<Rightarrow> string \<Rightarrow> bool \<Rightarrow> deploy_error + json" where
  "merge_into A keccak M F from_json config content force =
     and_then (from_json content) (\<lambda>genesis.
       case merge_alloc A keccak M F config force genesis of
         (Inl e, _) \<Rightarrow> Inl e
       | (Inr _, merged) \<Rightarrow> Inr merged)"

fun insert_name :: "json_map \<Rightarrow> alloy_fmt \<Rightarrow> string \<Rightarrow> address option \<Rightarrow> json_entries \<Rightarrow> json_entries" where
  "insert_name M F n None manifest = manifest"
| "insert_name M F n (Some a) manifest = jm_insert M n (JString (fmt_address F a)) manifest"

definition build_manifest :: "json_map \<Rightarrow> alloy_fmt \<Rightarrow> deploy_config \<Rightarrow> json" where
  "build_manifest M F config = JObject
     (insert_name M F ''deterministic_deployer'' (Option.bind (cfg_deployer config) dd_address)
       (insert_name M F ''permit2'' (Option.bind (cfg_permit2 config) p2_address)
         (insert_name M F ''admin_proxy'' (Option.bind (cfg_admin_proxy config) ap_address) [])))"

section \<open>Patched bytecode\<close>

definition ref_within :: "nat \<Rightarrow> immutable_ref \<Rightarrow> bool" where
  "ref_within n r \<longleftrightarrow> ir_length r = 32 \<and> ir_start r + 32 \<le> n"

definition covered :: "immutable_ref list \<Rightarrow> nat \<Rightarrow> bool" where
  "covered refs i \<longleftrightarrow> (\<exists>r \<in> set refs. ir_start r \<le> i \<and> i < ir_start r + ir_length r)"

definition word_at :: "bytes \<Rightarrow> nat \<Rightarrow> bytes" where
  "word_at code i = take 32 (drop i code)"

text \<open>A patch whose references are in range returns; other references panic.\<close>

lemma patch_bytes_ok_iff:
  assumes "length v = 32"
  shows "is_ok (patch_bytes code refs v) \<longleftrightarrow> list_all (ref_within (length code)) refs"
  using assms by (induction code refs v rule: patch_bytes.induct) (auto simp: ref_within_def)

lemma patch_bytes_length: "patch_bytes code refs v = Inr out \<Longrightarrow> length out = length code"
  by (induction code refs v rule: patch_bytes.induct) (auto split: if_splits)

lemma patch_bytes_uncovered:
  "patch_bytes code refs v = Inr out \<Longrightarrow> i < length code \<Longrightarrow> \<not> covered refs i \<Longrightarrow> out ! i = code ! i"
  by (induction code refs v rule: patch_bytes.induct)
    (auto simp: covered_def nth_append not_less split: if_splits)

lemma nth_word_at: "i + 32 \<le> length code \<Longrightarrow> j < 32 \<Longrightarrow> word_at code i ! j = code ! (i + j)"
  by (simp add: word_at_def)

lemma word_at_eqI:
  "i + 32 \<le> length code \<Longrightarrow> length v = 32 \<Longrightarrow> (\<And>j. j < 32 \<Longrightarrow> code ! (i + j) = v ! j) \<Longrightarrow>
    word_at code i = v"
  by (rule nth_equalityI) (auto simp: word_at_def)

text \<open>
  One reference: the 32 bytes at its offset are the value, every other byte is the template's.
\<close>

lemma patch_one:
  assumes "length v = 32" and "i + 32 \<le> length code"
  defines "out \<equiv> take i code @ v @ drop (i + 32) code"
  shows "patch_bytes code [\<lparr> ir_start = i, ir_length = 32 \<rparr>] v = Inr out"
    and "length out = length code"
    and "word_at out i = v"
    and "k < length code \<Longrightarrow> k < i \<or> i + 32 \<le> k \<Longrightarrow> out ! k = code ! k"
  using assms by (auto simp: word_at_def nth_append not_less)

lemma word_at_eq_of_nth:
  "length a = length b \<Longrightarrow> i + 32 \<le> length b \<Longrightarrow> (\<And>j. j < 32 \<Longrightarrow> a ! (i + j) = b ! (i + j)) \<Longrightarrow>
    word_at a i = word_at b i"
  by (rule nth_equalityI) (auto simp: word_at_def)

lemma expected_runtime:
  fixes A :: artifacts
  assumes len: "7015 \<le> length (PERMIT2_BYTECODE A)"
  obtains out where "expected_runtime_bytecode A keccak chain_id a = Inr out"
    and "length out = length (PERMIT2_BYTECODE A)"
    and "word_at out 6945 = word256_bytes (ucast chain_id)"
    and "word_at out 6983 = word256_bytes (keccak (permit2_domain chain_id a))"
    and "\<And>k. k < length (PERMIT2_BYTECODE A) \<Longrightarrow> k < 6945 \<or> 6977 \<le> k \<and> k < 6983 \<or> 7015 \<le> k \<Longrightarrow>
           out ! k = PERMIT2_BYTECODE A ! k"
proof -
  define code where "code = PERMIT2_BYTECODE A"
  define v where "v = word256_bytes (ucast chain_id)"
  define w where "w = word256_bytes (keccak (permit2_domain chain_id a))"
  define mid where "mid = take 6945 code @ v @ drop (6945 + 32) code"
  define out where "out = take 6983 mid @ w @ drop (6983 + 32) mid"
  have v: "length v = 32" and w: "length w = 32" by (simp_all add: v_def w_def)
  have code: "6945 + 32 \<le> length code" using len by (simp add: code_def)
  note mid = patch_one [OF v code, folded mid_def]
  have in_mid: "6983 + 32 \<le> length mid" using len mid(2) by (simp add: code_def)
  note out = patch_one [OF w in_mid, folded out_def]
  show thesis
  proof (rule that [of out])
    show "expected_runtime_bytecode A keccak chain_id a = Inr out"
      using mid(1) out(1)
      by (simp add: expected_runtime_bytecode_def patch_u256_def CACHED_CHAIN_ID_REFS_def
          CACHED_DOMAIN_SEPARATOR_REFS_def flip: code_def v_def w_def)
    show "length out = length (PERMIT2_BYTECODE A)" using mid(2) out(2) by (simp add: code_def)
    have "word_at out 6945 = word_at mid 6945"
    proof (rule word_at_eq_of_nth)
      fix j :: nat
      assume "j < 32"
      then show "out ! (6945 + j) = mid ! (6945 + j)" using out(4) [of "6945 + j"] in_mid by simp
    qed (use out(2) in_mid in simp_all)
    then show "word_at out 6945 = word256_bytes (ucast chain_id)" using mid(3) by (simp add: v_def)
    show "word_at out 6983 = word256_bytes (keccak (permit2_domain chain_id a))"
      using out(3) by (simp add: w_def)
    fix k
    assume "k < length (PERMIT2_BYTECODE A)" "k < 6945 \<or> 6977 \<le> k \<and> k < 6983 \<or> 7015 \<le> k"
    then show "out ! k = PERMIT2_BYTECODE A ! k"
      using out(4) [of k] mid(4) [of k] mid(2) by (auto simp: code_def)
  qed
qed

section \<open>Text\<close>

definition hex_digit :: "nat \<Rightarrow> char" where
  "hex_digit n = ''0123456789abcdef'' ! n"

definition hex_lower :: "bytes \<Rightarrow> string" where
  "hex_lower bs = concat (map (\<lambda>b. [hex_digit (unat b div 16), hex_digit (unat b mod 16)]) bs)"

lemma hex_digit_inject: "m < 16 \<Longrightarrow> n < 16 \<Longrightarrow> hex_digit m = hex_digit n \<longleftrightarrow> m = n"
  by (simp add: hex_digit_def nth_eq_iff_index_eq)

lemma byte_div_16: "unat (b :: u8) div 16 < 16"
  using unat_bound [of b] by (simp add: less_mult_imp_div_less)

lemma hex_byte_inject:
  "hex_digit (unat (b :: u8) div 16) = hex_digit (unat c div 16) \<Longrightarrow>
   hex_digit (unat b mod 16) = hex_digit (unat c mod 16) \<Longrightarrow> b = c"
  by (metis byte_div_16 hex_digit_inject div_mult_mod_eq mod_less_divisor zero_less_numeral
      unat_eq_iff_eq)

lemma hex_lower_inject [simp]: "hex_lower bs = hex_lower cs \<longleftrightarrow> bs = cs"
proof
  show "hex_lower bs = hex_lower cs \<Longrightarrow> bs = cs"
  proof (induction bs arbitrary: cs)
    case Nil
    then show ?case by (cases cs) (simp_all add: hex_lower_def)
  next
    case (Cons b bs)
    then show ?case by (cases cs) (auto simp: hex_lower_def dest: hex_byte_inject)
  qed
qed simp

lemma hex_digit_cases:
  assumes "n < 16"
  shows "hex_digit n \<noteq> CHR ''x'' \<and> \<not> (65 \<le> (of_char (hex_digit n) :: nat) \<and> of_char (hex_digit n) \<le> (90 :: nat))"
proof -
  have "\<forall>c \<in> set ''0123456789abcdef''. c \<noteq> CHR ''x'' \<and> \<not> (65 \<le> (of_char c :: nat) \<and> of_char c \<le> (90 :: nat))"
    by simp
  moreover have "hex_digit n \<in> set ''0123456789abcdef''"
    unfolding hex_digit_def using assms by (intro nth_mem) simp
  ultimately show ?thesis by blast
qed

lemma normalize_hex_lower [simp]: "normalize_addr (hex_lower bs) = hex_lower bs"
proof -
  have "strip_0x (hex_lower bs) = hex_lower bs"
    using hex_digit_cases [of "unat (hd bs) mod 16"] by (cases bs) (auto simp: strip_0x_def hex_lower_def)
  moreover have "to_lowercase (hex_lower bs) = hex_lower bs"
    using hex_digit_cases byte_div_16
    by (induction bs) (auto simp: to_lowercase_def hex_lower_def Let_def simp del: One_nat_def)
  ultimately show ?thesis by (simp add: normalize_addr_def)
qed

section \<open>The interfaces of the libraries\<close>

locale json_object =
  fixes M :: json_map
  assumes keys_insert: "distinct (map fst m) \<Longrightarrow> distinct (map fst (jm_insert M k v m))"
    and keys_remove: "distinct (map fst m) \<Longrightarrow> distinct (map fst (jm_remove M k m))"
    and set_insert: "distinct (map fst m) \<Longrightarrow>
          set (jm_insert M k v m) = insert (k, v) {e \<in> set m. fst e \<noteq> k}"
    and set_remove: "distinct (map fst m) \<Longrightarrow> set (jm_remove M k m) = {e \<in> set m. fst e \<noteq> k}"

locale alloy_display =
  fixes F :: alloy_fmt
  assumes display_address: "normalize_addr (fmt_address F a) = hex_lower (address_bytes a)"
    and display_b256: "fmt_b256 F w = ''0x'' @ hex_lower (word256_bytes w)"
    and encode_hex: "hex_encode F bs = hex_lower bs"

abbreviation hex_key :: "address \<Rightarrow> string" where
  "hex_key a \<equiv> hex_lower (address_bytes a)"

text \<open>The values stored under an address, whatever the spelling of its key.\<close>

definition alloc_at :: "json_entries \<Rightarrow> string \<Rightarrow> json set" where
  "alloc_at m c = {v. \<exists>k. (k, v) \<in> set m \<and> normalize_addr k = c}"

definition one_key_per_address :: "json_entries \<Rightarrow> bool" where
  "one_key_per_address m \<longleftrightarrow> inj_on normalize_addr (fst ` set m)"

definition genesis_entry :: "bytes \<Rightarrow> json_entries \<Rightarrow> json \<Rightarrow> bool" where
  "genesis_entry code storage j \<longleftrightarrow>
     (\<exists>e. j = JObject e \<and> distinct (map fst e) \<and>
        set e = {(''balance'', JString ''0x0''), (''code'', JString (''0x'' @ hex_lower code)),
                 (''storage'', JObject storage)})"

lemma distinct_singleton: "distinct (map f xs) \<Longrightarrow> set xs = {x} \<Longrightarrow> xs = [x]"
  by (cases xs; cases "tl xs") (auto simp: insert_eq_iff)

context json_object
begin

lemma insert_empty: "jm_insert M k v [] = [(k, v)]"
  using distinct_singleton [OF keys_insert [of "[]"]] set_insert [of "[]"] by simp

lemma entry_of_three:
  "distinct (map fst (jm_insert M ''storage'' s (jm_insert M ''code'' c (jm_insert M ''balance'' b []))))"
  "set (jm_insert M ''storage'' s (jm_insert M ''code'' c (jm_insert M ''balance'' b []))) =
     {(''balance'', b), (''code'', c), (''storage'', s)}"
  by (auto simp: insert_empty set_insert keys_insert)

text \<open>Merging: what is stored under each address afterwards, and when a collision stops it.\<close>

definition place :: "string \<Rightarrow> json \<Rightarrow> json_entries \<Rightarrow> json_entries" where
  "place canonical entry m = jm_insert M canonical entry
     (case find (\<lambda>k. normalize_addr k = canonical) (map fst m) of None \<Rightarrow> m | Some key \<Rightarrow> jm_remove M key m)"

lemma distinct_place: "distinct (map fst m) \<Longrightarrow> distinct (map fst (place c v m))"
  by (auto simp: place_def keys_insert keys_remove split: option.splits)

lemma set_place:
  assumes "distinct (map fst m)" and "one_key_per_address m" and "normalize_addr c = c"
  shows "set (place c v m) = insert (c, v) {e \<in> set m. normalize_addr (fst e) \<noteq> c}"
proof (cases "find (\<lambda>k. normalize_addr k = c) (map fst m)")
  case None
  then have "\<forall>e \<in> set m. normalize_addr (fst e) \<noteq> c" by (auto simp: find_None_iff)
  then show ?thesis using None assms(1,3) by (auto simp: place_def set_insert)
next
  case (Some key)
  then have key: "key \<in> fst ` set m" "normalize_addr key = c" by (auto simp: find_Some_iff)
  have "e \<in> set m \<Longrightarrow> normalize_addr (fst e) = c \<Longrightarrow> fst e = key" for e
    using assms(2) key by (auto simp: one_key_per_address_def inj_on_def)
  then show ?thesis using Some assms(1,3) key
    by (auto simp: place_def set_insert set_remove keys_remove)
qed

lemma alloc_at_place:
  assumes "distinct (map fst m)" and "one_key_per_address m" and "normalize_addr c = c"
  shows "alloc_at (place c v m) d = (if d = c then {v} else alloc_at m d)"
  using assms(3) by (auto simp: alloc_at_def set_place [OF assms])

lemma one_key_place:
  assumes "distinct (map fst m)" and "one_key_per_address m" and "normalize_addr c = c"
  shows "one_key_per_address (place c v m)"
  using assms(2,3) by (auto simp: one_key_per_address_def set_place [OF assms] inj_on_def)

lemma find_key_None: "find (\<lambda>k. normalize_addr k = c) (map fst m) = None \<longleftrightarrow> alloc_at m c = {}"
  by (force simp: find_None_iff alloc_at_def)

lemma merge_step:
  "merge_entries M force ((k, v) # es) m =
     (if alloc_at m (normalize_addr k) \<noteq> {} \<and> \<not> force then (Inl (AddressCollision k), m)
      else merge_entries M force es (place (normalize_addr k) v m))"
  by (simp add: Let_def find_key_None [symmetric] place_def)

lemma merge_entries_ok:
  assumes "distinct (map fst m)" and "one_key_per_address m"
    and "\<forall>k \<in> fst ` set es. normalize_addr k = k" and "distinct (map fst es)"
    and "force \<or> (\<forall>k \<in> fst ` set es. alloc_at m k = {})"
  shows "\<exists>m'. merge_entries M force es m = (Inr (), m') \<and> distinct (map fst m') \<and>
    one_key_per_address m' \<and>
    (\<forall>d. alloc_at m' d = (case map_of es d of Some v \<Rightarrow> {v} | None \<Rightarrow> alloc_at m d))"
  using assms
proof (induction es arbitrary: m)
  case Nil
  then show ?case by simp
next
  case (Cons e es)
  obtain k v where e: "e = (k, v)" by force
  have k: "normalize_addr k = k" using Cons.prems(3) e by simp
  note at = alloc_at_place [OF Cons.prems(1,2) k, of v]
  have "force \<or> (\<forall>k' \<in> fst ` set es. alloc_at (place k v m) k' = {})"
    using Cons.prems(4,5) by (auto simp: at e)
  moreover have "\<forall>k \<in> fst ` set es. normalize_addr k = k" "distinct (map fst es)"
    using Cons.prems(3,4) by simp_all
  ultimately obtain m' where m': "merge_entries M force es (place k v m) = (Inr (), m')"
      "distinct (map fst m')" "one_key_per_address m'"
      "\<forall>d. alloc_at m' d = (case map_of es d of Some v \<Rightarrow> {v} | None \<Rightarrow> alloc_at (place k v m) d)"
    using Cons.IH [OF distinct_place [OF Cons.prems(1)] one_key_place [OF Cons.prems(1,2) k], of v]
    by blast
  have "map_of es k = None" using Cons.prems(4) by (simp add: e map_of_eq_None_iff)
  moreover have "merge_entries M force (e # es) m = (Inr (), m')"
    using Cons.prems(5) m'(1) by (auto simp: e merge_step k simp del: merge_entries.simps)
  ultimately show ?case using m'(2-4) by (auto simp: e at split: option.splits)
qed

lemma merge_entries_collision:
  assumes "distinct (map fst m)" and "one_key_per_address m"
    and "\<forall>k \<in> fst ` set es. normalize_addr k = k" and "distinct (map fst es)"
    and "k \<in> fst ` set es" and "alloc_at m k \<noteq> {}"
  shows "\<exists>k' m'. merge_entries M False es m = (Inl (AddressCollision k'), m') \<and>
    k' \<in> fst ` set es \<and> alloc_at m k' \<noteq> {}"
  using assms
proof (induction es arbitrary: m)
  case Nil
  then show ?case by simp
next
  case (Cons e es)
  obtain k1 v where e: "e = (k1, v)" by force
  have k1: "normalize_addr k1 = k1" using Cons.prems(3) e by simp
  note at = alloc_at_place [OF Cons.prems(1,2) k1, of v]
  show ?case
  proof (cases "alloc_at m k1 = {}")
    case False
    then show ?thesis by (simp add: e merge_step k1 del: merge_entries.simps)
  next
    case True
    then have k: "k \<noteq> k1" "k \<in> fst ` set es" using Cons.prems(5,6) by (auto simp: e)
    have "\<forall>k \<in> fst ` set es. normalize_addr k = k" "distinct (map fst es)" "alloc_at (place k1 v m) k \<noteq> {}"
      using Cons.prems(3,4,6) k by (simp_all add: at)
    then obtain k' m' where h: "merge_entries M False es (place k1 v m) = (Inl (AddressCollision k'), m')"
        "k' \<in> fst ` set es" "alloc_at (place k1 v m) k' \<noteq> {}"
      using Cons.IH [OF distinct_place [OF Cons.prems(1)] one_key_place [OF Cons.prems(1,2) k1], of v] k(2) by blast
    moreover have "k' \<noteq> k1" using h(2) Cons.prems(4) by (auto simp: e)
    ultimately show ?thesis using True
      by (auto simp: e merge_step k1 at simp del: merge_entries.simps)
  qed
qed

end

section \<open>The generated alloc\<close>

text \<open>The contracts of a configuration, in the order \<open>build_alloc\<close> inserts them.\<close>

definition storage_entries :: "genesis_contract \<Rightarrow> json_entries" where
  "storage_entries c = map (\<lambda>(slot, v). (''0x'' @ hex_lower (word256_bytes slot),
     JString (''0x'' @ hex_lower (word256_bytes v)))) (gc_storage c)"

definition admin_proxy_contract :: "artifacts \<Rightarrow> address \<Rightarrow> address \<Rightarrow> genesis_contract" where
  "admin_proxy_contract A a owner =
     \<lparr> gc_address = a, gc_code = ADMIN_PROXY_BYTECODE A, gc_storage = [(0, ucast owner)] \<rparr>"

definition plain_contract :: "address \<Rightarrow> bytes \<Rightarrow> genesis_contract" where
  "plain_contract a code = \<lparr> gc_address = a, gc_code = code, gc_storage = [] \<rparr>"

definition permit2_code :: "artifacts \<Rightarrow> (bytes \<Rightarrow> b256) \<Rightarrow> u64 \<Rightarrow> address \<Rightarrow> bytes" where
  "permit2_code A keccak chain_id a =
     (case expected_runtime_bytecode A keccak chain_id a of Inr code \<Rightarrow> code | Inl _ \<Rightarrow> [])"

definition genesis_contracts :: "artifacts \<Rightarrow> (bytes \<Rightarrow> b256) \<Rightarrow> deploy_config \<Rightarrow> genesis_contract list" where
  "genesis_contracts A keccak cfg =
     push_some (map_option (\<lambda>dd. plain_contract (the (dd_address dd)) DETERMINISTIC_DEPLOYER_BYTECODE)
         (cfg_deployer cfg))
       (push_some (map_option (\<lambda>p2. plain_contract (the (p2_address p2))
           (permit2_code A keccak (cfg_chain_id cfg) (the (p2_address p2)))) (cfg_permit2 cfg))
         (push_some (map_option (\<lambda>ap. admin_proxy_contract A (the (ap_address ap)) (ap_owner ap))
             (cfg_admin_proxy cfg)) []))"

lemma insert_built_foldl:
  "(\<And>x. o1 = Some x \<Longrightarrow> b x = Inr (c x)) \<Longrightarrow>
   insert_built M F (map_option b o1) (foldl (insert_contract M F) [] cs) =
     Inr (foldl (insert_contract M F) [] (push_some (map_option c o1) cs))"
  by (cases o1) auto

lemma expected_runtime_code:
  "7015 \<le> length (PERMIT2_BYTECODE A) \<Longrightarrow>
    expected_runtime_bytecode A keccak chain_id a = Inr (permit2_code A keccak chain_id a)"
  using expected_runtime [of A keccak chain_id a] by (metis permit2_code_def sum.simps(6))

lemma permit2_runtime_length:
  "7015 \<le> length (PERMIT2_BYTECODE A) \<Longrightarrow> length (permit2_code A keccak chain_id a) = length (PERMIT2_BYTECODE A)"
  using expected_runtime [of A keccak chain_id a] expected_runtime_code [of A keccak chain_id a]
  by (metis sum.inject(2))

lemma permit2_codeI:
  "expected_runtime_bytecode A keccak chain_id a = Inr code \<Longrightarrow> permit2_code A keccak chain_id a = code"
  by (simp add: permit2_code_def)

lemma build_alloc_foldl:
  assumes "genesis_config cfg" and "7015 \<le> length (PERMIT2_BYTECODE A)"
  shows "build_alloc A keccak M F cfg = Inr (foldl (insert_contract M F) [] (genesis_contracts A keccak cfg))"
proof -
  let ?F = "foldl (insert_contract M F) []"
  have ap: "insert_built M F (map_option (admin_proxy_build A) (cfg_admin_proxy cfg)) (?F cs) =
      Inr (?F (push_some (map_option (\<lambda>x. admin_proxy_contract A (the (ap_address x)) (ap_owner x))
        (cfg_admin_proxy cfg)) cs))" for cs
    using assms(1) by (intro insert_built_foldl)
      (auto simp: genesis_config_def admin_proxy_build_def admin_proxy_contract_def)
  have p2: "insert_built M F (map_option (\<lambda>x. permit2_build A keccak x (cfg_chain_id cfg)) (cfg_permit2 cfg))
      (?F cs) = Inr (?F (push_some (map_option (\<lambda>x. plain_contract (the (p2_address x))
        (permit2_code A keccak (cfg_chain_id cfg) (the (p2_address x)))) (cfg_permit2 cfg)) cs))" for cs
    using assms by (intro insert_built_foldl)
      (auto simp: genesis_config_def permit2_build_def plain_contract_def expected_runtime_code)
  have dd: "insert_built M F (map_option deterministic_deployer_build (cfg_deployer cfg)) (?F cs) =
      Inr (?F (push_some (map_option (\<lambda>x. plain_contract (the (dd_address x)) DETERMINISTIC_DEPLOYER_BYTECODE)
        (cfg_deployer cfg)) cs))" for cs
    using assms(1) by (intro insert_built_foldl)
      (auto simp: genesis_config_def deterministic_deployer_build_def plain_contract_def)
  show ?thesis
    using ap [of "[]"] by (simp add: build_alloc_def genesis_contracts_def p2 dd)
qed

lemma genesis_contracts_addresses:
  "genesis_config cfg \<Longrightarrow> map gc_address (genesis_contracts A keccak cfg) = map snd (configured_addresses cfg)"
  by (auto simp: genesis_contracts_def configured_addresses_def genesis_config_def map_push_some
      admin_proxy_contract_def plain_contract_def split: option.splits)

locale genesis_writer = json_object M + alloy_display F
  for M :: json_map and F :: alloy_fmt
begin

lemma storage_fold:
  "length (gc_storage c) \<le> 1 \<Longrightarrow>
   foldl (\<lambda>m (slot, v). jm_insert M (format_slot_key F slot) (JString (fmt_b256 F v)) m) [] (gc_storage c) =
     storage_entries c"
  by (cases "gc_storage c")
    (auto simp: storage_entries_def insert_empty format_slot_key_def display_b256)

lemma insert_contract_set:
  assumes "distinct (map fst m)" and "length (gc_storage c) \<le> 1"
  obtains j where "genesis_entry (gc_code c) (storage_entries c) j"
    and "distinct (map fst (insert_contract M F m c))"
    and "set (insert_contract M F m c) =
           insert (hex_key (gc_address c), j) {e \<in> set m. fst e \<noteq> hex_key (gc_address c)}"
proof -
  let ?e = "jm_insert M ''storage'' (JObject (storage_entries c))
    (jm_insert M ''code'' (JString (''0x'' @ hex_lower (gc_code c))) (jm_insert M ''balance'' (JString ''0x0'') []))"
  have "insert_contract M F m c = jm_insert M (hex_key (gc_address c)) (JObject ?e) m"
    by (simp add: insert_contract_def storage_fold [OF assms(2)] display_address encode_hex)
  moreover have "genesis_entry (gc_code c) (storage_entries c) (JObject ?e)"
    unfolding genesis_entry_def using entry_of_three by blast
  ultimately show thesis
    using keys_insert [OF assms(1)] set_insert [OF assms(1)] by (intro that [of "JObject ?e"]) simp_all
qed

lemma insert_contracts:
  assumes "distinct (map gc_address cs)" and "\<forall>c \<in> set cs. length (gc_storage c) \<le> 1"
  shows "distinct (map fst (foldl (insert_contract M F) [] cs)) \<and>
    fst ` set (foldl (insert_contract M F) [] cs) = hex_key ` gc_address ` set cs \<and>
    (\<forall>c \<in> set cs. \<exists>j. (hex_key (gc_address c), j) \<in> set (foldl (insert_contract M F) [] cs) \<and>
       genesis_entry (gc_code c) (storage_entries c) j)"
  using assms
proof (induction cs rule: rev_induct)
  case Nil
  then show ?case by simp
next
  case (snoc c cs)
  let ?m = "foldl (insert_contract M F) [] cs"
  have IH: "distinct (map fst ?m)" "fst ` set ?m = hex_key ` gc_address ` set cs"
    "\<And>c. c \<in> set cs \<Longrightarrow> \<exists>j. (hex_key (gc_address c), j) \<in> set ?m \<and> genesis_entry (gc_code c) (storage_entries c) j"
    using snoc by simp_all
  obtain j where j: "genesis_entry (gc_code c) (storage_entries c) j"
      "distinct (map fst (insert_contract M F ?m c))"
      "set (insert_contract M F ?m c) =
         insert (hex_key (gc_address c), j) {e \<in> set ?m. fst e \<noteq> hex_key (gc_address c)}"
    using insert_contract_set [OF IH(1), of c] snoc.prems(2) by auto
  have new: "hex_key (gc_address c) \<notin> fst ` set ?m"
    using snoc.prems(1) by (auto simp: IH(2))
  then have all: "set (insert_contract M F ?m c) = insert (hex_key (gc_address c), j) (set ?m)"
    unfolding j(3) by force
  then have "\<exists>j. (hex_key (gc_address d), j) \<in> set (insert_contract M F ?m c) \<and>
      genesis_entry (gc_code d) (storage_entries d) j" if "d \<in> set (cs @ [c])" for d
    using that j(1) IH(3) [of d] by fastforce
  moreover have "fst ` set (insert_contract M F ?m c) = hex_key ` gc_address ` set (cs @ [c])"
    using all IH(2) by simp
  ultimately show ?case using j(2) by simp
qed

lemma genesis_alloc:
  assumes "valid_config cfg" and "genesis_config cfg" and "7015 \<le> length (PERMIT2_BYTECODE A)"
  obtains alloc where "build_alloc A keccak M F cfg = Inr alloc"
    and "distinct (map fst alloc)"
    and "fst ` set alloc = (\<lambda>(n, a). hex_key a) ` set (configured_addresses cfg)"
    and "\<And>c. c \<in> set (genesis_contracts A keccak cfg) \<Longrightarrow>
           \<exists>j. (hex_key (gc_address c), j) \<in> set alloc \<and> genesis_entry (gc_code c) (storage_entries c) j"
proof -
  let ?cs = "genesis_contracts A keccak cfg"
  have addrs: "map gc_address ?cs = map snd (configured_addresses cfg)"
    by (rule genesis_contracts_addresses [OF assms(2)])
  have "distinct (map gc_address ?cs)" using assms(1) by (simp add: addrs valid_config_def)
  moreover have "\<forall>c \<in> set ?cs. length (gc_storage c) \<le> 1"
    by (auto simp: genesis_contracts_def admin_proxy_contract_def plain_contract_def option.set_map)
  moreover have "gc_address ` set ?cs = snd ` set (configured_addresses cfg)"
    using arg_cong [OF addrs, of set] by simp
  ultimately show thesis
    using insert_contracts [of ?cs] build_alloc_foldl [OF assms(2,3)]
    by (intro that) (auto simp: image_image case_prod_unfold)
qed

end

section \<open>Reference instances\<close>

text \<open>
  Both object maps of \<open>serde_json\<close>: entries in the order of insertion (with the feature
  \<open>preserve_order\<close>) and entries in the order of their keys.
\<close>

definition insertion_ordered :: json_map where
  "insertion_ordered = \<lparr> jm_insert = AList.update, jm_remove = AList.delete \<rparr>"

definition key_ordered :: json_map where
  "key_ordered =
     \<lparr> jm_insert = (\<lambda>k v m. filter (\<lambda>e. fst e < k) m @ (k, v) # filter (\<lambda>e. k < fst e) m),
       jm_remove = (\<lambda>k. filter (\<lambda>e. fst e \<noteq> k)) \<rparr>"

lemma set_update_distinct:
  "distinct (map fst m) \<Longrightarrow> set (AList.update k v m) = insert (k, v) {e \<in> set m. fst e \<noteq> k}"
  by (induction m) (auto simp: image_iff)

interpretation insertion_map: json_object insertion_ordered
  by unfold_locales
    (auto simp: insertion_ordered_def set_update_distinct AList.distinct_update AList.delete_eq distinct_map_filter)

interpretation key_map: json_object key_ordered
  by unfold_locales (auto simp: key_ordered_def distinct_map_filter)

text \<open>The checksummed form of an address (EIP-55) over a hash of the lower-case digits.\<close>

definition upper_hex :: "char \<Rightarrow> char" where
  "upper_hex c = (let n = (of_char c :: nat) in if 97 \<le> n \<and> n \<le> 102 then char_of (n - 32) else c)"

definition nibbles :: "bytes \<Rightarrow> nat list" where
  "nibbles bs = concat (map (\<lambda>b. [unat b div 16, unat b mod 16]) bs)"

definition eip55 :: "(bytes \<Rightarrow> b256) \<Rightarrow> address \<Rightarrow> string" where
  "eip55 hash a = ''0x'' @ map (\<lambda>(c, d). if 8 \<le> d then upper_hex c else c)
     (zip (hex_key a) (nibbles (word256_bytes (hash (map (\<lambda>c. of_nat (of_char c)) (hex_key a))))))"

definition alloy_text :: "(bytes \<Rightarrow> b256) \<Rightarrow> alloy_fmt" where
  "alloy_text hash =
     \<lparr> fmt_address = eip55 hash, fmt_b256 = (\<lambda>w. ''0x'' @ hex_lower (word256_bytes w)),
       hex_encode = hex_lower \<rparr>"

lemma hex_lower_digits: "set (hex_lower bs) \<subseteq> set ''0123456789abcdef''"
proof
  fix c
  assume "c \<in> set (hex_lower bs)"
  then obtain b where "c = hex_digit (unat (b :: u8) div 16) \<or> c = hex_digit (unat b mod 16)"
    by (auto simp: hex_lower_def)
  then obtain n where "n < 16" "c = hex_digit n"
  proof (elim disjE)
    assume "c = hex_digit (unat b mod 16)"
    then show thesis using that [of "unat b mod 16"] by simp
  qed (use that [of "unat b div 16"] byte_div_16 [of b] in simp)
  then show "c \<in> set ''0123456789abcdef''" unfolding hex_digit_def by (auto intro!: nth_mem simp del: list.set)
qed

lemma lower_upper_hex:
  "c \<in> set ''0123456789abcdef'' \<Longrightarrow> to_lowercase [upper_hex c] = [c] \<and> to_lowercase [c] = [c]"
  by (auto simp: to_lowercase_def upper_hex_def char_of_def bit_iff_odd)

lemma lower_checksum:
  "length ds \<ge> length s \<Longrightarrow> set s \<subseteq> set ''0123456789abcdef'' \<Longrightarrow>
    to_lowercase (map (\<lambda>(c, d). if (8 :: nat) \<le> d then upper_hex c else c) (zip s ds)) = s"
proof (induction s arbitrary: ds)
  case Nil
  then show ?case by (simp add: to_lowercase_def)
next
  case (Cons c s)
  then obtain d ds' where ds: "ds = d # ds'" by (cases ds) auto
  have "to_lowercase [if 8 \<le> d then upper_hex c else c] = [c]"
    using lower_upper_hex [of c] Cons.prems(2) by simp
  moreover have "to_lowercase (map (\<lambda>(c, d). if (8 :: nat) \<le> d then upper_hex c else c) (zip s ds')) = s"
    using Cons by (simp add: ds)
  ultimately show ?case by (simp add: ds to_lowercase_def)
qed

lemma length_hex_lower [simp]: "length (hex_lower bs) = 2 * length bs"
  by (induction bs) (auto simp: hex_lower_def)

lemma length_nibbles [simp]: "length (nibbles bs) = 2 * length bs"
  by (induction bs) (auto simp: nibbles_def)

lemma normalize_eip55: "normalize_addr (eip55 hash a) = hex_key a"
  by (simp add: normalize_addr_def strip_0x_def eip55_def lower_checksum [OF _ hex_lower_digits])

interpretation alloy_text: alloy_display "alloy_text hash" for hash
  by unfold_locales (simp_all add: alloy_text_def normalize_eip55)

interpretation genesis_text: genesis_writer insertion_ordered "alloy_text hash" for hash ..

interpretation genesis_sorted_text: genesis_writer key_ordered "alloy_text hash" for hash ..

section \<open>Genesis mode is correct\<close>

lemma json_set_object_at:
  "json_object_at k j = Some m \<Longrightarrow> json_object_at k (json_set_object k m' j) = Some m'"
proof (cases j)
  case (JObject es)
  have "map_of es k \<noteq> None \<Longrightarrow>
      map_of (map (\<lambda>(i, v). (i, if i = k then JObject m' else v)) es) k = Some (JObject m')"
    by (induction es) auto
  then show "json_object_at k j = Some m \<Longrightarrow> ?thesis" by (auto simp: JObject split: option.splits)
qed simp_all

lemma json_set_object_other:
  "i \<noteq> k \<Longrightarrow> map_of (map (\<lambda>(i, v). (i, if i = k then JObject m' else v)) es) i = map_of es i"
  by (induction es) auto

context genesis_writer
begin

lemma merge_alloc_result:
  assumes "valid_config cfg" and "genesis_config cfg" and "7015 \<le> length (PERMIT2_BYTECODE A)"
    and at: "json_object_at ''alloc'' genesis = Some old"
    and old: "distinct (map fst old)" "one_key_per_address old"
  shows "if force \<or> (\<forall>(n, a) \<in> set (configured_addresses cfg). alloc_at old (hex_key a) = {})
    then \<exists>merged new. merge_alloc A keccak M F cfg force genesis = (Inr (), merged) \<and>
      json_object_at ''alloc'' merged = Some new \<and> distinct (map fst new) \<and> one_key_per_address new \<and>
      (\<forall>c \<in> set (genesis_contracts A keccak cfg). \<exists>j. alloc_at new (hex_key (gc_address c)) = {j} \<and>
         genesis_entry (gc_code c) (storage_entries c) j) \<and>
      (\<forall>d. d \<notin> (\<lambda>(n, a). hex_key a) ` set (configured_addresses cfg) \<longrightarrow> alloc_at new d = alloc_at old d)
    else \<exists>(n, a) \<in> set (configured_addresses cfg). alloc_at old (hex_key a) \<noteq> {} \<and>
      fst (merge_alloc A keccak M F cfg force genesis) = Inl (AddressCollision (hex_key a))"
proof -
  obtain alloc where alloc: "build_alloc A keccak M F cfg = Inr alloc" "distinct (map fst alloc)"
      "fst ` set alloc = (\<lambda>(n, a). hex_key a) ` set (configured_addresses cfg)"
      "\<And>c. c \<in> set (genesis_contracts A keccak cfg) \<Longrightarrow>
         \<exists>j. (hex_key (gc_address c), j) \<in> set alloc \<and> genesis_entry (gc_code c) (storage_entries c) j"
    using genesis_alloc [OF assms(1-3)] by blast
  have norm: "\<forall>k \<in> fst ` set alloc. normalize_addr k = k" by (auto simp: alloc(3))
  have free: "(\<forall>(n, a) \<in> set (configured_addresses cfg). alloc_at old (hex_key a) = {}) \<longleftrightarrow>
      (\<forall>k \<in> fst ` set alloc. alloc_at old k = {})"
    by (auto simp: alloc(3))
  show ?thesis
  proof (cases "force \<or> (\<forall>(n, a) \<in> set (configured_addresses cfg). alloc_at old (hex_key a) = {})")
    case True
    then obtain new where new: "merge_entries M force alloc old = (Inr (), new)" "distinct (map fst new)"
        "one_key_per_address new"
        "\<forall>d. alloc_at new d = (case map_of alloc d of Some v \<Rightarrow> {v} | None \<Rightarrow> alloc_at old d)"
      using merge_entries_ok [OF old norm alloc(2), of force] unfolding free by blast
    have "\<exists>j. alloc_at new (hex_key (gc_address c)) = {j} \<and> genesis_entry (gc_code c) (storage_entries c) j"
      if c: "c \<in> set (genesis_contracts A keccak cfg)" for c
    proof -
      obtain j where "(hex_key (gc_address c), j) \<in> set alloc" "genesis_entry (gc_code c) (storage_entries c) j"
        using alloc(4) [OF c] by blast
      then show ?thesis using new(4) alloc(2) by (auto simp: map_of_is_SomeI)
    qed
    moreover have "alloc_at new d = alloc_at old d"
      if "d \<notin> (\<lambda>(n, a). hex_key a) ` set (configured_addresses cfg)" for d
    proof -
      have "map_of alloc d = None" using that by (simp add: map_of_eq_None_iff alloc(3))
      then show ?thesis using new(4) by simp
    qed
    moreover have "merge_alloc A keccak M F cfg force genesis = (Inr (), json_set_object ''alloc'' new genesis)"
      by (simp add: merge_alloc_def alloc(1) at new(1))
    ultimately show ?thesis
      using new(2,3) json_set_object_at [OF at, of new] by (intro iffD2 [OF if_P [OF True]] exI conjI) blast+
  next
    case False
    then obtain k where "k \<in> fst ` set alloc" "alloc_at old k \<noteq> {}" "\<not> force" using free by blast
    then obtain k' m' where "merge_entries M False alloc old = (Inl (AddressCollision k'), m')"
        "k' \<in> fst ` set alloc" "alloc_at old k' \<noteq> {}"
      using merge_entries_collision [OF old norm alloc(2)] by blast
    moreover have "fst (merge_alloc A keccak M F cfg force genesis) = Inl (AddressCollision k')"
      using calculation(1) \<open>\<not> force\<close> by (simp add: merge_alloc_def alloc(1) at)
    ultimately show ?thesis unfolding if_not_P [OF False] alloc(3) by force
  qed
qed

end

text \<open>The runtime bytecode the tool expects of Permit2, and puts into a genesis, is the compiled
  template with exactly two words changed: the 32 bytes at offset 6945 are the chain id and the 32
  bytes at offset 6983 are the hash of the EIP-712 domain (type hash, name hash, chain id, address).
  The patching does not panic on a template long enough for both, and every other byte is kept.\<close>

lemma permit2_runtime_correct:
  assumes "6983 + 32 \<le> length (PERMIT2_BYTECODE A)"
  shows "\<exists>out. expected_runtime_bytecode A keccak chain_id a = Inr out \<and>
    length out = length (PERMIT2_BYTECODE A) \<and>
    word_at out 6945 = word256_bytes (ucast chain_id) \<and>
    word_at out 6983 = word256_bytes (keccak
      (word256_bytes 0x8cad95687ba82c2ce50e74f7b754645e5117c3a5bec8151c0726d5857980a866 @
       word256_bytes 0x9ac997416e8ff9d2ff6bebeb7149f65cdae5e32e2b90440b566bb3044041d36a @
       word256_bytes (ucast chain_id) @ word256_bytes (ucast a))) \<and>
    (\<forall>k < length out. k < 6945 \<or> 6945 + 32 \<le> k \<and> k < 6983 \<or> 6983 + 32 \<le> k \<longrightarrow>
       out ! k = PERMIT2_BYTECODE A ! k)"
proof -
  have "7015 \<le> length (PERMIT2_BYTECODE A)" using assms by simp
  from expected_runtime [OF this, of keccak chain_id a] obtain out where
    "expected_runtime_bytecode A keccak chain_id a = Inr out"
    "length out = length (PERMIT2_BYTECODE A)"
    "word_at out 6945 = word256_bytes (ucast chain_id)"
    "word_at out 6983 = word256_bytes (keccak (permit2_domain chain_id a))"
    "\<And>k. k < length (PERMIT2_BYTECODE A) \<Longrightarrow> k < 6945 \<or> 6977 \<le> k \<and> k < 6983 \<or> 7015 \<le> k \<Longrightarrow>
       out ! k = PERMIT2_BYTECODE A ! k" by blast
  then show ?thesis
    by (intro exI [of _ out]) (auto simp: permit2_domain_def EIP712_TYPE_HASH_def HASHED_NAME_def)
qed

text \<open>C28. Genesis generation: for a configuration that passes both validations, and a genesis file
  with an \<open>alloc\<close> object that spells every address once, the merge succeeds when no configured
  address is taken or \<open>--force\<close> is given. Then every configured contract is stored under its address,
  once, with balance zero, its code and its storage, and every other account keeps its entry.
  Otherwise the merge is refused with the address of a configured contract that is taken.\<close>

theorem merge_alloc_correct:
  assumes "json_object M" and "alloy_display F" and "7015 \<le> length (PERMIT2_BYTECODE A)"
    and "validate_deploy_config cfg = Inr ()" and "validate_for_genesis cfg = Inr ()"
    and "json_object_at ''alloc'' genesis = Some old" and "distinct (map fst old)"
    and "one_key_per_address old"
  shows "if force \<or> (\<forall>(n, a) \<in> set (configured_addresses cfg). alloc_at old (hex_key a) = {})
    then \<exists>merged new. merge_alloc A keccak M F cfg force genesis = (Inr (), merged) \<and>
      json_object_at ''alloc'' merged = Some new \<and> distinct (map fst new) \<and> one_key_per_address new \<and>
      (\<forall>c \<in> set (genesis_contracts A keccak cfg). \<exists>j. alloc_at new (hex_key (gc_address c)) = {j} \<and>
         genesis_entry (gc_code c) (storage_entries c) j) \<and>
      (\<forall>d. d \<notin> (\<lambda>(n, a). hex_key a) ` set (configured_addresses cfg) \<longrightarrow> alloc_at new d = alloc_at old d)
    else \<exists>(n, a) \<in> set (configured_addresses cfg). alloc_at old (hex_key a) \<noteq> {} \<and>
      fst (merge_alloc A keccak M F cfg force genesis) = Inl (AddressCollision (hex_key a))"
  using genesis_writer.merge_alloc_result [OF genesis_writer.intro [OF assms(1,2)] _ _ assms(3,6-8)] assms(4,5)
  by (simp only: ok_iff)

text \<open>The hypotheses hold: a configuration with all three contracts on an EIP-55 display, and a
  genesis that holds one other account.\<close>

definition demo_artifacts :: artifacts where
  "demo_artifacts =
     \<lparr> ADMIN_PROXY_BYTECODE = [0x60, 0x80], PERMIT2_BYTECODE = replicate 7100 0,
       PERMIT2_INITCODE = [0x60, 0xc0] \<rparr>"

definition demo_deploy_config :: deploy_config where
  "demo_deploy_config =
     \<lparr> cfg_chain = \<lparr> chain_chain_id = 1234 \<rparr>,
       cfg_contracts =
         \<lparr> admin_proxy = Some \<lparr> ap_address = Some 0xAd00, ap_owner = 7 \<rparr>,
           permit2 = Some \<lparr> p2_address = Some 0x22D473 \<rparr>,
           deterministic_deployer = Some \<lparr> dd_address = Some 0x4e59 \<rparr> \<rparr> \<rparr>"

definition demo_hash :: "bytes \<Rightarrow> b256" where
  "demo_hash bs = of_nat (be_nat bs)"

lemma length_demo_bytecode [simp]: "length (PERMIT2_BYTECODE demo_artifacts) = 7100"
  by (simp add: demo_artifacts_def)

lemma demo_config_valid:
  "validate_deploy_config demo_deploy_config = Inr ()" "validate_for_genesis demo_deploy_config = Inr ()"
  by (simp_all add: validate_deploy_config_def validate_for_genesis_def demo_deploy_config_def ensure_def
      all_addresses_def)

theorem merge_alloc_correct_witness:
  "\<exists>merged new j. merge_alloc demo_artifacts demo_hash insertion_ordered (alloy_text demo_hash)
     demo_deploy_config False (JObject [(''alloc'', JObject [(''0xAB'', JNull)])]) = (Inr (), merged) \<and>
     json_object_at ''alloc'' merged = Some new \<and> alloc_at new (hex_key 0xAd00) = {j} \<and>
     alloc_at new ''ab'' = alloc_at [(''0xAB'', JNull)] ''ab''"
proof -
  let ?old = "[(''0xAB'', JNull)]"
  have key: "normalize_addr ''0xAB'' = ''ab''"
    by (simp add: normalize_addr_def strip_0x_def to_lowercase_def char_of_def bit_iff_odd)
  have len: "length (hex_key a) = 40" for a by simp
  have ne: "hex_key a \<noteq> ''ab''" for a using len [of a] by force
  have free: "alloc_at ?old (hex_key a) = {}" for a using ne [of a] by (auto simp: alloc_at_def key)
  have other: "''ab'' \<notin> (\<lambda>(n, a). hex_key a) ` set (configured_addresses demo_deploy_config)"
    using ne by force
  have c: "admin_proxy_contract demo_artifacts 0xAd00 7 \<in>
      set (genesis_contracts demo_artifacts demo_hash demo_deploy_config)"
    by (simp add: genesis_contracts_def demo_deploy_config_def)
  have len7: "7015 \<le> length (PERMIT2_BYTECODE demo_artifacts)" by simp
  have at: "json_object_at ''alloc'' (JObject [(''alloc'', JObject ?old)]) = Some ?old" by simp
  have old: "distinct (map fst ?old)" "one_key_per_address ?old" by (simp_all add: one_key_per_address_def)
  have cond: "False \<or> (\<forall>(n, a) \<in> set (configured_addresses demo_deploy_config). alloc_at ?old (hex_key a) = {})"
    using free by blast
  note r = merge_alloc_correct [OF insertion_map.json_object_axioms alloy_text.alloy_display_axioms
      len7 demo_config_valid at old, of False demo_hash demo_hash]
  from iffD1 [OF if_P [OF cond] r] obtain merged new where
    m: "merge_alloc demo_artifacts demo_hash insertion_ordered (alloy_text demo_hash) demo_deploy_config
       False (JObject [(''alloc'', JObject ?old)]) = (Inr (), merged)"
      "json_object_at ''alloc'' merged = Some new"
    and cs: "\<forall>c \<in> set (genesis_contracts demo_artifacts demo_hash demo_deploy_config).
      \<exists>j. alloc_at new (hex_key (gc_address c)) = {j} \<and> genesis_entry (gc_code c) (storage_entries c) j"
    and rest: "\<forall>d. d \<notin> (\<lambda>(n, a). hex_key a) ` set (configured_addresses demo_deploy_config) \<longrightarrow>
      alloc_at new d = alloc_at ?old d"
    by (elim exE conjE) (rule that)
  from bspec [OF cs c] obtain j where "alloc_at new (hex_key 0xAd00) = {j}"
    by (auto simp: admin_proxy_contract_def)
  with m rest other show ?thesis by blast
qed

end
