(* ===== verification/Deployer_Pipeline.thy ===== *)
theory Deployer_Pipeline
  imports Deployer_Genesis "HOL-Library.Option_ord"
begin

text \<open>
  The live deployment of \<open>bin/ev-deployer\<close>: the persisted state (\<open>deploy/state.rs\<close>), the CREATE2
  helpers (\<open>deploy/create2.rs\<close>), the chain interface with its live implementation
  (\<open>deploy/deployer.rs\<close>) and the pipeline (\<open>deploy/pipeline.rs\<close>).

  The world is a record of the chain, the file system, the random source and the fate of the I/O
  calls to come: a call may fail, and a failing write may leave a prefix of its text behind. A run
  that returns an error stands for a crash at that point too, since nothing but the files and the
  chain outlives it. Parameters: the chain provider, the artefacts and hashes of the genesis part,
  alloy's \<open>Address::create2\<close> and the JSON form of the state (\<open>deploy_env\<close>).
\<close>

section \<open>Files\<close>

datatype io_outcome = IoOk | IoFails | IoPartial nat

record 'c dworld =
  dw_chain :: 'c
  dw_files :: "string \<Rightarrow> string option"
  dw_io :: "io_outcome list"
  dw_stat :: "bool list"
  dw_entropy :: "nat \<Rightarrow> b256"
  dw_drawn :: nat
  dw_stdout :: string

fun next_io :: "io_outcome list \<Rightarrow> io_outcome" where
  "next_io [] = IoOk"
| "next_io (x # xs) = x"

definition fs_write :: "string \<Rightarrow> string \<Rightarrow> ('c dworld, deploy_error, unit) st" where
  "fs_write path txt w =
     (let w' = w \<lparr> dw_io := tl (dw_io w) \<rparr>
      in case next_io (dw_io w) of
           IoOk \<Rightarrow> (Inr (), w' \<lparr> dw_files := (dw_files w)(path \<mapsto> txt) \<rparr>)
         | IoFails \<Rightarrow> (Inl IoError, w')
         | IoPartial n \<Rightarrow> (Inl IoError, w' \<lparr> dw_files := (dw_files w)(path \<mapsto> take n txt) \<rparr>))"

definition fs_rename :: "string \<Rightarrow> string \<Rightarrow> ('c dworld, deploy_error, unit) st" where
  "fs_rename src dst w =
     (let w' = w \<lparr> dw_io := tl (dw_io w) \<rparr>
      in case (next_io (dw_io w), dw_files w src) of
           (IoOk, Some txt) \<Rightarrow>
             (Inr (), w' \<lparr> dw_files := ((dw_files w)(src := None))(dst \<mapsto> txt) \<rparr>)
         | _ \<Rightarrow> (Inl IoError, w'))"

definition fs_read :: "string \<Rightarrow> ('c dworld, deploy_error, string) st" where
  "fs_read path w =
     (let w' = w \<lparr> dw_io := tl (dw_io w) \<rparr>
      in case (next_io (dw_io w), dw_files w path) of
           (IoOk, Some txt) \<Rightarrow> (Inr txt, w')
         | _ \<Rightarrow> (Inl IoError, w'))"

text \<open>\<open>Path::exists\<close> answers \<open>false\<close> when the metadata query itself fails.\<close>

definition path_exists :: "string \<Rightarrow> ('c dworld, deploy_error, bool) st" where
  "path_exists path w =
     (Inr ((dw_stat w = [] \<or> hd (dw_stat w)) \<and> dw_files w path \<noteq> None),
      w \<lparr> dw_stat := tl (dw_stat w) \<rparr>)"

text \<open>\<open>Path::with_extension\<close>, for a path whose last component is a file name.\<close>

fun split_last :: "char \<Rightarrow> string \<Rightarrow> (string \<times> string) option" where
  "split_last d [] = None"
| "split_last d (c # cs) =
     (case split_last d cs of
        Some (a, b) \<Rightarrow> Some (c # a, b)
      | None \<Rightarrow> if c = d then Some ([], cs) else None)"

definition with_extension :: "string \<Rightarrow> string \<Rightarrow> string" where
  "with_extension ext path =
     (let (dir, name) = (case split_last CHR ''/'' path of None \<Rightarrow> ([], path) | Some (a, b) \<Rightarrow> (a @ ''/'', b));
          stem = (case split_last CHR ''.'' name of Some (c # a, b) \<Rightarrow> c # a | _ \<Rightarrow> name)
      in dir @ stem @ ''.'' @ ext)"

section \<open>State of a deployment\<close>

datatype contract_status = Pending | Deployed | Verified

fun status_rank :: "contract_status \<Rightarrow> nat" where
  "status_rank Pending = 0"
| "status_rank Deployed = 1"
| "status_rank Verified = 2"

lemma status_rank_inject: "status_rank a = status_rank b \<longleftrightarrow> a = b"
  by (cases a; cases b) simp_all

instantiation contract_status :: linorder
begin

definition less_eq_contract_status_def: "a \<le> b \<longleftrightarrow> status_rank a \<le> status_rank b"

definition less_contract_status_def: "a < b \<longleftrightarrow> status_rank a < status_rank b"

instance
  by standard (auto simp: less_eq_contract_status_def less_contract_status_def status_rank_inject)

end

lemma Deployed_le: "Deployed \<le> x \<longleftrightarrow> x = Deployed \<or> x = Verified"
  by (cases x) (simp_all add: less_eq_contract_status_def)

record contract_state =
  cs_status :: contract_status
  cs_address :: address
  cs_deploy_tx :: "b256 option"

record contract_states =
  cts_permit2 :: "contract_state option"

record applied_intent =
  ai_chain_id :: u64
  ai_permit2 :: "unit option"

record deploy_state =
  ds_version :: u32
  ds_create2_salt :: b256
  ds_applied_intent :: applied_intent
  ds_contracts :: contract_states

definition STATE_VERSION :: u32 where
  "STATE_VERSION = 1"

record deploy_env =
  de_artifacts :: artifacts
  de_keccak :: "bytes \<Rightarrow> b256"
  de_create2 :: "address \<Rightarrow> b256 \<Rightarrow> b256 \<Rightarrow> address"
  de_to_json :: "deploy_state \<Rightarrow> deploy_error + string"
  de_from_json :: "string \<Rightarrow> deploy_error + deploy_state"
  de_json_map :: json_map
  de_fmt :: alloy_fmt
  de_json_pretty :: "json \<Rightarrow> deploy_error + string"

definition intent_from_config :: "deploy_config \<Rightarrow> applied_intent" where
  "intent_from_config config =
     \<lparr> ai_chain_id = cfg_chain_id config, ai_permit2 = map_option (\<lambda>_. ()) (cfg_permit2 config) \<rparr>"

definition new_deploy_state :: "deploy_config \<Rightarrow> ('c dworld, deploy_error, deploy_state) st" where
  "new_deploy_state config w =
     (Inr \<lparr> ds_version = STATE_VERSION, ds_create2_salt = dw_entropy w (dw_drawn w),
            ds_applied_intent = intent_from_config config,
            ds_contracts = \<lparr> cts_permit2 = None \<rparr> \<rparr>,
      w \<lparr> dw_drawn := Suc (dw_drawn w) \<rparr>)"

definition load_deploy_state :: "deploy_env \<Rightarrow> string \<Rightarrow> ('c dworld, deploy_error, deploy_state) st" where
  "load_deploy_state E path =
     st_bind (fs_read path) (\<lambda>content.
     st_bind (st_lift (de_from_json E content)) (\<lambda>state.
     st_then (st_lift (ensure (ds_version state = STATE_VERSION) (UnsupportedVersion (ds_version state))))
       (st_return state)))"

definition save_deploy_state :: "deploy_env \<Rightarrow> deploy_state \<Rightarrow> string \<Rightarrow> ('c dworld, deploy_error, unit) st" where
  "save_deploy_state E state path =
     st_bind (st_lift (de_to_json E state)) (\<lambda>json.
     let tmp = with_extension ''tmp'' path in
     st_then (fs_write tmp json) (fs_rename tmp path))"

definition validate_immutability :: "deploy_state \<Rightarrow> deploy_config \<Rightarrow> deploy_error + unit" where
  "validate_immutability state config =
     (let current = ds_applied_intent state in
      and_then (ensure (cfg_chain_id config = ai_chain_id current)
         (ChainIdChanged (ai_chain_id current) (cfg_chain_id config))) (\<lambda>_.
      if ai_permit2 current \<noteq> None then ensure (cfg_permit2 config \<noteq> None) Permit2Removed
      else Inr ()))"

section \<open>The chain\<close>

definition DETERMINISTIC_DEPLOYER :: address where
  "DETERMINISTIC_DEPLOYER = 0x4e59b44847b379578588920ca78fbf26c0b4956c"

definition compute_address :: "deploy_env \<Rightarrow> b256 \<Rightarrow> bytes \<Rightarrow> address" where
  "compute_address E salt initcode = de_create2 E DETERMINISTIC_DEPLOYER salt (de_keccak E initcode)"

definition build_factory_calldata :: "b256 \<Rightarrow> bytes \<Rightarrow> bytes" where
  "build_factory_calldata salt initcode = word256_bytes salt @ initcode"

record tx_receipt =
  rc_tx_hash :: b256
  rc_success :: bool

record 'c chain_deployer =
  cd_chain_id :: "('c, deploy_error, u64) st"
  cd_get_code :: "address \<Rightarrow> ('c, deploy_error, bytes) st"
  cd_deploy_create2 :: "b256 \<Rightarrow> bytes \<Rightarrow> ('c, deploy_error, tx_receipt) st"

text \<open>The provider of the live deployer: a transaction is sent, then its receipt is awaited.\<close>

record ('c, 'p) rpc_provider =
  pv_get_chain_id :: "('c, deploy_error, u64) st"
  pv_get_code_at :: "address \<Rightarrow> ('c, deploy_error, bytes) st"
  pv_send_transaction :: "address \<Rightarrow> bytes \<Rightarrow> ('c, deploy_error, 'p) st"
  pv_get_receipt :: "'p \<Rightarrow> ('c, deploy_error, b256 \<times> bool) st"

definition live_deployer :: "('c, 'p) rpc_provider \<Rightarrow> 'c chain_deployer" where
  "live_deployer P =
     \<lparr> cd_chain_id = pv_get_chain_id P,
       cd_get_code = pv_get_code_at P,
       cd_deploy_create2 = (\<lambda>salt initcode.
         let calldata = build_factory_calldata salt initcode in
         st_bind (pv_send_transaction P DETERMINISTIC_DEPLOYER calldata) (\<lambda>pending.
         st_bind (pv_get_receipt P pending) (\<lambda>(h, s).
         st_return \<lparr> rc_tx_hash = h, rc_success = s \<rparr>))) \<rparr>"

section \<open>Pipeline\<close>

record pipeline_config =
  pc_config :: deploy_config
  pc_state_path :: string
  pc_addresses_out :: "string option"

definition on_chain :: "('c, deploy_error, 'a) st \<Rightarrow> ('c dworld, deploy_error, 'a) st" where
  "on_chain m w = (case m (dw_chain w) of (r, c) \<Rightarrow> (r, w \<lparr> dw_chain := c \<rparr>))"

definition get_contract_status :: "deploy_state \<Rightarrow> string \<Rightarrow> contract_status option" where
  "get_contract_status state name =
     (if name = ''permit2'' then map_option cs_status (cts_permit2 (ds_contracts state)) else None)"

definition set_contract_state :: "deploy_state \<Rightarrow> string \<Rightarrow> contract_state \<Rightarrow> deploy_state" where
  "set_contract_state state name cs =
     (if name = ''permit2''
      then state \<lparr> ds_contracts := (ds_contracts state) \<lparr> cts_permit2 := Some cs \<rparr> \<rparr>
      else state)"

record deploy_contract_params =
  dp_name :: string
  dp_address :: address
  dp_salt :: b256
  dp_initcode :: bytes
  dp_expected_runtime :: bytes
  dp_state_path :: string

definition mark_deployed ::
  "deploy_env \<Rightarrow> deploy_state \<Rightarrow> deploy_contract_params \<Rightarrow> b256 option
    \<Rightarrow> ('c dworld, deploy_error, deploy_state) st" where
  "mark_deployed E state params tx =
     (let state' = set_contract_state state (dp_name params)
        \<lparr> cs_status = Deployed, cs_address = dp_address params, cs_deploy_tx = tx \<rparr>
      in st_then (save_deploy_state E state' (dp_state_path params)) (st_return state'))"

definition deploy_contract ::
  "deploy_env \<Rightarrow> 'c chain_deployer \<Rightarrow> deploy_state \<Rightarrow> deploy_contract_params
    \<Rightarrow> ('c dworld, deploy_error, deploy_state) st" where
  "deploy_contract E D state params =
     (if Some Deployed \<le> get_contract_status state (dp_name params) then st_return state
      else st_bind (on_chain (cd_get_code D (dp_address params))) (\<lambda>existing_code.
        if existing_code \<noteq> [] then
          (if existing_code = dp_expected_runtime params then mark_deployed E state params None
           else st_fail (UnexpectedBytecode (dp_address params)
             (length (dp_expected_runtime params)) (length existing_code)))
        else
          st_bind (on_chain (cd_deploy_create2 D (dp_salt params) (dp_initcode params))) (\<lambda>receipt.
          st_then (st_lift (ensure (rc_success receipt) (TxReverted (dp_name params) (rc_tx_hash receipt))))
            (mark_deployed E state params (Some (rc_tx_hash receipt))))))"

definition verify_all ::
  "deploy_env \<Rightarrow> 'c chain_deployer \<Rightarrow> deploy_state \<Rightarrow> u64 \<Rightarrow> ('c dworld, deploy_error, deploy_state) st" where
  "verify_all E D state chain_id =
     (case cts_permit2 (ds_contracts state) of
        None \<Rightarrow> st_return state
      | Some cs \<Rightarrow>
          if cs_status cs = Deployed then
            st_bind (on_chain (cd_get_code D (cs_address cs))) (\<lambda>on_chain_code.
            st_bind (st_lift (expected_runtime_bytecode (de_artifacts E) (de_keccak E) chain_id (cs_address cs)))
              (\<lambda>expected.
            st_then (st_lift (ensure (on_chain_code = expected)
                (BytecodeMismatch (cs_address cs) (length expected) (length on_chain_code))))
            (st_return (state \<lparr> ds_contracts := (ds_contracts state)
               \<lparr> cts_permit2 := Some (cs \<lparr> cs_status := Verified \<rparr>) \<rparr> \<rparr>))))
          else st_return state)"

definition build_deploy_manifest :: "deploy_env \<Rightarrow> deploy_state \<Rightarrow> json" where
  "build_deploy_manifest E state = JObject
     (insert_name (de_json_map E) (de_fmt E) ''permit2''
       (map_option cs_address (cts_permit2 (ds_contracts state))) [])"

definition load_or_create ::
  "deploy_env \<Rightarrow> pipeline_config \<Rightarrow> ('c dworld, deploy_error, deploy_state) st" where
  "load_or_create E pc =
     st_bind (path_exists (pc_state_path pc)) (\<lambda>found.
       if found then
         st_bind (load_deploy_state E (pc_state_path pc)) (\<lambda>state.
         st_then (st_lift (validate_immutability state (pc_config pc))) (st_return state))
       else
         st_bind (new_deploy_state (pc_config pc)) (\<lambda>state.
         st_then (save_deploy_state E state (pc_state_path pc)) (st_return state)))"

definition deploy_permit2 ::
  "deploy_env \<Rightarrow> 'c chain_deployer \<Rightarrow> pipeline_config \<Rightarrow> u64 \<Rightarrow> deploy_state
    \<Rightarrow> ('c dworld, deploy_error, deploy_state) st" where
  "deploy_permit2 E D pc chain_id state =
     (let salt = ds_create2_salt state in
      case cfg_permit2 (pc_config pc) of
        None \<Rightarrow> st_return state
      | Some p2_config \<Rightarrow>
          let initcode = PERMIT2_INITCODE (de_artifacts E);
              a = compute_address E salt initcode
          in st_bind (st_lift (expected_runtime_bytecode (de_artifacts E) (de_keccak E) chain_id a))
               (\<lambda>expected_runtime. deploy_contract E D state
                  \<lparr> dp_name = ''permit2'', dp_address = a, dp_salt = salt, dp_initcode = initcode,
                    dp_expected_runtime = expected_runtime, dp_state_path = pc_state_path pc \<rparr>))"

definition write_manifest ::
  "deploy_env \<Rightarrow> pipeline_config \<Rightarrow> deploy_state \<Rightarrow> ('c dworld, deploy_error, unit) st" where
  "write_manifest E pc state =
     (case pc_addresses_out pc of
        None \<Rightarrow> st_return ()
      | Some addr_path \<Rightarrow>
          st_bind (st_lift (de_json_pretty E (build_deploy_manifest E state))) (\<lambda>json.
            fs_write addr_path json))"

definition pipeline_run ::
  "deploy_env \<Rightarrow> 'c chain_deployer \<Rightarrow> pipeline_config \<Rightarrow> ('c dworld, deploy_error, unit) st" where
  "pipeline_run E D pc =
     st_bind (on_chain (cd_chain_id D)) (\<lambda>chain_id.
     st_then (st_lift (ensure (chain_id = cfg_chain_id (pc_config pc))
         (ChainIdMismatch (cfg_chain_id (pc_config pc)) chain_id)))
     (st_bind (on_chain (cd_get_code D DETERMINISTIC_DEPLOYER)) (\<lambda>deployer_code.
     st_then (st_lift (ensure (deployer_code \<noteq> []) DeterministicDeployerNotFound))
     (st_bind (load_or_create E pc) (\<lambda>state.
     st_bind (deploy_permit2 E D pc chain_id state) (\<lambda>state.
     st_bind (verify_all E D state chain_id) (\<lambda>state.
     st_then (save_deploy_state E state (pc_state_path pc)) (write_manifest E pc state))))))))"

end
