(* ===== verification/Deployer_Progress.thy ===== *)
theory Deployer_Progress
  imports Deployer_Pipeline
begin

text \<open>
  What every step of a deployment run keeps, and that a run without faults ends in success. The
  laws the pipeline relies on are the locales \<open>state_codec\<close> and \<open>create2_chain\<close>. Two kinds of
  triples carry the proofs: \<open>step_triple\<close> (whatever happens, the record of the deployment only
  moves forward) and \<open>total_triple\<close> (the step returns \<open>Ok\<close>).
\<close>

section \<open>Runs keep the record of the deployment\<close>

text \<open>
  What the pipeline relies on. \<open>code_of\<close> is the code of every account in a state of the chain: the
  queries report it, code once deployed stays, and a CREATE2 deployment touches its own address
  only, which holds the code its initcode returns (\<open>runtime\<close>) once the transaction succeeded. Any
  call may fail; in a \<open>reliable\<close> state none does.
\<close>

locale state_codec =
  fixes E :: deploy_env
  assumes encode_total: "\<exists>txt. de_to_json E s = Inr txt"
    and decode_encode: "de_to_json E s = Inr txt \<Longrightarrow> de_from_json E txt = Inr s"

definition code_kept :: "('c \<Rightarrow> address \<Rightarrow> bytes) \<Rightarrow> 'c \<Rightarrow> 'c \<Rightarrow> bool" where
  "code_kept code_of c c' \<longleftrightarrow> (\<forall>a. code_of c a \<noteq> [] \<longrightarrow> code_of c' a = code_of c a)"

locale create2_chain = state_codec E
  for E :: deploy_env +
  fixes D :: "'c chain_deployer" and code_of :: "'c \<Rightarrow> address \<Rightarrow> bytes" and cid :: u64
    and runtime :: "bytes \<Rightarrow> address \<Rightarrow> bytes" and reliable :: "'c \<Rightarrow> bool"
  assumes chain_id_law: "cd_chain_id D c = (r, c') \<Longrightarrow>
      code_of c' = code_of c \<and> (\<forall>i. r = Inr i \<longrightarrow> i = cid)"
    and get_code_law: "cd_get_code D a c = (rb, c') \<Longrightarrow>
      code_of c' = code_of c \<and> (\<forall>b. rb = Inr b \<longrightarrow> b = code_of c a)"
    and deploy_law: "cd_deploy_create2 D salt initcode c = (rx, c') \<Longrightarrow>
      code_kept code_of c c' \<and>
      (\<forall>a. a \<noteq> compute_address E salt initcode \<longrightarrow> code_of c' a = code_of c a) \<and>
      code_of c' (compute_address E salt initcode)
        \<in> {code_of c (compute_address E salt initcode), runtime initcode (compute_address E salt initcode)} \<and>
      (\<forall>rc. rx = Inr rc \<and> rc_success rc \<longrightarrow> code_of c' (compute_address E salt initcode) \<noteq> [])"
    and reliable_chain_id: "reliable c \<Longrightarrow> \<exists>c'. cd_chain_id D c = (Inr cid, c') \<and> reliable c'"
    and reliable_get_code: "reliable c \<Longrightarrow> \<exists>c'. cd_get_code D a c = (Inr (code_of c a), c') \<and> reliable c'"
    and reliable_deploy: "reliable c \<Longrightarrow> code_of c DETERMINISTIC_DEPLOYER \<noteq> [] \<Longrightarrow>
      code_of c (compute_address E salt initcode) = [] \<Longrightarrow>
      runtime initcode (compute_address E salt initcode) \<noteq> [] \<Longrightarrow>
      \<exists>rc c'. cd_deploy_create2 D salt initcode c = (Inr rc, c') \<and> rc_success rc \<and> reliable c' \<and>
        code_of c' (compute_address E salt initcode) = runtime initcode (compute_address E salt initcode)"

abbreviation permit2_address :: "deploy_env \<Rightarrow> b256 \<Rightarrow> address" where
  "permit2_address E salt \<equiv> compute_address E salt (PERMIT2_INITCODE (de_artifacts E))"

abbreviation permit2_runtime :: "deploy_env \<Rightarrow> u64 \<Rightarrow> address \<Rightarrow> bytes" where
  "permit2_runtime E chain_id a \<equiv> permit2_code (de_artifacts E) (de_keccak E) chain_id a"

definition stored_state :: "deploy_env \<Rightarrow> string \<Rightarrow> 'c dworld \<Rightarrow> deploy_state option" where
  "stored_state E path w = Option.bind (dw_files w path) (\<lambda>txt. ok_option (de_from_json E txt))"

definition permit2_status :: "deploy_state \<Rightarrow> contract_status option" where
  "permit2_status s = map_option cs_status (cts_permit2 (ds_contracts s))"

text \<open>A later state of the same deployment: same salt and intent, and no status goes back.\<close>

definition advances :: "deploy_state \<Rightarrow> deploy_state \<Rightarrow> bool" where
  "advances s s' \<longleftrightarrow> ds_version s' = ds_version s \<and> ds_create2_salt s' = ds_create2_salt s \<and>
     ds_applied_intent s' = ds_applied_intent s \<and> permit2_status s \<le> permit2_status s'"

definition sound_state ::
  "deploy_env \<Rightarrow> ('c \<Rightarrow> address \<Rightarrow> bytes) \<Rightarrow> u64 \<Rightarrow> 'c \<Rightarrow> deploy_state \<Rightarrow> bool" where
  "sound_state E code_of chain_id c s \<longleftrightarrow>
     ds_version s = STATE_VERSION \<and> ai_chain_id (ds_applied_intent s) = chain_id \<and>
     (case cts_permit2 (ds_contracts s) of
        None \<Rightarrow> True
      | Some cs \<Rightarrow> cs_address cs = permit2_address E (ds_create2_salt s) \<and>
          Deployed \<le> cs_status cs \<and> code_of c (cs_address cs) \<noteq> [] \<and>
          (cs_status cs = Verified \<longrightarrow>
             code_of c (cs_address cs) = permit2_runtime E chain_id (cs_address cs)))"

definition deploy_inv ::
  "deploy_env \<Rightarrow> ('c \<Rightarrow> address \<Rightarrow> bytes) \<Rightarrow> u64 \<Rightarrow> string \<Rightarrow> 'c dworld \<Rightarrow> bool" where
  "deploy_inv E code_of chain_id path w \<longleftrightarrow>
     (case dw_files w path of
        None \<Rightarrow> True
      | Some _ \<Rightarrow> \<exists>s. stored_state E path w = Some s \<and> sound_state E code_of chain_id (dw_chain w) s)"

definition deploy_progress ::
  "deploy_env \<Rightarrow> ('c \<Rightarrow> address \<Rightarrow> bytes) \<Rightarrow> u64 \<Rightarrow> string \<Rightarrow> 'c dworld \<Rightarrow> 'c dworld \<Rightarrow> bool" where
  "deploy_progress E code_of chain_id path w w' \<longleftrightarrow>
     code_kept code_of (dw_chain w) (dw_chain w') \<and> deploy_inv E code_of chain_id path w' \<and>
     (\<forall>s. stored_state E path w = Some s \<longrightarrow>
        (\<exists>s'. stored_state E path w' = Some s' \<and> advances s s'))"

text \<open>A configuration whose files do not overlap.\<close>

definition paths_apart :: "pipeline_config \<Rightarrow> bool" where
  "paths_apart pc \<longleftrightarrow> with_extension ''tmp'' (pc_state_path pc) \<noteq> pc_state_path pc \<and>
     pc_addresses_out pc \<noteq> Some (pc_state_path pc)"

lemma code_kept_refl: "code_kept code_of c c"
  by (simp add: code_kept_def)

lemma code_kept_same: "code_of c' = code_of c \<Longrightarrow> code_kept code_of c c'"
  by (simp add: code_kept_def)

lemma code_kept_trans: "code_kept f a b \<Longrightarrow> code_kept f b c \<Longrightarrow> code_kept f a c"
  by (auto simp: code_kept_def)

lemma advances_refl: "advances s s"
  by (simp add: advances_def)

lemma advances_trans: "advances a b \<Longrightarrow> advances b c \<Longrightarrow> advances a c"
  by (auto simp: advances_def)

lemma sound_state_kept:
  "sound_state E code_of i c s \<Longrightarrow> code_kept code_of c c' \<Longrightarrow> sound_state E code_of i c' s"
  by (auto simp: sound_state_def code_kept_def split: option.splits)

lemma progress_trans:
  "deploy_progress E f i p a b \<Longrightarrow> deploy_progress E f i p b c \<Longrightarrow> deploy_progress E f i p a c"
  unfolding deploy_progress_def
  by (intro conjI allI impI; elim conjE) (rule code_kept_trans, assumption+, metis advances_trans)

lemma stored_state_file: "dw_files w' path = dw_files w path \<Longrightarrow> stored_state E path w' = stored_state E path w"
  by (simp add: stored_state_def)

lemma stored_state_Some: "stored_state E path w = Some s \<Longrightarrow> dw_files w path \<noteq> None"
  by (cases "dw_files w path") (simp_all add: stored_state_def)

text \<open>A step that leaves the file alone and keeps deployed code is progress.\<close>

lemma progress_same_file:
  assumes "deploy_inv E f i p w" and "dw_files w' p = dw_files w p" and "code_kept f (dw_chain w) (dw_chain w')"
  shows "deploy_progress E f i p w w'"
proof -
  have "stored_state E p w' = stored_state E p w" by (rule stored_state_file [where path = p, OF assms(2)])
  then show ?thesis
    using assms sound_state_kept [OF _ assms(3)]
    by (auto simp: deploy_progress_def deploy_inv_def advances_refl split: option.splits)
qed

lemma progress_stored:
  assumes "stored_state E p w' = Some s" and "sound_state E f i (dw_chain w') s"
    and "code_kept f (dw_chain w) (dw_chain w')"
    and "\<And>s0. stored_state E p w = Some s0 \<Longrightarrow> advances s0 s"
  shows "deploy_progress E f i p w w'"
  using assms by (auto simp: deploy_progress_def deploy_inv_def split: option.splits)

subsection \<open>The steps of a run\<close>

lemma fs_write_other:
  "fs_write p txt w = (r, w') \<Longrightarrow> q \<noteq> p \<Longrightarrow> dw_files w' q = dw_files w q \<and> dw_chain w' = dw_chain w \<and> dw_stat w' = dw_stat w"
  by (auto simp: fs_write_def Let_def split: io_outcome.splits)

lemma on_chain_files: "on_chain m w = (r, w') \<Longrightarrow> dw_files w' = dw_files w \<and> dw_stat w' = dw_stat w"
  by (auto simp: on_chain_def split: prod.splits)

lemma on_chain_run: "on_chain m w = (r, w') \<Longrightarrow> m (dw_chain w) = (r, dw_chain w')"
  by (auto simp: on_chain_def split: prod.splits)

text \<open>Saving is atomic: the state file holds what it held before or the whole new text.\<close>

lemma save_atomic:
  assumes "with_extension ''tmp'' path \<noteq> path" and "save_deploy_state E s path w = (r, w')"
  shows "dw_chain w' = dw_chain w \<and> dw_stat w' = dw_stat w"
    and "dw_files w' path = dw_files w path \<or> (\<exists>txt. de_to_json E s = Inr txt \<and> dw_files w' path = Some txt)"
    and "r = Inr u \<Longrightarrow> \<exists>txt. de_to_json E s = Inr txt \<and> dw_files w' path = Some txt"
  using assms
  by (auto simp: save_deploy_state_def st_bind_def st_then_def st_simps fs_write_def fs_rename_def Let_def
      split: sum.splits prod.splits io_outcome.splits option.splits if_splits)

context create2_chain
begin

abbreviation "dinv \<equiv> deploy_inv E code_of cid"
abbreviation "progress \<equiv> deploy_progress E code_of cid"
abbreviation "sound \<equiv> sound_state E code_of cid"

lemma save_progress:
  assumes "dinv path w" and "with_extension ''tmp'' path \<noteq> path" and "sound (dw_chain w) s"
    and "\<And>s0. stored_state E path w = Some s0 \<Longrightarrow> advances s0 s"
    and "save_deploy_state E s path w = (r, w')"
  shows "progress path w w'" and "dw_chain w' = dw_chain w" and "dw_stat w' = dw_stat w"
    and "r = Inr u \<Longrightarrow> stored_state E path w' = Some s"
proof -
  note a = save_atomic [OF assms(2,5)]
  show c: "dw_chain w' = dw_chain w" and "dw_stat w' = dw_stat w" using a(1) by blast+
  have st: "stored_state E path w' = Some s"
    if "de_to_json E s = Inr t" "dw_files w' path = Some t" for t
    using that decode_encode [OF that(1)] by (simp add: stored_state_def)
  then show "r = Inr u \<Longrightarrow> stored_state E path w' = Some s" using a(3) by blast
  show "progress path w w'"
  proof (cases "dw_files w' path = dw_files w path")
    case True
    show ?thesis by (rule progress_same_file [OF assms(1) True]) (simp add: c code_kept_refl)
  next
    case False
    then have "stored_state E path w' = Some s" using a(2) st by blast
    then show ?thesis
      by (rule progress_stored) (use assms(3,4) in \<open>simp_all add: c code_kept_refl\<close>)
  qed
qed

lemma chain_step:
  assumes "dinv path w" and "on_chain m w = (r, w')" and "\<And>r c'. m (dw_chain w) = (r, c') \<Longrightarrow> code_kept code_of (dw_chain w) c'"
  shows "progress path w w'" and "stored_state E path w' = stored_state E path w" and "dw_stat w' = dw_stat w"
proof -
  have kept: "code_kept code_of (dw_chain w) (dw_chain w')"
    using assms(2,3) by (auto simp: on_chain_def split: prod.splits)
  have f: "dw_files w' path = dw_files w path" "dw_stat w' = dw_stat w"
    using on_chain_files [OF assms(2)] by simp_all
  show "progress path w w'" by (rule progress_same_file [OF assms(1) f(1) kept])
  show "stored_state E path w' = stored_state E path w" by (rule stored_state_file [where path = path, OF f(1)])
  show "dw_stat w' = dw_stat w" by (rule f(2))
qed

lemma on_chain_get_code:
  assumes "on_chain (cd_get_code D a) w = (r, w')"
  shows "code_of (dw_chain w') = code_of (dw_chain w)" and "r = Inr b \<Longrightarrow> b = code_of (dw_chain w) a"
  using assms get_code_law by (fastforce simp: on_chain_def split: prod.splits)+

lemma on_chain_chain_id:
  assumes "on_chain (cd_chain_id D) w = (r, w')"
  shows "code_of (dw_chain w') = code_of (dw_chain w)" and "r = Inr i \<Longrightarrow> i = cid"
  using assms chain_id_law by (fastforce simp: on_chain_def split: prod.splits)+

lemma get_code_step:
  assumes "dinv path w" and "on_chain (cd_get_code D a) w = (r, w')"
  shows "progress path w w'" and "stored_state E path w' = stored_state E path w" and "dw_stat w' = dw_stat w"
  by (rule chain_step [OF assms], erule code_kept_same [OF conjunct1 [OF get_code_law]])+

lemma chain_id_step:
  assumes "dinv path w" and "on_chain (cd_chain_id D) w = (r, w')"
  shows "progress path w w'" and "stored_state E path w' = stored_state E path w" and "dw_stat w' = dw_stat w"
  by (rule chain_step [OF assms], erule code_kept_same [OF conjunct1 [OF chain_id_law]])+

lemma deploy_step:
  assumes "dinv path w" and "on_chain (cd_deploy_create2 D salt i) w = (r, w')"
  shows "progress path w w'" and "stored_state E path w' = stored_state E path w" and "dw_stat w' = dw_stat w"
  by (rule chain_step [OF assms], erule conjunct1 [OF deploy_law])+

end

context create2_chain
begin

lemma inv_stored: "stored_state E path w = Some s \<Longrightarrow> sound (dw_chain w) s \<Longrightarrow> dinv path w"
  by (auto simp: deploy_inv_def split: option.splits)

lemma progress_stay:
  "stored_state E path w = Some s \<Longrightarrow> sound (dw_chain w) s \<Longrightarrow> progress path w w"
  by (rule progress_same_file) (simp_all add: code_kept_refl inv_stored)

lemma load_or_create_progress:
  assumes "dinv (pc_state_path pc) w" and "paths_apart pc" and "dw_stat w = []"
    and "cfg_chain_id (pc_config pc) = cid" and run: "load_or_create E pc w = (r, w')"
  shows "progress (pc_state_path pc) w w' \<and> dw_stat w' = [] \<and>
    (\<forall>s. r = Inr s \<longrightarrow> stored_state E (pc_state_path pc) w' = Some s \<and> sound (dw_chain w') s)"
proof (cases "dw_files w (pc_state_path pc)")
  case None
  let ?s = "\<lparr> ds_version = STATE_VERSION, ds_create2_salt = dw_entropy w (dw_drawn w),
    ds_applied_intent = intent_from_config (pc_config pc), ds_contracts = \<lparr> cts_permit2 = None \<rparr> \<rparr>"
  let ?w = "w \<lparr> dw_stat := [], dw_drawn := Suc (dw_drawn w) \<rparr>"
  have w: "progress (pc_state_path pc) w ?w"
    by (rule progress_same_file [OF assms(1)]) (simp_all add: code_kept_refl)
  have s: "sound (dw_chain ?w) ?s" using assms(4) by (simp add: sound_state_def intent_from_config_def)
  have none: "stored_state E (pc_state_path pc) ?w = None" using None by (simp add: stored_state_def)
  have tmp: "with_extension ''tmp'' (pc_state_path pc) \<noteq> pc_state_path pc" using assms(2) by (simp add: paths_apart_def)
  obtain r' where save: "save_deploy_state E ?s (pc_state_path pc) ?w = (r', w')"
      and r: "r = map_ok (\<lambda>_. ?s) r'"
    using run None assms(3)
    by (auto simp: load_or_create_def path_exists_def new_deploy_state_def st_bind_def st_then_def st_simps
        split: prod.splits sum.splits)
  have "progress (pc_state_path pc) ?w w'" and "dw_chain w' = dw_chain ?w" and "dw_stat w' = dw_stat ?w"
    and "\<And>u. r' = Inr u \<Longrightarrow> stored_state E (pc_state_path pc) w' = Some ?s"
    using save_progress [OF _ tmp s _ save] w none by (auto simp: deploy_progress_def)
  then show ?thesis using progress_trans [OF w] s by (auto simp: r ok_iff)
next
  case (Some t)
  have "dw_files w' = dw_files w \<and> dw_chain w' = dw_chain w \<and> dw_stat w' = [] \<and>
      (\<forall>s. r = Inr s \<longrightarrow> de_from_json E t = Inr s)"
    using run Some assms(3)
    by (auto simp: load_or_create_def path_exists_def load_deploy_state_def fs_read_def Let_def
        st_bind_def st_then_def st_simps split: prod.splits sum.splits io_outcome.splits)
  moreover from this have "progress (pc_state_path pc) w w'"
    by (intro progress_same_file [OF assms(1)]) (simp_all add: code_kept_refl)
  ultimately show ?thesis using assms(1) Some
    by (auto simp: deploy_inv_def stored_state_def)
qed

lemma mark_deployed_progress:
  assumes "stored_state E path w = Some s" and "sound (dw_chain w) s" and "cts_permit2 (ds_contracts s) = None"
    and "with_extension ''tmp'' path \<noteq> path" and "code_of (dw_chain w) (permit2_address E (ds_create2_salt s)) \<noteq> []"
    and params: "dp_name ps = ''permit2''" "dp_address ps = permit2_address E (ds_create2_salt s)" "dp_state_path ps = path"
    and run: "mark_deployed E s ps tx w = (r, w')"
  shows "progress path w w' \<and> dw_stat w' = dw_stat w \<and>
    (\<forall>s'. r = Inr s' \<longrightarrow> stored_state E path w' = Some s' \<and> sound (dw_chain w') s' \<and> cts_permit2 (ds_contracts s') \<noteq> None)"
proof -
  let ?s = "set_contract_state s ''permit2''
    \<lparr> cs_status = Deployed, cs_address = permit2_address E (ds_create2_salt s), cs_deploy_tx = tx \<rparr>"
  have inv: "dinv path w" by (rule inv_stored [OF assms(1,2)])
  have sound: "sound (dw_chain w) ?s"
    using assms(2,5) by (simp add: sound_state_def set_contract_state_def)
  have adv: "advances s ?s" using assms(3) by (simp add: advances_def set_contract_state_def permit2_status_def)
  obtain r' where save: "save_deploy_state E ?s path w = (r', w')" and r: "r = map_ok (\<lambda>_. ?s) r'"
    using run params
    by (auto simp: mark_deployed_def Let_def st_bind_def st_then_def st_simps split: prod.splits sum.splits)
  have "progress path w w'" "dw_chain w' = dw_chain w" "dw_stat w' = dw_stat w"
    "\<And>u. r' = Inr u \<Longrightarrow> stored_state E path w' = Some ?s"
    using save_progress [OF inv assms(4) sound _ save] adv assms(1) by auto
  then show ?thesis using sound by (auto simp: r ok_iff set_contract_state_def)
qed

text \<open>The transaction of a fresh deployment, and the record of it.\<close>

lemma send_progress:
  assumes stored: "stored_state E path w = Some s" and sound: "sound (dw_chain w) s"
    and None: "cts_permit2 (ds_contracts s) = None" and tmp: "with_extension ''tmp'' path \<noteq> path"
    and params: "dp_name ps = ''permit2''" "dp_address ps = permit2_address E (ds_create2_salt s)" "dp_state_path ps = path"
      "dp_salt ps = ds_create2_salt s" "dp_initcode ps = PERMIT2_INITCODE (de_artifacts E)"
    and run: "st_bind (on_chain (cd_deploy_create2 D (dp_salt ps) (dp_initcode ps))) (\<lambda>receipt.
        st_then (st_lift (ensure (rc_success receipt) (TxReverted (dp_name ps) (rc_tx_hash receipt))))
          (mark_deployed E s ps (Some (rc_tx_hash receipt)))) w = (r, w')"
  shows "progress path w w' \<and> dw_stat w' = dw_stat w \<and>
    (\<forall>s'. r = Inr s' \<longrightarrow> stored_state E path w' = Some s' \<and> sound (dw_chain w') s' \<and> cts_permit2 (ds_contracts s') \<noteq> None)"
  using run
proof (cases rule: st_bindE)
  case (err e)
  then show ?thesis using deploy_step [OF inv_stored [OF stored sound] err(1)] by simp
next
  case (ok rc w1)
  note d = deploy_step [OF inv_stored [OF stored sound] ok(1)]
  show ?thesis
  proof (cases "rc_success rc")
    case False
    then have "r = Inl (TxReverted (dp_name ps) (rc_tx_hash rc))" "w' = w1"
      using ok(2) by (simp_all add: st_simps ensure_def)
    then show ?thesis using d by simp
  next
    case True
    have ne: "code_of (dw_chain w1) (permit2_address E (ds_create2_salt s)) \<noteq> []"
      using deploy_law [OF on_chain_run [OF ok(1), unfolded params(4,5)]] True by blast
    have mark: "mark_deployed E s ps (Some (rc_tx_hash rc)) w1 = (r, w')"
      using ok(2) True by (simp add: st_simps ensure_def)
    have s1: "sound (dw_chain w1) s"
      using sound_state_kept [OF sound] d(1) by (simp add: deploy_progress_def)
    have st1: "stored_state E path w1 = Some s" using d(2) stored by simp
    show ?thesis
      using mark_deployed_progress [OF st1 s1 None tmp ne params(1-3) mark] d(3)
        progress_trans [OF d(1), of w'] by simp
  qed
qed

lemma deploy_contract_progress:
  assumes stored: "stored_state E path w = Some s" and sound: "sound (dw_chain w) s"
    and tmp: "with_extension ''tmp'' path \<noteq> path"
    and params: "dp_name ps = ''permit2''" "dp_address ps = permit2_address E (ds_create2_salt s)" "dp_state_path ps = path"
      "dp_salt ps = ds_create2_salt s" "dp_initcode ps = PERMIT2_INITCODE (de_artifacts E)"
    and run: "deploy_contract E D s ps w = (r, w')"
  shows "progress path w w' \<and> dw_stat w' = dw_stat w \<and>
    (\<forall>s'. r = Inr s' \<longrightarrow> stored_state E path w' = Some s' \<and> sound (dw_chain w') s' \<and> cts_permit2 (ds_contracts s') \<noteq> None)"
proof (cases "cts_permit2 (ds_contracts s)")
  case (Some cs)
  then have "Some Deployed \<le> get_contract_status s ''permit2''"
    using sound by (simp add: sound_state_def get_contract_status_def)
  then have "r = Inr s" "w' = w" using run params by (simp_all add: deploy_contract_def st_simps)
  then show ?thesis using progress_stay [OF stored sound] stored sound Some by simp
next
  case None
  then have "\<not> Some Deployed \<le> get_contract_status s (dp_name ps)" using params(1) by (simp add: get_contract_status_def)
  from run [unfolded deploy_contract_def if_not_P [OF this]] show ?thesis
  proof (cases rule: st_bindE)
    case (err e)
    then show ?thesis using get_code_step [OF inv_stored [OF stored sound] err(1)] by simp
  next
    case (ok b w1)
    note g = get_code_step [OF inv_stored [OF stored sound] ok(1)] on_chain_get_code [OF ok(1)]
    have s1: "sound (dw_chain w1) s" using sound_state_kept [OF sound] g(1) by (simp add: deploy_progress_def)
    have st1: "stored_state E path w1 = Some s" using g(2) stored by simp
    show ?thesis
    proof (cases "b = []")
      case True
      then show ?thesis
        using send_progress [OF st1 s1 None tmp params, of r w'] ok(2) g(3) progress_trans [OF g(1), of w'] by simp
    next
      case False
      then have "code_of (dw_chain w1) (permit2_address E (ds_create2_salt s)) \<noteq> []"
        using g(4) g(5) [of b] params(2) by simp
      note mark = mark_deployed_progress [OF st1 s1 None tmp this params(1-3), of _ r w']
      show ?thesis
        using ok(2) False mark progress_trans [OF g(1), of w'] g(1,3)
        by (cases "b = dp_expected_runtime ps") (auto simp: st_simps)
    qed
  qed
qed

lemma verify_all_progress:
  assumes stored: "stored_state E path w = Some s" and sound: "sound (dw_chain w) s"
    and run: "verify_all E D s cid w = (r, w')"
  shows "progress path w w' \<and> dw_stat w' = dw_stat w \<and> stored_state E path w' = Some s \<and>
    (\<forall>s'. r = Inr s' \<longrightarrow> sound (dw_chain w') s' \<and> advances s s' \<and>
       (cts_permit2 (ds_contracts s) \<noteq> None \<longrightarrow> permit2_status s' = Some Verified))"
proof (cases "permit2_status s = Some Deployed")
  case False
  then have "r = Inr s \<and> w' = w"
    using run by (auto simp: verify_all_def permit2_status_def st_simps split: option.splits)
  moreover have "cts_permit2 (ds_contracts s) \<noteq> None \<longrightarrow> permit2_status s = Some Verified"
    using False sound
    by (auto simp: permit2_status_def sound_state_def Deployed_le split: option.splits)
  ultimately show ?thesis using progress_stay [OF stored sound] stored sound by (simp add: advances_refl)
next
  case True
  then obtain cs where cs: "cts_permit2 (ds_contracts s) = Some cs" "cs_status cs = Deployed"
    by (auto simp: permit2_status_def)
  let ?s = "s \<lparr> ds_contracts := (ds_contracts s) \<lparr> cts_permit2 := Some (cs \<lparr> cs_status := Verified \<rparr>) \<rparr> \<rparr>"
  obtain r1 where get: "on_chain (cd_get_code D (cs_address cs)) w = (r1, w')"
      and r: "\<forall>s'. r = Inr s' \<longrightarrow> s' = ?s \<and> r1 = Inr (permit2_runtime E cid (cs_address cs))"
    using run cs
    by (auto simp: verify_all_def st_bind_def st_then_def st_simps ensure_def permit2_codeI
        split: prod.splits sum.splits if_splits)
  note g = get_code_step [OF inv_stored [OF stored sound] get] on_chain_get_code [OF get]
  have adv: "advances s ?s"
    using cs by (simp add: advances_def permit2_status_def less_eq_contract_status_def)
  have "sound (dw_chain w') ?s" if "r = Inr s'" for s'
    using r that g(4) g(5) [of "permit2_runtime E cid (cs_address cs)"] sound cs
    by (auto simp: sound_state_def Deployed_le)
  then show ?thesis using g(1-3) stored r adv cs by (auto simp: permit2_status_def)
qed

end

subsection \<open>Whole runs\<close>

context create2_chain
begin

lemma deploy_permit2_progress:
  assumes stored: "stored_state E (pc_state_path pc) w = Some s" and sound: "sound (dw_chain w) s"
    and apart: "paths_apart pc" and run: "deploy_permit2 E D pc cid s w = (r, w')"
  shows "progress (pc_state_path pc) w w' \<and> dw_stat w' = dw_stat w \<and>
    (\<forall>s'. r = Inr s' \<longrightarrow> stored_state E (pc_state_path pc) w' = Some s' \<and> sound (dw_chain w') s' \<and>
       (cfg_permit2 (pc_config pc) \<noteq> None \<longrightarrow> cts_permit2 (ds_contracts s') \<noteq> None))"
proof -
  note stay = progress_stay [OF stored sound]
  have tmp: "with_extension ''tmp'' (pc_state_path pc) \<noteq> pc_state_path pc" using apart by (simp add: paths_apart_def)
  show ?thesis
  proof (cases "cfg_permit2 (pc_config pc)")
    case None
    then show ?thesis using run stay stored sound by (auto simp: deploy_permit2_def st_simps)
  next
    case (Some p2)
    from run [unfolded deploy_permit2_def Let_def Some option.case] show ?thesis
    proof (cases rule: st_bindE)
      case (err e)
      then show ?thesis using stay by (simp add: st_simps)
    next
      case (ok code w1)
      then have w1: "w1 = w" by (simp add: st_simps)
      show ?thesis
        using deploy_contract_progress [OF stored sound tmp _ _ _ _ _ ok(2) [unfolded w1]] by simp
    qed
  qed
qed

lemma manifest_progress:
  assumes "stored_state E (pc_state_path pc) w = Some s" and "sound (dw_chain w) s" and "paths_apart pc"
    and run: "write_manifest E pc s w = (r, w')"
  shows "progress (pc_state_path pc) w w' \<and> dw_stat w' = dw_stat w \<and>
    stored_state E (pc_state_path pc) w' = Some s"
proof -
  have same: "dw_files w' (pc_state_path pc) = dw_files w (pc_state_path pc) \<and> dw_chain w' = dw_chain w \<and>
      dw_stat w' = dw_stat w"
  proof (cases "pc_addresses_out pc")
    case None
    then show ?thesis using run by (simp add: write_manifest_def st_simps)
  next
    case (Some out)
    then have out: "pc_state_path pc \<noteq> out" using assms(3) by (auto simp: paths_apart_def)
    from run [unfolded write_manifest_def Some option.case] show ?thesis
      by (cases rule: st_bindE) (use fs_write_other [OF _ out] in \<open>auto simp: st_simps\<close>)
  qed
  then have "progress (pc_state_path pc) w w'"
    by (intro progress_same_file [OF inv_stored [OF assms(1,2)]]) (simp_all add: code_kept_refl)
  then show ?thesis using same assms(1) by (simp add: stored_state_def)
qed

text \<open>
  Triples: from a world with the precondition, the step makes progress, and where it returns \<open>Ok\<close>
  the postcondition holds of the answer and the world after it.
\<close>

definition step_triple where
  "step_triple path P m Q \<longleftrightarrow>
     (\<forall>w r w'. P w \<longrightarrow> m w = (r, w') \<longrightarrow> progress path w w' \<and> (\<forall>a. r = Inr a \<longrightarrow> Q a w'))"

lemma triple_bind:
  "step_triple path P m Q \<Longrightarrow> (\<And>a. step_triple path (Q a) (f a) R) \<Longrightarrow> step_triple path P (st_bind m f) R"
  unfolding step_triple_def by (blast elim: st_bindE intro: progress_trans)

lemma triple_then:
  "step_triple path P m (\<lambda>_. Q) \<Longrightarrow> step_triple path Q k R \<Longrightarrow> step_triple path P (st_then m k) R"
  unfolding st_then_def by (rule triple_bind)

lemma triple_lift:
  "(\<And>w. P w \<Longrightarrow> dinv path w) \<Longrightarrow> step_triple path P (st_lift x) (\<lambda>a w. P w \<and> x = Inr a)"
  unfolding step_triple_def by (auto simp: st_simps code_kept_refl intro!: progress_same_file)

lemma triple_pure: "(b \<Longrightarrow> step_triple path P m Q) \<Longrightarrow> step_triple path (\<lambda>w. P w \<and> b) m Q"
  unfolding step_triple_def by blast

lemma tripleI:
  assumes "\<And>w r w'. P w \<Longrightarrow> m w = (r, w') \<Longrightarrow> progress path w w' \<and> (\<forall>a. r = Inr a \<longrightarrow> Q a w')"
  shows "step_triple path P m Q"
  unfolding step_triple_def using assms by blast

lemma triple_weaken:
  "step_triple path P m Q \<Longrightarrow> (\<And>w. P' w \<Longrightarrow> P w) \<Longrightarrow> (\<And>a w. Q a w \<Longrightarrow> Q' a w) \<Longrightarrow> step_triple path P' m Q'"
  unfolding step_triple_def by blast

definition ready where
  "ready path w \<longleftrightarrow> dinv path w \<and> dw_stat w = []"

definition synced where
  "synced path s w \<longleftrightarrow> stored_state E path w = Some s \<and> sound (dw_chain w) s"

lemma progress_inv: "progress path w w' \<Longrightarrow> dinv path w'"
  by (simp add: deploy_progress_def)

lemma synced_inv: "synced path s w \<Longrightarrow> dinv path w"
  by (auto simp: synced_def intro: inv_stored)

lemma triple_chain_id:
  "step_triple path (ready path) (on_chain (cd_chain_id D)) (\<lambda>i w. ready path w \<and> i = cid)"
  unfolding step_triple_def ready_def
  using chain_id_step on_chain_chain_id(2) progress_inv by (metis (no_types))

lemma triple_get_code:
  "step_triple path (ready path) (on_chain (cd_get_code D a)) (\<lambda>_. ready path)"
  unfolding step_triple_def ready_def using get_code_step progress_inv by (metis (no_types))

lemma triple_load:
  assumes "paths_apart pc" and "cfg_chain_id (pc_config pc) = cid"
  shows "step_triple (pc_state_path pc) (ready (pc_state_path pc)) (load_or_create E pc) (synced (pc_state_path pc))"
proof (rule tripleI)
  fix w r w'
  assume "ready (pc_state_path pc) w" "load_or_create E pc w = (r, w')"
  then show "progress (pc_state_path pc) w w' \<and> (\<forall>a. r = Inr a \<longrightarrow> synced (pc_state_path pc) a w')"
    using load_or_create_progress [OF _ assms(1) _ assms(2), of w r w'] unfolding ready_def synced_def by blast
qed

lemma triple_deploy:
  assumes "paths_apart pc"
  shows "step_triple (pc_state_path pc) (synced (pc_state_path pc) s) (deploy_permit2 E D pc cid s)
     (\<lambda>s' w. synced (pc_state_path pc) s' w \<and>
        (cfg_permit2 (pc_config pc) \<noteq> None \<longrightarrow> cts_permit2 (ds_contracts s') \<noteq> None))"
  by (rule tripleI) (use deploy_permit2_progress [OF _ _ assms] in \<open>unfold synced_def, blast\<close>)

definition verified where
  "verified path s s' w \<longleftrightarrow> synced path s w \<and> sound (dw_chain w) s' \<and> advances s s'"

lemma synced_progress:
  "synced path s w \<Longrightarrow> progress path w w' \<Longrightarrow> stored_state E path w' = Some s \<Longrightarrow> synced path s w'"
  unfolding synced_def deploy_progress_def by (auto intro: sound_state_kept)

lemma triple_verify:
  "step_triple path (synced path s) (verify_all E D s cid)
     (\<lambda>s' w. verified path s s' w \<and>
        (cts_permit2 (ds_contracts s) \<noteq> None \<longrightarrow> permit2_status s' = Some Verified))"
proof (rule tripleI)
  fix w r w'
  assume w: "synced path s w" and run: "verify_all E D s cid w = (r, w')"
  note v = verify_all_progress [OF _ _ run, of path]
  have "progress path w w'" "stored_state E path w' = Some s" using v w by (simp_all add: synced_def)
  then show "progress path w w' \<and> (\<forall>a. r = Inr a \<longrightarrow> verified path s a w' \<and>
      (cts_permit2 (ds_contracts s) \<noteq> None \<longrightarrow> permit2_status a = Some Verified))"
    using v w synced_progress [OF w] unfolding verified_def by (simp add: synced_def)
qed

lemma triple_save:
  assumes "with_extension ''tmp'' path \<noteq> path"
  shows "step_triple path (verified path s s') (save_deploy_state E s' path) (\<lambda>_. synced path s')"
proof (rule tripleI)
  fix w r w'
  assume w: "verified path s s' w" and run: "save_deploy_state E s' path w = (r, w')"
  have "dinv path w" "sound (dw_chain w) s'" "\<And>s0. stored_state E path w = Some s0 \<Longrightarrow> advances s0 s'"
    using w synced_inv by (auto simp: verified_def synced_def)
  note sv = save_progress [OF this(1) assms this(2,3) run]
  show "progress path w w' \<and> (\<forall>a. r = Inr a \<longrightarrow> synced path s' w')"
    using sv(1,2,4) w by (simp add: verified_def synced_def)
qed

lemma triple_manifest:
  assumes "paths_apart pc"
  shows "step_triple (pc_state_path pc) (synced (pc_state_path pc) s) (write_manifest E pc s) (\<lambda>_. synced (pc_state_path pc) s)"
  by (rule tripleI) (use manifest_progress [OF _ _ assms] synced_progress in \<open>unfold synced_def, blast\<close>)

lemma triple_run:
  assumes apart: "paths_apart pc"
  defines "path \<equiv> pc_state_path pc"
  shows "step_triple path (ready path) (pipeline_run E D pc)
    (\<lambda>_ w. \<exists>s. synced path s w \<and> (cfg_permit2 (pc_config pc) \<noteq> None \<longrightarrow> permit2_status s = Some Verified))"
proof -
  let ?wants = "cfg_permit2 (pc_config pc) \<noteq> None"
  have tmp: "with_extension ''tmp'' path \<noteq> path" using apart by (simp add: paths_apart_def path_def)
  have lift: "step_triple path (ready path) (st_lift x) (\<lambda>_ w. ready path w \<and> is_ok x)" for x :: "deploy_error + unit"
    by (rule triple_weaken [OF triple_lift [where P = "ready path"]]) (auto simp: ready_def)
  have tail: "step_triple path (\<lambda>w. verified path s s' w \<and> (?wants \<longrightarrow> permit2_status s' = Some Verified))
      (st_then (save_deploy_state E s' path) (write_manifest E pc s'))
      (\<lambda>_ w. \<exists>s. synced path s w \<and> (?wants \<longrightarrow> permit2_status s = Some Verified))" for s s'
    by (rule triple_pure, rule triple_then [OF triple_save [OF tmp]],
        rule triple_weaken [OF triple_manifest [OF apart, folded path_def]]) auto
  have fin: "step_triple path (\<lambda>w. synced path s w \<and> (?wants \<longrightarrow> cts_permit2 (ds_contracts s) \<noteq> None))
      (st_bind (verify_all E D s cid) (\<lambda>s'. st_then (save_deploy_state E s' path) (write_manifest E pc s')))
      (\<lambda>_ w. \<exists>s. synced path s w \<and> (?wants \<longrightarrow> permit2_status s = Some Verified))" for s
    by (rule triple_pure, rule triple_bind [OF _ tail [of s]], rule triple_weaken [OF triple_verify]) auto
  have "step_triple path (\<lambda>w. ready path w \<and> i = cid)
      (st_then (st_lift (ensure (i = cfg_chain_id (pc_config pc)) (ChainIdMismatch (cfg_chain_id (pc_config pc)) i)))
      (st_bind (on_chain (cd_get_code D DETERMINISTIC_DEPLOYER)) (\<lambda>code.
       st_then (st_lift (ensure (code \<noteq> []) DeterministicDeployerNotFound))
      (st_bind (load_or_create E pc) (\<lambda>s. st_bind (deploy_permit2 E D pc i s) (\<lambda>s. st_bind (verify_all E D s i)
       (\<lambda>s. st_then (save_deploy_state E s path) (write_manifest E pc s))))))))
      (\<lambda>_ w. \<exists>s. synced path s w \<and> (?wants \<longrightarrow> permit2_status s = Some Verified))" for i
  proof (rule triple_pure, rule triple_then [OF lift], rule triple_pure, rule triple_bind [OF triple_get_code],
      rule triple_then [OF lift], rule triple_pure)
    assume "i = cid" "is_ok (ensure (i = cfg_chain_id (pc_config pc)) (ChainIdMismatch (cfg_chain_id (pc_config pc)) i))"
    then have i: "i = cid" "cfg_chain_id (pc_config pc) = cid" by (auto simp: ok_iff)
    show "step_triple path (ready path) (st_bind (load_or_create E pc) (\<lambda>s. st_bind (deploy_permit2 E D pc i s)
       (\<lambda>s. st_bind (verify_all E D s i) (\<lambda>s. st_then (save_deploy_state E s path) (write_manifest E pc s)))))
      (\<lambda>_ w. \<exists>s. synced path s w \<and> (?wants \<longrightarrow> permit2_status s = Some Verified))"
      unfolding i(1)
      by (rule triple_bind [OF triple_load [OF apart i(2), folded path_def]
            triple_bind [OF triple_deploy [OF apart, folded path_def] fin]])
  qed
  then show ?thesis unfolding pipeline_run_def path_def by (rule triple_bind [OF triple_chain_id])
qed

end

subsection \<open>Runs without faults complete\<close>

definition total_triple :: "('s \<Rightarrow> bool) \<Rightarrow> ('s, 'e, 'a) st \<Rightarrow> ('a \<Rightarrow> 's \<Rightarrow> bool) \<Rightarrow> bool" where
  "total_triple P m Q \<longleftrightarrow> (\<forall>w. P w \<longrightarrow> (\<exists>a w'. m w = (Inr a, w') \<and> Q a w'))"

lemma total_bind:
  "total_triple P m Q \<Longrightarrow> (\<And>a. total_triple (Q a) (f a) R) \<Longrightarrow> total_triple P (st_bind m f) R"
  unfolding total_triple_def by (fastforce simp: st_simps)

lemma total_then:
  "total_triple P m (\<lambda>_. Q) \<Longrightarrow> total_triple Q k R \<Longrightarrow> total_triple P (st_then m k) R"
  unfolding st_then_def by (rule total_bind)

lemma total_lift: "x = Inr a \<Longrightarrow> total_triple P (st_lift x) (\<lambda>b w. P w \<and> b = a)"
  by (simp add: total_triple_def st_simps)

lemma total_pure: "(b \<Longrightarrow> total_triple P m Q) \<Longrightarrow> total_triple (\<lambda>w. P w \<and> b) m Q"
  unfolding total_triple_def by blast

lemma total_weaken:
  "total_triple P m Q \<Longrightarrow> (\<And>w. P' w \<Longrightarrow> P w) \<Longrightarrow> (\<And>a w. Q a w \<Longrightarrow> Q' a w) \<Longrightarrow> total_triple P' m Q'"
  unfolding total_triple_def by blast

text \<open>The salt the next run uses: the recorded one, else the next draw.\<close>

definition next_salt :: "deploy_env \<Rightarrow> string \<Rightarrow> 'c dworld \<Rightarrow> b256" where
  "next_salt E path w = (case stored_state E path w of Some s \<Rightarrow> ds_create2_salt s | None \<Rightarrow> dw_entropy w (dw_drawn w))"

lemma next_salt_chain [simp]: "next_salt E path (w \<lparr> dw_chain := c \<rparr>) = next_salt E path w"
  by (simp add: next_salt_def stored_state_def cong: option.case_cong)

context create2_chain
begin

text \<open>No fault to come, the factory in place, and nothing foreign at the address of the deployment.\<close>

definition live :: "b256 \<Rightarrow> 'c dworld \<Rightarrow> bool" where
  "live salt w \<longleftrightarrow> reliable (dw_chain w) \<and> dw_io w = [] \<and> code_of (dw_chain w) DETERMINISTIC_DEPLOYER \<noteq> [] \<and>
     code_of (dw_chain w) (permit2_address E salt) \<in> {[], permit2_runtime E cid (permit2_address E salt)}"

lemma save_completes:
  "live salt w \<Longrightarrow> \<exists>w'. save_deploy_state E s path w = (Inr (), w') \<and> live salt w' \<and> dw_chain w' = dw_chain w"
  using encode_total [of s]
  by (auto simp: save_deploy_state_def st_simps fs_write_def fs_rename_def Let_def live_def st_bind_def st_then_def)

lemma total_get_code:
  "total_triple (\<lambda>w. ready path w \<and> live salt w \<and> next_salt E path w = salt) (on_chain (cd_get_code D a))
     (\<lambda>b w. (ready path w \<and> live salt w \<and> next_salt E path w = salt) \<and> b = code_of (dw_chain w) a)"
  unfolding total_triple_def
proof (intro allI impI)
  fix w
  assume w: "ready path w \<and> live salt w \<and> next_salt E path w = salt"
  obtain c where c: "cd_get_code D a (dw_chain w) = (Inr (code_of (dw_chain w) a), c)" "reliable c"
    using reliable_get_code w by (auto simp: live_def)
  then have run: "on_chain (cd_get_code D a) w = (Inr (code_of (dw_chain w) a), w \<lparr> dw_chain := c \<rparr>)"
    by (simp add: on_chain_def)
  have "code_of c = code_of (dw_chain w)" using get_code_law [OF c(1)] by simp
  moreover have "ready path (w \<lparr> dw_chain := c \<rparr>)" using triple_get_code run w unfolding step_triple_def by blast
  ultimately show "\<exists>b w'. on_chain (cd_get_code D a) w = (Inr b, w') \<and>
      (ready path w' \<and> live salt w' \<and> next_salt E path w' = salt) \<and> b = code_of (dw_chain w') a"
    using run w c(2) by (simp add: live_def)
qed

lemma total_chain_id:
  "total_triple (\<lambda>w. ready path w \<and> live salt w \<and> next_salt E path w = salt) (on_chain (cd_chain_id D))
     (\<lambda>i w. (ready path w \<and> live salt w \<and> next_salt E path w = salt) \<and> i = cid)"
  unfolding total_triple_def
proof (intro allI impI)
  fix w
  assume w: "ready path w \<and> live salt w \<and> next_salt E path w = salt"
  obtain c where c: "cd_chain_id D (dw_chain w) = (Inr cid, c)" "reliable c"
    using reliable_chain_id w by (auto simp: live_def)
  then have run: "on_chain (cd_chain_id D) w = (Inr cid, w \<lparr> dw_chain := c \<rparr>)" by (simp add: on_chain_def)
  have "code_of c = code_of (dw_chain w)" using chain_id_law [OF c(1)] by simp
  moreover have "ready path (w \<lparr> dw_chain := c \<rparr>)" using triple_chain_id run w unfolding step_triple_def by blast
  ultimately show "\<exists>i w'. on_chain (cd_chain_id D) w = (Inr i, w') \<and>
      (ready path w' \<and> live salt w' \<and> next_salt E path w' = salt) \<and> i = cid"
    using run w c(2) by (simp add: live_def)
qed

definition underway where
  "underway path salt s w \<longleftrightarrow> synced path s w \<and> live salt w \<and> ds_create2_salt s = salt"

lemma total_load:
  assumes apart: "paths_apart pc" and "cfg_chain_id (pc_config pc) = cid" and "cfg_permit2 (pc_config pc) \<noteq> None"
  defines "path \<equiv> pc_state_path pc"
  shows "total_triple (\<lambda>w. ready path w \<and> live salt w \<and> next_salt E path w = salt) (load_or_create E pc)
    (underway path salt)"
  unfolding total_triple_def
proof (intro allI impI)
  fix w
  assume w: "ready path w \<and> live salt w \<and> next_salt E path w = salt"
  have "\<exists>s w'. load_or_create E pc w = (Inr s, w') \<and> live salt w' \<and> ds_create2_salt s = salt"
  proof (cases "dw_files w path")
    case None
    let ?s = "\<lparr> ds_version = STATE_VERSION, ds_create2_salt = dw_entropy w (dw_drawn w),
      ds_applied_intent = intent_from_config (pc_config pc), ds_contracts = \<lparr> cts_permit2 = None \<rparr> \<rparr>"
    have "live salt (w \<lparr> dw_stat := [], dw_drawn := Suc (dw_drawn w) \<rparr>)" using w by (simp add: live_def)
    from save_completes [OF this, of ?s path] show ?thesis
      using w None
      by (auto simp: load_or_create_def path_exists_def new_deploy_state_def st_bind_def st_then_def st_simps
          ready_def next_salt_def stored_state_def path_def)
  next
    case (Some t)
    then obtain s where s: "stored_state E path w = Some s" "sound (dw_chain w) s"
      using w by (auto simp: ready_def deploy_inv_def)
    then have "de_from_json E t = Inr s" using Some by (simp add: stored_state_def ok_iff)
    then have "load_or_create E pc w = (Inr s, w \<lparr> dw_stat := [], dw_io := [] \<rparr>)"
      using w Some s(2) assms(2,3)
      by (auto simp: load_or_create_def path_exists_def load_deploy_state_def fs_read_def st_bind_def st_then_def
          st_simps ready_def live_def path_def sound_state_def validate_immutability_def ensure_def Let_def)
    then show ?thesis using w s(1) by (auto simp: live_def next_salt_def)
  qed
  then show "\<exists>s w'. load_or_create E pc w = (Inr s, w') \<and> underway path salt s w'"
    using triple_load [OF apart assms(2)] w unfolding step_triple_def underway_def path_def by blast
qed

end

context create2_chain
begin

text \<open>The code of the deployment is in place.\<close>

definition landed :: "b256 \<Rightarrow> 'c dworld \<Rightarrow> bool" where
  "landed salt w \<longleftrightarrow> code_of (dw_chain w) (permit2_address E salt) = permit2_runtime E cid (permit2_address E salt)"

lemma mark_completes:
  "live salt w \<Longrightarrow> landed salt w \<Longrightarrow>
    \<exists>s' w'. mark_deployed E s ps tx w = (Inr s', w') \<and> live salt w' \<and> landed salt w' \<and>
      (dp_name ps = ''permit2'' \<longrightarrow> ds_create2_salt s' = ds_create2_salt s)"
  using save_completes [of salt w "set_contract_state s (dp_name ps)
      \<lparr> cs_status = Deployed, cs_address = dp_address ps, cs_deploy_tx = tx \<rparr>" "dp_state_path ps"]
  by (auto simp: mark_deployed_def Let_def st_simps st_then_def st_bind_def landed_def set_contract_state_def)

lemma deploy_completes:
  assumes w: "live salt w" and s: "cts_permit2 (ds_contracts s) = None" "ds_create2_salt s = salt"
    and params: "dp_name ps = ''permit2''" "dp_address ps = permit2_address E salt" "dp_salt ps = salt"
      "dp_initcode ps = PERMIT2_INITCODE (de_artifacts E)"
      "dp_expected_runtime ps = permit2_runtime E cid (permit2_address E salt)"
    and runtime: "runtime (PERMIT2_INITCODE (de_artifacts E)) (permit2_address E salt) = permit2_runtime E cid (permit2_address E salt)"
      "permit2_runtime E cid (permit2_address E salt) \<noteq> []"
  shows "\<exists>s' w'. deploy_contract E D s ps w = (Inr s', w') \<and> live salt w' \<and> landed salt w' \<and> ds_create2_salt s' = salt"
proof -
  let ?a = "permit2_address E salt"
  obtain c where c: "cd_get_code D ?a (dw_chain w) = (Inr (code_of (dw_chain w) ?a), c)" "reliable c"
    using reliable_get_code w by (auto simp: live_def)
  have same: "code_of c = code_of (dw_chain w)" using get_code_law [OF c(1)] by simp
  let ?w = "w \<lparr> dw_chain := c \<rparr>"
  have w1: "live salt ?w" using w c(2) same by (simp add: live_def)
  have unfold: "deploy_contract E D s ps w = (if code_of c ?a \<noteq> [] then
      (if code_of c ?a = permit2_runtime E cid ?a then mark_deployed E s ps None ?w
       else st_fail (UnexpectedBytecode ?a (length (permit2_runtime E cid ?a)) (length (code_of c ?a))) ?w)
    else st_bind (on_chain (cd_deploy_create2 D salt (PERMIT2_INITCODE (de_artifacts E)))) (\<lambda>receipt.
      st_then (st_lift (ensure (rc_success receipt) (TxReverted (dp_name ps) (rc_tx_hash receipt))))
        (mark_deployed E s ps (Some (rc_tx_hash receipt)))) ?w)"
    using s(1) c(1) params same
    by (simp add: deploy_contract_def get_contract_status_def on_chain_def st_bind_run [where s = w])
  show ?thesis
  proof (cases "code_of c ?a = []")
    case False
    then have "landed salt ?w" using w1 by (auto simp: live_def landed_def)
    then show ?thesis using mark_completes [OF w1, of s ps None] False s(2) params(1)
      by (auto simp: unfold landed_def)
  next
    case True
    then obtain rc c2 where d: "cd_deploy_create2 D salt (PERMIT2_INITCODE (de_artifacts E)) c = (Inr rc, c2)" "rc_success rc"
        "reliable c2" "code_of c2 ?a = permit2_runtime E cid ?a"
      using reliable_deploy [OF c(2) _ True] w1 runtime by (auto simp: live_def)
    let ?w2 = "w \<lparr> dw_chain := c2 \<rparr>"
    have kept: "code_kept code_of c c2" using deploy_law [OF d(1)] by blast
    have live2: "live salt ?w2" and landed2: "landed salt ?w2"
      using w1 d(3,4) kept by (auto simp: live_def landed_def code_kept_def)
    then show ?thesis using mark_completes [OF live2 landed2, of s ps "Some (rc_tx_hash rc)"] True d(1,2) s(2) params(1)
      by (auto simp: unfold on_chain_def st_simps ensure_def st_bind_def st_then_def)
  qed
qed

lemma total_deploy:
  assumes apart: "paths_apart pc" and wants: "cfg_permit2 (pc_config pc) \<noteq> None"
    and len: "7015 \<le> length (PERMIT2_BYTECODE (de_artifacts E))"
    and runtime: "runtime (PERMIT2_INITCODE (de_artifacts E)) (permit2_address E salt) = permit2_runtime E cid (permit2_address E salt)"
  defines "path \<equiv> pc_state_path pc"
  shows "total_triple (underway path salt s) (deploy_permit2 E D pc cid s)
    (\<lambda>s' w. underway path salt s' w \<and> landed salt w)"
  unfolding total_triple_def
proof (intro allI impI)
  fix w
  assume w: "underway path salt s w"
  let ?a = "permit2_address E salt"
  have code: "expected_runtime_bytecode (de_artifacts E) (de_keccak E) cid ?a = Inr (permit2_runtime E cid ?a)"
    by (rule expected_runtime_code [OF len])
  have ne: "permit2_runtime E cid ?a \<noteq> []" using expected_runtime [OF len] code len by (metis list.size(3) not_numeral_le_zero sum.inject(2))
  let ?ps = "\<lparr> dp_name = ''permit2'', dp_address = ?a, dp_salt = salt, dp_initcode = PERMIT2_INITCODE (de_artifacts E),
      dp_expected_runtime = permit2_runtime E cid ?a, dp_state_path = path \<rparr>"
  have run: "deploy_permit2 E D pc cid s w = deploy_contract E D s ?ps w"
    using wants w code by (auto simp: deploy_permit2_def underway_def st_simps st_bind_def path_def Let_def)
  have "\<exists>s' w'. deploy_contract E D s ?ps w = (Inr s', w') \<and> live salt w' \<and> landed salt w' \<and> ds_create2_salt s' = salt"
  proof (cases "cts_permit2 (ds_contracts s)")
    case None
    then show ?thesis using deploy_completes [of salt w s ?ps] w runtime ne by (simp add: underway_def)
  next
    case (Some cs)
    then have "Some Deployed \<le> get_contract_status s ''permit2''" "landed salt w"
      using w by (auto simp: underway_def synced_def sound_state_def get_contract_status_def live_def landed_def)
    then show ?thesis using w by (simp add: deploy_contract_def st_simps underway_def)
  qed
  then show "\<exists>s' w'. deploy_permit2 E D pc cid s w = (Inr s', w') \<and> underway path salt s' w' \<and> landed salt w'"
    using triple_deploy [OF apart] w run unfolding step_triple_def underway_def path_def by metis
qed

lemma total_verify:
  assumes len: "7015 \<le> length (PERMIT2_BYTECODE (de_artifacts E))"
  shows "total_triple (\<lambda>w. underway path salt s w \<and> landed salt w) (verify_all E D s cid)
    (\<lambda>s' w. verified path s s' w \<and> live salt w)"
  unfolding total_triple_def
proof (intro allI impI)
  fix w
  assume w: "underway path salt s w \<and> landed salt w"
  let ?a = "permit2_address E salt"
  have code: "expected_runtime_bytecode (de_artifacts E) (de_keccak E) cid ?a = Inr (permit2_runtime E cid ?a)"
    by (rule expected_runtime_code [OF len])
  obtain c where c: "cd_get_code D ?a (dw_chain w) = (Inr (code_of (dw_chain w) ?a), c)" "reliable c"
    using reliable_get_code w by (auto simp: live_def underway_def)
  have same: "code_of c = code_of (dw_chain w)" using get_code_law [OF c(1)] by simp
  have "\<exists>s' w'. verify_all E D s cid w = (Inr s', w') \<and> live salt w'"
  proof (cases "cts_permit2 (ds_contracts s)")
    case None
    then show ?thesis using w by (simp add: verify_all_def st_simps underway_def)
  next
    case (Some cs)
    then have "cs_address cs = ?a" using w by (auto simp: underway_def synced_def sound_state_def)
    then show ?thesis using w Some c code same
      by (auto simp: verify_all_def st_simps underway_def live_def landed_def on_chain_def st_bind_def st_then_def ensure_def)
  qed
  then show "\<exists>s' w'. verify_all E D s cid w = (Inr s', w') \<and> verified path s s' w' \<and> live salt w'"
    using triple_verify w unfolding step_triple_def underway_def by blast
qed

lemma total_finish:
  assumes "pc_addresses_out pc \<noteq> None \<longrightarrow> (\<forall>j. \<exists>t. de_json_pretty E j = Inr t)"
  shows "total_triple (live salt) (st_then (save_deploy_state E s path) (write_manifest E pc s)) (\<lambda>_ _. True)"
  unfolding total_triple_def
proof (intro allI impI)
  fix w
  assume "live salt w"
  then obtain w' where w': "save_deploy_state E s path w = (Inr (), w')" "live salt w'" using save_completes by blast
  moreover have "\<exists>w''. write_manifest E pc s w' = (Inr (), w'')"
  proof (cases "pc_addresses_out pc")
    case None
    then show ?thesis by (simp add: write_manifest_def st_simps)
  next
    case (Some out)
    then obtain t where "de_json_pretty E (build_deploy_manifest E s) = Inr t" using assms by blast
    then show ?thesis using Some w'(2) by (simp add: write_manifest_def st_simps st_bind_def fs_write_def live_def Let_def)
  qed
  ultimately show "\<exists>a w'. st_then (save_deploy_state E s path) (write_manifest E pc s) w = (Inr a, w') \<and> True"
    by (auto simp: st_simps)
qed

lemma run_completes:
  assumes apart: "paths_apart pc" and cfg: "cfg_chain_id (pc_config pc) = cid" "cfg_permit2 (pc_config pc) \<noteq> None"
    and len: "7015 \<le> length (PERMIT2_BYTECODE (de_artifacts E))"
    and runtime: "runtime (PERMIT2_INITCODE (de_artifacts E)) (permit2_address E salt) = permit2_runtime E cid (permit2_address E salt)"
    and pretty: "pc_addresses_out pc \<noteq> None \<longrightarrow> (\<forall>j. \<exists>t. de_json_pretty E j = Inr t)"
  defines "path \<equiv> pc_state_path pc"
  shows "total_triple (\<lambda>w. ready path w \<and> live salt w \<and> next_salt E path w = salt) (pipeline_run E D pc) (\<lambda>_ _. True)"
proof -
  let ?G = "\<lambda>w. ready path w \<and> live salt w \<and> next_salt E path w = salt"
  have fin: "total_triple (\<lambda>w. underway path salt s w \<and> landed salt w) (st_bind (verify_all E D s cid) (\<lambda>s'.
      st_then (save_deploy_state E s' path) (write_manifest E pc s'))) (\<lambda>_ _. True)" for s
    by (rule total_bind [OF total_verify [OF len] total_weaken [OF total_finish [OF pretty]]]) auto
  have load: "total_triple ?G (st_bind (load_or_create E pc) (\<lambda>s. st_bind (deploy_permit2 E D pc cid s)
      (\<lambda>s. st_bind (verify_all E D s cid) (\<lambda>s. st_then (save_deploy_state E s path) (write_manifest E pc s)))))
      (\<lambda>_ _. True)"
    using total_bind [OF total_load [OF apart cfg] total_bind [OF total_deploy [OF apart cfg(2) len runtime] fin [unfolded path_def]]]
    by (simp add: path_def)
  have check: "total_triple (\<lambda>w. ?G w \<and> b) (st_lift (ensure b e)) (\<lambda>_. ?G)" for b and e :: deploy_error
    by (rule total_pure) (simp add: total_triple_def st_simps ensure_def)
  have factory: "total_triple ?G (on_chain (cd_get_code D DETERMINISTIC_DEPLOYER)) (\<lambda>b w. ?G w \<and> b \<noteq> [])"
    by (rule total_weaken [OF total_get_code]) (auto simp: live_def)
  have chain_id: "total_triple ?G (on_chain (cd_chain_id D)) (\<lambda>i w. (?G w \<and> i = cfg_chain_id (pc_config pc)) \<and> i = cid)"
    by (rule total_weaken [OF total_chain_id]) (auto simp: cfg(1))
  show ?thesis
    unfolding pipeline_run_def
  proof (rule total_bind [OF chain_id], rule total_pure, rule total_then [OF check], rule total_bind [OF factory],
      rule total_then [OF check])
    fix i b
    assume "i = cid"
    then show "total_triple ?G (st_bind (load_or_create E pc) (\<lambda>s. st_bind (deploy_permit2 E D pc i s)
      (\<lambda>s. st_bind (verify_all E D s i) (\<lambda>s. st_then (save_deploy_state E s (pc_state_path pc)) (write_manifest E pc s)))))
      (\<lambda>_ _. True)" using load by (simp add: path_def)
  qed
qed

end

subsection \<open>Nothing is deployed twice\<close>

lemma st_bind_cong: "(\<And>a w'. m w = (Inr a, w') \<Longrightarrow> f a w' = g a w') \<Longrightarrow> st_bind m f w = st_bind m g w"
  by (auto simp: st_bind_def split: prod.splits sum.splits)

lemma st_then_cong: "(\<And>a w'. m w = (Inr a, w') \<Longrightarrow> k w' = k' w') \<Longrightarrow> st_then m k w = st_then m k' w"
  unfolding st_then_def by (rule st_bind_cong)

context create2_chain
begin

lemma load_stored:
  assumes "dw_stat w = []" and "stored_state E (pc_state_path pc) w = Some s"
    and "load_or_create E pc w = (Inr s', w')"
  shows "s' = s" and "dw_chain w' = dw_chain w"
proof -
  obtain t where "dw_files w (pc_state_path pc) = Some t" "de_from_json E t = Inr s"
    using assms(2) by (cases "dw_files w (pc_state_path pc)") (auto simp: stored_state_def ok_iff)
  then have "s' = s \<and> dw_chain w' = dw_chain w"
    using assms(1,3)
    by (auto simp: load_or_create_def path_exists_def load_deploy_state_def fs_read_def Let_def
        st_bind_def st_then_def st_simps split: prod.splits sum.splits io_outcome.splits)
  then show "s' = s" and "dw_chain w' = dw_chain w" by simp_all
qed

lemma deploy_no_send:
  assumes "code_of (dw_chain w) (permit2_address E (ds_create2_salt s)) \<noteq> []"
  shows "deploy_permit2 E (D \<lparr> cd_deploy_create2 := f \<rparr>) pc i s w = deploy_permit2 E D pc i s w"
proof (cases "cfg_permit2 (pc_config pc)")
  case None
  then show ?thesis by (simp add: deploy_permit2_def)
next
  case (Some p2)
  have "deploy_contract E (D \<lparr> cd_deploy_create2 := f \<rparr>) s ps w = deploy_contract E D s ps w"
    if "dp_address ps = permit2_address E (ds_create2_salt s)" for ps
    using assms that on_chain_get_code(2)
    by (auto simp: deploy_contract_def intro!: st_bind_cong)
  then show ?thesis unfolding deploy_permit2_def Let_def Some option.case
    by (intro st_bind_cong) (auto simp: st_simps)
qed

lemma verify_all_send [simp]: "verify_all E (D \<lparr> cd_deploy_create2 := f \<rparr>) = verify_all E D"
  by (intro ext) (simp add: verify_all_def split: option.split)

lemma queries_send:
  "cd_chain_id (D \<lparr> cd_deploy_create2 := f \<rparr>) = cd_chain_id D"
  "cd_get_code (D \<lparr> cd_deploy_create2 := f \<rparr>) = cd_get_code D"
  by simp_all

text \<open>
  Once the address of the recorded salt has code, a run does not depend on the deploy call at all:
  it sends no transaction.
\<close>

lemma run_no_send:
  assumes w: "ready (pc_state_path pc) w" and s: "stored_state E (pc_state_path pc) w = Some s"
    and code: "code_of (dw_chain w) (permit2_address E (ds_create2_salt s)) \<noteq> []"
  shows "pipeline_run E (D \<lparr> cd_deploy_create2 := f \<rparr>) pc w = pipeline_run E D pc w"
  unfolding pipeline_run_def queries_send verify_all_send
proof (intro st_bind_cong st_then_cong)
  let ?path = "pc_state_path pc"
  fix i w1 u w2 b w3 v w4 s' w5
  assume c: "on_chain (cd_chain_id D) w = (Inr i, w1)" and "st_lift (ensure (i = cfg_chain_id (pc_config pc))
      (ChainIdMismatch (cfg_chain_id (pc_config pc)) i)) w1 = (Inr u, w2)"
    and g: "on_chain (cd_get_code D DETERMINISTIC_DEPLOYER) w2 = (Inr b, w3)"
    and "st_lift (ensure (b \<noteq> []) DeterministicDeployerNotFound) w3 = (Inr v, w4)"
    and l: "load_or_create E pc w4 = (Inr s', w5)"
  then have w24: "w2 = w1" "w4 = w3" by (simp_all add: st_simps)
  have inv: "dinv ?path w" "dw_stat w = []" using w by (simp_all add: ready_def)
  note c' = chain_id_step [OF inv(1) c] on_chain_chain_id(1) [OF c]
  note g' = get_code_step [OF progress_inv [OF c'(1)] g [unfolded w24]] on_chain_get_code(1) [OF g [unfolded w24]]
  have "s' = s" "dw_chain w5 = dw_chain w3"
    using load_stored [of w3 pc s s' w5] l inv(2) s c'(2,3) g'(2,3) w24 by simp_all
  moreover have "code_of (dw_chain w3) = code_of (dw_chain w)" using c'(4) g'(4) by simp
  ultimately show "st_bind (deploy_permit2 E (D \<lparr> cd_deploy_create2 := f \<rparr>) pc i s') (\<lambda>state.
      st_bind (verify_all E D state i) (\<lambda>state. st_then (save_deploy_state E state ?path) (write_manifest E pc state))) w5 =
    st_bind (deploy_permit2 E D pc i s') (\<lambda>state.
      st_bind (verify_all E D state i) (\<lambda>state. st_then (save_deploy_state E state ?path) (write_manifest E pc state))) w5"
    using deploy_no_send [of w5 s f pc i] code by (simp add: st_bind_def)
qed

end

end
