(* ===== verification/Deployer_Recovery.thy ===== *)
theory Deployer_Recovery
  imports Deployer_Progress
begin

text \<open>
  Deployments over several runs: any number of runs, each of which may fail or be cut off anywhere,
  with changes of the world in between. The record of the deployment stays true and moves forward
  only, nothing is deployed twice, and one run without faults completes the deployment. The last
  part gives an instance of the interfaces: a chain with the CREATE2 factory behind a provider
  whose calls may be dropped or lost after their effect, and a byte form of the state.
\<close>

section \<open>Sessions\<close>

inductive deploy_session ::
  "deploy_env \<Rightarrow> 'c chain_deployer \<Rightarrow> ('c \<Rightarrow> address \<Rightarrow> bytes) \<Rightarrow> string \<Rightarrow> 'c dworld \<Rightarrow> 'c dworld \<Rightarrow> bool"
  for E D code_of path w0 where
  session_start: "deploy_session E D code_of path w0 w0"
| session_run: "deploy_session E D code_of path w0 w \<Longrightarrow> pc_state_path pc = path \<Longrightarrow> paths_apart pc \<Longrightarrow>
    dw_stat w = [] \<Longrightarrow> pipeline_run E D pc w = (r, w') \<Longrightarrow> deploy_session E D code_of path w0 w'"
| session_world: "deploy_session E D code_of path w0 w \<Longrightarrow> code_kept code_of (dw_chain w) (dw_chain w') \<Longrightarrow>
    dw_files w' path = dw_files w path \<Longrightarrow> deploy_session E D code_of path w0 w'"

context create2_chain
begin

lemma run_progress:
  assumes "dinv (pc_state_path pc) w" and "paths_apart pc" and "dw_stat w = []" and "pipeline_run E D pc w = (r, w')"
  shows "progress (pc_state_path pc) w w'"
    and "r = Inr () \<Longrightarrow> cfg_permit2 (pc_config pc) \<noteq> None \<Longrightarrow>
      \<exists>s. synced (pc_state_path pc) s w' \<and> permit2_status s = Some Verified"
  using triple_run [OF assms(2)] assms(1,3,4) unfolding step_triple_def ready_def by blast+

lemma session_progress:
  "deploy_session E D code_of path w0 w \<Longrightarrow> dinv path w0 \<Longrightarrow> progress path w0 w"
proof (induction rule: deploy_session.induct)
  case session_start
  then show ?case by (intro progress_same_file) (simp_all add: code_kept_refl)
next
  case (session_run w pc r w')
  have p: "progress path w0 w" by (rule session_run.IH [OF session_run.prems])
  have "dinv (pc_state_path pc) w" using progress_inv [OF p] session_run.hyps(2) by simp
  from run_progress(1) [OF this session_run.hyps(3,4,5)] show ?case
    using progress_trans [OF p] session_run.hyps(2) by simp
next
  case (session_world w w')
  have p: "progress path w0 w" by (rule session_world.IH [OF session_world.prems])
  show ?case
    by (rule progress_trans [OF p progress_same_file [OF progress_inv [OF p] session_world.hyps(3,2)]])
qed

lemma synced_Verified:
  assumes "synced path s w" and "permit2_status s = Some Verified"
  obtains cs where "stored_state E path w = Some s" and "cts_permit2 (ds_contracts s) = Some cs"
    and "cs_status cs = Verified" and "cs_address cs = permit2_address E (ds_create2_salt s)"
    and "code_of (dw_chain w) (cs_address cs) = permit2_runtime E cid (cs_address cs)"
  using assms by (cases "cts_permit2 (ds_contracts s)") (auto simp: synced_def permit2_status_def sound_state_def)

end

text \<open>C26. A run of the deployment pipeline at the end of any session of earlier runs (failed, cut off or
  successful) that began without a state file: code on the chain is kept; a recorded salt and intent never change and
  the recorded status never goes back; a state file can always be loaded, and a contract it records
  is at the CREATE2 address of the salt and has code; once that address has code the run sends no
  deployment transaction (it does not depend on that call); and if the run returns \<open>Ok\<close> with Permit2
  configured, the contract is recorded as verified and the code on chain is the expected one.\<close>

theorem deploy_session_correct:
  assumes chain: "create2_chain E D code_of cid runtime reliable"
    and fresh: "dw_files w0 (pc_state_path pc) = None"
    and session: "deploy_session E D code_of (pc_state_path pc) w0 w"
    and pc: "paths_apart pc" "dw_stat w = []" and run: "pipeline_run E D pc w = (r, w')"
  shows "code_kept code_of (dw_chain w) (dw_chain w') \<and>
    (\<forall>s. stored_state E (pc_state_path pc) w = Some s \<longrightarrow>
       (\<exists>s'. stored_state E (pc_state_path pc) w' = Some s' \<and> ds_create2_salt s' = ds_create2_salt s \<and>
          ds_applied_intent s' = ds_applied_intent s \<and>
          map_option cs_status (cts_permit2 (ds_contracts s)) \<le> map_option cs_status (cts_permit2 (ds_contracts s')))) \<and>
    (dw_files w' (pc_state_path pc) \<noteq> None \<longrightarrow>
       (\<exists>s. stored_state E (pc_state_path pc) w' = Some s \<and>
          (\<forall>cs. cts_permit2 (ds_contracts s) = Some cs \<longrightarrow>
             cs_address cs = compute_address E (ds_create2_salt s) (PERMIT2_INITCODE (de_artifacts E)) \<and>
             code_of (dw_chain w') (cs_address cs) \<noteq> []))) \<and>
    (\<forall>s send. stored_state E (pc_state_path pc) w = Some s \<and>
       code_of (dw_chain w) (compute_address E (ds_create2_salt s) (PERMIT2_INITCODE (de_artifacts E))) \<noteq> [] \<longrightarrow>
       pipeline_run E (D \<lparr> cd_deploy_create2 := send \<rparr>) pc w = (r, w')) \<and>
    (r = Inr () \<and> cfg_permit2 (pc_config pc) \<noteq> None \<longrightarrow>
       (\<exists>s cs. stored_state E (pc_state_path pc) w' = Some s \<and> cts_permit2 (ds_contracts s) = Some cs \<and>
          cs_status cs = Verified \<and>
          cs_address cs = compute_address E (ds_create2_salt s) (PERMIT2_INITCODE (de_artifacts E)) \<and>
          code_of (dw_chain w') (cs_address cs) =
            permit2_code (de_artifacts E) (de_keccak E) cid (cs_address cs)))"
proof -
  note chain_facts = create2_chain.session_progress [OF chain session] create2_chain.progress_inv [OF chain]
  have "deploy_inv E code_of cid (pc_state_path pc) w0" using fresh by (simp add: deploy_inv_def)
  then have inv: "deploy_inv E code_of cid (pc_state_path pc) w" using chain_facts by blast
  note p = create2_chain.run_progress [OF chain inv pc run]
  have inv': "deploy_inv E code_of cid (pc_state_path pc) w'" using p(1) by (simp add: deploy_progress_def)
  show ?thesis
  proof (intro conjI allI impI; (elim conjE)?)
    show "code_kept code_of (dw_chain w) (dw_chain w')" using p(1) by (simp add: deploy_progress_def)
  next
    fix s
    assume "stored_state E (pc_state_path pc) w = Some s"
    then show "\<exists>s'. stored_state E (pc_state_path pc) w' = Some s' \<and> ds_create2_salt s' = ds_create2_salt s \<and>
        ds_applied_intent s' = ds_applied_intent s \<and>
        map_option cs_status (cts_permit2 (ds_contracts s)) \<le> map_option cs_status (cts_permit2 (ds_contracts s'))"
      using p(1) by (auto simp: deploy_progress_def advances_def permit2_status_def)
  next
    assume "dw_files w' (pc_state_path pc) \<noteq> None"
    then show "\<exists>s. stored_state E (pc_state_path pc) w' = Some s \<and>
        (\<forall>cs. cts_permit2 (ds_contracts s) = Some cs \<longrightarrow> cs_address cs = permit2_address E (ds_create2_salt s) \<and>
           code_of (dw_chain w') (cs_address cs) \<noteq> [])"
      using inv' by (auto simp: deploy_inv_def sound_state_def split: option.splits)
  next
    fix s send
    assume "stored_state E (pc_state_path pc) w = Some s"
      "code_of (dw_chain w) (permit2_address E (ds_create2_salt s)) \<noteq> []"
    then show "pipeline_run E (D \<lparr> cd_deploy_create2 := send \<rparr>) pc w = (r, w')"
      using create2_chain.run_no_send [OF chain, of pc w s] inv pc(2) run
      by (simp add: create2_chain.ready_def [OF chain])
  next
    assume "r = Inr ()" "cfg_permit2 (pc_config pc) \<noteq> None"
    from p(2) [OF this] obtain s where "create2_chain.synced E code_of cid (pc_state_path pc) s w'"
      "permit2_status s = Some Verified" by blast
    from create2_chain.synced_Verified [OF chain this] show "\<exists>s cs. stored_state E (pc_state_path pc) w' = Some s \<and>
        cts_permit2 (ds_contracts s) = Some cs \<and> cs_status cs = Verified \<and>
        cs_address cs = permit2_address E (ds_create2_salt s) \<and>
        code_of (dw_chain w') (cs_address cs) = permit2_runtime E cid (cs_address cs)" by blast
  qed
qed

text \<open>C27. Recovery: after any session of runs that began without a state file, whatever failed in it, one run without
  faults (no I/O fault, a reliable chain with the factory, nothing foreign at the address) returns
  \<open>Ok\<close> and leaves Permit2 deployed with the expected code and recorded as verified.\<close>

theorem deploy_recovers:
  assumes chain: "create2_chain E D code_of cid runtime reliable"
    and fresh: "dw_files w0 (pc_state_path pc) = None"
    and session: "deploy_session E D code_of (pc_state_path pc) w0 w"
    and pc: "paths_apart pc" "dw_stat w = []"
    and cfg: "cfg_chain_id (pc_config pc) = cid" "cfg_permit2 (pc_config pc) \<noteq> None"
    and len: "6983 + 32 \<le> length (PERMIT2_BYTECODE (de_artifacts E))"
    and a: "a = compute_address E (next_salt E (pc_state_path pc) w) (PERMIT2_INITCODE (de_artifacts E))"
    and runtime: "runtime (PERMIT2_INITCODE (de_artifacts E)) a = permit2_code (de_artifacts E) (de_keccak E) cid a"
    and pretty: "pc_addresses_out pc = None \<or> (\<forall>j. \<exists>t. de_json_pretty E j = Inr t)"
    and up: "reliable (dw_chain w)" "dw_io w = []" "code_of (dw_chain w) DETERMINISTIC_DEPLOYER \<noteq> []"
      "code_of (dw_chain w) a \<in> {[], permit2_code (de_artifacts E) (de_keccak E) cid a}"
  shows "\<exists>w' s cs. pipeline_run E D pc w = (Inr (), w') \<and> stored_state E (pc_state_path pc) w' = Some s \<and>
    cts_permit2 (ds_contracts s) = Some cs \<and> cs_status cs = Verified \<and>
    code_of (dw_chain w') (cs_address cs) = permit2_code (de_artifacts E) (de_keccak E) cid (cs_address cs)"
proof -
  let ?path = "pc_state_path pc"
  have "deploy_inv E code_of cid ?path w0" using fresh by (simp add: deploy_inv_def)
  then have inv: "deploy_inv E code_of cid ?path w"
    using create2_chain.session_progress [OF chain session] by (simp add: deploy_progress_def)
  have ready: "create2_chain.ready E code_of cid ?path w"
    using inv pc(2) by (simp add: create2_chain.ready_def [OF chain])
  have live: "create2_chain.live E code_of cid reliable (next_salt E ?path w) w"
    using up by (simp add: create2_chain.live_def [OF chain] a)
  have len': "7015 \<le> length (PERMIT2_BYTECODE (de_artifacts E))" using len by simp
  have pretty': "pc_addresses_out pc \<noteq> None \<longrightarrow> (\<forall>j. \<exists>t. de_json_pretty E j = Inr t)" using pretty by auto
  note total = create2_chain.run_completes [OF chain pc(1) cfg len' runtime [unfolded a] pretty']
  have "\<exists>u w'. pipeline_run E D pc w = (Inr u, w') \<and> True"
    by (rule total [unfolded total_triple_def, rule_format]) (simp add: ready live)
  then obtain w' where run: "pipeline_run E D pc w = (Inr (), w')" by auto
  from create2_chain.run_progress(2) [OF chain inv pc run refl cfg(2)] obtain s where
    "create2_chain.synced E code_of cid ?path s w'" "permit2_status s = Some Verified" by blast
  from create2_chain.synced_Verified [OF chain this] obtain cs where
    "stored_state E ?path w' = Some s" "cts_permit2 (ds_contracts s) = Some cs" "cs_status cs = Verified"
    "code_of (dw_chain w') (cs_address cs) = permit2_runtime E cid (cs_address cs)" .
  with run show ?thesis by (intro exI conjI)
qed

section \<open>A chain, a provider and a codec\<close>

text \<open>
  The reference provider: each call first draws a fate; a dropped call has no effect, a lost one
  has its effect but answers with an error. A transaction to the factory splits its calldata into
  salt and initcode and creates the contract at the CREATE2 address unless there is code already.
\<close>

datatype rpc_fate = RpcFine | RpcDropped | RpcLost

record ref_chain =
  rk_code :: "address \<Rightarrow> bytes"
  rk_fates :: "rpc_fate list"

definition rpc_call :: "(ref_chain \<Rightarrow> 'a \<times> ref_chain) \<Rightarrow> (ref_chain, deploy_error, 'a) st" where
  "rpc_call m c =
     (let c' = c \<lparr> rk_fates := tl (rk_fates c) \<rparr>
      in case rk_fates c of
           RpcDropped # _ \<Rightarrow> (Inl RpcError, c')
         | RpcLost # _ \<Rightarrow> (Inl RpcError, snd (m c'))
         | _ \<Rightarrow> (Inr (fst (m c')), snd (m c')))"

definition factory_call ::
  "deploy_env \<Rightarrow> (bytes \<Rightarrow> address \<Rightarrow> bytes) \<Rightarrow> address \<Rightarrow> bytes \<Rightarrow> ref_chain \<Rightarrow> (b256 \<times> bool) \<times> ref_chain" where
  "factory_call E runtime to calldata c =
     (let salt = of_nat (be_nat (take 32 calldata)); initcode = drop 32 calldata;
          a = compute_address E salt initcode
      in if to = DETERMINISTIC_DEPLOYER \<and> rk_code c to \<noteq> [] \<and> rk_code c a = [] \<and> runtime initcode a \<noteq> []
         then ((de_keccak E calldata, True), c \<lparr> rk_code := (rk_code c)(a := runtime initcode a) \<rparr>)
         else ((de_keccak E calldata, False), c))"

definition ref_provider ::
  "deploy_env \<Rightarrow> u64 \<Rightarrow> (bytes \<Rightarrow> address \<Rightarrow> bytes) \<Rightarrow> (ref_chain, b256 \<times> bool) rpc_provider" where
  "ref_provider E cid runtime =
     \<lparr> pv_get_chain_id = rpc_call (\<lambda>c. (cid, c)),
       pv_get_code_at = (\<lambda>a. rpc_call (\<lambda>c. (rk_code c a, c))),
       pv_send_transaction = (\<lambda>to calldata. rpc_call (factory_call E runtime to calldata)),
       pv_get_receipt = (\<lambda>pending. rpc_call (\<lambda>c. (pending, c))) \<rparr>"

text \<open>A byte form of the deployment state, with its reader.\<close>

fun encode_tx :: "b256 option \<Rightarrow> bytes" where
  "encode_tx None = [0]"
| "encode_tx (Some h) = 1 # word256_bytes h"

fun encode_contract :: "contract_state option \<Rightarrow> bytes" where
  "encode_contract None = [0]"
| "encode_contract (Some cs) =
     1 # of_nat (status_rank (cs_status cs)) # address_bytes (cs_address cs) @ encode_tx (cs_deploy_tx cs)"

definition encode_state :: "deploy_state \<Rightarrow> bytes" where
  "encode_state s =
     be_bytes 4 (unat (ds_version s)) @ word256_bytes (ds_create2_salt s) @
     be_bytes 8 (unat (ai_chain_id (ds_applied_intent s))) @
     (if ai_permit2 (ds_applied_intent s) = None then 0 else 1) # encode_contract (cts_permit2 (ds_contracts s))"

definition word_of :: "nat \<Rightarrow> bytes \<Rightarrow> 'a::len word" where
  "word_of n bs = of_nat (be_nat (take n bs))"

definition decode_contract :: "bytes \<Rightarrow> contract_state option" where
  "decode_contract bs = (if hd bs = 0 then None else
     let status = hd (tl bs); rest = tl (tl bs); tx = drop 20 rest in Some
     \<lparr> cs_status = (if status = 0 then Pending else if status = 1 then Deployed else Verified),
       cs_address = word_of 20 rest,
       cs_deploy_tx = (if hd tx = 0 then None else Some (word_of 32 (tl tx))) \<rparr>)"

definition decode_state :: "bytes \<Rightarrow> deploy_error + deploy_state" where
  "decode_state bs = (if length bs < 46 then Inl (ParseError ''state'') else Inr
     \<lparr> ds_version = word_of 4 bs, ds_create2_salt = word_of 32 (drop 4 bs),
       ds_applied_intent = \<lparr> ai_chain_id = word_of 8 (drop 36 bs), ai_permit2 = (if bs ! 44 = 0 then None else Some ()) \<rparr>,
       ds_contracts = \<lparr> cts_permit2 = decode_contract (drop 45 bs) \<rparr> \<rparr>)"

definition bytes_text :: "bytes \<Rightarrow> string" where
  "bytes_text = map (\<lambda>b. char_of (unat b))"

definition text_bytes :: "string \<Rightarrow> bytes" where
  "text_bytes = map (\<lambda>c. of_nat (of_char c))"

lemma text_bytes_text [simp]: "text_bytes (bytes_text bs) = bs"
proof -
  have "(of_nat (unat b mod 256) :: u8) = b" for b
    using unat_bound [of b] by simp
  then show ?thesis by (simp add: text_bytes_def bytes_text_def comp_def map_idI)
qed

lemma word_of_be_bytes:
  "256 ^ n = (2 :: nat) ^ LENGTH('a) \<Longrightarrow> word_of n (be_bytes n (unat w) @ bs) = (w :: 'a::len word)"
  using unat_bound [of w] by (simp add: word_of_def be_nat_be_bytes)

lemma word_of_fields [simp]:
  "word_of 4 (be_bytes 4 (unat (v :: u32)) @ bs) = v"
  "word_of 32 (word256_bytes h @ bs) = h"
  "word_of 32 (word256_bytes h) = h"
  "word_of 8 (be_bytes 8 (unat (i :: u64)) @ bs) = i"
  "word_of 20 (address_bytes a @ bs) = a"
  using word_of_be_bytes [of 32 h "[]"]
  by (simp_all add: word256_bytes_def address_bytes_def word_of_be_bytes)

lemma decode_encode_contract: "decode_contract (encode_contract x) = x"
proof (cases x)
  case (Some cs)
  then show ?thesis
    by (cases cs; cases "cs_status cs"; cases "cs_deploy_tx cs")
      (auto simp: decode_contract_def)
qed (simp add: decode_contract_def)

lemma decode_encode_state: "decode_state (encode_state s) = Inr s"
proof -
  have "encode_contract x \<noteq> []" for x by (cases x) simp_all
  then show ?thesis
    by (cases s) (auto simp: decode_state_def encode_state_def nth_append decode_encode_contract)
qed

lemma calldata_fields [simp]:
  "of_nat (be_nat (take 32 (build_factory_calldata salt initcode))) = salt"
  "drop 32 (build_factory_calldata salt initcode) = initcode"
  using word_of_fields(2) [of salt initcode] by (simp_all add: build_factory_calldata_def word_of_def)

lemma live_deployer_simps:
  "cd_chain_id (live_deployer P) = pv_get_chain_id P"
  "cd_get_code (live_deployer P) = pv_get_code_at P"
  by (simp_all add: live_deployer_def)

text \<open>The transaction of a deployment through the live deployer, on every fate of its two calls.\<close>

lemma ref_deploy_cases:
  assumes "cd_deploy_create2 (live_deployer (ref_provider E cid runtime)) salt initcode c = (r, c')"
  defines "a \<equiv> compute_address E salt initcode"
  shows "rk_code c' = rk_code c \<and> (\<forall>rc. r = Inr rc \<longrightarrow> \<not> rc_success rc) \<or>
    rk_code c a = [] \<and> runtime initcode a \<noteq> [] \<and> rk_code c' = (rk_code c)(a := runtime initcode a)"
  using assms
  by (auto simp: live_deployer_def ref_provider_def rpc_call_def factory_call_def Let_def st_bind_def st_simps
      split: list.splits rpc_fate.splits if_splits prod.splits)

lemma ref_create2_chain:
  assumes "state_codec E"
  shows "create2_chain E (live_deployer (ref_provider E cid runtime)) rk_code cid runtime (\<lambda>c. rk_fates c = [])"
proof (intro create2_chain.intro create2_chain_axioms.intro assms)
  let ?D = "live_deployer (ref_provider E cid runtime)"
  fix c c' :: ref_chain and a salt initcode
  show "cd_chain_id ?D c = (r, c') \<Longrightarrow> rk_code c' = rk_code c \<and> (\<forall>i. r = Inr i \<longrightarrow> i = cid)" for r
    by (auto simp: live_deployer_simps ref_provider_def rpc_call_def Let_def split: list.splits rpc_fate.splits)
  show "cd_get_code ?D a c = (r, c') \<Longrightarrow> rk_code c' = rk_code c \<and> (\<forall>b. r = Inr b \<longrightarrow> b = rk_code c a)" for r
    by (auto simp: live_deployer_simps ref_provider_def rpc_call_def Let_def split: list.splits rpc_fate.splits)
  show "cd_deploy_create2 ?D salt initcode c = (r, c') \<Longrightarrow> code_kept rk_code c c' \<and>
      (\<forall>a. a \<noteq> compute_address E salt initcode \<longrightarrow> rk_code c' a = rk_code c a) \<and>
      rk_code c' (compute_address E salt initcode)
        \<in> {rk_code c (compute_address E salt initcode), runtime initcode (compute_address E salt initcode)} \<and>
      (\<forall>rc. r = Inr rc \<and> rc_success rc \<longrightarrow> rk_code c' (compute_address E salt initcode) \<noteq> [])" for r
    by (drule ref_deploy_cases) (auto simp: code_kept_def)
  show "rk_fates c = [] \<Longrightarrow> \<exists>c'. cd_chain_id ?D c = (Inr cid, c') \<and> rk_fates c' = []"
    by (simp add: live_deployer_simps ref_provider_def rpc_call_def)
  show "rk_fates c = [] \<Longrightarrow> \<exists>c'. cd_get_code ?D a c = (Inr (rk_code c a), c') \<and> rk_fates c' = []"
    by (simp add: live_deployer_simps ref_provider_def rpc_call_def)
  show "rk_fates c = [] \<Longrightarrow> rk_code c DETERMINISTIC_DEPLOYER \<noteq> [] \<Longrightarrow>
      rk_code c (compute_address E salt initcode) = [] \<Longrightarrow> runtime initcode (compute_address E salt initcode) \<noteq> [] \<Longrightarrow>
      \<exists>rc c'. cd_deploy_create2 ?D salt initcode c = (Inr rc, c') \<and> rc_success rc \<and> rk_fates c' = [] \<and>
        rk_code c' (compute_address E salt initcode) = runtime initcode (compute_address E salt initcode)"
    by (simp add: live_deployer_def ref_provider_def rpc_call_def factory_call_def Let_def st_bind_def st_simps)
qed

definition ref_env :: deploy_env where
  "ref_env =
     \<lparr> de_artifacts = demo_artifacts, de_keccak = demo_hash, de_create2 = (\<lambda>f s h. ucast (s + h)),
       de_to_json = (\<lambda>s. Inr (bytes_text (encode_state s))), de_from_json = (\<lambda>t. decode_state (text_bytes t)),
       de_json_map = insertion_ordered, de_fmt = alloy_text demo_hash,
       de_json_pretty = (\<lambda>j. Inr ''{}'') \<rparr>"

definition ref_runtime :: "bytes \<Rightarrow> address \<Rightarrow> bytes" where
  "ref_runtime initcode a = (if initcode = PERMIT2_INITCODE demo_artifacts
     then permit2_code demo_artifacts demo_hash 1234 a else [])"

abbreviation ref_deployer :: "ref_chain chain_deployer" where
  "ref_deployer \<equiv> live_deployer (ref_provider ref_env 1234 ref_runtime)"

interpretation ref_codec: state_codec ref_env
  by unfold_locales (auto simp: ref_env_def decode_encode_state)

interpretation ref_deploy: create2_chain ref_env ref_deployer rk_code 1234 ref_runtime "\<lambda>c. rk_fates c = []"
  by (rule ref_create2_chain [OF ref_codec.state_codec_axioms])

text \<open>
  A session: the state file is written, then the answer to the deployment transaction is lost, so
  the first run fails with the contract on chain and not in the state file.
\<close>

definition demo_pc :: pipeline_config where
  "demo_pc = \<lparr> pc_config = demo_deploy_config, pc_state_path = ''state.json'', pc_addresses_out = None \<rparr>"

definition demo_world :: "rpc_fate list \<Rightarrow> ref_chain dworld" where
  "demo_world fates =
     \<lparr> dw_chain = \<lparr> rk_code = (\<lambda>a. if a = DETERMINISTIC_DEPLOYER then DETERMINISTIC_DEPLOYER_BYTECODE else []),
                    rk_fates = fates \<rparr>,
       dw_files = (\<lambda>_. None), dw_io = [], dw_stat = [], dw_entropy = of_nat, dw_drawn = 7, dw_stdout = [] \<rparr>"

abbreviation demo_address :: address where
  "demo_address \<equiv> compute_address ref_env 7 (PERMIT2_INITCODE demo_artifacts)"

definition demo_state :: deploy_state where
  "demo_state =
     \<lparr> ds_version = STATE_VERSION, ds_create2_salt = 7, ds_applied_intent = intent_from_config demo_deploy_config,
       ds_contracts = \<lparr> cts_permit2 = None \<rparr> \<rparr>"

definition cut_off_world :: "ref_chain dworld" where
  "cut_off_world = (demo_world [])
     \<lparr> dw_chain := (dw_chain (demo_world []))
         \<lparr> rk_code := (rk_code (dw_chain (demo_world [])))(demo_address := permit2_code demo_artifacts demo_hash 1234 demo_address) \<rparr>,
       dw_files := [''state.json'' \<mapsto> bytes_text (encode_state demo_state)], dw_drawn := 8 \<rparr>"

lemma demo_address_neq [simp]: "demo_address \<noteq> DETERMINISTIC_DEPLOYER"
  by (simp add: compute_address_def ref_env_def demo_hash_def DETERMINISTIC_DEPLOYER_def be_nat_def demo_artifacts_def)

lemma demo_code_ne [simp]: "permit2_code demo_artifacts demo_hash i a \<noteq> []"
  using permit2_runtime_length [of demo_artifacts demo_hash i a] by force

lemma factory_code_ne [simp]: "DETERMINISTIC_DEPLOYER_BYTECODE \<noteq> []"
  by (simp add: DETERMINISTIC_DEPLOYER_BYTECODE_def flip: length_greater_0_conv)

lemma demo_pc_simps [simp]:
  "pc_state_path demo_pc = ''state.json''" "pc_config demo_pc = demo_deploy_config" "pc_addresses_out demo_pc = None"
  "with_extension ''tmp'' ''state.json'' = ''state.tmp''"
  by (simp_all add: demo_pc_def with_extension_def)

lemma demo_config_simps [simp]:
  "cfg_chain_id demo_deploy_config = 1234" "cfg_permit2 demo_deploy_config = Some \<lparr> p2_address = Some 0x22D473 \<rparr>"
  by (simp_all add: demo_deploy_config_def)

lemma ref_env_simps [simp]:
  "de_artifacts ref_env = demo_artifacts" "de_keccak ref_env = demo_hash"
  "de_to_json ref_env s = Inr (bytes_text (encode_state s))" "de_from_json ref_env t = decode_state (text_bytes t)"
  by (simp_all add: ref_env_def)

lemma ref_deployer_simps:
  "cd_chain_id ref_deployer = rpc_call (\<lambda>c. (1234, c))"
  "cd_get_code ref_deployer a = rpc_call (\<lambda>c. (rk_code c a, c))"
  "cd_deploy_create2 ref_deployer salt initcode =
     st_bind (rpc_call (factory_call ref_env ref_runtime DETERMINISTIC_DEPLOYER (build_factory_calldata salt initcode)))
       (\<lambda>pending. st_bind (rpc_call (\<lambda>c. (pending, c))) (\<lambda>(h, s). st_return \<lparr> rc_tx_hash = h, rc_success = s \<rparr>))"
  by (simp_all add: live_deployer_def ref_provider_def Let_def)

lemma demo_cut_off:
  "pipeline_run ref_env ref_deployer demo_pc (demo_world [RpcFine, RpcFine, RpcFine, RpcLost]) = (Inl RpcError, cut_off_world)"
proof -
  have code: "expected_runtime_bytecode demo_artifacts demo_hash 1234 demo_address =
      Inr (permit2_code demo_artifacts demo_hash 1234 demo_address)"
    by (rule expected_runtime_code) simp
  let ?chain = "\<lambda>fates. (dw_chain (demo_world [])) \<lparr> rk_fates := fates \<rparr>"
  let ?saved = "(demo_world []) \<lparr> dw_chain := ?chain [RpcFine, RpcLost],
      dw_files := [''state.json'' \<mapsto> bytes_text (encode_state demo_state)], dw_drawn := 8 \<rparr>"
  have load: "load_or_create ref_env demo_pc ((demo_world []) \<lparr> dw_chain := ?chain [RpcFine, RpcLost] \<rparr>) =
      (Inr demo_state, ?saved)"
    by (simp add: load_or_create_def path_exists_def demo_world_def new_deploy_state_def save_deploy_state_def
        fs_write_def fs_rename_def Let_def st_bind_def st_then_def st_simps demo_state_def fun_eq_iff)
  have salt: "ds_create2_salt demo_state = 7" "get_contract_status demo_state ''permit2'' = None"
    by (simp_all add: demo_state_def get_contract_status_def)
  have deploy: "deploy_permit2 ref_env ref_deployer demo_pc 1234 demo_state ?saved = (Inl RpcError, cut_off_world)"
    by (simp add: deploy_permit2_def deploy_contract_def salt code st_bind_def st_simps on_chain_def ref_deployer_simps
        rpc_call_def factory_call_def Let_def demo_world_def ref_runtime_def cut_off_world_def)
  have start: "demo_world [RpcFine, RpcFine, RpcFine, RpcLost] =
      (demo_world []) \<lparr> dw_chain := ?chain [RpcFine, RpcFine, RpcFine, RpcLost] \<rparr>"
    by (simp add: demo_world_def)
  have chain: "rk_code (dw_chain (demo_world [])) DETERMINISTIC_DEPLOYER = DETERMINISTIC_DEPLOYER_BYTECODE"
    by (simp add: demo_world_def)
  show ?thesis
    unfolding start
    by (simp add: pipeline_run_def st_bind_def st_then_def st_simps on_chain_def ref_deployer_simps rpc_call_def
        load deploy ensure_def chain)
qed

lemma cut_off_simps:
  "dw_stat cut_off_world = []" "dw_io cut_off_world = []" "rk_fates (dw_chain cut_off_world) = []"
  "rk_code (dw_chain cut_off_world) DETERMINISTIC_DEPLOYER \<noteq> []"
  "rk_code (dw_chain cut_off_world) demo_address = permit2_code demo_artifacts demo_hash 1234 demo_address"
  "stored_state ref_env ''state.json'' cut_off_world = Some demo_state"
  "next_salt ref_env ''state.json'' cut_off_world = 7"
  by (simp_all add: cut_off_world_def demo_world_def stored_state_def next_salt_def decode_encode_state demo_state_def)

lemma demo_session:
  "deploy_session ref_env ref_deployer rk_code ''state.json'' (demo_world [RpcFine, RpcFine, RpcFine, RpcLost]) cut_off_world"
  by (rule session_run [OF session_start _ _ _ demo_cut_off])
    (simp_all add: paths_apart_def demo_world_def)

lemma demo_pc_apart: "paths_apart demo_pc"
  by (simp add: paths_apart_def)

text \<open>The next run needs no transaction: its result is that of a deployer whose deploy call always fails.\<close>

theorem deploy_session_correct_witness:
  "pipeline_run ref_env (ref_deployer \<lparr> cd_deploy_create2 := (\<lambda>_ _. st_fail RpcError) \<rparr>) demo_pc cut_off_world =
   pipeline_run ref_env ref_deployer demo_pc cut_off_world"
proof -
  obtain r w' where run: "pipeline_run ref_env ref_deployer demo_pc cut_off_world = (r, w')" by force
  have fresh: "dw_files (demo_world [RpcFine, RpcFine, RpcFine, RpcLost]) (pc_state_path demo_pc) = None"
    by (simp add: demo_world_def)
  have salt: "ds_create2_salt demo_state = 7" by (simp add: demo_state_def)
  note t = deploy_session_correct [OF ref_deploy.create2_chain_axioms fresh _ demo_pc_apart cut_off_simps(1) run]
  show ?thesis
    using t [THEN conjunct2, THEN conjunct2, THEN conjunct2, THEN conjunct1, rule_format,
        of demo_state "\<lambda>_ _. st_fail RpcError"] demo_session cut_off_simps(5,6) salt run
    by simp
qed

theorem deploy_recovers_witness:
  "\<exists>w' s cs. pipeline_run ref_env ref_deployer demo_pc cut_off_world = (Inr (), w') \<and>
     stored_state ref_env ''state.json'' w' = Some s \<and> cts_permit2 (ds_contracts s) = Some cs \<and>
     cs_status cs = Verified \<and>
     rk_code (dw_chain w') (cs_address cs) = permit2_code demo_artifacts demo_hash 1234 (cs_address cs)"
proof -
  have fresh: "dw_files (demo_world [RpcFine, RpcFine, RpcFine, RpcLost]) (pc_state_path demo_pc) = None"
    by (simp add: demo_world_def)
  show ?thesis
    using deploy_recovers [OF ref_deploy.create2_chain_axioms fresh _ demo_pc_apart cut_off_simps(1) _ _ _ refl _ _ cut_off_simps(3,2,4)]
      demo_session cut_off_simps(5,7)
    by (simp add: ref_runtime_def)
qed

end
