(* ===== verification/Deployer_Cli.thy ===== *)
theory Deployer_Cli
  imports Deployer_Recovery
begin

text \<open>
  The command line of \<open>bin/ev-deployer\<close>: the configuration template (\<open>init.rs\<close>), the start of the
  live deployer (\<open>deploy/deployer.rs\<close>) and the four commands (\<open>main.rs\<close>) on the files, the
  standard output and the chain. The messages on standard error are left out. Parameters: the TOML
  and JSON readers, the parsers of the key and the URL, the connection and the start of the async
  runtime (\<open>ce_runtime\<close>).
\<close>

section \<open>The template\<close>

record init_params =
  in_chain_id :: u64
  in_permit2 :: bool
  in_deterministic_deployer :: bool
  in_admin_proxy_owner :: "string option"

fun dec_digits :: "nat \<Rightarrow> nat \<Rightarrow> string \<Rightarrow> string" where
  "dec_digits 0 n acc = acc"
| "dec_digits (Suc k) n acc =
     (let acc' = char_of (48 + n mod 10) # acc in if n < 10 then acc' else dec_digits k (n div 10) acc')"

text \<open>A \<open>u64\<close> has at most 20 decimal digits.\<close>

definition fmt_u64 :: "u64 \<Rightarrow> string" where
  "fmt_u64 n = dec_digits 20 (unat n) []"

text \<open>One line with its line feed; the rule of the section header is 44 box-drawing characters.\<close>

definition newline :: string where
  "newline = [CHR 0x0A]"

definition box :: "nat \<Rightarrow> string" where
  "box n = concat (replicate n [CHR 0xE2, CHR 0x94, CHR 0x80])"

definition template_lines :: "init_params \<Rightarrow> string list" where
  \<open>template_lines params =
     [''# EV Deployer configuration'',
      ''# See: bin/ev-deployer/README.md'',
      '''',
      ''[chain]'',
      ''# The chain ID for the target network.'',
      ''chain_id = '' @ fmt_u64 (in_chain_id params),
      '''',
      ''# '' @ box 2 @ '' Contracts '' @ box 44,
      ''# Uncomment and configure the contracts you want to deploy.'',
      ''# The `address` field is required for `genesis` mode but'',
      ''# ignored in `deploy` mode (addresses come from CREATE2).'',
      '''',
      ''# AdminProxy: transparent proxy with owner-based access control.'',
      ''# The owner address is stored in slot 0.''] @
     (case in_admin_proxy_owner params of
        Some owner \<Rightarrow>
          [''[contracts.admin_proxy]'',
           ''address = "0x000000000000000000000000000000000000Ad00"'',
           ''owner = "'' @ owner @ ''"'']
      | None \<Rightarrow>
          [''# [contracts.admin_proxy]'',
           ''# address = "0x000000000000000000000000000000000000Ad00"'',
           ''# owner = "0x..."'']) @
     ['''',
      ''# Permit2: Uniswap canonical token approval manager.''] @
     (if in_permit2 params then
        [''[contracts.permit2]'',
         ''address = "0x000000000022D473030F116dDEE9F6B43aC78BA3"'']
      else
        [''# [contracts.permit2]'',
         ''# address = "0x000000000022D473030F116dDEE9F6B43aC78BA3"'']) @
     ['''',
      ''# Deterministic deployer (Nick's factory): CREATE2 factory for deploy mode.'',
      ''# Required in genesis for post-merge chains where the keyless tx cannot land.''] @
     (if in_deterministic_deployer params then
        [''[contracts.deterministic_deployer]'',
         ''address = "0x4e59b44847b379578588920cA78FbF26c0B4956C"'']
      else
        [''# [contracts.deterministic_deployer]'',
         ''# address = "0x4e59b44847b379578588920cA78FbF26c0B4956C"''])\<close>

definition generate_template :: "init_params \<Rightarrow> string" where
  "generate_template params = concat (map (\<lambda>l. l @ newline) (template_lines params))"

section \<open>Commands\<close>

datatype command =
    Init "string option" "u64 option" bool bool "address option"
  | Genesis string "string option" "string option" bool "string option"
  | Deploy string string string string "string option"
  | ComputeAddress string string

record ('c, 'p, 'k, 'u) cli_env =
  ce_deploy :: deploy_env
  ce_from_toml :: "string \<Rightarrow> deploy_error + deploy_config"
  ce_from_json :: "string \<Rightarrow> deploy_error + json"
  ce_parse_key :: "string \<Rightarrow> deploy_error + 'k"
  ce_parse_url :: "string \<Rightarrow> deploy_error + 'u"
  ce_connect :: "'k \<Rightarrow> 'u \<Rightarrow> ('c, 'p) rpc_provider"
  ce_runtime :: "deploy_error + unit"

definition live_deployer_new ::
  "('c, 'p, 'k, 'u) cli_env \<Rightarrow> string \<Rightarrow> string \<Rightarrow> deploy_error + 'c chain_deployer" where
  "live_deployer_new C rpc_url private_key_hex =
     (let key_hex = strip_0x private_key_hex in
      and_then (ce_parse_key C key_hex) (\<lambda>signer.
      and_then (ce_parse_url C rpc_url) (\<lambda>url. Inr (live_deployer (ce_connect C signer url)))))"

definition print_out :: "string \<Rightarrow> ('c dworld, deploy_error, unit) st" where
  "print_out s = st_modify (\<lambda>w. w \<lparr> dw_stdout := dw_stdout w @ s \<rparr>)"

text \<open>\<open>--output\<close>: a file when given, else standard output (\<open>println!\<close> adds the line feed, \<open>print!\<close> does not).\<close>

definition emit :: "string option \<Rightarrow> string \<Rightarrow> string \<Rightarrow> ('c dworld, deploy_error, unit) st" where
  "emit output content suffix =
     (case output of Some out_path \<Rightarrow> fs_write out_path content | None \<Rightarrow> print_out (content @ suffix))"

definition load_config_file :: "('c, 'p, 'k, 'u) cli_env \<Rightarrow> string \<Rightarrow> ('c dworld, deploy_error, deploy_config) st" where
  "load_config_file C path =
     st_bind (fs_read path) (\<lambda>content. st_lift (load_deploy_config (ce_from_toml C) content))"

definition genesis_command ::
  "('c, 'p, 'k, 'u) cli_env \<Rightarrow> string \<Rightarrow> string option \<Rightarrow> string option \<Rightarrow> bool \<Rightarrow> string option
    \<Rightarrow> ('c dworld, deploy_error, unit) st" where
  "genesis_command C config_path output merge force addresses_out =
     (let E = ce_deploy C; A = de_artifacts E; K = de_keccak E; M = de_json_map E; F = de_fmt E in
      st_bind (load_config_file C config_path) (\<lambda>cfg.
      st_then (st_lift (validate_for_genesis cfg))
      (st_bind (case merge of
          Some genesis_path \<Rightarrow> st_bind (fs_read genesis_path) (\<lambda>content.
            st_lift (merge_into A K M F (ce_from_json C) cfg content force))
        | None \<Rightarrow> st_lift (map_ok JObject (build_alloc A K M F cfg))) (\<lambda>result.
       st_bind (st_lift (de_json_pretty E result)) (\<lambda>json.
       st_then (emit output json newline)
       (case addresses_out of
          None \<Rightarrow> st_return ()
        | Some addr_path \<Rightarrow>
            st_bind (st_lift (de_json_pretty E (build_manifest M F cfg))) (\<lambda>manifest_json.
              fs_write addr_path manifest_json)))))))"

definition deploy_command ::
  "('c, 'p, 'k, 'u) cli_env \<Rightarrow> string \<Rightarrow> string \<Rightarrow> string \<Rightarrow> string \<Rightarrow> string option
    \<Rightarrow> ('c dworld, deploy_error, unit) st" where
  "deploy_command C config_path rpc_url private_key state_path addresses_out =
     st_bind (load_config_file C config_path) (\<lambda>cfg.
     st_bind (st_lift (live_deployer_new C rpc_url private_key)) (\<lambda>deployer.
     st_then (st_lift (ce_runtime C))
       (pipeline_run (ce_deploy C) deployer
         \<lparr> pc_config = cfg, pc_state_path = state_path, pc_addresses_out = addresses_out \<rparr>)))"

definition init_command ::
  "('c, 'p, 'k, 'u) cli_env \<Rightarrow> string option \<Rightarrow> u64 option \<Rightarrow> bool \<Rightarrow> bool \<Rightarrow> address option
    \<Rightarrow> ('c dworld, deploy_error, unit) st" where
  "init_command C output chain_id permit2_flag deployer_flag owner =
     (let template = generate_template
        \<lparr> in_chain_id = (case chain_id of None \<Rightarrow> 0 | Some i \<Rightarrow> i), in_permit2 = permit2_flag,
          in_deterministic_deployer = deployer_flag,
          in_admin_proxy_owner = map_option (fmt_address (de_fmt (ce_deploy C))) owner \<rparr>
      in emit output template [])"

definition contract_address :: "deploy_config \<Rightarrow> string \<Rightarrow> deploy_error + address" where
  "contract_address cfg contract =
     (if contract = ''admin_proxy''
      then ok_or (NotConfigured contract) (Option.bind (cfg_admin_proxy cfg) ap_address)
      else if contract = ''permit2''
      then ok_or (NotConfigured contract) (Option.bind (cfg_permit2 cfg) p2_address)
      else if contract = ''deterministic_deployer''
      then ok_or (NotConfigured contract) (Option.bind (cfg_deployer cfg) dd_address)
      else Inl (UnknownContract contract))"

definition compute_address_command ::
  "('c, 'p, 'k, 'u) cli_env \<Rightarrow> string \<Rightarrow> string \<Rightarrow> ('c dworld, deploy_error, unit) st" where
  "compute_address_command C config_path contract =
     st_bind (load_config_file C config_path) (\<lambda>cfg.
     st_bind (st_lift (contract_address cfg contract)) (\<lambda>a.
     print_out (fmt_address (de_fmt (ce_deploy C)) a @ newline)))"

fun run_command :: "('c, 'p, 'k, 'u) cli_env \<Rightarrow> command \<Rightarrow> ('c dworld, deploy_error, unit) st" where
  "run_command C (Genesis config out merge force addresses_out) =
     genesis_command C config out merge force addresses_out"
| "run_command C (Deploy config rpc_url private_key state addresses_out) =
     deploy_command C config rpc_url private_key state addresses_out"
| "run_command C (Init out chain_id p2 dd owner) = init_command C out chain_id p2 dd owner"
| "run_command C (ComputeAddress config contract) = compute_address_command C config contract"

section \<open>What the commands do\<close>

lemma fs_read_frame:
  "fs_read p w = (r, w') \<Longrightarrow> dw_files w' = dw_files w \<and> dw_stdout w' = dw_stdout w \<and> dw_chain w' = dw_chain w \<and>
    (\<forall>t. r = Inr t \<longrightarrow> dw_files w p = Some t)"
  by (auto simp: fs_read_def Let_def split: io_outcome.splits option.splits)

lemma load_config_file_frame:
  assumes "load_config_file C p w = (r, w')"
  shows "dw_files w' = dw_files w \<and> dw_stdout w' = dw_stdout w \<and> dw_chain w' = dw_chain w \<and>
    (\<forall>cfg. r = Inr cfg \<longrightarrow> (\<exists>t. dw_files w p = Some t \<and> ce_from_toml C t = Inr cfg \<and> valid_config cfg))"
  using assms [unfolded load_config_file_def]
proof (cases rule: st_bindE)
  case (err e)
  then show ?thesis using fs_read_frame by fastforce
next
  case (ok t w1)
  then show ?thesis using fs_read_frame [OF ok(1)] by (auto simp: st_simps load_deploy_config_Inr_iff)
qed

definition unchanged :: "'c dworld \<Rightarrow> 'c dworld \<Rightarrow> bool" where
  "unchanged w w' \<longleftrightarrow> dw_files w' = dw_files w \<and> dw_stdout w' = dw_stdout w \<and> dw_chain w' = dw_chain w"

lemma fs_write_frame:
  "fs_write p t w = (r, w') \<Longrightarrow> dw_chain w' = dw_chain w \<and> dw_stdout w' = dw_stdout w \<and>
    (\<forall>q. q \<noteq> p \<longrightarrow> dw_files w' q = dw_files w q) \<and> (r = Inr () \<longrightarrow> dw_files w' p = Some t)"
  by (auto simp: fs_write_def Let_def split: io_outcome.splits)

text \<open>The text a command left: in the file of \<open>--output\<close>, else on standard output.\<close>

definition emitted :: "string option \<Rightarrow> string \<Rightarrow> string \<Rightarrow> 'c dworld \<Rightarrow> 'c dworld \<Rightarrow> bool" where
  "emitted out content suffix w w' \<longleftrightarrow>
     (case out of Some p \<Rightarrow> dw_files w' p = Some content | None \<Rightarrow> dw_stdout w' = dw_stdout w @ content @ suffix)"

lemma emit_frame:
  "emit out content suffix w = (r, w') \<Longrightarrow> dw_chain w' = dw_chain w \<and>
    (r = Inr () \<longrightarrow> emitted out content suffix w w')"
  by (cases out) (auto simp: emit_def emitted_def print_out_def st_simps dest: fs_write_frame)

text \<open>Compute-address, the manifest and the alloc name the same addresses.\<close>

lemma map_of_three:
  "k1 \<noteq> k2 \<Longrightarrow> k1 \<noteq> k3 \<Longrightarrow> k2 \<noteq> k3 \<Longrightarrow>
   map_of (push_some (map_option (Pair k3) z) (push_some (map_option (Pair k2) y)
     (push_some (map_option (Pair k1) x) []))) n =
   (if n = k1 then x else if n = k2 then y else if n = k3 then z else None)"
  by (cases x; cases y; cases z) auto

lemma ok_or_three:
  "(if n = k1 then ok_or e x else if n = k2 then ok_or e y else if n = k3 then ok_or e z else Inl f) = Inr a \<longleftrightarrow>
   (if n = k1 then x else if n = k2 then y else if n = k3 then z else None) = Some a"
  by (simp add: ok_or_Inr_iff)

lemma contract_address_iff:
  "contract_address cfg n = Inr a \<longleftrightarrow> map_of (configured_addresses cfg) n = Some a"
proof -
  have names: "''admin_proxy'' \<noteq> ''permit2''" "''admin_proxy'' \<noteq> ''deterministic_deployer''"
    "''permit2'' \<noteq> ''deterministic_deployer''" by simp_all
  show ?thesis
    unfolding contract_address_def configured_addresses_def map_of_three [OF names] by (rule ok_or_three)
qed

lemma insert_name_set:
  assumes "json_object M" and "distinct (map fst m)" and "n \<notin> fst ` set m"
  shows "distinct (map fst (insert_name M F n x m)) \<and>
    set (insert_name M F n x m) = set m \<union> (\<lambda>a. (n, JString (fmt_address F a))) ` set_option x"
proof (cases x)
  case (Some a)
  have "{e \<in> set m. fst e \<noteq> n} = set m" using assms(3) by force
  then show ?thesis
    using json_object.keys_insert [OF assms(1,2)] json_object.set_insert [OF assms(1,2)] by (simp add: Some)
qed (simp add: assms(2))

lemma build_manifest_set:
  assumes M: "json_object M"
  obtains m where "build_manifest M F cfg = JObject m" and "distinct (map fst m)"
    and "set m = (\<lambda>(n, a). (n, JString (fmt_address F a))) ` set (configured_addresses cfg)"
proof -
  let ?n = "insert_name M F"
  define m1 where "m1 = ?n ''admin_proxy'' (Option.bind (cfg_admin_proxy cfg) ap_address) []"
  define m2 where "m2 = ?n ''permit2'' (Option.bind (cfg_permit2 cfg) p2_address) m1"
  define m3 where "m3 = ?n ''deterministic_deployer'' (Option.bind (cfg_deployer cfg) dd_address) m2"
  have s1: "distinct (map fst m1) \<and> set m1 = (\<lambda>a. (''admin_proxy'', JString (fmt_address F a))) `
      set_option (Option.bind (cfg_admin_proxy cfg) ap_address)"
    using insert_name_set [OF M, of "[]"] by (simp add: m1_def)
  have s2: "distinct (map fst m2) \<and> set m2 = set m1 \<union> (\<lambda>a. (''permit2'', JString (fmt_address F a))) `
      set_option (Option.bind (cfg_permit2 cfg) p2_address)"
    unfolding m2_def
  proof (rule insert_name_set [OF M])
    have "fst ` set m1 \<subseteq> {''admin_proxy''}" unfolding s1 [THEN conjunct2] by auto
    then show "''permit2'' \<notin> fst ` set m1" by (rule contra_subsetD) simp
  qed (rule s1 [THEN conjunct1])
  have s3: "distinct (map fst m3) \<and> set m3 = set m2 \<union> (\<lambda>a. (''deterministic_deployer'', JString (fmt_address F a))) `
      set_option (Option.bind (cfg_deployer cfg) dd_address)"
    unfolding m3_def
  proof (rule insert_name_set [OF M])
    have "fst ` set m2 \<subseteq> {''admin_proxy'', ''permit2''}"
      unfolding s2 [THEN conjunct2] s1 [THEN conjunct2] by auto
    then show "''deterministic_deployer'' \<notin> fst ` set m2" by (rule contra_subsetD) simp
  qed (rule s2 [THEN conjunct1])
  show thesis
  proof (rule that [of m3])
    show "build_manifest M F cfg = JObject m3" by (simp add: build_manifest_def m1_def m2_def m3_def)
    show "distinct (map fst m3)" using s3 by blast
    show "set m3 = (\<lambda>(n, a). (n, JString (fmt_address F a))) ` set (configured_addresses cfg)"
      unfolding s3 [THEN conjunct2] s2 [THEN conjunct2] s1 [THEN conjunct2]
      by (simp add: configured_addresses_def option.set_map image_Un image_image Un_ac)
  qed
qed

text \<open>The first half of the genesis command: reading, both validations and the JSON value.\<close>

definition genesis_result ::
  "('c, 'p, 'k, 'u) cli_env \<Rightarrow> deploy_config \<Rightarrow> string option \<Rightarrow> bool \<Rightarrow> 'c dworld \<Rightarrow> json \<Rightarrow> bool" where
  "genesis_result C cfg merge force w result \<longleftrightarrow>
     (let E = ce_deploy C in
      case merge of
        None \<Rightarrow> \<exists>alloc. build_alloc (de_artifacts E) (de_keccak E) (de_json_map E) (de_fmt E) cfg = Inr alloc \<and>
          result = JObject alloc
      | Some g \<Rightarrow> \<exists>content. dw_files w g = Some content \<and>
          merge_into (de_artifacts E) (de_keccak E) (de_json_map E) (de_fmt E) (ce_from_json C) cfg content force =
            Inr result)"

lemma genesis_result_unchanged:
  "dw_files w' = dw_files w \<Longrightarrow> genesis_result C cfg merge force w' result = genesis_result C cfg merge force w result"
  by (simp add: genesis_result_def cong: option.case_cong)

lemma genesis_source_frame:
  assumes "(case merge of
      Some genesis_path \<Rightarrow> st_bind (fs_read genesis_path) (\<lambda>content.
        st_lift (merge_into (de_artifacts (ce_deploy C)) (de_keccak (ce_deploy C)) (de_json_map (ce_deploy C))
          (de_fmt (ce_deploy C)) (ce_from_json C) cfg content force))
    | None \<Rightarrow> st_lift (map_ok JObject (build_alloc (de_artifacts (ce_deploy C)) (de_keccak (ce_deploy C))
        (de_json_map (ce_deploy C)) (de_fmt (ce_deploy C)) cfg))) w = (r, w')"
  shows "unchanged w w' \<and> (\<forall>result. r = Inr result \<longrightarrow> genesis_result C cfg merge force w result)"
proof (cases merge)
  case None
  then show ?thesis using assms by (auto simp: st_simps unchanged_def genesis_result_def ok_iff)
next
  case (Some g)
  from assms [unfolded Some option.case] show ?thesis
  proof (cases rule: st_bindE)
    case (err e)
    then show ?thesis using fs_read_frame [OF err(1)] by (simp add: unchanged_def)
  next
    case (ok content w1)
    then show ?thesis using fs_read_frame [OF ok(1)] by (auto simp: st_simps unchanged_def genesis_result_def Some)
  qed
qed

lemma genesis_output_frame:
  assumes "st_then (emit out json newline) (case addrs of None \<Rightarrow> st_return ()
      | Some addr_path \<Rightarrow> st_bind (st_lift x) (\<lambda>t. fs_write addr_path t)) w = (r, w')"
    and "addrs = None \<or> addrs \<noteq> out"
  shows "dw_chain w' = dw_chain w \<and> (r = Inr () \<longrightarrow> emitted out json newline w w')"
  using assms(1)
proof (cases rule: st_thenE)
  case (err e)
  then show ?thesis using emit_frame [OF err(1)] by simp
next
  case (ok u w1)
  note em = emit_frame [OF ok(1)]
  show ?thesis
  proof (cases addrs)
    case None
    then show ?thesis using ok(2) em by (simp add: st_simps)
  next
    case (Some p)
    from ok(2) [unfolded Some option.case] show ?thesis
    proof (cases rule: st_bindE)
      case (err e)
      then show ?thesis using em by (simp add: st_simps)
    next
      case (ok t w2)
      then have w2: "w2 = w1" by (simp add: st_simps)
      note f = fs_write_frame [OF ok(2) [unfolded w2]]
      have "emitted out json newline w w1 \<Longrightarrow> emitted out json newline w w'"
        using f assms(2) by (auto simp: emitted_def Some split: option.splits)
      then show ?thesis using f em by simp
    qed
  qed
qed

text \<open>C29. The \<open>genesis\<close> command never touches the chain. When the configuration file does not hold a
  configuration that passes both validations it fails and leaves every file and the standard output
  as they were. When it succeeds, the configuration passed both validations and the text it left
  (in the output file, or on standard output with a line feed) is the JSON of the alloc of the
  configuration, or of the genesis file read before with that alloc merged in.\<close>

theorem genesis_command_correct:
  assumes run: "run_command C (Genesis config out merge force addrs) w = (r, w')"
    and apart: "addrs = None \<or> addrs \<noteq> out"
  shows "dw_chain w' = dw_chain w \<and>
    (\<not> (\<exists>t cfg. dw_files w config = Some t \<and> ce_from_toml C t = Inr cfg \<and>
          validate_deploy_config cfg = Inr () \<and> validate_for_genesis cfg = Inr ()) \<longrightarrow>
       (\<exists>e. r = Inl e) \<and> dw_files w' = dw_files w \<and> dw_stdout w' = dw_stdout w) \<and>
    (r = Inr () \<longrightarrow> (\<exists>t cfg result content. dw_files w config = Some t \<and> ce_from_toml C t = Inr cfg \<and>
       validate_deploy_config cfg = Inr () \<and> validate_for_genesis cfg = Inr () \<and>
       genesis_result C cfg merge force w result \<and> de_json_pretty (ce_deploy C) result = Inr content \<and>
       emitted out content newline w w'))"
  using run [unfolded run_command.simps genesis_command_def Let_def]
proof (cases rule: st_bindE)
  case (err e)
  then show ?thesis using load_config_file_frame [OF err(1)] by simp
next
  case (ok cfg w1)
  obtain t where t: "dw_files w config = Some t" "ce_from_toml C t = Inr cfg" "valid_config cfg"
    using load_config_file_frame [OF ok(1)] by blast
  have w1: "unchanged w w1" using load_config_file_frame [OF ok(1)] by (simp add: unchanged_def)
  from ok(2) show ?thesis
  proof (cases rule: st_thenE)
    case (err e)
    then show ?thesis using w1 by (simp add: st_simps unchanged_def)
  next
    case (ok u w2)
    then have g: "w2 = w1" "genesis_config cfg" by (auto simp: st_simps ok_iff)
    from ok(2) show ?thesis
    proof (cases rule: st_bindE)
      case (err e)
      then show ?thesis using genesis_source_frame [OF err(1)] w1 g t
        by (auto simp: unchanged_def ok_iff)
    next
      case (ok result w3)
      note src = genesis_source_frame [OF ok(1)]
      have res: "genesis_result C cfg merge force w result"
        using src w1 g genesis_result_unchanged [of w1 w C cfg merge force result] by (simp add: unchanged_def)
      from ok(2) show ?thesis
      proof (cases rule: st_bindE)
        case (err e)
        then show ?thesis using src w1 g t by (auto simp: unchanged_def ok_iff st_simps)
      next
        case (ok content w4)
        then have w4: "w4 = w3" "de_json_pretty (ce_deploy C) result = Inr content" by (auto simp: st_simps)
        note outp = genesis_output_frame [OF ok(2) [unfolded w4] apart]
        have "emitted out content newline w3 w' \<longleftrightarrow> emitted out content newline w w'"
          using src w1 g by (simp add: emitted_def unchanged_def split: option.splits)
        then show ?thesis using outp src w1 g t res w4(2) by (auto simp: unchanged_def ok_iff)
      qed
    qed
  qed
qed

text \<open>The three reports of addresses agree: for a configuration that passes both validations, the
  address manifest holds exactly the pairs of a contract and the address \<open>compute-address\<close> prints
  for it, and the accounts of the generated alloc are exactly these addresses.\<close>

lemma deployer_addresses_agree:
  assumes M: "json_object M" and F: "alloy_display F" and len: "7015 \<le> length (PERMIT2_BYTECODE A)"
    and cfg: "validate_deploy_config cfg = Inr ()" "validate_for_genesis cfg = Inr ()"
  shows "\<exists>m alloc. build_manifest M F cfg = JObject m \<and> distinct (map fst m) \<and>
    build_alloc A keccak M F cfg = Inr alloc \<and>
    (\<forall>n a. (n, JString (fmt_address F a)) \<in> set m \<longleftrightarrow> contract_address cfg n = Inr a) \<and>
    fst ` set alloc = {hex_key a | n a. contract_address cfg n = Inr a}"
proof -
  have valid: "valid_config cfg" "genesis_config cfg" using cfg by (simp_all add: ok_iff)
  have mem: "(n, a) \<in> set (configured_addresses cfg) \<longleftrightarrow> contract_address cfg n = Inr a" for n a
    unfolding contract_address_iff using distinct_configured_names by (simp add: map_of_eq_Some_iff)
  have inj: "fmt_address F a = fmt_address F b \<longleftrightarrow> a = b" for a b
    using alloy_display.display_address [OF F, of a] alloy_display.display_address [OF F, of b]
    by (metis address_bytes_inject hex_lower_inject)
  obtain m where m: "build_manifest M F cfg = JObject m" "distinct (map fst m)"
      "set m = (\<lambda>(n, a). (n, JString (fmt_address F a))) ` set (configured_addresses cfg)"
    by (rule build_manifest_set [OF M])
  obtain alloc where alloc: "build_alloc A keccak M F cfg = Inr alloc"
      "fst ` set alloc = (\<lambda>(n, a). hex_key a) ` set (configured_addresses cfg)"
    by (rule genesis_writer.genesis_alloc [OF genesis_writer.intro [OF M F] valid len]) (erule that, assumption)
  have "(n, JString (fmt_address F a)) \<in> set m \<longleftrightarrow> contract_address cfg n = Inr a" for n a
    unfolding m(3) mem [symmetric] by (force simp: inj)
  moreover have "fst ` set alloc = {hex_key a | n a. contract_address cfg n = Inr a}"
    unfolding alloc(2) mem [symmetric] by force
  ultimately show ?thesis using m(1,2) alloc(1) by blast
qed

text \<open>
  The template: its lines that are not comments are the chain section and the sections of the
  contracts that were asked for, so a contract is configured exactly when its flag was given.
\<close>

fun dec_value :: "nat \<Rightarrow> string \<Rightarrow> nat" where
  "dec_value a [] = a"
| "dec_value a (c # cs) = dec_value (10 * a + (of_char c - 48)) cs"

lemma dec_digits_value:
  "n < 10 ^ k \<Longrightarrow> 0 < k \<Longrightarrow> dec_value 0 (dec_digits k n acc) = dec_value n acc"
proof (induction k arbitrary: n acc)
  case (Suc k)
  have d: "(of_char (char_of (48 + n mod 10) :: char) - 48 :: nat) = n mod 10"
    by (simp add: of_char_of trans_less_add1 [OF mod_less_divisor])
  show ?case
  proof (cases "n < 10")
    case True
    then show ?thesis using d by simp
  next
    case False
    then have "n div 10 < 10 ^ k" "0 < k" using Suc.prems(1) by (auto simp: less_mult_imp_div_less mult.commute intro: gr0I)
    from Suc.IH [OF this] show ?thesis using False d by (simp add: Let_def)
  qed
qed simp

text \<open>Twenty digits are enough: the printed chain id reads back.\<close>

lemma fmt_u64_value: "dec_value 0 (fmt_u64 n) = unat n"
  using unat_bound [of n] by (simp add: fmt_u64_def dec_digits_value)

definition active :: "string \<Rightarrow> bool" where
  "active l \<longleftrightarrow> l \<noteq> [] \<and> hd l \<noteq> CHR ''#''"

lemma template_active_lines:
  \<open>filter active (template_lines p) =
     [''[chain]'', ''chain_id = '' @ fmt_u64 (in_chain_id p)] @
     (case in_admin_proxy_owner p of
        Some owner \<Rightarrow> [''[contracts.admin_proxy]'', ''address = "0x000000000000000000000000000000000000Ad00"'',
          ''owner = "'' @ owner @ ''"'']
      | None \<Rightarrow> []) @
     (if in_permit2 p
      then [''[contracts.permit2]'', ''address = "0x000000000022D473030F116dDEE9F6B43aC78BA3"''] else []) @
     (if in_deterministic_deployer p
      then [''[contracts.deterministic_deployer]'', ''address = "0x4e59b44847b379578588920cA78FbF26c0B4956C"'']
      else [])\<close>
  by (simp add: template_lines_def active_def split: option.split)

text \<open>Witnesses on the sample configuration.\<close>

definition demo_cli :: "(ref_chain, b256 \<times> bool, unit, unit) cli_env" where
  "demo_cli =
     \<lparr> ce_deploy = ref_env, ce_from_toml = (\<lambda>_. Inr demo_deploy_config), ce_from_json = (\<lambda>_. Inr JNull),
       ce_parse_key = (\<lambda>_. Inr ()), ce_parse_url = (\<lambda>_. Inr ()),
       ce_connect = (\<lambda>_ _. ref_provider ref_env 1234 ref_runtime), ce_runtime = Inr () \<rparr>"

theorem genesis_command_correct_witness:
  "\<exists>r w'. run_command demo_cli (Genesis ''deploy.toml'' None None False None)
       ((demo_world []) \<lparr> dw_files := [''deploy.toml'' \<mapsto> []] \<rparr>) = (Inr (), w') \<and>
     dw_chain w' = dw_chain (demo_world []) \<and>
     emitted None ''{}'' newline (demo_world []) w'"
proof -
  let ?w = "(demo_world []) \<lparr> dw_files := [''deploy.toml'' \<mapsto> []] \<rparr>"
  obtain r w' where run: "run_command demo_cli (Genesis ''deploy.toml'' None None False None) ?w = (r, w')" by force
  obtain alloc where alloc: "build_alloc demo_artifacts demo_hash insertion_ordered (alloy_text demo_hash)
      demo_deploy_config = Inr alloc"
    using build_alloc_foldl [of demo_deploy_config demo_artifacts demo_hash] demo_config_valid(2) by (auto simp: ok_iff)
  have r: "r = Inr ()"
    using run alloc demo_config_valid
    by (auto simp: genesis_command_def load_config_file_def fs_read_def demo_cli_def demo_world_def st_bind_def st_then_def
        st_simps load_deploy_config_def emit_def print_out_def ref_env_def Let_def)
  have "\<forall>t. de_json_pretty (ce_deploy demo_cli) t = Inr ''{}''" by (simp add: demo_cli_def ref_env_def)
  then show ?thesis
    using genesis_command_correct [OF run] run r by (auto simp: emitted_def)
qed

end
