(* ===== verification/Dev_Chain.thy ===== *)
theory Dev_Chain
  imports Deployer_Cli Txpool_Rpc
begin

text \<open>
  The two node binaries: the development chain \<open>bin/ev-dev\<close> with its built-in genesis, its
  pre-funded accounts and the command line it hands to the node, and the start of \<open>bin/ev-reth\<close>
  with its tracing set-up.

  Parameters: the TOML and JSON readers and writers, the mnemonic wallet of alloy, the temporary
  files, the command-line parser of reth and the node itself (\<open>dv_run\<close>, \<open>rb_run\<close>: whether a node
  set up this way, on these files, ends without an error). The messages on standard error and the
  log are left out. A panic is the error \<open>Panicked\<close>.
\<close>

section \<open>Arguments of ev-dev\<close>

record ev_dev_args =
  da_host :: string
  da_port :: "16 word"
  da_block_time :: u64
  da_silent :: bool
  da_accounts :: nat
  da_deploy_config :: "string option"

definition to_digit :: "char \<Rightarrow> nat option" where
  "to_digit c = (let n = of_char c :: nat in if 48 \<le> n \<and> n \<le> 57 then Some (n - 48) else None)"

text \<open>\<open>str::parse::<usize>\<close>: an optional plus sign, then digits, each step checked.\<close>

fun parse_digits :: "nat \<Rightarrow> string \<Rightarrow> string + nat" where
  "parse_digits acc [] = Inr acc"
| "parse_digits acc (c # cs) =
     (case to_digit c of
        None \<Rightarrow> Inl ''invalid digit found in string''
      | Some d \<Rightarrow>
          if 2 ^ 64 \<le> acc * 10 + d then Inl ''number too large to fit in target type''
          else parse_digits (acc * 10 + d) cs)"

definition parse_usize :: "string \<Rightarrow> string + nat" where
  "parse_usize s =
     (if s = [] then Inl ''cannot parse integer from empty string''
      else if s = ''+'' then Inl ''invalid digit found in string''
      else parse_digits 0 (if hd s = CHR ''+'' then tl s else s))"

definition parse_accounts :: "string \<Rightarrow> string + nat" where
  "parse_accounts s =
     and_then (parse_usize s) (\<lambda>n.
       if 1 \<le> n \<and> n \<le> 20 then Inr n else Inl (fmt_u64 (of_nat n) @ '' is not in 1..=20''))"

section \<open>The genesis of the development chain\<close>

definition HARDHAT_MNEMONIC :: string where
  "HARDHAT_MNEMONIC = ''test test test test test test test test test test test junk''"

definition funded_accounts :: "address list" where
  "funded_accounts =
     [0xf39fd6e51aad88f6f4ce6ab8827279cfffb92266, 0x70997970c51812dc3a010c7d01b50e0d17dc79c8,
      0x3c44cdddb6a900fa2b585dd299e03d12fa4293bc, 0x90f79bf6eb2c4f870365e785982e1f101e93b906,
      0x15d34aaf54267db7d7c367839aaf71a00a2c6a65, 0x9965507d1a55bcc2695c58ba16fb37d819b0a4dc,
      0x976ea74026e726554db657fa54763abd0c3a0aa9, 0x14dc79964da2c08b23698b3d3cc7ca32193d9955,
      0x23618e81e3f5cdf7f54c3d65f7fbc0abf5b21e8f, 0xa0ee7a142d267c1f36714e4a8f75612f20a79720,
      0xbcd4042de499d14e55001ccbb24a551f3b954096, 0x71be63f3384f5fb98995898a86b02fb2426c5788,
      0xfabb0ac9d68b0b445fb7357272ff202c5651694a, 0x1cbd3b2770909d4e10f157cabc84c7264073c9ec,
      0xdf3e18d64bc6a983f673ab319ccae4f1a57c7097, 0xcd3b766ccdd6ae721141f452c550ca635964ce71,
      0x2546bcd3c84621e976d8185a91a922ae77ecec30, 0xbda5747bfd65f08deb54cb465eb87d40e51b197e,
      0xdd2fd4581271e230360230f9337d5c0430bf44c0, 0x8626f6940e2eb28930efb4cef49b2d1f2c9c1199]"

definition devnet_config :: json_entries where
  "devnet_config =
     [(''chainId'', JNumber ''1234''), (''homesteadBlock'', JNumber ''0''),
      (''daoForkSupport'', JBool True), (''eip150Block'', JNumber ''0''),
      (''eip155Block'', JNumber ''0''), (''eip158Block'', JNumber ''0''),
      (''byzantiumBlock'', JNumber ''0''), (''constantinopleBlock'', JNumber ''0''),
      (''petersburgBlock'', JNumber ''0''), (''istanbulBlock'', JNumber ''0''),
      (''muirGlacierBlock'', JNumber ''0''), (''berlinBlock'', JNumber ''0''),
      (''londonBlock'', JNumber ''0''), (''arrowGlacierBlock'', JNumber ''0''),
      (''grayGlacierBlock'', JNumber ''0''), (''shanghaiTime'', JNumber ''0''),
      (''cancunTime'', JNumber ''0''), (''terminalTotalDifficulty'', JString ''0x0''),
      (''terminalTotalDifficultyPassed'', JBool True),
      (''evolve'', JObject
        [(''baseFeeSink'', JString ''0x00000000000000000000000000000000000000fe''),
         (''baseFeeRedirectActivationHeight'', JNumber ''0''),
         (''baseFeeMaxChangeDenominator'', JNumber ''5000''),
         (''baseFeeElasticityMultiplier'', JNumber ''10''),
         (''initialBaseFeePerGas'', JNumber ''1000000000''),
         (''mintAdmin'', JString ''0x000000000000000000000000000000000000Ad00''),
         (''mintPrecompileActivationHeight'', JNumber ''0''),
         (''contractSizeLimit'', JNumber ''131072''),
         (''contractSizeLimitActivationHeight'', JNumber ''0'')])]"

text \<open>The accounts of \<open>devnet-genesis.json\<close>, over the code string of its admin proxy (solc output).\<close>

definition devnet_alloc :: "string \<Rightarrow> json_entries" where
  "devnet_alloc admin_code =
     map (\<lambda>a. (''0x'' @ hex_key a, JObject [(''balance'', JString ''0xd3c21bcecceda1000000'')])) funded_accounts @
     [(''0x000000000000000000000000000000000000Ad00'', JObject
        [(''balance'', JString ''0x0''), (''code'', JString admin_code),
         (''storage'', JObject
           [(''0x0000000000000000000000000000000000000000000000000000000000000000'',
             JString ''0x000000000000000000000000f39Fd6e51aad88F6F4ce6aB8827279cffFb92266'')])]),
      (''0x'' @ hex_key 0x0101010101010101010101010101010101010101, JObject [(''balance'', JString ''0x1'')])]"

definition devnet_genesis :: "string \<Rightarrow> json" where
  "devnet_genesis admin_code = JObject
     [(''config'', JObject devnet_config), (''nonce'', JString ''0x0''), (''timestamp'', JString ''0x0''),
      (''extraData'', JString ''0x00''), (''gasLimit'', JString ''0x1c9c380''),
      (''difficulty'', JString ''0x0''),
      (''mixHash'', JString ''0x0000000000000000000000000000000000000000000000000000000000000000''),
      (''coinbase'', JString ''0x0000000000000000000000000000000000000000''),
      (''baseFeePerGas'', JString ''0x3b9aca00''),
      (''alloc'', JObject (devnet_alloc admin_code)), (''number'', JString ''0x0'')]"

section \<open>What ev-dev calls\<close>

datatype wallet_error = BadIndex | BadKey

datatype temp_path = TempFails | TempNotUtf8 string | TempAt string

record node_setup =
  ns_max_txpool_bytes :: u64
  ns_debug_capabilities :: bool

record 'cli dev_env =
  dv_deploy :: deploy_env
  dv_from_toml :: "string \<Rightarrow> deploy_error + deploy_config"
  dv_from_json :: "string \<Rightarrow> deploy_error + json"
  dv_to_string :: "json \<Rightarrow> deploy_error + string"
  dv_display :: "json \<Rightarrow> string"
  DEVNET_GENESIS :: string
  dv_signer :: "string \<Rightarrow> u32 \<Rightarrow> wallet_error + address \<times> bytes"
  dv_temp_file :: temp_path
  dv_temp_dir :: temp_path
  dv_try_parse :: "string list \<Rightarrow> 'cli option"
  dv_run :: "'cli \<Rightarrow> node_setup \<Rightarrow> (string \<Rightarrow> string option) \<Rightarrow> bool"

text \<open>\<open>expect\<close>: an error becomes a panic with the message, a panic below keeps its own.\<close>

fun panicking :: "string \<Rightarrow> deploy_error \<Rightarrow> deploy_error" where
  "panicking msg (Panicked m) = Panicked m"
| "panicking msg e = Panicked msg"

abbreviation expect :: "string \<Rightarrow> deploy_error + 'a \<Rightarrow> deploy_error + 'a" where
  "expect msg \<equiv> map_err (panicking msg)"

fun derive_key :: "'cli dev_env \<Rightarrow> nat \<Rightarrow> deploy_error + string \<times> string" where
  "derive_key D i =
     (case dv_signer D HARDHAT_MNEMONIC (of_nat i) of
        Inl BadIndex \<Rightarrow> Inl (Panicked ''valid derivation index'')
      | Inl BadKey \<Rightarrow> Inl (Panicked ''valid key derivation'')
      | Inr (a, key_bytes) \<Rightarrow>
          let F = de_fmt (dv_deploy D) in Inr (fmt_address F a, ''0x'' @ hex_encode F key_bytes))"

fun collect_results :: "('a \<Rightarrow> 'e + 'b) \<Rightarrow> 'a list \<Rightarrow> 'e + 'b list" where
  "collect_results f [] = Inr []"
| "collect_results f (x # xs) = and_then (f x) (\<lambda>y. map_ok ((#) y) (collect_results f xs))"

definition derive_keys :: "'cli dev_env \<Rightarrow> nat \<Rightarrow> deploy_error + (string \<times> string) list" where
  "derive_keys D count = collect_results (derive_key D) [0..<count]"

text \<open>Indexing a JSON value by a key gives \<open>null\<close> where there is none.\<close>

fun json_index :: "json \<Rightarrow> string \<Rightarrow> json" where
  "json_index (JObject m) k = (case map_of m k of Some v \<Rightarrow> v | None \<Rightarrow> JNull)"
| "json_index _ k = JNull"

fun as_u64 :: "json \<Rightarrow> u64 option" where
  "as_u64 (JNumber s) = map_option of_nat (ok_option (if s = [] then Inl [] else parse_digits 0 s))"
| "as_u64 _ = None"

definition chain_id_from_genesis :: "'cli dev_env \<Rightarrow> deploy_error + u64" where
  "chain_id_from_genesis D =
     and_then (expect ''valid genesis JSON'' (dv_from_json D (DEVNET_GENESIS D))) (\<lambda>genesis.
       ok_or (Panicked ''genesis must have config.chainId'')
         (as_u64 (json_index (json_index genesis ''config'') ''chainId'')))"

section \<open>The banner\<close>

text \<open>The drawing, with \<open>#\<close> for the backslash.\<close>

definition backslashed :: "string \<Rightarrow> string" where
  "backslashed s = map (\<lambda>c. if c = CHR ''#'' then CHR 0x5C else c) s"

definition banner_head :: "string list" where
  "banner_head =
     [[],
      ''                       _            '',
      ''                      | |           '',
      ''   _____   _____   __| | _____   __'',
      backslashed ''  / _ # # / /___/ / _` |/ _ # # / /'',
      backslashed '' |  __/# V /    | (_| |  __/# V / '',
      backslashed ''  #___| #_/      #__,_|#___| #_/  '',
      [],
      ''  Evolve Local Development Chain'',
      ''  =============================='',
      []]"

definition numbered :: "string list \<Rightarrow> string list" where
  "numbered xs = map (\<lambda>(i, x). ''('' @ fmt_u64 (of_nat i) @ '') '' @ x) (zip [0..<length xs] xs)"

definition banner_body :: "ev_dev_args \<Rightarrow> u64 \<Rightarrow> (string \<times> string) list \<Rightarrow> string list" where
  "banner_body args chain_id accounts =
     [''Chain ID:      '' @ fmt_u64 chain_id,
      ''RPC URL:       http://'' @ da_host args @ '':'' @ fmt_u64 (ucast (da_port args)),
      ''Block time:    '' @
        (if da_block_time args = 0 then ''auto (mine on tx)'' else fmt_u64 (da_block_time args) @ ''s''),
      [],
      ''Available Accounts'',
      ''==================''] @
     numbered (map (\<lambda>(addr, _). addr @ '' (1000000 ETH)'') accounts) @
     [[], ''Private Keys'', ''==================''] @
     numbered (map snd accounts) @
     [[],
      ''Mnemonic: '' @ HARDHAT_MNEMONIC,
      ''Derivation path: m/44'/60'/0'/0/{index}'',
      []]"

definition pad_right :: "nat \<Rightarrow> string \<Rightarrow> string" where
  "pad_right n s = s @ replicate (n - length s) CHR '' ''"

fun banner_contracts :: "'cli dev_env \<Rightarrow> string \<Rightarrow> json \<Rightarrow> string list" where
  "banner_contracts D path (JObject m) =
     [''Genesis Contracts (from '' @ path @ '')'', ''==================''] @
     map (\<lambda>(name, addr). ''  '' @ pad_right 20 name @ '' '' @ dv_display D addr) m @ [[]]"
| "banner_contracts D path _ =
     [''Genesis Contracts (from '' @ path @ '')'', ''=================='', []]"

definition banner_warning :: "string list" where
  "banner_warning =
     [''WARNING: These accounts and keys are publicly known.'',
      ''Any funds sent to them on mainnet WILL BE LOST.'', []]"

definition print_lines :: "string list \<Rightarrow> ('c dworld, deploy_error, unit) st" where
  "print_lines ls = print_out (concat (map (\<lambda>l. l @ newline) ls))"

definition print_banner ::
  "'cli dev_env \<Rightarrow> ev_dev_args \<Rightarrow> deploy_config option \<Rightarrow> ('c dworld, deploy_error, unit) st" where
  "print_banner D args deploy_cfg =
     st_bind (st_lift (derive_keys D (da_accounts args))) (\<lambda>accounts.
     st_then (print_lines banner_head)
     (st_bind (st_lift (chain_id_from_genesis D)) (\<lambda>chain_id.
     st_then (print_lines (banner_body args chain_id accounts))
     (st_then
       (case deploy_cfg of
          None \<Rightarrow> st_return ()
        | Some cfg \<Rightarrow>
            st_bind (st_lift (ok_or (Panicked ''unwrap'') (da_deploy_config args))) (\<lambda>path.
              print_lines (banner_contracts D path
                (build_manifest (de_json_map (dv_deploy D)) (de_fmt (dv_deploy D)) cfg))))
       (print_lines banner_warning)))))"

section \<open>The start of the development chain\<close>

definition dev_deploy_config :: "'cli dev_env \<Rightarrow> string \<Rightarrow> ('c dworld, deploy_error, deploy_config) st" where
  "dev_deploy_config D config_path =
     st_bind (st_map_err (panicking ''failed to load deploy config'')
       (st_bind (fs_read config_path) (\<lambda>content. st_lift (load_deploy_config (dv_from_toml D) content)))) (\<lambda>cfg.
     st_bind (st_lift (chain_id_from_genesis D)) (\<lambda>genesis_chain_id.
     st_return (if cfg_chain_id cfg \<noteq> genesis_chain_id
       then cfg \<lparr> cfg_chain := (cfg_chain cfg) \<lparr> chain_chain_id := genesis_chain_id \<rparr> \<rparr> else cfg)))"

fun dev_genesis_json :: "'cli dev_env \<Rightarrow> deploy_config option \<Rightarrow> deploy_error + string" where
  "dev_genesis_json D None = Inr (DEVNET_GENESIS D)"
| "dev_genesis_json D (Some cfg) =
     (let E = dv_deploy D in
      and_then (expect ''valid genesis JSON'' (dv_from_json D (DEVNET_GENESIS D))) (\<lambda>genesis.
      case merge_alloc (de_artifacts E) (de_keccak E) (de_json_map E) (de_fmt E) cfg True genesis of
        (Inl e, _) \<Rightarrow> Inl (panicking ''failed to merge deploy config into genesis'' e)
      | (Inr _, merged) \<Rightarrow> expect ''failed to serialize merged genesis'' (dv_to_string D merged)))"

definition API_MODULES :: string where
  "API_MODULES = ''eth,net,web3,txpool,debug,trace''"

definition node_args :: "ev_dev_args \<Rightarrow> string \<Rightarrow> string \<Rightarrow> string list" where
  "node_args args genesis_path datadir_path =
     [''ev-dev'', ''node'', ''--dev'', ''--chain'', genesis_path, ''--datadir'', datadir_path,
      ''--http'', ''--http.addr'', da_host args, ''--http.port'', fmt_u64 (ucast (da_port args)),
      ''--http.api'', API_MODULES, ''--http.corsdomain'', ''*'',
      ''--ws'', ''--ws.addr'', da_host args, ''--ws.port'', fmt_u64 (ucast (da_port args)),
      ''--ws.api'', API_MODULES, ''--disable-discovery'', ''--no-persist-peers'', ''--port'', ''0''] @
     (if 0 < da_block_time args then [''--dev.block-time'', fmt_u64 (da_block_time args) @ ''s''] else [])"

datatype exit_status = Returned | Exit nat

definition dev_setup :: node_setup where
  "dev_setup = \<lparr> ns_max_txpool_bytes = max_txpool_bytes rpc_config_default, ns_debug_capabilities = True \<rparr>"

definition launch_dev :: "'cli dev_env \<Rightarrow> string list \<Rightarrow> ('c dworld, deploy_error, exit_status) st" where
  "launch_dev D args =
     (case dv_try_parse D args of
        None \<Rightarrow> st_return (Exit 2)
      | Some cli \<Rightarrow> st_get (\<lambda>w. if dv_run D cli dev_setup (dw_files w) then Returned else Exit 1))"

fun temp_utf8 :: "temp_path \<Rightarrow> string option" where
  "temp_utf8 (TempAt p) = Some p"
| "temp_utf8 _ = None"

text \<open>
  The temporary genesis file is deleted when \<open>main\<close> returns or unwinds, but not when the process
  exits from within.
\<close>

definition dropping :: "string \<Rightarrow> ('c dworld, deploy_error, exit_status) st \<Rightarrow> ('c dworld, deploy_error, exit_status) st" where
  "dropping p m w =
     (case m w of
        (Inr (Exit n), w') \<Rightarrow> (Inr (Exit n), w')
      | (r, w') \<Rightarrow> (r, w' \<lparr> dw_files := (dw_files w')(p := None) \<rparr>))"

definition with_genesis_file ::
  "'cli dev_env \<Rightarrow> ev_dev_args \<Rightarrow> string \<Rightarrow> string \<Rightarrow> ('c dworld, deploy_error, exit_status) st" where
  "with_genesis_file D args p genesis_json =
     dropping p
      (st_then (st_map_err (panicking ''failed to write genesis'') (fs_write p genesis_json))
      (st_bind (st_lift (ok_or (Panicked ''valid path'') (temp_utf8 (dv_temp_file D)))) (\<lambda>genesis_path.
       st_then (st_lift (ensure (dv_temp_dir D \<noteq> TempFails) (Panicked ''failed to create temp data dir'')))
      (st_bind (st_lift (ok_or (Panicked ''valid path'') (temp_utf8 (dv_temp_dir D)))) (\<lambda>datadir_path.
       launch_dev D (node_args args genesis_path datadir_path))))))"

definition ev_dev_main :: "'cli dev_env \<Rightarrow> ev_dev_args \<Rightarrow> ('c dworld, deploy_error, exit_status) st" where
  "ev_dev_main D args =
     st_bind (case da_deploy_config args of
         None \<Rightarrow> st_return None
       | Some config_path \<Rightarrow> st_bind (dev_deploy_config D config_path) (\<lambda>cfg. st_return (Some cfg))) (\<lambda>deploy_cfg.
     st_then (if da_silent args then st_return () else print_banner D args deploy_cfg)
     (st_bind (st_lift (dev_genesis_json D deploy_cfg)) (\<lambda>genesis_json.
      case dv_temp_file D of
        TempFails \<Rightarrow> st_fail (Panicked ''failed to create temp genesis file'')
      | TempNotUtf8 p \<Rightarrow> with_genesis_file D args p genesis_json
      | TempAt p \<Rightarrow> with_genesis_file D args p genesis_json)))"

section \<open>The start of ev-reth\<close>

datatype otlp_protocol = Grpc | Http

record 'u otlp_config =
  oc_service :: string
  oc_endpoint :: 'u
  oc_protocol :: otlp_protocol

text \<open>
  \<open>ev_var\<close> answers as \<open>std::env::var\<close> does, so a value that is not UTF-8 counts as unset;
  \<open>rb_config\<close> is the check of \<open>OtlpConfig::new\<close>.
\<close>

record ('u, 'f, 'l) reth_env =
  ev_var :: "string \<Rightarrow> string option"
  rb_parse_url :: "string \<Rightarrow> 'u option"
  rb_config :: "'u otlp_config \<Rightarrow> bool"
  rb_span_layer :: "'u otlp_config \<Rightarrow> 'l option"
  rb_filter_default_env :: "'f option"
  rb_filter_new :: "string \<Rightarrow> 'f option"
  rb_filter_of :: "string \<Rightarrow> 'f"

definition otlp_config_from_env :: "('u, 'f, 'l) reth_env \<Rightarrow> 'u otlp_config option" where
  "otlp_config_from_env R =
     (if (case ev_var R ''OTEL_SDK_DISABLED'' of Some v \<Rightarrow> to_lowercase v = ''true'' | None \<Rightarrow> False) then None
      else Option.bind (ev_var R ''OTEL_EXPORTER_OTLP_ENDPOINT'') (\<lambda>endpoint.
        Option.bind (rb_parse_url R endpoint) (\<lambda>endpoint_url.
        let protocol =
              (if (case ev_var R ''OTEL_EXPORTER_OTLP_PROTOCOL'' of None \<Rightarrow> ''http'' | Some v \<Rightarrow> v) = ''grpc''
               then Grpc else Http);
            config = \<lparr> oc_service = ''ev-reth'', oc_endpoint = endpoint_url, oc_protocol = protocol \<rparr>
        in if rb_config R config then Some config else None)))"

text \<open>The layers of the subscriber: standard output, and the exporter with its own filter.\<close>

record ('f, 'l) subscriber =
  sb_stdout_filter :: 'f
  sb_otlp :: "('l \<times> 'f) option"

definition default_filter :: "('u, 'f, 'l) reth_env \<Rightarrow> 'f" where
  "default_filter R = (case rb_filter_default_env R of Some f \<Rightarrow> f | None \<Rightarrow> rb_filter_of R ''info'')"

definition init_tracing :: "('u, 'f, 'l) reth_env \<Rightarrow> ('f, 'l) subscriber" where
  "init_tracing R =
     (case Option.bind (otlp_config_from_env R) (rb_span_layer R) of
        Some otlp_layer \<Rightarrow>
          let log_filter = default_filter R;
              trace_filter =
                (case Option.bind (ev_var R ''EV_TRACE_LEVEL'') (rb_filter_new R) of
                   Some f \<Rightarrow> f | None \<Rightarrow> default_filter R)
          in \<lparr> sb_stdout_filter = log_filter, sb_otlp = Some (otlp_layer, trace_filter) \<rparr>
      | None \<Rightarrow> \<lparr> sb_stdout_filter = default_filter R, sb_otlp = None \<rparr>)"

text \<open>\<open>main\<close> after the command line is parsed: the node runs with the transaction RPC of the default cap.\<close>

definition ev_reth_main ::
  "('u, 'f, 'l) reth_env \<Rightarrow> (('f, 'l) subscriber \<Rightarrow> node_setup \<Rightarrow> bool) \<Rightarrow> exit_status" where
  "ev_reth_main R rb_run =
     (if rb_run (init_tracing R)
          \<lparr> ns_max_txpool_bytes = max_txpool_bytes rpc_config_default, ns_debug_capabilities = False \<rparr>
      then Returned else Exit 1)"

section \<open>Numbers as text\<close>

definition is_digit :: "char \<Rightarrow> bool" where
  "is_digit c \<longleftrightarrow> to_digit c \<noteq> None"

lemma dec_value_mono: "a \<le> dec_value a s"
proof (induction s arbitrary: a)
  case (Cons c s)
  have "a \<le> 10 * a + (of_char c - 48)" by simp
  also have "\<dots> \<le> dec_value (10 * a + (of_char c - 48)) s" by (rule Cons.IH)
  finally show ?case by simp
qed simp

lemma parse_digits_value:
  "list_all is_digit s \<Longrightarrow> dec_value acc s < 2 ^ 64 \<Longrightarrow> parse_digits acc s = Inr (dec_value acc s)"
proof (induction s arbitrary: acc)
  case (Cons c s)
  then have d: "to_digit c = Some (of_char c - 48)" by (auto simp: is_digit_def to_digit_def Let_def split: if_splits)
  have "10 * acc + (of_char c - 48) < 2 ^ 64"
    using dec_value_mono [of "10 * acc + (of_char c - 48)" s] Cons.prems(2) by simp
  then show ?case using Cons d by (simp add: mult.commute)
qed simp

lemma digit_char: "(n :: nat) < 10 \<Longrightarrow> is_digit (char_of (48 + n))"
  by (simp add: is_digit_def to_digit_def of_char_of)

lemma dec_digits_are_digits: "list_all is_digit acc \<Longrightarrow> list_all is_digit (dec_digits k n acc)"
proof (induction k n acc rule: dec_digits.induct)
  case (2 k n acc)
  moreover have "n mod 10 < 10" by simp
  ultimately show ?case using digit_char [of "n mod 10"] by (auto simp: Let_def)
qed simp

lemma dec_digits_ne: "0 < k \<or> acc \<noteq> [] \<Longrightarrow> dec_digits k n acc \<noteq> []"
  by (induction k n acc rule: dec_digits.induct) (auto simp: Let_def)

lemma parse_fmt_u64: "parse_usize (fmt_u64 x) = Inr (unat x)"
proof -
  have digits: "list_all is_digit (fmt_u64 x)" by (simp add: fmt_u64_def dec_digits_are_digits)
  have ne: "fmt_u64 x \<noteq> []" by (simp add: fmt_u64_def dec_digits_ne)
  then have "is_digit (hd (fmt_u64 x))" using digits by (cases "fmt_u64 x") auto
  then have plus: "hd (fmt_u64 x) \<noteq> CHR ''+''" by (auto simp: is_digit_def to_digit_def)
  have "unat x < 2 ^ 64" using unat_bound [of x] by simp
  then have "parse_digits 0 (fmt_u64 x) = Inr (unat x)"
    using parse_digits_value [OF digits, of 0] fmt_u64_value [of x] by simp
  then show ?thesis using ne plus by (auto simp: parse_usize_def)
qed

lemma parse_accounts_iff [ok_iff]:
  "parse_accounts s = Inr n \<longleftrightarrow> parse_usize s = Inr n \<and> 1 \<le> n \<and> n \<le> 20"
  by (auto simp: parse_accounts_def ok_iff split: if_splits)

section \<open>The built-in genesis\<close>

lemma devnet_chain_id: "as_u64 (json_index (json_index (devnet_genesis code) ''config'') ''chainId'') = Some 1234"
  by (simp add: devnet_genesis_def devnet_config_def to_digit_def)

lemma json_devnet_alloc: "json_object_at ''alloc'' (devnet_genesis code) = Some (devnet_alloc code)"
  by (simp add: devnet_genesis_def)

lemma normalize_hex_key: "normalize_addr (CHR ''0'' # CHR ''x'' # hex_key a) = hex_key a"
proof -
  have "take 2 (hex_key a) \<noteq> ''0x''"
  proof
    assume "take 2 (hex_key a) = ''0x''"
    then have "to_lowercase (drop 2 (hex_key a)) = hex_key a"
      using normalize_hex_lower [of "address_bytes a"] by (simp add: normalize_addr_def strip_0x_def)
    from arg_cong [OF this, of length] show False by (simp add: to_lowercase_def)
  qed
  then have "to_lowercase (hex_key a) = hex_key a"
    using normalize_hex_lower [of "address_bytes a"] unfolding normalize_addr_def strip_0x_def by simp
  then show ?thesis by (simp add: normalize_addr_def strip_0x_def)
qed

lemma be_bytes_zero: "be_bytes k 0 = replicate k 0"
  by (induction k) (simp_all add: replicate_append_same)

lemma admin_address_bytes: "address_bytes 0xAd00 = replicate 18 0 @ [0xAd, 0]"
proof -
  have "be_bytes (Suc (Suc 18)) 0xAd00 = replicate 18 0 @ [0xAd, 0]"
    by (simp only: be_bytes.simps) (simp add: be_bytes_zero)
  moreover have "Suc (Suc 18) = 20" "unat (0xAd00 :: address) = 0xAd00" by simp_all
  ultimately show ?thesis by (simp only: address_bytes_def)
qed

lemma admin_hex_key: "hex_key 0xAd00 = concat (replicate 18 ''00'') @ ''ad00''"
  by (simp add: admin_address_bytes hex_lower_def hex_digit_def)

lemma normalize_admin_key: "normalize_addr ''0x000000000000000000000000000000000000Ad00'' = hex_key 0xAd00"
  unfolding admin_hex_key
  by (simp add: normalize_addr_def strip_0x_def to_lowercase_def char_of_def bit_iff_odd) (simp add: numeral_eq_Suc)

definition devnet_addresses :: "address list" where
  "devnet_addresses = funded_accounts @ [0xAd00, 0x0101010101010101010101010101010101010101]"

lemma devnet_keys: "map (normalize_addr \<circ> fst) (devnet_alloc code) = map hex_key devnet_addresses"
  by (simp add: devnet_alloc_def devnet_addresses_def comp_def normalize_hex_key normalize_admin_key)

lemma distinct_devnet: "distinct devnet_addresses"
proof -
  have "distinct (map unat devnet_addresses)" by (simp add: devnet_addresses_def funded_accounts_def)
  then show ?thesis unfolding distinct_map by (rule conjunct1)
qed

lemma hex_key_inject [simp]: "hex_key a = hex_key b \<longleftrightarrow> a = b"
  by simp

lemma devnet_keys_distinct:
  "distinct (map fst (devnet_alloc code))" "one_key_per_address (devnet_alloc code)"
proof -
  have d: "distinct (map (normalize_addr \<circ> fst) (devnet_alloc code))"
    unfolding devnet_keys by (rule distinct_map [THEN iffD2]) (simp add: distinct_devnet inj_on_def)
  have "distinct (map normalize_addr (map fst (devnet_alloc code)))" using d by (simp only: map_map)
  then show "distinct (map fst (devnet_alloc code))" "one_key_per_address (devnet_alloc code)"
    unfolding distinct_map one_key_per_address_def by simp_all
qed

lemma alloc_at_append [simp]: "alloc_at (xs @ ys) c = alloc_at xs c \<union> alloc_at ys c"
  by (auto simp: alloc_at_def)

lemma alloc_at_Cons: "alloc_at ((k, v) # m) c = (if normalize_addr k = c then {v} else {}) \<union> alloc_at m c"
  by (auto simp: alloc_at_def)

lemma alloc_at_Nil: "alloc_at [] c = {}"
  by (simp add: alloc_at_def)

lemma alloc_at_map:
  "alloc_at (map (\<lambda>a. (CHR ''0'' # CHR ''x'' # hex_key a, f a)) as) (hex_key b) = (if b \<in> set as then {f b} else {})"
  by (induction as) (auto simp: alloc_at_Cons alloc_at_Nil normalize_hex_key)

lemma funded_balance:
  assumes "a \<in> set funded_accounts"
  shows "alloc_at (devnet_alloc code) (hex_key a) = {JObject [(''balance'', JString ''0xd3c21bcecceda1000000'')]}"
proof -
  have "0xAd00 \<noteq> a" "0x0101010101010101010101010101010101010101 \<noteq> a"
    using assms distinct_devnet unfolding devnet_addresses_def by auto
  then show ?thesis
    using assms unfolding devnet_alloc_def alloc_at_append append_Cons append_Nil alloc_at_map alloc_at_Cons
      alloc_at_Nil normalize_admin_key normalize_hex_key hex_key_inject by simp
qed

section \<open>The development chain starts\<close>

lemma collect_results_Inr:
  "(\<And>x. x \<in> set xs \<Longrightarrow> f x = Inr (g x)) \<Longrightarrow> collect_results f xs = Inr (map g xs)"
  by (induction xs) auto

definition on_devnet :: "deploy_config \<Rightarrow> deploy_config" where
  "on_devnet cfg = cfg \<lparr> cfg_chain := \<lparr> chain_chain_id = 1234 \<rparr> \<rparr>"

lemma on_devnet_simps [simp]:
  "cfg_contracts (on_devnet cfg) = cfg_contracts cfg" "cfg_chain_id (on_devnet cfg) = 1234"
  "validate_deploy_config (on_devnet cfg) = validate_deploy_config cfg"
  "validate_for_genesis (on_devnet cfg) = validate_for_genesis cfg"
  "configured_addresses (on_devnet cfg) = configured_addresses cfg"
  by (simp_all add: on_devnet_def validate_deploy_config_def validate_for_genesis_def configured_addresses_def)

lemma on_devnet_override:
  "(if cfg_chain_id cfg \<noteq> 1234 then cfg \<lparr> cfg_chain := (cfg_chain cfg) \<lparr> chain_chain_id := 1234 \<rparr> \<rparr> else cfg) =
     on_devnet cfg"
  by (cases cfg; cases "cfg_chain cfg") (auto simp: on_devnet_def)

locale dev_tools = genesis_writer "de_json_map (dv_deploy D)" "de_fmt (dv_deploy D)"
  for D :: "'cli dev_env" +
  fixes code :: string
  assumes reads_genesis: "dv_from_json D (DEVNET_GENESIS D) = Inr (devnet_genesis code)"
    and derives: "i < 20 \<Longrightarrow> \<exists>a key. dv_signer D HARDHAT_MNEMONIC (of_nat i) = Inr (a, key)"
    and writes_json: "\<exists>t. dv_to_string D j = Inr t"
    and permit2_template: "7015 \<le> length (PERMIT2_BYTECODE (de_artifacts (dv_deploy D)))"
begin

lemma chain_id: "chain_id_from_genesis D = Inr 1234"
  by (simp add: chain_id_from_genesis_def reads_genesis devnet_chain_id)

text \<open>Every accepted number of accounts is derived, in order and without a panic.\<close>

lemma derive_keys_ok:
  assumes "n \<le> 20"
  shows "\<exists>ks. derive_keys D n = Inr ks \<and> length ks = n \<and> (\<forall>i < n. derive_key D i = Inr (ks ! i))"
proof -
  have "\<exists>k. derive_key D i = Inr k" if "i < n" for i
    using derives [of i] that assms by (auto simp: Let_def)
  then obtain g where g: "\<And>i. i < n \<Longrightarrow> derive_key D i = Inr (g i)" by metis
  have "derive_keys D n = Inr (map g [0..<n])"
    unfolding derive_keys_def by (rule collect_results_Inr) (simp add: g del: derive_key.simps)
  then show ?thesis using g by (simp del: derive_key.simps)
qed

lemma print_banner_run:
  assumes "da_accounts args \<le> 20" and "dc \<noteq> None \<Longrightarrow> da_deploy_config args \<noteq> None"
  shows "\<exists>out. print_banner D args dc w = (Inr (), w \<lparr> dw_stdout := out \<rparr>)"
proof -
  obtain ks where ks: "derive_keys D (da_accounts args) = Inr ks" using derive_keys_ok [OF assms(1)] by blast
  show ?thesis
    using assms(2) ks chain_id
    by (cases dc) (auto simp: print_banner_def st_bind_def st_then_def st_simps print_lines_def print_out_def)
qed

lemma dev_deploy_config_run:
  assumes "dw_io w = []" and "dw_files w path = Some t" and "dv_from_toml D t = Inr cfg"
    and "validate_deploy_config cfg = Inr ()"
  shows "dev_deploy_config D path w = (Inr (on_devnet cfg), w \<lparr> dw_io := [] \<rparr>)"
  using assms chain_id
  by (simp add: dev_deploy_config_def fs_read_def load_deploy_config_def st_bind_def st_map_err_def st_simps
      on_devnet_override [symmetric] del: on_devnet_simps)

text \<open>The text of the merged genesis.\<close>

lemma dev_genesis_ok:
  assumes "validate_deploy_config cfg = Inr ()" and "validate_for_genesis cfg = Inr ()"
  obtains merged new content where "dev_genesis_json D (Some (on_devnet cfg)) = Inr content"
    and "dv_to_string D merged = Inr content"
    and "json_object_at ''alloc'' merged = Some new"
    and "merged = json_set_object ''alloc'' new (devnet_genesis code)"
    and "\<forall>c \<in> set (genesis_contracts (de_artifacts (dv_deploy D)) (de_keccak (dv_deploy D)) (on_devnet cfg)).
          \<exists>j. alloc_at new (hex_key (gc_address c)) = {j} \<and> genesis_entry (gc_code c) (storage_entries c) j"
    and "\<forall>d. d \<notin> (\<lambda>(n, a). hex_key a) ` set (configured_addresses cfg) \<longrightarrow>
          alloc_at new d = alloc_at (devnet_alloc code) d"
proof -
  have v: "valid_config (on_devnet cfg)" "genesis_config (on_devnet cfg)"
    using trans [OF on_devnet_simps(3) assms(1)] trans [OF on_devnet_simps(4) assms(2)] by (simp_all only: ok_iff)
  note r = merge_alloc_result [where force = True and keccak = "de_keccak (dv_deploy D)",
      OF v permit2_template json_devnet_alloc devnet_keys_distinct, of code]
  obtain merged new where m:
      "merge_alloc (de_artifacts (dv_deploy D)) (de_keccak (dv_deploy D)) (de_json_map (dv_deploy D))
         (de_fmt (dv_deploy D)) (on_devnet cfg) True (devnet_genesis code) = (Inr (), merged)"
      "json_object_at ''alloc'' merged = Some new"
      "\<forall>c \<in> set (genesis_contracts (de_artifacts (dv_deploy D)) (de_keccak (dv_deploy D)) (on_devnet cfg)).
          \<exists>j. alloc_at new (hex_key (gc_address c)) = {j} \<and> genesis_entry (gc_code c) (storage_entries c) j"
      "\<forall>d. d \<notin> (\<lambda>(n, a). hex_key a) ` set (configured_addresses cfg) \<longrightarrow>
          alloc_at new d = alloc_at (devnet_alloc code) d"
    using iffD1 [OF if_P r] by auto
  obtain content where c: "dv_to_string D merged = Inr content" using writes_json by blast
  have "dev_genesis_json D (Some (on_devnet cfg)) = Inr content"
    using m(1) c by (simp add: reads_genesis Let_def)
  moreover obtain x where x: "merged = json_set_object ''alloc'' x (devnet_genesis code)"
    using m(1) json_devnet_alloc [of code]
    by (auto simp: merge_alloc_def split: sum.splits option.splits prod.splits)
  moreover have "x = new" using m(2) json_set_object_at [OF json_devnet_alloc [of code], of x] by (simp add: x)
  ultimately show thesis using that [OF _ c m(2) _ m(3,4)] by simp
qed

lemma launch_run:
  assumes "dv_temp_file D = TempAt gp" and "dv_temp_dir D = TempAt dp" and "dw_io w = []"
  shows "fst (with_genesis_file D args gp content w) = Inr
    (case dv_try_parse D (node_args args gp dp) of
       None \<Rightarrow> Exit 2
     | Some cli \<Rightarrow> if dv_run D cli dev_setup ((dw_files w)(gp \<mapsto> content)) then Returned else Exit 1)"
  using assms
  by (auto simp: with_genesis_file_def dropping_def fs_write_def launch_dev_def ensure_def st_bind_def st_then_def
      st_map_err_def st_simps split: option.splits)

lemma main_run:
  assumes "da_accounts args \<le> 20" and "dv_temp_file D = TempAt gp" and "dw_io w = []"
    and "da_deploy_config args = Some path" and "dw_files w path = Some t" and "dv_from_toml D t = Inr cfg"
    and "validate_deploy_config cfg = Inr ()" and "dev_genesis_json D (Some (on_devnet cfg)) = Inr content"
  shows "\<exists>w'. ev_dev_main D args w = with_genesis_file D args gp content w' \<and> dw_io w' = [] \<and> dw_files w' = dw_files w"
proof -
  obtain out where b: "print_banner D args (Some (on_devnet cfg)) (w \<lparr> dw_io := [] \<rparr>) =
      (Inr (), w \<lparr> dw_io := [] \<rparr> \<lparr> dw_stdout := out \<rparr>)"
    using print_banner_run [OF assms(1), of "Some (on_devnet cfg)"] assms(4) by auto
  have "ev_dev_main D args w =
      with_genesis_file D args gp content (if da_silent args then w \<lparr> dw_io := [] \<rparr> else w \<lparr> dw_io := [], dw_stdout := out \<rparr>)"
    using dev_deploy_config_run [OF assms(3,5-7)] b assms(2,4,8)
    by (simp add: ev_dev_main_def st_bind_def st_then_def st_simps del: dev_genesis_json.simps)
  then show ?thesis by (auto intro!: exI)
qed

end

lemma json_index_set_other:
  "k \<noteq> i \<Longrightarrow> json_index (json_set_object i m j) k = json_index j k"
  by (cases j) (simp_all add: json_set_object_other)

section \<open>Correctness of the start\<close>

text \<open>C30. The development chain started with a deploy configuration. When the configuration file
  passes both validations, \<open>ev-dev\<close> does not panic and hands the node a genesis file in which every
  configured contract stands under its address with its code and storage, as for chain 1234
  whatever chain id the configuration names, every pre-funded account that no contract was placed on
  keeps its 1000000 ETH, and every part but the accounts is that of the built-in genesis. The
  command line names this file, and ends with the block time exactly when it is not zero; the
  process returns, or exits with 2 when the command line is rejected and 1 when the node fails.\<close>

theorem dev_chain_correct:
  assumes tools: "dev_tools D code" and accounts: "parse_accounts s = Inr (da_accounts args)"
    and temps: "dv_temp_file D = TempAt gp" "dv_temp_dir D = TempAt dp" and io: "dw_io w = []"
    and given: "da_deploy_config args = Some path" "dw_files w path = Some t" "dv_from_toml D t = Inr cfg"
    and valid: "validate_deploy_config cfg = Inr ()" "validate_for_genesis cfg = Inr ()"
  shows "\<exists>merged new content.
    dv_to_string D merged = Inr content \<and> json_object_at ''alloc'' merged = Some new \<and>
    (\<forall>c \<in> set (genesis_contracts (de_artifacts (dv_deploy D)) (de_keccak (dv_deploy D))
        (cfg \<lparr> cfg_chain := \<lparr> chain_chain_id = 1234 \<rparr> \<rparr>)).
      \<exists>j. alloc_at new (hex_key (gc_address c)) = {j} \<and> genesis_entry (gc_code c) (storage_entries c) j) \<and>
    (\<forall>a \<in> set funded_accounts. a \<notin> snd ` set (configured_addresses cfg) \<longrightarrow>
      alloc_at new (hex_key a) = {JObject [(''balance'', JString ''0xd3c21bcecceda1000000'')]}) \<and>
    (\<forall>k. k \<noteq> ''alloc'' \<longrightarrow> json_index merged k = json_index (devnet_genesis code) k) \<and>
    fst (ev_dev_main D args w) = Inr
      (case dv_try_parse D (
         [''ev-dev'', ''node'', ''--dev'', ''--chain'', gp, ''--datadir'', dp, ''--http'',
          ''--http.addr'', da_host args, ''--http.port'', fmt_u64 (ucast (da_port args)),
          ''--http.api'', ''eth,net,web3,txpool,debug,trace'', ''--http.corsdomain'', ''*'',
          ''--ws'', ''--ws.addr'', da_host args, ''--ws.port'', fmt_u64 (ucast (da_port args)),
          ''--ws.api'', ''eth,net,web3,txpool,debug,trace'', ''--disable-discovery'',
          ''--no-persist-peers'', ''--port'', ''0''] @
         (if da_block_time args = 0 then [] else [''--dev.block-time'', fmt_u64 (da_block_time args) @ ''s''])) of
         None \<Rightarrow> Exit 2
       | Some cli \<Rightarrow>
           if dv_run D cli \<lparr> ns_max_txpool_bytes = 1939865, ns_debug_capabilities = True \<rparr>
                ((dw_files w)(gp \<mapsto> content)) then Returned else Exit 1)"
proof -
  note T = dev_tools.dev_genesis_ok [OF tools valid] dev_tools.main_run [OF tools] dev_tools.launch_run [OF tools temps]
  have n: "da_accounts args \<le> 20" using accounts by (simp add: ok_iff)
  obtain merged new content where g: "dev_genesis_json D (Some (on_devnet cfg)) = Inr content"
      "dv_to_string D merged = Inr content" "json_object_at ''alloc'' merged = Some new"
      "merged = json_set_object ''alloc'' new (devnet_genesis code)"
      "\<forall>c \<in> set (genesis_contracts (de_artifacts (dv_deploy D)) (de_keccak (dv_deploy D)) (on_devnet cfg)).
          \<exists>j. alloc_at new (hex_key (gc_address c)) = {j} \<and> genesis_entry (gc_code c) (storage_entries c) j"
      "\<forall>d. d \<notin> (\<lambda>(n, a). hex_key a) ` set (configured_addresses cfg) \<longrightarrow>
          alloc_at new d = alloc_at (devnet_alloc code) d"
    by (rule T(1)) blast
  obtain w' where w': "ev_dev_main D args w = with_genesis_file D args gp content w'" "dw_io w' = []"
      "dw_files w' = dw_files w"
    using T(2) [OF n temps(1) io given valid(1) g(1)] by blast
  have funded: "alloc_at new (hex_key a) = {JObject [(''balance'', JString ''0xd3c21bcecceda1000000'')]}"
    if "a \<in> set funded_accounts" "a \<notin> snd ` set (configured_addresses cfg)" for a
  proof -
    have "hex_key a \<notin> (\<lambda>(n, a). hex_key a) ` set (configured_addresses cfg)"
      using that(2) by (auto simp: image_iff)
    then show ?thesis using g(6) funded_balance [OF that(1), of code] by metis
  qed
  have bt: "0 < da_block_time args \<longleftrightarrow> da_block_time args \<noteq> 0" by (rule word_neq_0_conv [symmetric])
  show ?thesis
    using g(2,3) g(5) [unfolded on_devnet_def] funded json_index_set_other [of _ "''alloc''" new "devnet_genesis code"]
      T(3) [OF w'(2), of args content]
    by (intro exI [of _ merged] exI [of _ new] exI [of _ content])
      (simp add: w'(1,3) g(4) node_args_def dev_setup_def API_MODULES_def rpc_config_default_def
        DEFAULT_MAX_TXPOOL_BYTES_def bt if_not_P cong: option.case_cong)
qed

text \<open>Every way the start can fail is a panic, and one before the genesis file leaves the files alone.\<close>

lemma map_ok_Inl_iff: "map_ok h r = Inl e \<longleftrightarrow> r = Inl e"
  by (cases r) simp_all

lemma ok_or_Inl_iff: "ok_or x y = Inl e \<longleftrightarrow> y = None \<and> e = x"
  by (cases y) auto

lemma panicking_panics: "\<exists>m. panicking msg e = Panicked m"
  by (cases e) simp_all

lemma derive_keys_panics: "derive_keys D n = Inl e \<Longrightarrow> \<exists>m. e = Panicked m"
proof -
  have "collect_results (derive_key D) xs = Inl e \<Longrightarrow> \<exists>m. e = Panicked m" for xs
    by (induction xs) (auto simp: err_iff Let_def map_ok_Inl_iff split: sum.splits wallet_error.splits)
  then show "derive_keys D n = Inl e \<Longrightarrow> ?thesis" by (simp add: derive_keys_def)
qed

lemma chain_id_panics: "chain_id_from_genesis D = Inl e \<Longrightarrow> \<exists>m. e = Panicked m"
  using panicking_panics by (auto simp: chain_id_from_genesis_def err_iff ok_or_Inl_iff)

lemma print_banner_frame:
  assumes "print_banner D args dc w = (r, w')"
  shows "dw_files w' = dw_files w \<and> (\<forall>e. r = Inl e \<longrightarrow> (\<exists>m. e = Panicked m))"
  using assms derive_keys_panics [of D] chain_id_panics [of D]
  by (cases "derive_keys D (da_accounts args)"; cases "chain_id_from_genesis D"; cases dc; cases "da_deploy_config args")
    (auto simp: print_banner_def st_bind_def st_then_def st_simps print_lines_def print_out_def)

lemma load_panics:
  assumes "expect msg (load_deploy_config f t) = r"
  shows "(\<forall>e. r = Inl e \<longrightarrow> (\<exists>m. e = Panicked m)) \<and>
    (\<forall>cfg. r = Inr cfg \<longrightarrow> f t = Inr cfg \<and> validate_deploy_config cfg = Inr ())"
  using assms panicking_panics by (auto simp: err_iff ok_iff load_deploy_config_Inr_iff)

lemma dev_deploy_config_frame:
  assumes "dev_deploy_config D path w = (r, w')"
  shows "dw_files w' = dw_files w \<and> (\<forall>e. r = Inl e \<longrightarrow> (\<exists>m. e = Panicked m)) \<and>
    (\<forall>cfg. r = Inr cfg \<longrightarrow> (\<exists>t c. dw_files w path = Some t \<and> dv_from_toml D t = Inr c \<and>
       validate_deploy_config c = Inr () \<and> cfg_contracts cfg = cfg_contracts c))"
proof -
  note l = load_panics [OF refl, of "''failed to load deploy config''" "dv_from_toml D"]
  show ?thesis
    using assms chain_id_panics [of D]
    by (cases "chain_id_from_genesis D")
      (auto simp: dev_deploy_config_def st_bind_def st_map_err_def st_simps fs_read_def Let_def
        split: io_outcome.splits option.splits sum.splits prod.splits if_splits dest: l [THEN conjunct1, rule_format]
          l [THEN conjunct2, rule_format])
qed

text \<open>A contract without an address stops the merge with a panic.\<close>

lemma expect_address_Inr_iff: "expect_address x = Inr a \<longleftrightarrow> x = Some a"
  by (cases x) auto

lemma build_alloc_missing:
  assumes "validate_for_genesis cfg \<noteq> Inr ()"
  shows "\<exists>e. build_alloc A K M F cfg = Inl e"
proof (rule ccontr)
  assume "\<nexists>e. build_alloc A K M F cfg = Inl e"
  then obtain alloc where "build_alloc A K M F cfg = Inr alloc" by (cases "build_alloc A K M F cfg") auto
  then have "genesis_config cfg"
    by (cases "cfg_admin_proxy cfg"; cases "cfg_permit2 cfg"; cases "cfg_deployer cfg")
      (auto simp: genesis_config_def build_alloc_def admin_proxy_build_def permit2_build_def
        deterministic_deployer_build_def ok_iff expect_address_Inr_iff)
  then show False using assms by (simp add: ok_iff)
qed

lemma dev_genesis_panics:
  assumes "dev_genesis_json D dc = Inl e"
  shows "\<exists>m. e = Panicked m"
proof (cases dc)
  case (Some cfg)
  let ?E = "dv_deploy D"
  show ?thesis
  proof (cases "dv_from_json D (DEVNET_GENESIS D)")
    case (Inl x)
    then show ?thesis using assms panicking_panics [of _ x] by (auto simp: Some Let_def)
  next
    case (Inr g)
    obtain r g' where m: "merge_alloc (de_artifacts ?E) (de_keccak ?E) (de_json_map ?E) (de_fmt ?E) cfg True g = (r, g')"
      by force
    show ?thesis
      using assms panicking_panics by (cases r) (auto simp: Some Let_def Inr m err_iff)
  qed
qed (use assms in simp)

lemma dev_genesis_missing:
  assumes "validate_for_genesis cfg \<noteq> Inr ()"
  shows "\<exists>m. dev_genesis_json D (Some cfg) = Inl (Panicked m)"
proof -
  let ?E = "dv_deploy D"
  obtain e where "build_alloc (de_artifacts ?E) (de_keccak ?E) (de_json_map ?E) (de_fmt ?E) cfg = Inl e"
    using build_alloc_missing [OF assms] by blast
  then obtain e' where "dev_genesis_json D (Some cfg) = Inl e'"
    by (cases "dv_from_json D (DEVNET_GENESIS D)") (auto simp: Let_def merge_alloc_def)
  then show ?thesis using dev_genesis_panics by blast
qed

text \<open>C31. A deploy configuration that cannot be used: when the file is missing, does not parse, fails
  the validation of the loader or leaves a contract without an address, \<open>ev-dev\<close> panics before the
  genesis file is written, so no node is started and the files are as they were.\<close>

theorem dev_chain_refuses:
  assumes given: "da_deploy_config args = Some path"
    and bad: "\<not> (\<exists>t cfg. dw_files w path = Some t \<and> dv_from_toml D t = Inr cfg \<and>
        validate_deploy_config cfg = Inr () \<and> validate_for_genesis cfg = Inr ())"
  shows "\<exists>m w'. ev_dev_main D args w = (Inl (Panicked m), w') \<and> dw_files w' = dw_files w"
proof -
  obtain r1 w1 where d: "dev_deploy_config D path w = (r1, w1)" by force
  note f1 = dev_deploy_config_frame [OF d]
  show ?thesis
  proof (cases r1)
    case (Inl e)
    then show ?thesis using f1 d by (auto simp: ev_dev_main_def given st_bind_def)
  next
    case (Inr cfg)
    obtain r2 w2 where b: "(if da_silent args then st_return () else print_banner D args (Some cfg)) w1 = (r2, w2)" by force
    have f2: "dw_files w2 = dw_files w1 \<and> (\<forall>e. r2 = Inl e \<longrightarrow> (\<exists>m. e = Panicked m))"
      using b print_banner_frame [of D args "Some cfg" w1] by (auto simp: st_simps split: if_splits)
    obtain c where c: "dw_files w path \<noteq> None" "cfg_contracts cfg = cfg_contracts c" "validate_for_genesis c \<noteq> Inr ()"
      using f1 bad Inr by blast
    have "validate_for_genesis cfg = validate_for_genesis c" by (simp add: validate_for_genesis_def c(2))
    then obtain m where "dev_genesis_json D (Some cfg) = Inl (Panicked m)" using dev_genesis_missing c(3) by metis
    then show ?thesis using d b f1 f2 Inr
      by (cases r2) (auto simp: ev_dev_main_def given st_bind_def st_then_def st_simps simp del: dev_genesis_json.simps)
  qed
qed

section \<open>Witnesses\<close>

definition demo_dev :: "unit dev_env" where
  "demo_dev =
     \<lparr> dv_deploy = ref_env, dv_from_toml = (\<lambda>t. Inr (demo_deploy_config \<lparr> cfg_chain := \<lparr> chain_chain_id = 5 \<rparr> \<rparr>)),
       dv_from_json = (\<lambda>t. Inr (devnet_genesis ''0x60'')), dv_to_string = (\<lambda>j. Inr ''{}''),
       dv_display = (\<lambda>j. []), DEVNET_GENESIS = ''{}'', dv_signer = (\<lambda>p i. Inr (ucast i, [])),
       dv_temp_file = TempAt ''/tmp/g'', dv_temp_dir = TempAt ''/tmp/d'', dv_try_parse = (\<lambda>args. Some ()),
       dv_run = (\<lambda>cli setup files. files ''/tmp/g'' = Some ''{}'') \<rparr>"

interpretation demo_dev: dev_tools demo_dev "''0x60''"
  by unfold_locales
    (auto simp: demo_dev_def ref_env_def insertion_map.keys_insert insertion_map.keys_remove
      insertion_map.set_insert insertion_map.set_remove alloy_text.display_address alloy_text.display_b256
      alloy_text.encode_hex)

definition demo_args :: ev_dev_args where
  "demo_args = \<lparr> da_host = ''127.0.0.1'', da_port = 8545, da_block_time = 0, da_silent = False,
     da_accounts = 10, da_deploy_config = Some ''deploy.toml'' \<rparr>"

theorem dev_chain_correct_witness:
  "fst (ev_dev_main demo_dev demo_args ((demo_world []) \<lparr> dw_files := [''deploy.toml'' \<mapsto> []] \<rparr>)) = Inr Returned"
proof -
  let ?w = "(demo_world []) \<lparr> dw_files := [''deploy.toml'' \<mapsto> []] \<rparr>"
  let ?cfg = "demo_deploy_config \<lparr> cfg_chain := \<lparr> chain_chain_id = 5 \<rparr> \<rparr>"
  have p: "parse_accounts (fmt_u64 10) = Inr (da_accounts demo_args)"
    using parse_fmt_u64 [of 10] by (simp add: ok_iff demo_args_def)
  have v: "validate_deploy_config ?cfg = Inr ()" "validate_for_genesis ?cfg = Inr ()"
    using demo_config_valid by (simp_all add: validate_deploy_config_def validate_for_genesis_def)
  have h: "dv_temp_file demo_dev = TempAt ''/tmp/g''" "dv_temp_dir demo_dev = TempAt ''/tmp/d''" "dw_io ?w = []"
      "da_deploy_config demo_args = Some ''deploy.toml''" "dw_files ?w ''deploy.toml'' = Some []"
      "dv_from_toml demo_dev [] = Inr ?cfg"
    by (simp_all add: demo_dev_def demo_args_def demo_world_def)
  show ?thesis
    using dev_chain_correct [OF demo_dev.dev_tools_axioms p h v] by (auto simp: demo_dev_def)
qed

theorem dev_chain_refuses_witness:
  "\<exists>m w'. ev_dev_main demo_dev demo_args (demo_world [] \<lparr> dw_files := Map.empty \<rparr>) = (Inl (Panicked m), w')"
proof -
  have "da_deploy_config demo_args = Some ''deploy.toml''" by (simp add: demo_args_def)
  from dev_chain_refuses [OF this, of "demo_world [] \<lparr> dw_files := Map.empty \<rparr>" demo_dev] show ?thesis by auto
qed

end
