(* ===== verification/Spec2Isabelle.thy ===== *)
theory Spec2Isabelle
  imports Ev_Database Tx_Env_Types Ev_Handler_Validation Ev_Handler_Inspect Ev_Handler_Supply Evm_Config Ev_Evm
    Txpool_Builder Txpool_Rpc Consensus Block_Executor Payload_Selection Engine_Api Node_Components Rpc_Convert
    Base_Fee_Config Deployer_Cli Dev_Chain
begin

text \<open>
  ev-reth is an Ethereum execution client, built on reth, for rollups sequenced by ev-node. It adds
  its own transaction type (EvNode, type \<open>0x76\<close>: a batch of calls that is atomic, and a fee payer who
  may sponsor the gas), its own handling of fees (base fees may be redirected to a sink), a precompile
  that mints and burns the native token, an allowlist for contract creation, custom chain spec
  settings, payload building from transactions given over the engine API, and consensus rules that
  let blocks share a timestamp. A tool beside the node deploys contracts, another starts a local
  development chain. The development models these parts of \<open>src/crates/\<close> and \<open>src/bin/\<close> as executable
  definitions and proves what makes each correct.

  \<^bold>\<open>How the program fits together.\<close> A transaction enters the pool (\<open>node/txpool.rs\<close>) or arrives raw in
  payload attributes (\<open>node/attributes.rs\<close>). The payload service (\<open>node/payload_service.rs\<close>) decodes it
  and hands it to the payload builder (\<open>node/builder.rs\<close>), which runs the block executor
  (\<open>node/evm_executor.rs\<close>) in the environment of the next block (\<open>node/executor.rs\<close>). The executor runs
  each transaction on the EVM made by the factory (\<open>ev-revm/factory.rs\<close>), whose handler
  (\<open>ev-revm/handler.rs\<close>) validates, charges, executes and settles it. The block comes back over the
  engine API (\<open>node/validator.rs\<close>) and is checked by consensus (\<open>evolve/consensus.rs\<close>). The chain spec
  (\<open>node/config.rs\<close>, \<open>node/chainspec.rs\<close>) switches the features on per block; the transaction RPC
  (\<open>evolve/rpc/txpool.rs\<close>) reads the gas limit the payload service last published.

  \<^bold>\<open>Theories.\<close>
  \<^item> \<open>Prelude\<close>: machine integers (words at their width), saturating and checked arithmetic read through
    \<open>unat\<close>, results as sums, \<open>&mut self\<close> methods as state-and-error passing, big-endian bytes.
  \<^item> \<open>Rlp_Codec\<close>, \<open>Rlp_Reference\<close>: the interface of the RLP library as a locale and its reference
    implementation, with round trips and prefix-freeness.
  \<^item> \<open>Ev_Primitives\<close>, \<open>Ev_Primitives_Correct\<close> (\<open>ev-primitives/tx.rs\<close>, \<open>pool.rs\<close>): transactions, signing
    preimages, RLP and database encodings, envelopes. Round trips; what a sponsor signs binds the
    executor and the transaction; fee arithmetic. \<open>Ev_Database\<close>: compression of a stored transaction and
    its inverse, with the types whose stored form cannot be read.
  \<^item> \<open>Deploy_Allowlist\<close> (\<open>ev-revm/deploy.rs\<close>): the check, with Rust's binary search.
  \<^item> \<open>Tx_Env\<close>, \<open>Tx_Env_Types\<close> (\<open>ev-revm/tx_env.rs\<close>): the transaction environment; the environments the
    constructors and setters reach are well formed. \<open>Revm_Interface\<close>: the contracts of revm's journal,
    gas meter, fee functions and mainnet handler as locales, met by reference instances.
  \<^item> \<open>Ev_Handler\<close> (\<open>ev-revm/handler.rs\<close>, \<open>base_fee.rs\<close>) with \<open>Ev_Handler_Fees\<close> (who is charged what),
    \<open>Ev_Handler_Batch\<close> (a batch as a sequence of interpreter frames with their gas, which the loop
    refines; atomicity),
    \<open>Ev_Handler_Validation\<close> (intrinsic gas, batch shape, the gate) and \<open>Ev_Handler_Run\<close> (all steps of a
    transaction together: a failed batch costs its sponsor the gas used and nothing else),
    \<open>Ev_Handler_Supply\<close> (over a whole sponsored run the token supply, and what the sponsor pays) and \<open>Ev_Handler_Inspect\<close> (traced
    execution, which runs a batch as one frame); \<open>Handler_Samples\<close> has inputs. Whole runs are settled in
    configurations without EIP-8037, under which the handler does not return a reservoir to the sponsor.
  \<^item> \<open>Mint_Precompile\<close> (\<open>ev-precompiles/mint.rs\<close>): refinement of an abstract token specification, and
    that only authorized callers move balances or the allowlist.
  \<^item> \<open>Evolve_Config\<close> (\<open>node/config.rs\<close>, \<open>chainspec.rs\<close>), \<open>Evm_Factory\<close> (\<open>ev-revm/factory.rs\<close>),
    \<open>Evm_Config\<close> (\<open>node/executor.rs\<close>): from the chain spec to the EVM of a block, and the number of steps
    of an allowlist lookup. \<open>Ev_Evm\<close> (\<open>ev-revm/evm.rs\<close>, \<open>api/\<close>): the EVM under every sequence of calls is
    the stock EVM with one handler.
  \<^item> \<open>Txpool\<close>, \<open>Txpool_Builder\<close> (\<open>node/txpool.rs\<close>), \<open>Txpool_Rpc\<close> (\<open>evolve/rpc/txpool.rs\<close>, \<open>config.rs\<close>): validation in the
    pool, the pool built for a chain spec and its agreement with the handler of the EVM on deployments;
    the selection is the longest prefix under the caps.
  \<^item> \<open>Consensus\<close> (\<open>evolve/consensus.rs\<close>): chains of accepted headers as an inductive predicate.
  \<^item> \<open>Block_Executor\<close> (\<open>node/evm_executor.rs\<close>): runs of a block as an inductive relation, with the gas
    and receipt invariant, and the result of \<open>finish\<close>.
  \<^item> \<open>Payload_Builder\<close> (\<open>evolve/types.rs\<close>, \<open>node/attributes.rs\<close>, \<open>builder.rs\<close>, \<open>payload_service.rs\<close>): what
    a built payload contains; its contract for the block builder is met by the block executor.
    \<open>Payload_Selection\<close>: service, selection and executor together; a selection fits into one block.
  \<^item> \<open>Engine_Api\<close> (\<open>node/validator.rs\<close>, \<open>payload_types.rs\<close>): accepted payloads, engine envelopes.
    \<open>Node_Assembly\<close> (\<open>node/node.rs\<close>, constructors of \<open>executor.rs\<close> and \<open>evm_executor.rs\<close>): a block through
    the engine and back. \<open>Node_Components\<close>: the builders handed to reth's node builder, including the API
    builder of \<open>rpc.rs\<close>; every component of a launched node follows one chain spec.
  \<^item> \<open>Rpc_Convert\<close> (\<open>node/rpc.rs\<close>): JSON-RPC responses; the reported fee payer is the sponsor the EVM
    charges. \<open>Base_Fee_Config\<close> (\<open>ev-revm/config.rs\<close>): the sink from an environment variable.
  \<^item> \<open>Deployer_Config\<close>, \<open>Deployer_Genesis\<close>, \<open>Deployer_Pipeline\<close>, \<open>Deployer_Cli\<close> (\<open>bin/ev-deployer\<close>): the tool
    that puts contracts into a genesis or deploys them. What the patched bytecode and a merged genesis
    hold; \<open>Deployer_Progress\<close> and \<open>Deployer_Recovery\<close> treat deployments over several runs with faults of
    files and chain: the record only moves forward, nothing is deployed twice, and a run without
    faults completes.
  \<^item> \<open>Dev_Chain\<close> (\<open>bin/ev-dev\<close>, \<open>bin/ev-reth\<close>): the development chain from its arguments to the node it
    starts, and the configurations it refuses.
  This theory holds the property that spans the pool and the handler.

  \<^bold>\<open>Conventions.\<close> Code outside the repository (reth, revm, alloy, hashing, signature recovery, JSON) is
  a parameter, a record of operations; what is relied on is a locale's assumptions, and every locale is
  interpreted on a concrete instance, which the witnesses use. Rust integers keep their width; \<open>+\<close> on
  \<open>u64\<close> wraps in the model as in a release build, and the bounds that exclude it are proved or assumed
  explicitly. A panic (\<open>expect\<close>, \<open>unwrap\<close>) is an error value of its own. \<open>usize\<close> is \<open>nat\<close>. Loops over
  lists are structural recursion; the binary search is a \<open>function\<close> with a measure; the one bounded
  loop, the decimal printer of the deployer's template, has the 20 digits of a \<open>u64\<close>, which suffice
  (\<open>fmt_u64_value\<close>).

  \<^bold>\<open>Not modelled.\<close> Logging and metrics; asynchronous scheduling (a handler runs to its end);
  accessors that only borrow a field, which are record fields here; the associated types of the trait
  implementations and reth's own builder of local payload attributes, which \<open>node.rs\<close> returns as it is; argument parsing by clap and messages on standard error of the binaries, and the
  compiled bytecodes, which are parameters; the TypeScript services and the Solidity contracts.
\<close>

section \<open>From the pool to the handler\<close>

lemma from_evnode_simps:
  assumes "env = from_recovered_tx R K T (EvNode ev) a" "tx = signed_tx ev"
  shows "te_caller (env_inner env) = a" "te_gas_limit (env_inner env) = tx_gas_limit tx"
    "te_gas_price (env_inner env) = tx_max_fee_per_gas tx" "batch_total_value env = tx_value tx"
    "batch_calls env = Some (tx_calls tx)"
    "te_kind (env_inner env) = (case tx_calls tx of c # _ \<Rightarrow> call_to c | [] \<Rightarrow> TxCreate)"
  by (simp_all add: assms from_evnode_tx_def batch_total_value_def tx_value_def batch_calls_def Let_def)

lemma pool_allows_handler_allows:
  assumes "check_pool_allowlist ec L V t = Inr ()" "pt_tx t = EvNode ev" "tx_calls (signed_tx ev) \<noteq> []"
    and "ctx_tx c = from_recovered_tx R K T (pt_tx t) (pt_signer t)"
    and "hd_deploy_allowlist h = val_deploy_allowlist V" "cl_best_block_number L = Inr n"
    and "\<And>d. val_deploy_allowlist V = Some d \<Longrightarrow>
      is_active d (block_number_u64 (blk_number (ctx_block c))) \<Longrightarrow> is_active d n"
  shows "ensure_deploy_allowed h c = Inr ()"
  using assms
  by (auto simp: check_pool_allowlist_def ensure_deploy_allowed_def deploy_allowlist_for_block_def
      check_deploy_allowed_def is_top_level_create_def from_evnode_tx_def Let_def neq_Nil_conv
      split: option.splits if_splits)

text \<open>C1. A sponsored EvNode transaction the pool accepts is executable: when the handler sees the accounts
  the pool saw, a sender whose nonce and code pass, and no allowlist that became active since the best
  block, then the batch has an acceptable shape, the deployment gate lets it through, and the handler
  charges the recovered sponsor the gas limit at the effective price and bumps the sender's nonce.\<close>

theorem pooled_sponsored_tx_executes:
  fixes J :: "('j, 'cp, 'd) journal_ops"
  assumes "journal J info saved" "tx_fees F"
    and "pt_tx t = EvNode ev" "tx = signed_tx ev" "tx_fee_payer_signature tx = Some sig"
    and "ctx_tx c = from_recovered_tx R K T (pt_tx t) (pt_signer t)" "env = env_inner (ctx_tx c)"
    and "fee_max_fee_per_gas F env = te_gas_price env"
    and "validate_evnode R K ec L V t (ai_balance (info (ctx_journal c) (pt_signer t))) (Some s) = (Inr r, slot)"
    and "\<And>a b. client_balance L s a b \<Longrightarrow> b = ai_balance (info (ctx_journal c) a)"
    and "hd_deploy_allowlist h = val_deploy_allowlist V" "cl_best_block_number L = Inr n"
    and "\<And>d. val_deploy_allowlist V = Some d \<Longrightarrow>
      is_active d (block_number_u64 (blk_number (ctx_block c))) \<Longrightarrow> is_active d n"
    and "sender_ok (info (ctx_journal c) (pt_signer t)) env
      (cfg_eip3607_disabled (ctx_cfg c)) (cfg_nonce_check_disabled (ctx_cfg c))"
    and "\<not> cfg_balance_check_disabled (ctx_cfg c)"
    and "jn_load_code J (pt_signer t) (ctx_journal c) = (Inr i, j1)"
    and "\<And>a. is_ok (fst (jn_load_code J a (nonce_step J (pt_signer t) (te_kind env \<noteq> TxCreate) (ai_nonce i) j1)))"
  shows "batch_calls (ctx_tx c) = Some (tx_calls tx) \<and> well_formed_batch (tx_calls tx) \<and>
    (\<exists>sponsor c'. recover_sponsor R K tx (pt_signer t) sig = Inr sponsor \<and>
       validate_against_state_and_deduct_caller J F h c = (Inr (), c') \<and>
       info (ctx_journal c') =
         charge sponsor (gas_cost F env (ucast (blk_basefee (ctx_block c))))
           (bump_nonce (pt_signer t) (te_kind env \<noteq> TxCreate) (info (ctx_journal c))))"
proof -
  let ?j = "ctx_journal c" and ?a = "pt_signer t" and ?call = "te_kind env \<noteq> TxCreate"
  let ?b = "ucast (blk_basefee (ctx_block c)) :: u128"
  note env = from_evnode_simps [OF assms(6) [unfolded assms(3)] assms(4)]
  have slot: "Some s = Some s \<or> Some s = None \<and> cl_latest L = Inr s" by simp
  obtain sponsor b where pool: "check_pool_allowlist ec L V t = Inr ()" "tx_calls tx \<noteq> []"
    "\<forall>x \<in> set (tl (tx_calls tx)). call_to x \<noteq> TxCreate" "recover_sponsor R K tx ?a sig = Inr sponsor"
    "client_balance L s sponsor b" "pool_gas_cost tx \<le> unat b" "tx_value tx \<le> ai_balance (info ?j ?a)"
    using validate_evnode_ok [OF assms(3,4) slot, of R K ec V "ai_balance (info ?j ?a)" r] assms(5,9) by auto
  have gate: "(ensure_deploy_allowed h c :: 'd evm_error + unit) = Inr ()"
    using pool_allows_handler_allows [OF pool(1) assms(3) _ assms(6,11,12,13)] pool(2) assms(4) by simp
  obtain k j2 where l2: "jn_load_code J sponsor (nonce_step J ?a ?call (ai_nonce i) j1) = (Inr k, j2)"
    using assms(17) [of sponsor] by (cases "jn_load_code J sponsor (nonce_step J ?a ?call (ai_nonce i) j1)")
      (auto simp: ok_iff)
  have "max_gas_cost F env \<le> balance_of (info ?j) sponsor"
    using pool(6) assms(10) [OF pool(5)] assms(7,8) env
    by (simp add: max_gas_cost_def balance_of_def pool_gas_cost_def)
  then obtain j' where j': "validate_and_deduct_sponsored_tx J F env ?a sponsor (tx_value tx) ?call ?b False
      (cfg_eip3607_disabled (ctx_cfg c)) (cfg_nonce_check_disabled (ctx_cfg c)) ?j = (Inr (), j')"
    "info j' = charge sponsor (gas_cost F env ?b) (bump_nonce ?a ?call (info ?j))"
    using fee_state.sponsored_outcome [OF fee_state.intro [OF assms(1,2)] assms(16) l2, of env "tx_value tx" ?b]
      assms(14) pool(7) by (simp add: Let_def) (metis prod.collapse)
  have "env_sponsor (ctx_tx c) = Some sponsor" "\<not> env_sponsor_signature_invalid (ctx_tx c)"
    using assms(3-6) pool(4) by (simp_all add: from_evnode_tx_def sponsor_of_tx_def Let_def)
  then have "validate_against_state_and_deduct_caller J F h c = (Inr (), c \<lparr> ctx_journal := j' \<rparr>)"
    using gate j'(1) env(1-5) assms(7,15)
    by (simp add: validate_against_state_and_deduct_caller_def st_simps st_bind_def st_then_def on_journal_def Let_def)
  with j'(2) pool env show ?thesis by (auto simp: well_formed_batch_def)
qed

text \<open>The sample transaction, signed by account 1 and sponsored by account \<open>0x1234\<close>.\<close>

definition spon_accounts :: accounts where
  "spon_accounts = demo_accounts (0x1234 := \<lparr> ai_balance = 9000000, ai_nonce = 0, ai_code = None \<rparr>)"

definition spon_pooled :: "(ref_eth, unit) ev_pooled_transaction" where
  "spon_pooled = demo_pooled \<lparr> pt_signer := 1 \<rparr>"

definition spon_client :: "nat client_ops" where
  "spon_client =
     \<lparr> cl_best_block_number = Inr 9, cl_latest = Inr 0,
       cl_basic_account = (\<lambda>s a. Inr (Some (ai_balance (spon_accounts a)))) \<rparr>"

definition spon_env_ops :: "ref_eth tx_env_ops" where
  "spon_env_ops =
     \<lparr> default_tx_env = demo_inner, eth_tx_env = (\<lambda>e a. demo_inner \<lparr> te_caller := a \<rparr>),
       build_tx_env = (\<lambda>a d k g. Some demo_inner) \<rparr>"

definition spon_ctx :: "ref_journal evm_ctx" where
  "spon_ctx =
     \<lparr> ctx_block = demo_block, ctx_cfg = demo_cfg,
       ctx_tx = from_recovered_tx ref_rlp demo_crypto spon_env_ops (pt_tx spon_pooled) 1,
       ctx_journal = \<lparr> rj_accounts = spon_accounts, rj_stack = [], rj_broken = [] \<rparr> \<rparr>"

lemma spon_ctx_simps:
  "ctx_journal spon_ctx = \<lparr> rj_accounts = spon_accounts, rj_stack = [], rj_broken = [] \<rparr>"
  "ctx_cfg spon_ctx = demo_cfg" "ctx_block spon_ctx = demo_block"
  "te_nonce (env_inner (ctx_tx spon_ctx)) = 7" "te_kind (env_inner (ctx_tx spon_ctx)) = TxCall 0xAA"
  by (simp_all add: spon_ctx_def spon_pooled_def demo_pooled_def from_evnode_tx_def sample_tx_def Let_def)

lemma spon_pool_accepts:
  "validate_evnode ref_rlp demo_crypto (\<lambda>_. False) spon_client \<lparr> val_deploy_allowlist = None \<rparr> spon_pooled
     (ai_balance (rj_accounts (ctx_journal spon_ctx) (pt_signer spon_pooled))) (Some 0) = (Inr (Some 9000000), Some 0)"
  by (simp add: validate_evnode_def check_pool_allowlist_def st_then_def st_bind_def st_run_simps
      spon_pooled_def demo_pooled_def validate_evnode_calls_def sample_tx_def sample_signature_def
      recover_sponsor_def demo_crypto_def validate_sponsor_balance_def ensure_state_def spon_client_def
      spon_ctx_simps spon_accounts_def demo_accounts_def tx_value_def saturating_add_def saturating_mul_def Let_def)

theorem pooled_sponsored_tx_executes_witness:
  "\<exists>c'. validate_against_state_and_deduct_caller ref_journal_ops ref_fees demo_handler spon_ctx = (Inr (), c') \<and>
     ai_nonce (rj_accounts (ctx_journal c') 1) = 8"
proof -
  have tx: "pt_tx spon_pooled = EvNode \<lparr> signed_tx = sample_tx, signed_signature = sample_signature \<rparr>"
    "tx_fee_payer_signature sample_tx = Some sample_signature" "pt_signer spon_pooled = 1"
    by (simp_all add: spon_pooled_def demo_pooled_def sample_tx_def)
  have load: "jn_load_code ref_journal_ops a (ctx_journal spon_ctx) = (Inr (spon_accounts a), ctx_journal spon_ctx)" for a
    by (simp add: ref_journal_ops_def ref_load_def spon_ctx_simps)
  have ok: "is_ok (fst (jn_load_code ref_journal_ops a (nonce_step ref_journal_ops b on n (ctx_journal spon_ctx))))" for a b on n
    by (simp add: ref_journal_ops_def ref_load_def nonce_step_def ref_update_def spon_ctx_simps)
  have sender: "sender_ok (rj_accounts (ctx_journal spon_ctx) (pt_signer spon_pooled)) (env_inner (ctx_tx spon_ctx))
      (cfg_eip3607_disabled (ctx_cfg spon_ctx)) (cfg_nonce_check_disabled (ctx_cfg spon_ctx))"
    by (simp add: sender_ok_def spon_ctx_simps tx spon_accounts_def demo_accounts_def)
  have env: "ctx_tx spon_ctx = from_recovered_tx ref_rlp demo_crypto spon_env_ops (pt_tx spon_pooled) (pt_signer spon_pooled)"
    by (simp add: spon_ctx_def tx)
  have fee: "fee_max_fee_per_gas ref_fees t = te_gas_price t" for t by (simp add: ref_fees_def)
  have bal: "client_balance spon_client 0 a b \<Longrightarrow> b = ai_balance (rj_accounts (ctx_journal spon_ctx) a)" for a b
    by (simp add: client_balance_def spon_client_def spon_ctx_simps)
  have allow: "hd_deploy_allowlist demo_handler = val_deploy_allowlist \<lparr> val_deploy_allowlist = None \<rparr>"
    "cl_best_block_number spon_client = Inr 9" "\<not> cfg_balance_check_disabled (ctx_cfg spon_ctx)"
    by (simp_all add: demo_handler_def ev_handler_new_def spon_client_def spon_ctx_simps demo_cfg_def)
  have boundary: "val_deploy_allowlist \<lparr> val_deploy_allowlist = None \<rparr> = Some d \<Longrightarrow> is_active d 9" for d
    by simp
  have "\<exists>sponsor c'. validate_against_state_and_deduct_caller ref_journal_ops ref_fees demo_handler spon_ctx = (Inr (), c') \<and>
     rj_accounts (ctx_journal c') =
       charge sponsor (gas_cost ref_fees (env_inner (ctx_tx spon_ctx)) (ucast (blk_basefee (ctx_block spon_ctx))))
         (bump_nonce 1 True spon_accounts)"
    using pooled_sponsored_tx_executes [OF ref_journal.journal_axioms ref_fees.tx_fees_axioms tx(1) _ tx(2) env refl
        fee spon_pool_accepts bal allow(1,2) boundary sender allow(3) load ok]
    by (auto simp: tx(3) spon_ctx_simps)
  then show ?thesis
    by (auto simp: charge_def bump_nonce_def spon_accounts_def demo_accounts_def saturating_add_def)
qed

end
